(* ===== verification/PM_Prelude.thy ===== *)
theory PM_Prelude
  imports Main "HOL-Library.Word" "HOL-Library.Log_Nat"
begin

text \<open>
  What every component of the power manager shares: the machine integers, the result codes of
  the Thunder framework that the sources name, the C library's truncating division and decimal
  parser, the value of a C \<open>float\<close>, and the lemma collections of the development.

  Durations and instants of \<^verbatim>\<open>std::chrono::steady_clock\<close> are integers in nanoseconds; instants of
  \<^verbatim>\<open>WPEFramework::Core::Time\<close> are integers in the clock's ticks.
\<close>

named_theorems pm_ops "unfolding equations of the operations of the components"
named_theorems pm_inv "invariants kept by the operations of the components"
named_theorems pm_conv "equations of the enumeration conversions"

type_synonym u8 = "8 word"
type_synonym u32 = "32 word"
type_synonym u64 = "64 word"

section \<open>Result codes\<close>

text \<open>
  The codes of \<^verbatim>\<open>WPEFramework::Core\<close> (declared outside the repository) that the sources
  use. Only their names matter to the plugin; the C client library returns the same codes.
\<close>

datatype hresult =
    ERROR_NONE
  | ERROR_GENERAL
  | ERROR_UNAVAILABLE
  | ERROR_ILLEGAL_STATE
  | ERROR_INVALID_PARAMETER
  | ERROR_BAD_REQUEST
  | ERROR_NOT_EXIST
  | ERROR_WRITE_ERROR
  | ERROR_READ_ERROR
  | ERROR_ABORTED
  | ERROR_ALREADY_CONNECTED
  | ERROR_ALREADY_RELEASED

section \<open>C integers\<close>

text \<open>Division of C++ rounds towards zero; dividing by zero is undefined (a trap), here \<open>None\<close>.\<close>

definition cdiv :: "int \<Rightarrow> int \<Rightarrow> int option" where
  "cdiv a b = (if b = 0 then None else Some (sgn a * sgn b * (\<bar>a\<bar> div \<bar>b\<bar>)))"

text \<open>An unsigned remainder, with the same convention.\<close>

definition umod :: "u32 \<Rightarrow> u32 \<Rightarrow> u32 option" where
  "umod a b = (if b = 0 then None else Some (a mod b))"

lemma cdiv_eq_None [simp]: "cdiv a b = None \<longleftrightarrow> b = 0"
  by (simp add: cdiv_def)

lemma umod_eq_None [simp]: "umod a b = None \<longleftrightarrow> b = 0"
  by (simp add: umod_def)

lemma cdiv_zero_iff: "b \<noteq> 0 \<Longrightarrow> cdiv a b = Some 0 \<longleftrightarrow> \<bar>a\<bar> < \<bar>b\<bar>"
  by (auto simp: cdiv_def sgn_if div_eq_0_iff zdiv_eq_0_iff)

text \<open>
  \<^verbatim>\<open>atoi\<close>: leading white space, an optional sign, then decimal digits; 0 when there are
  none. A value outside the range of \<open>int\<close> is undefined behaviour, here \<open>None\<close>.
\<close>

definition is_space :: "char \<Rightarrow> bool" where
  "is_space c \<longleftrightarrow> c = CHR '' '' \<or> (9 \<le> (of_char c :: nat) \<and> (of_char c :: nat) \<le> 13)"

definition is_digit :: "char \<Rightarrow> bool" where
  "is_digit c \<longleftrightarrow> 48 \<le> (of_char c :: nat) \<and> (of_char c :: nat) \<le> 57"

definition digit_val :: "char \<Rightarrow> int" where
  "digit_val c = int (of_char c - 48)"

fun digits_val :: "int \<Rightarrow> string \<Rightarrow> int" where
  "digits_val acc [] = acc"
| "digits_val acc (c # cs) = (if is_digit c then digits_val (10 * acc + digit_val c) cs else acc)"

definition strtol10 :: "string \<Rightarrow> int" where
  "strtol10 s =
     (case dropWhile is_space s of
        [] \<Rightarrow> 0
      | c # cs \<Rightarrow> if c = CHR ''-'' then - digits_val 0 cs
                  else if c = CHR ''+'' then digits_val 0 cs
                  else digits_val 0 (c # cs))"

definition atoi :: "string \<Rightarrow> int option" where
  "atoi s = (let v = strtol10 s in if - (2 ^ 31) \<le> v \<and> v < 2 ^ 31 then Some v else None)"

lemma digits_val_nonneg: "0 \<le> acc \<Longrightarrow> 0 \<le> digits_val acc cs"
  by (induction acc cs rule: digits_val.induct) (auto simp: digit_val_def)

text \<open>A string that does not start with a digit, a sign or a space reads as 0.\<close>

lemma strtol10_no_number:
  "\<not> is_space c \<Longrightarrow> \<not> is_digit c \<Longrightarrow> c \<noteq> CHR ''-'' \<Longrightarrow> c \<noteq> CHR ''+'' \<Longrightarrow> strtol10 (c # cs) = 0"
  by (simp add: strtol10_def)

section \<open>C floats\<close>

text \<open>
  A finite \<^verbatim>\<open>float\<close> is the rational number it stands for. Converting an integer to
  \<^verbatim>\<open>float\<close> rounds to a significand of 24 bits, ties to even; converting back to an integer
  truncates towards zero.
\<close>

type_synonym cfloat = rat

definition round_to_even :: "nat \<Rightarrow> nat \<Rightarrow> nat" where
  "round_to_even u n =
     (let q = n div u; r = n mod u
      in (if 2 * r < u \<or> (2 * r = u \<and> even q) then q else Suc q) * u)"

definition float_of_int :: "int \<Rightarrow> cfloat" where
  "float_of_int i =
     (let n = nat \<bar>i\<bar>
      in if n \<le> 2 ^ 24 then of_int i
         else of_int (sgn i) * of_nat (round_to_even (2 ^ (floorlog 2 n - 24)) n))"

definition int_of_float :: "cfloat \<Rightarrow> int" where
  "int_of_float r = (if 0 \<le> r then \<lfloor>r\<rfloor> else \<lceil>r\<rceil>)"

lemma float_of_int_exact [simp]: "\<bar>i\<bar> \<le> 2 ^ 24 \<Longrightarrow> float_of_int i = of_int i"
  by (auto simp: float_of_int_def Let_def)

lemma int_of_float_of_int [simp]: "int_of_float (of_int i) = i"
  by (simp add: int_of_float_def)

section \<open>Lists and options\<close>

definition opt_list :: "'a option \<Rightarrow> 'a list" where
  "opt_list x = (case x of None \<Rightarrow> [] | Some y \<Rightarrow> [y])"

lemma opt_list_simps [simp]: "opt_list None = []" "opt_list (Some y) = [y]"
  by (simp_all add: opt_list_def)

lemma length_opt_list: "length (opt_list x) = (if x = None then 0 else 1)"
  by (cases x) auto

lemma find_None_iff_notin: "List.find (\<lambda>x. x = a) xs = None \<longleftrightarrow> a \<notin> set xs"
  by (induction xs) auto

lemma remove1_keeps_others: "b \<noteq> a \<Longrightarrow> b \<in> set (remove1 a xs) \<longleftrightarrow> b \<in> set xs"
  by (induction xs) auto

lemma distinct_snoc [simp]: "distinct (xs @ [a]) \<longleftrightarrow> distinct xs \<and> a \<notin> set xs"
  by auto

text \<open>A \<open>fold\<close> of a binary maximum starting at \<open>t\<close>.\<close>

lemma fold_max_upper: "(t :: 'a :: linorder) \<le> fold max xs t"
proof (induction xs arbitrary: t)
  case (Cons x xs)
  have "t \<le> max x t" by simp
  also have "\<dots> \<le> fold max xs (max x t)" by (rule Cons.IH)
  finally show ?case by simp
qed simp

lemma fold_max_member: "x \<in> set xs \<Longrightarrow> (x :: 'a :: linorder) \<le> fold max xs t"
proof (induction xs arbitrary: t)
  case (Cons y ys)
  show ?case
  proof (cases "x = y")
    case True
    then have "x \<le> max y t" by simp
    also have "\<dots> \<le> fold max ys (max y t)" by (rule fold_max_upper)
    finally show ?thesis by simp
  next
    case False
    with Cons show ?thesis by simp
  qed
qed simp

lemma fold_max_attained: "fold max xs t = (t :: 'a :: linorder) \<or> fold max xs t \<in> set xs"
proof (induction xs arbitrary: t)
  case (Cons x xs)
  show ?case using Cons.IH [of "max x t"] by (auto simp: max_def split: if_splits)
qed simp

section \<open>Bytes\<close>

text \<open>The little-endian image of a 32-bit value, and its reading.\<close>

definition le32 :: "u32 \<Rightarrow> u8 list" where
  "le32 w =
     (let n = unat w
      in [word_of_nat (n mod 256), word_of_nat (n div 256 mod 256),
          word_of_nat (n div 65536 mod 256), word_of_nat (n div 16777216 mod 256)])"

definition rd32 :: "nat \<Rightarrow> u8 list \<Rightarrow> u32" where
  "rd32 i bs =
     word_of_nat (unat (bs ! i) + 256 * unat (bs ! (i + 1))
                  + 65536 * unat (bs ! (i + 2)) + 16777216 * unat (bs ! (i + 3)))"

lemma length_le32 [simp]: "length (le32 w) = 4"
  by (simp add: le32_def Let_def)

lemma rd32_le32_at:
  assumes "length pre = i"
  shows "rd32 i (pre @ le32 w @ post) = w"
proof -
  have lt: "unat w < 4294967296" using unsigned_less [of w, where ?'a = nat] by simp
  define n where "n = unat w"
  have byte: "unat (word_of_nat (k mod 256) :: u8) = k mod 256" for k
    by (simp add: unat_of_nat)
  have sum: "n mod 256 + 256 * (n div 256 mod 256) + 65536 * (n div 65536 mod 256)
      + 16777216 * (n div 16777216 mod 256) = n"
  proof -
    have a: "n div 65536 = n div 256 div 256" "n div 16777216 = n div 65536 div 256"
      by (simp_all flip: div_mult2_eq)
    have b: "n div 16777216 mod 256 = n div 16777216"
      using lt unfolding n_def by (intro mod_less) (simp add: div_less_iff_less_mult)
    have "n mod 256 + 256 * (n div 256) = n" by simp
    moreover have "n div 256 mod 256 + 256 * (n div 65536) = n div 256" by (simp add: a)
    moreover have "n div 65536 mod 256 + 256 * (n div 16777216) = n div 65536" by (simp add: a(2))
    ultimately show ?thesis unfolding b by linarith
  qed
  have "rd32 i (pre @ le32 w @ post) = word_of_nat
     (n mod 256 + 256 * (n div 256 mod 256) + 65536 * (n div 65536 mod 256)
      + 16777216 * (n div 16777216 mod 256))"
    using assms unfolding n_def rd32_def le32_def Let_def by (simp add: nth_append byte)
  also have "\<dots> = word_of_nat n" by (simp only: sum)
  also have "\<dots> = w" by (simp add: n_def)
  finally show ?thesis .
qed

end
