(* ===== verification/PowerTypes.thy ===== *)
theory PowerTypes
  imports PM_Prelude
begin

text \<open>
  The enumerations of \<^verbatim>\<open>IPowerManager\<close> that the plugin works with, and
  \<^verbatim>\<open>plugin/PowerUtils.cpp\<close>: the printable names and the parser of wake-up sources.
\<close>

section \<open>Enumerations\<close>

datatype PowerState =
    POWER_STATE_UNKNOWN
  | POWER_STATE_OFF
  | POWER_STATE_STANDBY
  | POWER_STATE_ON
  | POWER_STATE_STANDBY_LIGHT_SLEEP
  | POWER_STATE_STANDBY_DEEP_SLEEP

datatype ThermalTemperature =
    THERMAL_TEMPERATURE_UNKNOWN
  | THERMAL_TEMPERATURE_NORMAL
  | THERMAL_TEMPERATURE_HIGH
  | THERMAL_TEMPERATURE_CRITICAL

datatype WakeupReason =
    WAKEUP_REASON_UNKNOWN
  | WAKEUP_REASON_IR
  | WAKEUP_REASON_BLUETOOTH
  | WAKEUP_REASON_RF4CE
  | WAKEUP_REASON_GPIO
  | WAKEUP_REASON_LAN
  | WAKEUP_REASON_WIFI
  | WAKEUP_REASON_TIMER
  | WAKEUP_REASON_FRONTPANEL
  | WAKEUP_REASON_WATCHDOG
  | WAKEUP_REASON_SOFTWARERESET
  | WAKEUP_REASON_THERMALRESET
  | WAKEUP_REASON_WARMRESET
  | WAKEUP_REASON_COLDBOOT
  | WAKEUP_REASON_STRAUTHFAIL
  | WAKEUP_REASON_CEC
  | WAKEUP_REASON_PRESENCE
  | WAKEUP_REASON_VOICE

datatype WakeupSrcType =
    WAKEUP_SRC_UNKNOWN
  | WAKEUP_SRC_VOICE
  | WAKEUP_SRC_PRESENCEDETECTED
  | WAKEUP_SRC_BLUETOOTH
  | WAKEUP_SRC_WIFI
  | WAKEUP_SRC_IR
  | WAKEUP_SRC_POWERKEY
  | WAKEUP_SRC_TIMER
  | WAKEUP_SRC_CEC
  | WAKEUP_SRC_LAN
  | WAKEUP_SRC_RF4CE

text \<open>
  The enumeration's order: \<^verbatim>\<open>GetWakeupSourceConfig\<close> counts from \<^verbatim>\<open>WAKEUP_SRC_VOICE\<close>
  to \<^verbatim>\<open>WAKEUP_SRC_RF4CE\<close>, which visits the sources in the order in which
  \<^verbatim>\<open>PowerUtils\<close> lists them.
\<close>

primrec src_rank :: "WakeupSrcType \<Rightarrow> nat" where
  "src_rank WAKEUP_SRC_UNKNOWN = 0"
| "src_rank WAKEUP_SRC_VOICE = 1"
| "src_rank WAKEUP_SRC_PRESENCEDETECTED = 2"
| "src_rank WAKEUP_SRC_BLUETOOTH = 3"
| "src_rank WAKEUP_SRC_WIFI = 4"
| "src_rank WAKEUP_SRC_IR = 5"
| "src_rank WAKEUP_SRC_POWERKEY = 6"
| "src_rank WAKEUP_SRC_TIMER = 7"
| "src_rank WAKEUP_SRC_CEC = 8"
| "src_rank WAKEUP_SRC_LAN = 9"
| "src_rank WAKEUP_SRC_RF4CE = 10"

lemma src_rank_inj: "src_rank a = src_rank b \<Longrightarrow> a = b"
  by (cases a; cases b) simp_all

instantiation WakeupSrcType :: linorder
begin

definition less_eq_WakeupSrcType :: "WakeupSrcType \<Rightarrow> WakeupSrcType \<Rightarrow> bool" where
  "less_eq_WakeupSrcType a b \<longleftrightarrow> src_rank a \<le> src_rank b"

definition less_WakeupSrcType :: "WakeupSrcType \<Rightarrow> WakeupSrcType \<Rightarrow> bool" where
  "less_WakeupSrcType a b \<longleftrightarrow> src_rank a < src_rank b"

instance
  by standard (auto simp: less_eq_WakeupSrcType_def less_WakeupSrcType_def intro: src_rank_inj)

end

definition wakeup_sources :: "WakeupSrcType list" where
  "wakeup_sources =
     [WAKEUP_SRC_VOICE, WAKEUP_SRC_PRESENCEDETECTED, WAKEUP_SRC_BLUETOOTH, WAKEUP_SRC_WIFI,
      WAKEUP_SRC_IR, WAKEUP_SRC_POWERKEY, WAKEUP_SRC_TIMER, WAKEUP_SRC_CEC, WAKEUP_SRC_LAN,
      WAKEUP_SRC_RF4CE]"

lemma wakeup_sources_sorted: "sorted_wrt (<) wakeup_sources"
  by (simp add: wakeup_sources_def less_WakeupSrcType_def)

lemma wakeup_sources_all: "set wakeup_sources = UNIV - {WAKEUP_SRC_UNKNOWN}"
  by (auto simp: wakeup_sources_def intro: WakeupSrcType.exhaust)

record WakeupSourceConfig =
  wsc_wakeupSource :: WakeupSrcType
  wsc_enabled :: bool

section \<open>Printable names (\<^verbatim>\<open>PowerUtils::str\<close>)\<close>

primrec str_WakeupReason :: "WakeupReason \<Rightarrow> string" where
  "str_WakeupReason WAKEUP_REASON_IR = ''IR''"
| "str_WakeupReason WAKEUP_REASON_BLUETOOTH = ''BLUETOOTH''"
| "str_WakeupReason WAKEUP_REASON_RF4CE = ''RF4CE''"
| "str_WakeupReason WAKEUP_REASON_GPIO = ''GPIO''"
| "str_WakeupReason WAKEUP_REASON_LAN = ''LAN''"
| "str_WakeupReason WAKEUP_REASON_WIFI = ''WIFI''"
| "str_WakeupReason WAKEUP_REASON_TIMER = ''TIMER''"
| "str_WakeupReason WAKEUP_REASON_FRONTPANEL = ''FRONTPANEL''"
| "str_WakeupReason WAKEUP_REASON_WATCHDOG = ''WATCHDOG''"
| "str_WakeupReason WAKEUP_REASON_SOFTWARERESET = ''SOFTWARERESET''"
| "str_WakeupReason WAKEUP_REASON_THERMALRESET = ''THERMALRESET''"
| "str_WakeupReason WAKEUP_REASON_WARMRESET = ''WARMRESET''"
| "str_WakeupReason WAKEUP_REASON_COLDBOOT = ''COLDBOOT''"
| "str_WakeupReason WAKEUP_REASON_STRAUTHFAIL = ''STR_AUTH_FAIL''"
| "str_WakeupReason WAKEUP_REASON_CEC = ''CEC''"
| "str_WakeupReason WAKEUP_REASON_PRESENCE = ''PRESENCE''"
| "str_WakeupReason WAKEUP_REASON_VOICE = ''VOICE''"
| "str_WakeupReason WAKEUP_REASON_UNKNOWN = ''UNKNOWN''"

primrec str_PowerState :: "PowerState \<Rightarrow> string" where
  "str_PowerState POWER_STATE_UNKNOWN = ''UNKNOWN''"
| "str_PowerState POWER_STATE_OFF = ''OFF''"
| "str_PowerState POWER_STATE_STANDBY = ''STANDBY''"
| "str_PowerState POWER_STATE_ON = ''ON''"
| "str_PowerState POWER_STATE_STANDBY_LIGHT_SLEEP = ''LIGHT_SLEEP''"
| "str_PowerState POWER_STATE_STANDBY_DEEP_SLEEP = ''DEEP_SLEEP''"

primrec str_WakeupSrc :: "WakeupSrcType \<Rightarrow> string" where
  "str_WakeupSrc WAKEUP_SRC_VOICE = ''VOICE''"
| "str_WakeupSrc WAKEUP_SRC_PRESENCEDETECTED = ''PRESENCEDETECTED''"
| "str_WakeupSrc WAKEUP_SRC_BLUETOOTH = ''BLUETOOTH''"
| "str_WakeupSrc WAKEUP_SRC_WIFI = ''WIFI''"
| "str_WakeupSrc WAKEUP_SRC_IR = ''IR''"
| "str_WakeupSrc WAKEUP_SRC_POWERKEY = ''POWERKEY''"
| "str_WakeupSrc WAKEUP_SRC_TIMER = ''TIMER''"
| "str_WakeupSrc WAKEUP_SRC_CEC = ''CEC''"
| "str_WakeupSrc WAKEUP_SRC_LAN = ''LAN''"
| "str_WakeupSrc WAKEUP_SRC_RF4CE = ''RF4CE''"
| "str_WakeupSrc WAKEUP_SRC_UNKNOWN = ''UNKNOWN''"

lemma str_WakeupReason_inj: "str_WakeupReason a = str_WakeupReason b \<Longrightarrow> a = b"
  by (cases a; cases b) simp_all

lemma str_PowerState_inj: "str_PowerState a = str_PowerState b \<Longrightarrow> a = b"
  by (cases a; cases b) simp_all

lemma str_WakeupSrc_inj: "str_WakeupSrc a = str_WakeupSrc b \<Longrightarrow> a = b"
  by (cases a; cases b) simp_all

section \<open>Parsing a wake-up source (\<^verbatim>\<open>PowerUtils::conv\<close>)\<close>

text \<open>\<^verbatim>\<open>::toupper\<close> in the C locale.\<close>

definition toupper :: "char \<Rightarrow> char" where
  "toupper c = (let n = of_char c :: nat in if 97 \<le> n \<and> n \<le> 122 then char_of (n - 32) else c)"

definition conv_WakeupSrc :: "string \<Rightarrow> WakeupSrcType" where
  "conv_WakeupSrc wakeupSrc =
     (let src = map toupper wakeupSrc
      in if src = ''VOICE'' then WAKEUP_SRC_VOICE
         else if src = ''PRESENCEDETECTED'' then WAKEUP_SRC_PRESENCEDETECTED
         else if src = ''BLUETOOTH'' then WAKEUP_SRC_BLUETOOTH
         else if src = ''WIFI'' then WAKEUP_SRC_WIFI
         else if src = ''IR'' then WAKEUP_SRC_IR
         else if src = ''POWERKEY'' then WAKEUP_SRC_POWERKEY
         else if src = ''TIMER'' then WAKEUP_SRC_TIMER
         else if src = ''CEC'' then WAKEUP_SRC_CEC
         else if src = ''LAN'' then WAKEUP_SRC_LAN
         else if src = ''RF4CE'' then WAKEUP_SRC_RF4CE
         else WAKEUP_SRC_UNKNOWN)"

lemma toupper_idem [simp]: "toupper (toupper c) = toupper c"
  by (auto simp: toupper_def Let_def of_char_of)

lemma map_toupper_str [simp]: "map toupper (str_WakeupSrc s) = str_WakeupSrc s"
  by (cases s) (simp_all add: toupper_def)

lemma conv_WakeupSrc_known:
  "s \<noteq> WAKEUP_SRC_UNKNOWN \<Longrightarrow> conv_WakeupSrc x = s \<longleftrightarrow> map toupper x = str_WakeupSrc s"
  by (cases s) (auto simp: conv_WakeupSrc_def Let_def)

end
