(* ===== verification/CompletionGate.thy ===== *)
theory CompletionGate
  imports PM_Prelude
begin

text \<open>
  The contract of a component that is handed completion handlers and calls them back later:
  nothing is lost, nothing is called twice, and handlers are called in the order in which they
  were handed over. The power manager relies on it to release the reference it takes for every
  transition; \<^verbatim>\<open>AckController\<close> provides it.
\<close>

text \<open>
  A run of operations, each of which must be enabled where it is applied; it collects the
  outputs. \<open>None\<close>: some operation was not enabled.
\<close>

fun gate_run :: "('op \<Rightarrow> 's \<Rightarrow> 's \<times> 'f list) \<Rightarrow> ('op \<Rightarrow> 's \<Rightarrow> bool) \<Rightarrow> 'op list \<Rightarrow> 's \<Rightarrow> ('s \<times> 'f list) option"
where
  "gate_run step enabled [] s = Some (s, [])"
| "gate_run step enabled (x # xs) s =
     (if enabled x s
      then (case step x s of (s1, fs) \<Rightarrow>
              (case gate_run step enabled xs s1 of
                 None \<Rightarrow> None
               | Some (s2, gs) \<Rightarrow> Some (s2, fs @ gs)))
      else None)"

locale completion_gate =
  fixes step :: "'op \<Rightarrow> 's \<Rightarrow> 's \<times> 'f list"
    and enabled :: "'op \<Rightarrow> 's \<Rightarrow> bool"
    and arms :: "'op \<Rightarrow> 'h list"
    and held :: "'s \<Rightarrow> 'h list"
    and called :: "'f \<Rightarrow> 'h"
    and inv :: "'s \<Rightarrow> bool"
  assumes inv_step: "inv s \<Longrightarrow> enabled x s \<Longrightarrow> inv (fst (step x s))"
    and conserve: "inv s \<Longrightarrow> enabled x s \<Longrightarrow>
      map called (snd (step x s)) @ held (fst (step x s)) = held s @ arms x"
begin

lemma run_inv: "gate_run step enabled xs s = Some (s', fs) \<Longrightarrow> inv s \<Longrightarrow> inv s'"
proof (induction xs arbitrary: s fs)
  case (Cons x xs)
  from Cons.prems obtain gs where e: "enabled x s"
    and r: "gate_run step enabled xs (fst (step x s)) = Some (s', gs)"
    by (auto split: if_splits option.splits prod.splits)
  show ?case by (rule Cons.IH [OF r inv_step [OF Cons.prems(2) e]])
qed simp

text \<open>Handlers called during the run, then those still held: held before, then handed over.\<close>

lemma run_conserve:
  "gate_run step enabled xs s = Some (s', fs) \<Longrightarrow> inv s \<Longrightarrow>
     map called fs @ held s' = held s @ concat (map arms xs)"
proof (induction xs arbitrary: s fs)
  case (Cons x xs)
  obtain s1 f1 where st: "step x s = (s1, f1)" by fastforce
  from Cons.prems st obtain gs where e: "enabled x s"
    and r: "gate_run step enabled xs s1 = Some (s', gs)" and fs: "fs = f1 @ gs"
    by (auto split: if_splits option.splits prod.splits)
  have i1: "inv s1" using inv_step [OF Cons.prems(2) e] st by simp
  have "map called f1 @ held s1 = held s @ arms x"
    using conserve [OF Cons.prems(2) e] st by simp
  with Cons.IH [OF r i1] show ?case by (simp add: fs)
qed simp

lemma run_complete:
  "gate_run step enabled xs s = Some (s', fs) \<Longrightarrow> inv s \<Longrightarrow> held s = [] \<Longrightarrow> held s' = [] \<Longrightarrow>
     map called fs = concat (map arms xs)"
  using run_conserve by fastforce

lemma run_no_duplicate:
  "gate_run step enabled xs s = Some (s', fs) \<Longrightarrow> inv s \<Longrightarrow> held s = [] \<Longrightarrow>
     distinct (concat (map arms xs)) \<Longrightarrow> distinct (map called fs)"
  using run_conserve [of xs s s' fs] by (metis append_Nil distinct_append)

end

end
