(* ===== verification/AckController.thy ===== *)
theory AckController
  imports PowerTypes CompletionGate
begin

text \<open>
  \<^verbatim>\<open>plugin/AckController.h\<close>: one object per power-state transition. It collects the clients
  whose acknowledgement is awaited, and calls the completion handler when the last one has
  acknowledged, when its timer expires, or when it is destroyed.

  The worker pool's queue shows in \<open>ack_sched\<close>: the deadline at which the pool will dispatch
  the timer job, \<open>None\<close> when the job is not queued (\<^verbatim>\<open>Schedule\<close>, \<^verbatim>\<open>Reschedule\<close> and
  \<^verbatim>\<open>Revoke\<close> of the pool set it). A call of the handler is an output \<open>Fire\<close>; calling an empty
  \<^verbatim>\<open>std::function\<close>, which throws, is \<open>Fire None\<close>. The clock is the argument \<open>now_add\<close>, the
  value of \<^verbatim>\<open>Core::Time::Now().Add(offset)\<close> at the call.
\<close>

record 'h ack =
  ack_powerState :: PowerState          \<comment> \<open>target of the transition\<close>
  ack_pending :: "u32 set"
  ack_transactionId :: int
  ack_timeout :: int                    \<comment> \<open>absolute\<close>
  ack_timerJob :: bool                  \<comment> \<open>\<^verbatim>\<open>_timerJob.IsValid()\<close>\<close>
  ack_sched :: "int option"             \<comment> \<open>deadline of the job queued in the worker pool\<close>
  ack_handler :: "'h option"
  ack_running :: bool

datatype 'h firing = Fire (fire_handler: "'h option") (fire_timedout: bool) (fire_revoked: bool)

section \<open>Operations\<close>

text \<open>The constructor; the static counter \<^verbatim>\<open>_nextTransactionId\<close> belongs to the caller's state.\<close>

definition AckController_new :: "PowerState \<Rightarrow> int \<Rightarrow> int \<Rightarrow> 'h ack" where
  "AckController_new ps tid now =
     \<lparr>ack_powerState = ps, ack_pending = {}, ack_transactionId = tid, ack_timeout = now, ack_timerJob = False,
      ack_sched = None, ack_handler = None, ack_running = False\<rparr>"

definition AckAwait :: "u32 \<Rightarrow> 'h ack \<Rightarrow> 'h ack" where
  "AckAwait clientId a = a\<lparr>ack_pending := insert clientId (ack_pending a)\<rparr>"

definition runHandler :: "bool \<Rightarrow> 'h ack \<Rightarrow> 'h ack \<times> 'h firing list" where
  "runHandler isTimedout a =
     (let a1 = (if \<not> isTimedout then a\<lparr>ack_sched := None\<rparr> else a)
      in (a1, [Fire (ack_handler a1) isTimedout False]))"

definition Ack :: "u32 \<Rightarrow> int \<Rightarrow> 'h ack \<Rightarrow> hresult \<times> 'h ack \<times> 'h firing list" where
  "Ack clientId tid a =
     (if tid \<noteq> ack_transactionId a then (ERROR_INVALID_PARAMETER, a, [])
      else if clientId \<notin> ack_pending a then (ERROR_INVALID_PARAMETER, a, [])
      else let a1 = a\<lparr>ack_pending := ack_pending a - {clientId}\<rparr>
           in if ack_pending a1 = {} \<and> ack_running a1
              then (let (a2, fs) = runHandler False (a1\<lparr>ack_running := False\<rparr>) in (ERROR_NONE, a2, fs))
              else (ERROR_NONE, a1, []))"

text \<open>The overload without a transaction id.\<close>

definition Ack_any :: "u32 \<Rightarrow> 'h ack \<Rightarrow> hresult \<times> 'h ack \<times> 'h firing list" where
  "Ack_any clientId a = Ack clientId (ack_transactionId a) a"

definition IsRunning :: "'h ack \<Rightarrow> bool" where
  "IsRunning a \<longleftrightarrow> ack_running a \<and> ack_timerJob a"

definition Schedule :: "(int \<Rightarrow> int) \<Rightarrow> int \<Rightarrow> 'h \<Rightarrow> 'h ack \<Rightarrow> 'h ack \<times> 'h firing list" where
  "Schedule now_add offset h a =
     (if ack_pending a = {} \<or> offset = 0
      then (a, [Fire (Some h) False False])
      else let newTimeout = now_add offset; t = max newTimeout (ack_timeout a)
           in (a\<lparr>ack_running := True, ack_handler := Some h, ack_timeout := t, ack_timerJob := True,
                 ack_sched := Some t\<rparr>, []))"

text \<open>The job that \<^verbatim>\<open>Schedule\<close> queues, when the worker pool dispatches it.\<close>

definition AckTimer :: "'h ack \<Rightarrow> 'h ack \<times> 'h firing list" where
  "AckTimer a =
     (let a1 = a\<lparr>ack_sched := None\<rparr>
      in if ack_running a1
         then (let a2 = a1\<lparr>ack_running := False\<rparr> in (a2, [Fire (ack_handler a2) True False]))
         else (a1, []))"

definition Reschedule :: "(int \<Rightarrow> int) \<Rightarrow> u32 \<Rightarrow> int \<Rightarrow> int \<Rightarrow> 'h ack \<Rightarrow> hresult \<times> 'h ack" where
  "Reschedule now_add clientId tid offset a =
     (let newTimeout = now_add offset
      in if \<not> ack_running a then (ERROR_NONE, a\<lparr>ack_timeout := max (ack_timeout a) newTimeout\<rparr>)
         else if tid \<noteq> ack_transactionId a then (ERROR_INVALID_PARAMETER, a)
         else if clientId \<notin> ack_pending a then (ERROR_INVALID_PARAMETER, a)
         else if newTimeout > ack_timeout a
              then (ERROR_NONE, a\<lparr>ack_timeout := newTimeout, ack_sched := Some newTimeout\<rparr>)
              else (ERROR_NONE, a))"

text \<open>\<^verbatim>\<open>revoke\<close>, all that the destructor does.\<close>

definition revoke :: "'h ack \<Rightarrow> 'h ack \<times> 'h firing list" where
  "revoke a =
     (let (a2, fs) =
        (if ack_running a
         then (let a1 = a\<lparr>ack_running := False\<rparr>
               in if ack_timerJob a1
                  then (a1\<lparr>ack_sched := None\<rparr>, [Fire (ack_handler a1) False True])
                  else (a1, []))
         else (a, []))
      in (if ack_timerJob a2 then a2\<lparr>ack_timerJob := False\<rparr> else a2, fs))"

lemmas ack_defs [pm_ops] =
  AckController_new_def AckAwait_def runHandler_def Ack_def Ack_any_def IsRunning_def
  Schedule_def AckTimer_def Reschedule_def revoke_def

section \<open>Runs of operations\<close>

datatype 'h ack_op =
    OpAwait u32
  | OpAck u32 int
  | OpSchedule "int \<Rightarrow> int" int 'h
  | OpReschedule "int \<Rightarrow> int" u32 int int
  | OpTimer
  | OpDestroy

fun ack_step :: "'h ack_op \<Rightarrow> 'h ack \<Rightarrow> 'h ack \<times> 'h firing list" where
  "ack_step (OpAwait c) a = (AckAwait c a, [])"
| "ack_step (OpAck c tid) a = snd (Ack c tid a)"
| "ack_step (OpSchedule na off h) a = Schedule na off h a"
| "ack_step (OpReschedule na c tid off) a = (snd (Reschedule na c tid off a), [])"
| "ack_step OpTimer a = AckTimer a"
| "ack_step OpDestroy a = revoke a"

text \<open>
  \<^verbatim>\<open>Schedule\<close> asserts that the controller is not running and has no handler yet; the worker
  pool dispatches the timer job only while it is queued.
\<close>

fun ack_enabled :: "'h ack_op \<Rightarrow> 'h ack \<Rightarrow> bool" where
  "ack_enabled (OpSchedule na off h) a \<longleftrightarrow> \<not> ack_running a \<and> ack_handler a = None"
| "ack_enabled OpTimer a \<longleftrightarrow> ack_sched a \<noteq> None"
| "ack_enabled _ a \<longleftrightarrow> True"

fun ack_arms :: "'h ack_op \<Rightarrow> 'h option list" where
  "ack_arms (OpSchedule na off h) = [Some h]"
| "ack_arms _ = []"

definition ack_held :: "'h ack \<Rightarrow> 'h option list" where
  "ack_held a = (if ack_running a then [ack_handler a] else [])"

text \<open>
  The invariant: while the controller runs, it has a handler, clients to wait for and a queued
  timer at its deadline; otherwise no timer is queued.
\<close>

definition ack_inv :: "'h ack \<Rightarrow> bool" where
  "ack_inv a \<longleftrightarrow>
     (ack_running a \<longrightarrow> ack_handler a \<noteq> None \<and> ack_timerJob a \<and> ack_pending a \<noteq> {} \<and> ack_sched a = Some (ack_timeout a)) \<and>
     (\<not> ack_running a \<longrightarrow> ack_sched a = None)"

lemma ack_inv_new [pm_inv]: "ack_inv (AckController_new ps tid now)"
  by (simp add: ack_inv_def ack_defs)

lemma ack_inv_AckAwait [pm_inv]: "ack_inv a \<Longrightarrow> ack_inv (AckAwait c a)"
  by (simp add: ack_inv_def ack_defs)

lemma ack_inv_Ack [pm_inv]: "ack_inv a \<Longrightarrow> ack_inv (fst (snd (Ack c tid a)))"
  by (auto simp: ack_inv_def ack_defs Let_def)

lemma ack_inv_Schedule [pm_inv]: "ack_inv a \<Longrightarrow> ack_inv (fst (Schedule na off h a))"
  by (auto simp: ack_inv_def ack_defs Let_def)

lemma ack_inv_Reschedule [pm_inv]: "ack_inv a \<Longrightarrow> ack_inv (snd (Reschedule na c tid off a))"
  by (auto simp: ack_inv_def ack_defs Let_def)

lemma ack_inv_AckTimer [pm_inv]: "ack_inv a \<Longrightarrow> ack_inv (fst (AckTimer a))"
  by (auto simp: ack_inv_def ack_defs Let_def)

lemma ack_inv_revoke [pm_inv]: "ack_inv a \<Longrightarrow> ack_inv (fst (revoke a))"
  by (auto simp: ack_inv_def ack_defs Let_def)

lemma ack_step_inv: "ack_inv a \<Longrightarrow> ack_inv (fst (ack_step x a))"
  by (cases x) (auto intro: pm_inv)

lemma ack_step_conserve:
  assumes "ack_inv a" "ack_enabled x a"
  shows "map fire_handler (snd (ack_step x a)) @ ack_held (fst (ack_step x a)) = ack_held a @ ack_arms x"
  using assms by (cases x) (auto simp: ack_inv_def ack_held_def ack_defs Let_def)

interpretation ack_gate: completion_gate ack_step ack_enabled ack_arms ack_held fire_handler ack_inv
  by unfold_locales (simp_all add: ack_step_inv ack_step_conserve)

lemma revoke_releases: "ack_inv a \<Longrightarrow> ack_held (fst (revoke a)) = []"
  by (auto simp: ack_inv_def ack_held_def ack_defs Let_def)

lemma gate_run_snoc:
  "gate_run st en (xs @ [x]) s =
     (case gate_run st en xs s of
        None \<Rightarrow> None
      | Some (s1, fs) \<Rightarrow> if en x s1 then Some (fst (st x s1), fs @ snd (st x s1)) else None)"
  by (induction xs arbitrary: s) (auto split: option.splits prod.splits)

section \<open>What the controller promises\<close>

text \<open>
  C9. Over the whole life of a controller, from construction to destruction, the completion
  handler given to each \<^verbatim>\<open>Schedule\<close> is called exactly once, in the order of scheduling: by
  the last acknowledgement, by the timer, at once, or by the destructor. No call is ever made
  through an empty handler.
\<close>

theorem handlers_called_exactly_once:
  fixes xs :: "'h ack_op list"
  assumes "gate_run ack_step ack_enabled (xs @ [OpDestroy]) (AckController_new ps tid now) = Some (a, fs)"
  shows "map fire_handler fs = concat (map ack_arms xs)"
proof -
  let ?a0 = "AckController_new ps tid now :: 'h ack"
  from assms obtain b gs where r: "gate_run ack_step ack_enabled xs ?a0 = Some (b, gs)"
    and a: "a = fst (revoke b)" by (auto simp: gate_run_snoc split: option.splits)
  have i0: "ack_inv ?a0" by (rule ack_inv_new)
  have "ack_held a = []"
    unfolding a by (rule revoke_releases) (rule ack_gate.run_inv [OF r i0])
  moreover have "ack_held ?a0 = []" by (simp add: ack_held_def ack_defs)
  ultimately have "map fire_handler fs = concat (map ack_arms (xs @ [OpDestroy]))"
    using ack_gate.run_complete [OF assms i0] by blast
  then show ?thesis by simp
qed

definition demo_ops :: "nat ack_op list" where
  "demo_ops = [OpAwait 1, OpAwait 2, OpSchedule (\<lambda>off. 100 + off) 1000 7, OpAck 1 5,
     OpReschedule (\<lambda>off. 200 + off) 2 5 3000, OpTimer]"

lemma handlers_called_exactly_once_witness:
  "\<exists>a fs. gate_run ack_step ack_enabled (demo_ops @ [OpDestroy])
            (AckController_new POWER_STATE_ON 5 100) = Some (a, fs) \<and>
          map fire_handler fs = [Some 7] \<and> fs = [Fire (Some 7) True False]"
proof -
  let ?r = "gate_run ack_step ack_enabled (demo_ops @ [OpDestroy]) (AckController_new POWER_STATE_ON 5 100)"
  obtain a fs where r: "?r = Some (a, fs)" and fs: "fs = [Fire (Some 7) True False]"
    by (simp add: demo_ops_def ack_defs Let_def)
  have "map fire_handler fs = concat (map ack_arms demo_ops)"
    by (rule handlers_called_exactly_once [OF r])
  with r fs show ?thesis by (simp add: demo_ops_def)
qed

text \<open>Acknowledgements of a list of clients, one after the other.\<close>

fun ack_all :: "u32 list \<Rightarrow> int \<Rightarrow> 'h ack \<Rightarrow> 'h ack \<times> 'h firing list" where
  "ack_all [] tid a = (a, [])"
| "ack_all (c # cs) tid a =
     (case Ack c tid a of (_, a1, fs) \<Rightarrow> (case ack_all cs tid a1 of (a2, gs) \<Rightarrow> (a2, fs @ gs)))"

lemma Ack_member:
  "c \<in> ack_pending a \<Longrightarrow> Ack c (ack_transactionId a) a =
     (if ack_pending a = {c} \<and> ack_running a
      then (ERROR_NONE, a\<lparr>ack_pending := {}, ack_running := False, ack_sched := None\<rparr>, [Fire (ack_handler a) False False])
      else (ERROR_NONE, a\<lparr>ack_pending := ack_pending a - {c}\<rparr>, []))"
  by (auto simp: ack_defs Let_def)

text \<open>
  Once scheduled, a transition completes when every awaited client has acknowledged, in
  whatever order: the handler is called once, neither as timed out nor as revoked, by the last
  acknowledgement, and the timer is taken out of the worker pool.
\<close>

lemma last_acknowledgement_completes:
  "\<lbrakk>ack_running a; set cs = ack_pending a; distinct cs; cs \<noteq> []\<rbrakk> \<Longrightarrow>
     ack_all cs (ack_transactionId a) a =
       (a\<lparr>ack_pending := {}, ack_running := False, ack_sched := None\<rparr>, [Fire (ack_handler a) False False])"
proof (induction cs arbitrary: a)
  case (Cons c cs)
  then have c: "c \<in> ack_pending a" by auto
  show ?case
  proof (cases "cs = []")
    case True
    with Cons.prems show ?thesis by (simp add: Ack_member [OF c])
  next
    case False
    let ?a = "a\<lparr>ack_pending := ack_pending a - {c}\<rparr>"
    have ne: "ack_pending a \<noteq> {c}" using Cons.prems False by (cases cs) auto
    have "ack_all cs (ack_transactionId ?a) ?a =
       (?a\<lparr>ack_pending := {}, ack_running := False, ack_sched := None\<rparr>, [Fire (ack_handler ?a) False False])"
      using Cons.prems False by (intro Cons.IH) auto
    with ne show ?thesis by (simp add: Ack_member [OF c])
  qed
qed simp

lemma last_acknowledgement_completes_witness:
  "let a = fst (Schedule (\<lambda>off. 100 + off) 1000 (7::nat)
                  (AckAwait 2 (AckAwait 1 (AckController_new POWER_STATE_ON 5 100))))
   in ack_all [2, 1] (ack_transactionId a) a =
        (a\<lparr>ack_pending := {}, ack_running := False, ack_sched := None\<rparr>, [Fire (Some 7) False False])"
proof -
  let ?a = "fst (Schedule (\<lambda>off. 100 + off) 1000 (7::nat)
                  (AckAwait 2 (AckAwait 1 (AckController_new POWER_STATE_ON 5 100))))"
  have "ack_running ?a" "set [2, 1] = ack_pending ?a" "distinct [2::u32, 1]" "[2::u32, 1] \<noteq> []" "ack_handler ?a = Some 7"
    by (auto simp: ack_defs Let_def)
  then show ?thesis using last_acknowledgement_completes [of ?a "[2, 1]"] by (simp add: Let_def)
qed

text \<open>
  Requests to delay the change: which of them count, and the deadlines they ask for. While the
  controller is not running the request is not checked.
\<close>

definition accepted :: "'h ack \<Rightarrow> u32 \<times> int \<times> int \<Rightarrow> bool" where
  "accepted a q = (case q of (c, tid, off) \<Rightarrow> \<not> ack_running a \<or> (tid = ack_transactionId a \<and> c \<in> ack_pending a))"

fun reschedule_all :: "(int \<Rightarrow> int) \<Rightarrow> (u32 \<times> int \<times> int) list \<Rightarrow> 'h ack \<Rightarrow> 'h ack" where
  "reschedule_all na [] a = a"
| "reschedule_all na ((c, tid, off) # qs) a = reschedule_all na qs (snd (Reschedule na c tid off a))"

lemma Reschedule_timeout:
  "ack_timeout (snd (Reschedule na c tid off a)) =
     (if accepted a (c, tid, off) then max (na off) (ack_timeout a) else ack_timeout a)"
  by (auto simp: accepted_def ack_defs Let_def)

lemma Reschedule_frame:
  "ack_running (snd (Reschedule na c tid off a)) = ack_running a"
  "ack_pending (snd (Reschedule na c tid off a)) = ack_pending a"
  "ack_transactionId (snd (Reschedule na c tid off a)) = ack_transactionId a"
  "ack_handler (snd (Reschedule na c tid off a)) = ack_handler a"
  by (auto simp: ack_defs Let_def)

lemma accepted_Reschedule [simp]: "accepted (snd (Reschedule na c tid off a)) = accepted a"
  by (rule ext) (auto simp: accepted_def Reschedule_frame split: prod.splits)

lemma ack_inv_reschedule_all: "ack_inv a \<Longrightarrow> ack_inv (reschedule_all na qs a)"
  by (induction na qs a rule: reschedule_all.induct) (auto intro: pm_inv)

lemma running_reschedule_all: "ack_running (reschedule_all na qs a) = ack_running a"
  by (induction na qs a rule: reschedule_all.induct) (auto simp: Reschedule_frame)

text \<open>
  When clients ask for different delays the longest one wins: after any sequence of delay
  requests the deadline is the maximum of the old deadline and of the deadlines asked for by
  accepted requests, it never moves earlier, and the timer queued in the worker pool of a
  running controller is the one at that deadline.
\<close>

lemma longest_delay_wins:
  assumes "ack_inv a"
  shows "ack_timeout (reschedule_all na qs a) =
           fold max (map (\<lambda>(c, tid, off). na off) (filter (accepted a) qs)) (ack_timeout a) \<and>
         ack_timeout a \<le> ack_timeout (reschedule_all na qs a) \<and>
         ack_sched (reschedule_all na qs a) =
           (if ack_running a then Some (ack_timeout (reschedule_all na qs a)) else None)"
proof (intro conjI)
  show eq: "ack_timeout (reschedule_all na qs a) =
           fold max (map (\<lambda>(c, tid, off). na off) (filter (accepted a) qs)) (ack_timeout a)"
    by (induction na qs a rule: reschedule_all.induct) (auto simp: Reschedule_timeout)
  show "ack_timeout a \<le> ack_timeout (reschedule_all na qs a)"
    unfolding eq by (rule fold_max_upper)
  show "ack_sched (reschedule_all na qs a) =
           (if ack_running a then Some (ack_timeout (reschedule_all na qs a)) else None)"
    using ack_inv_reschedule_all [OF assms, of na qs]
    by (auto simp: ack_inv_def running_reschedule_all)
qed

lemma longest_delay_wins_witness:
  "let a = fst (Schedule (\<lambda>off. 100 + off) 1000 (7::nat)
                  (AckAwait 2 (AckAwait 1 (AckController_new POWER_STATE_ON 5 100))));
       b = reschedule_all (\<lambda>off. 150 + off) [(1, 5, 4000), (2, 5, 3000), (9, 5, 9000)] a
   in ack_timeout b = 4150 \<and> ack_sched b = Some 4150"
proof -
  let ?a = "fst (Schedule (\<lambda>off. 100 + off) 1000 (7::nat)
                  (AckAwait 2 (AckAwait 1 (AckController_new POWER_STATE_ON 5 100))))"
  have i: "ack_inv ?a" by (intro pm_inv)
  have "ack_timeout ?a = 1100" "ack_running ?a" "ack_pending ?a = {1, 2}" "ack_transactionId ?a = 5"
    by (auto simp: ack_defs Let_def)
  then show ?thesis
    using longest_delay_wins [OF i, of "\<lambda>off. 150 + off" "[(1, 5, 4000), (2, 5, 3000), (9, 5, 9000)]"]
    by (simp add: accepted_def Let_def)
qed

text \<open>
  A delay request that arrives while the controller is not running is answered with success,
  whatever client and transaction it names, although the declaration's comment announces
  \<^verbatim>\<open>ERROR_ILLEGAL_STATE\<close> for a controller that is not running.
\<close>

lemma early_delay_request_unchecked:
  "\<not> ack_running a \<Longrightarrow> Reschedule na c tid off a = (ERROR_NONE, a\<lparr>ack_timeout := max (ack_timeout a) (na off)\<rparr>)"
  by (simp add: ack_defs Let_def)

text \<open>
  The destructor of a running controller does call the completion handler, with
  \<^verbatim>\<open>isRevoked\<close>; the comments of the destructor and of \<^verbatim>\<open>revoke\<close> say that it is not called.
\<close>

lemma destructor_calls_handler:
  "ack_inv a \<Longrightarrow> ack_running a \<Longrightarrow> snd (revoke a) = [Fire (ack_handler a) False True]"
  by (auto simp: ack_inv_def ack_defs Let_def)

end
