(* ===== verification/PosixFiles.thy ===== *)
theory PosixFiles
  imports PM_Prelude
begin

text \<open>
  The file operations of the C library and of POSIX that the sources use. The environment
  decides which calls fail; the operations themselves are the documented ones: \<^verbatim>\<open>open\<close> with
  \<^verbatim>\<open>O_CREAT\<close> creates an absent file empty, \<^verbatim>\<open>read\<close> returns at most the bytes that are
  there, and a \<^verbatim>\<open>write\<close> at the start of the file (which may take fewer bytes than asked)
  overwrites a prefix and keeps the rest.
\<close>

record posix =
  px_files :: "string \<Rightarrow> u8 list option"   \<comment> \<open>contents; \<open>None\<close>: no such file\<close>
  px_open :: "string \<Rightarrow> bool"              \<comment> \<open>\<^verbatim>\<open>open\<close> succeeds\<close>
  px_seek :: "string \<Rightarrow> bool"              \<comment> \<open>\<^verbatim>\<open>lseek\<close> succeeds\<close>
  px_read :: "string \<Rightarrow> bool"              \<comment> \<open>\<^verbatim>\<open>read\<close> does not return -1\<close>
  px_write :: "string \<Rightarrow> nat option"       \<comment> \<open>bytes one \<^verbatim>\<open>write\<close> takes; \<open>None\<close>: it returns -1\<close>

definition content :: "posix \<Rightarrow> string \<Rightarrow> u8 list" where
  "content fs p = (case px_files fs p of None \<Rightarrow> [] | Some bs \<Rightarrow> bs)"

definition sys_open :: "string \<Rightarrow> posix \<Rightarrow> posix option" where
  "sys_open p fs = (if px_open fs p then Some (fs\<lparr>px_files := (px_files fs)(p \<mapsto> content fs p)\<rparr>) else None)"

text \<open>Reading \<open>n\<close> bytes from the start of the file; \<open>None\<close> stands for -1.\<close>

definition sys_read :: "string \<Rightarrow> nat \<Rightarrow> posix \<Rightarrow> u8 list option" where
  "sys_read p n fs = (if px_read fs p then Some (take n (content fs p)) else None)"

definition sys_write :: "string \<Rightarrow> u8 list \<Rightarrow> posix \<Rightarrow> nat option \<times> posix" where
  "sys_write p bs fs =
     (case px_write fs p of
        None \<Rightarrow> (None, fs)
      | Some k \<Rightarrow> let b = take k bs
                  in (Some (length b),
                      fs\<lparr>px_files := (px_files fs)(p \<mapsto> b @ drop (length b) (content fs p))\<rparr>))"

text \<open>\<^verbatim>\<open>access(path, F_OK) == 0\<close>.\<close>

definition file_exists :: "string \<Rightarrow> posix \<Rightarrow> bool" where
  "file_exists p fs \<longleftrightarrow> px_files fs p \<noteq> None"

text \<open>
  \<^verbatim>\<open>fopen(path, "r")\<close> gives the text of the file, \<open>None\<close> when it cannot be opened. A stream
  whose reads fail is empty.
\<close>

definition fopen_r :: "string \<Rightarrow> posix \<Rightarrow> string option" where
  "fopen_r p fs =
     (if px_open fs p
      then map_option (\<lambda>bs. if px_read fs p then map (\<lambda>b. char_of (unat b)) bs else []) (px_files fs p)
      else None)"

text \<open>
  One \<^verbatim>\<open>fscanf\<close> conversion into a 32-bit integer: the end of the input (a negative result),
  no number there (0), or a number (1). A number that does not fit is cut to 32 bits, as the C
  library of a 64-bit target does.
\<close>

datatype scan = ScanEOF | ScanNoMatch | ScanInt u32

definition fscanf_int :: "string \<Rightarrow> scan" where
  "fscanf_int s =
     (case dropWhile is_space s of
        [] \<Rightarrow> ScanEOF
      | c # cs \<Rightarrow>
          (case (if c = CHR ''-'' \<or> c = CHR ''+'' then cs else c # cs) of
             [] \<Rightarrow> ScanNoMatch
           | d # ds \<Rightarrow> if is_digit d then ScanInt (word_of_int (strtol10 s)) else ScanNoMatch))"

text \<open>A file on which every call works, and in full for \<open>n\<close> bytes.\<close>

definition healthy :: "nat \<Rightarrow> posix \<Rightarrow> string \<Rightarrow> bool" where
  "healthy n fs p \<longleftrightarrow> px_open fs p \<and> px_seek fs p \<and> px_read fs p \<and>
     (case px_write fs p of None \<Rightarrow> False | Some k \<Rightarrow> n \<le> k)"

definition same_env :: "posix \<Rightarrow> posix \<Rightarrow> bool" where
  "same_env fs gs \<longleftrightarrow> px_open gs = px_open fs \<and> px_seek gs = px_seek fs \<and>
     px_read gs = px_read fs \<and> px_write gs = px_write fs"

lemma same_env_refl [simp]: "same_env fs fs"
  by (simp add: same_env_def)

lemma same_env_trans: "same_env fs gs \<Longrightarrow> same_env gs hs \<Longrightarrow> same_env fs hs"
  by (simp add: same_env_def)

lemma healthy_same_env: "same_env fs gs \<Longrightarrow> healthy n gs p = healthy n fs p"
  by (simp add: same_env_def healthy_def)

lemma sys_open_Some:
  assumes "sys_open p fs = Some gs"
  shows "content gs q = content fs q" "same_env fs gs"
    and "px_files gs q = (if q = p then Some (content fs p) else px_files fs q)"
  using assms by (auto simp: sys_open_def content_def same_env_def split: if_splits)

lemma content_write_other: "q \<noteq> p \<Longrightarrow> content (snd (sys_write p bs fs)) q = content fs q"
  by (auto simp: sys_write_def content_def Let_def split: option.splits)

lemma same_env_write: "same_env fs (snd (sys_write p bs fs))"
  by (auto simp: sys_write_def same_env_def Let_def split: option.splits)

lemma healthy_write:
  assumes "healthy (length bs) fs p"
  shows "fst (sys_write p bs fs) = Some (length bs)"
    and "content (snd (sys_write p bs fs)) p = bs @ drop (length bs) (content fs p)"
  using assms by (auto simp: healthy_def sys_write_def content_def Let_def split: option.splits)

lemma take_content_write:
  "healthy (length bs) fs p \<Longrightarrow> length bs = n \<Longrightarrow> take n (content (snd (sys_write p bs fs)) p) = bs"
  by (simp add: healthy_write)

text \<open>A healthy system without files, and with one text file.\<close>

definition no_files :: posix where
  "no_files = \<lparr>px_files = Map.empty, px_open = \<lambda>p. True, px_seek = \<lambda>p. True, px_read = \<lambda>p. True,
     px_write = \<lambda>p. None\<rparr>"

definition text_file :: "string \<Rightarrow> string \<Rightarrow> posix" where
  "text_file p t = no_files\<lparr>px_files := [p \<mapsto> map (\<lambda>c. word_of_nat (of_char c)) t]\<rparr>"

lemma fopen_text_file: "fopen_r p (text_file p t) = Some t"
proof -
  have "unat (word_of_nat (of_char c) :: u8) = of_char c" for c :: char
    using nat_of_char_less_256 [of c] by (simp add: unat_of_nat)
  then show ?thesis
    by (simp add: fopen_r_def text_file_def no_files_def comp_def)
qed

end
