(* ===== verification/PersistentStore.thy ===== *)
theory PersistentStore
  imports PM_Prelude
begin

text \<open>
  The contract of a store that a component writes its state to and reads it back from after a
  restart: what is read is what was written last, in the part \<open>view\<close> of the value that the
  store keeps. \<open>fetch\<close> may write too (it repairs a damaged medium), and a value it returns can
  be stored again. \<^verbatim>\<open>Settings\<close> provides it; \<^verbatim>\<open>PowerController\<close> relies on it.
\<close>

locale persistent_store =
  fixes store :: "'v \<Rightarrow> 'm \<Rightarrow> 'm"
    and fetch :: "'m \<Rightarrow> 'v \<times> 'm"
    and valid :: "'v \<Rightarrow> bool"
    and view :: "'v \<Rightarrow> 'w"
    and ok :: "'m \<Rightarrow> bool"
  assumes ok_store: "ok m \<Longrightarrow> ok (store v m)"
    and ok_fetch: "ok m \<Longrightarrow> ok (snd (fetch m))"
    and fetch_store: "ok m \<Longrightarrow> valid v \<Longrightarrow> view (fst (fetch (store v m))) = view v"
    and fetch_valid: "ok m \<Longrightarrow> valid (fst (fetch m))"
    and fetch_again: "ok m \<Longrightarrow> view (fst (fetch (snd (fetch m)))) = view (fst (fetch m))"
begin

lemma ok_stores: "ok m \<Longrightarrow> ok (fold store vs m)"
  by (induction vs arbitrary: m) (auto intro: ok_store)

text \<open>After any number of writes the last one is read back.\<close>

lemma last_write_wins:
  "ok m \<Longrightarrow> valid v \<Longrightarrow> view (fst (fetch (fold store (vs @ [v]) m))) = view v"
  by (simp add: fetch_store ok_stores)

text \<open>A restart followed by writing back what was read changes nothing.\<close>

lemma restart_and_save:
  "ok m \<Longrightarrow> view (fst (fetch (store (fst (fetch m)) (snd (fetch m))))) = view (fst (fetch m))"
  by (simp add: fetch_store ok_fetch fetch_valid)

end

end
