(* ===== verification/Settings.thy ===== *)
theory Settings
  imports PowerTypes PosixFiles PersistentStore
begin

text \<open>
  \<^verbatim>\<open>plugin/Settings.h\<close> and \<^verbatim>\<open>plugin/Settings.cpp\<close>: the settings that survive a reboot, their
  binary image (version 1) and the logic that reconstructs the state before the last reboot.

  The image is the first 32 bytes of \<^verbatim>\<open>PWRMgr_Settings_t\<close> on the target's ABI (32-bit
  little-endian integers and enumerations, a one-byte \<^verbatim>\<open>bool\<close>): seven 32-bit fields, the
  flag, and the first three bytes of the padding. The numbers behind \<^verbatim>\<open>PWRMgr_PowerState_t\<close>
  come from \<^verbatim>\<open>plat_power.h\<close>, outside the repository: they are the parameter \<open>val\<close>.
\<close>

section \<open>The settings record\<close>

record Settings =
  st_magic :: u32
  st_version :: u32
  st_powerState :: PowerState
  st_powerStateBeforeReboot :: PowerState   \<comment> \<open>not written to the file\<close>
  st_deepSleepTimeout :: u32
  st_nwStandbyMode :: bool
  st_lastUpdateTime :: int

definition kSettingsFilePath :: string where "kSettingsFilePath = ''/opt/uimgr_settings.bin''"
definition kRamSettingsFilePath :: string where "kRamSettingsFilePath = ''/tmp/uimgr_settings.bin''"
definition kDeepSleepTimeoutSec :: u32 where "kDeepSleepTimeoutSec = 8 * 60 * 60"
definition restartedMarker :: string where "restartedMarker = ''/tmp/pwrmgr_restarted''"

definition Settings_new :: "int \<Rightarrow> Settings" where
  "Settings_new now =
     \<lparr>st_magic = 0, st_version = - 1, st_powerState = POWER_STATE_ON,
      st_powerStateBeforeReboot = POWER_STATE_ON, st_deepSleepTimeout = kDeepSleepTimeoutSec,
      st_nwStandbyMode = False, st_lastUpdateTime = now\<rparr>"

definition Settings_SetPowerState :: "int \<Rightarrow> PowerState \<Rightarrow> Settings \<Rightarrow> Settings" where
  "Settings_SetPowerState now ps s =
     (if st_powerState s \<noteq> ps then s\<lparr>st_powerState := ps, st_lastUpdateTime := now\<rparr> else s)"

text \<open>Seconds since the last change of state, 0 while the device is on.\<close>

definition InactiveDuration :: "int \<Rightarrow> Settings \<Rightarrow> int option" where
  "InactiveDuration now s =
     (if st_powerState s \<noteq> POWER_STATE_ON then cdiv (now - st_lastUpdateTime s) 1000000000 else Some 0)"

definition SetDeepSleepTimeout :: "u32 \<Rightarrow> Settings \<Rightarrow> Settings" where
  "SetDeepSleepTimeout t s = s\<lparr>st_deepSleepTimeout := t\<rparr>"

definition SetNwStandbyMode :: "bool \<Rightarrow> Settings \<Rightarrow> Settings" where
  "SetNwStandbyMode m s = s\<lparr>st_nwStandbyMode := m\<rparr>"

section \<open>The image of version 1 (\<^verbatim>\<open>SettingsV1\<close>)\<close>

datatype PWRMgr_PowerState_t =
    PWRMGR_POWERSTATE_OFF
  | PWRMGR_POWERSTATE_STANDBY
  | PWRMGR_POWERSTATE_ON
  | PWRMGR_POWERSTATE_STANDBY_LIGHT_SLEEP
  | PWRMGR_POWERSTATE_STANDBY_DEEP_SLEEP
  | PWRMGR_POWERSTATE_MAX

definition UIMGR_SETTINGS_MAGIC :: u32 where "UIMGR_SETTINGS_MAGIC = 0xFEBEEFAC"
definition Version_V1 :: u32 where "Version_V1 = 1"

text \<open>\<^verbatim>\<open>sizeof(PWRMgr_Settings_t)\<close> is 64: 29 bytes of fields, 32 of padding, aligned to 4.\<close>

definition SettingsV1_Size :: nat where "SettingsV1_Size = 64 - 32"

primrec v1_conv :: "PowerState \<Rightarrow> PWRMgr_PowerState_t" where
  "v1_conv POWER_STATE_OFF = PWRMGR_POWERSTATE_OFF"
| "v1_conv POWER_STATE_ON = PWRMGR_POWERSTATE_ON"
| "v1_conv POWER_STATE_STANDBY = PWRMGR_POWERSTATE_STANDBY"
| "v1_conv POWER_STATE_STANDBY_LIGHT_SLEEP = PWRMGR_POWERSTATE_STANDBY_LIGHT_SLEEP"
| "v1_conv POWER_STATE_STANDBY_DEEP_SLEEP = PWRMGR_POWERSTATE_STANDBY_DEEP_SLEEP"
| "v1_conv POWER_STATE_UNKNOWN = PWRMGR_POWERSTATE_MAX"

text \<open>The inverse switch runs on the number read from the file, which may name no enumerator.\<close>

definition v1_unconv :: "(PWRMgr_PowerState_t \<Rightarrow> u32) \<Rightarrow> u32 \<Rightarrow> PowerState" where
  "v1_unconv val w =
     (if w = val PWRMGR_POWERSTATE_OFF then POWER_STATE_OFF
      else if w = val PWRMGR_POWERSTATE_ON then POWER_STATE_ON
      else if w = val PWRMGR_POWERSTATE_STANDBY then POWER_STATE_STANDBY
      else if w = val PWRMGR_POWERSTATE_STANDBY_LIGHT_SLEEP then POWER_STATE_STANDBY_LIGHT_SLEEP
      else if w = val PWRMGR_POWERSTATE_STANDBY_DEEP_SLEEP then POWER_STATE_STANDBY_DEEP_SLEEP
      else POWER_STATE_UNKNOWN)"

definition v1_image :: "(PWRMgr_PowerState_t \<Rightarrow> u32) \<Rightarrow> Settings \<Rightarrow> u8 list" where
  "v1_image val s =
     le32 (st_magic s) @ le32 (st_version s) @ le32 (of_nat SettingsV1_Size)
     @ le32 (val (v1_conv (st_powerState s))) @ le32 0 @ le32 0
     @ le32 (st_deepSleepTimeout s) @ [if st_nwStandbyMode s then 1 else 0, 0, 0, 0]"

definition SettingsV1_Load ::
  "(PWRMgr_PowerState_t \<Rightarrow> u32) \<Rightarrow> string \<Rightarrow> u32 \<Rightarrow> posix \<Rightarrow> Settings \<Rightarrow> bool \<times> Settings" where
  "SettingsV1_Load val path header_length fs s =
     (if header_length = of_nat SettingsV1_Size
      then if \<not> px_seek fs path then (False, s)
           else (case sys_read path SettingsV1_Size fs of
                   None \<Rightarrow> (False, s)
                 | Some bs \<Rightarrow>
                     if length bs \<noteq> SettingsV1_Size then (False, s)
                     else (True, s\<lparr>st_magic := rd32 0 bs, st_version := rd32 4 bs,
                                    st_powerState := v1_unconv val (rd32 12 bs),
                                    st_deepSleepTimeout := rd32 24 bs,
                                    st_nwStandbyMode := (bs ! 28 \<noteq> 0)\<rparr>))
      else (False, s))"

text \<open>A short write is not noticed: only a negative result is a failure.\<close>

definition SettingsV1_Save ::
  "(PWRMgr_PowerState_t \<Rightarrow> u32) \<Rightarrow> string \<Rightarrow> Settings \<Rightarrow> posix \<Rightarrow> bool \<times> posix" where
  "SettingsV1_Save val path s fs =
     (if \<not> px_seek fs path then (False, fs)
      else (case sys_write path (v1_image val s) fs of
              (None, fs1) \<Rightarrow> (False, fs1)
            | (Some _, fs1) \<Rightarrow> (True, fs1)))"

definition SettingsV1_initDefaults :: "Settings \<Rightarrow> Settings" where
  "SettingsV1_initDefaults s = s\<lparr>st_magic := UIMGR_SETTINGS_MAGIC, st_version := Version_V1\<rparr>"

section \<open>Loading and saving\<close>

definition Settings_Save ::
  "(PWRMgr_PowerState_t \<Rightarrow> u32) \<Rightarrow> string \<Rightarrow> Settings \<Rightarrow> posix \<Rightarrow> bool \<times> posix" where
  "Settings_Save val path s fs =
     (case sys_open path fs of
        None \<Rightarrow> (False, fs)
      | Some fs1 \<Rightarrow> SettingsV1_Save val path s fs1)"

text \<open>
  The part of \<^verbatim>\<open>Settings::Load\<close> that reads one file: open it, read the header, hand over to
  the version, and repair the file with the defaults when that fails.
\<close>

definition load_file ::
  "(PWRMgr_PowerState_t \<Rightarrow> u32) \<Rightarrow> int \<Rightarrow> string \<Rightarrow> posix \<Rightarrow> Settings \<times> posix" where
  "load_file val now path fs =
     (let s = Settings_new now
      in case sys_open path fs of
           None \<Rightarrow> (s, fs)
         | Some fs1 \<Rightarrow>
             (let (ok, s1) =
                (case sys_read path 12 fs1 of
                   None \<Rightarrow> (False, s)
                 | Some h \<Rightarrow>
                     if length h = 12
                     then if rd32 4 h = Version_V1 then SettingsV1_Load val path (rd32 8 h) fs1 s
                          else (False, s)
                     else (False, s))
              in if \<not> ok
                 then let s2 = SettingsV1_initDefaults s1
                      in (s2, snd (SettingsV1_Save val path s2 fs1))
                 else (s1, fs1)))"

text \<open>
  \<^verbatim>\<open>Settings::Load\<close>. The recursive call is on the RAM path, where the function returns
  right after reading; \<open>platco\<close> is the build option \<^verbatim>\<open>PLATCO_BOOTTO_STANDBY\<close>.
\<close>

definition Settings_Load ::
  "(PWRMgr_PowerState_t \<Rightarrow> u32) \<Rightarrow> bool \<Rightarrow> int \<Rightarrow> string \<Rightarrow> posix \<Rightarrow> Settings \<times> posix" where
  "Settings_Load val platco now path fs =
     (let (s, fs1) = load_file val now path fs
      in if path = kRamSettingsFilePath then (s, fs1)
         else let s1 = s\<lparr>st_powerStateBeforeReboot := st_powerState s\<rparr>;
                  (s2, fs2) =
                    (if \<not> file_exists kRamSettingsFilePath fs1
                     then (s1, snd (Settings_Save val kRamSettingsFilePath s1 fs1))
                     else let (ram, fs3) = load_file val now kRamSettingsFilePath fs1
                          in (s1\<lparr>st_powerStateBeforeReboot := st_powerState ram\<rparr>, fs3))
              in (if platco \<and> \<not> file_exists restartedMarker fs2
                  then s2\<lparr>st_powerState := POWER_STATE_STANDBY\<rparr> else s2, fs2))"

lemmas settings_defs [pm_ops] =
  Settings_Save_def SettingsV1_Save_def SettingsV1_Load_def load_file_def Settings_Load_def

section \<open>The image is a faithful record\<close>

lemma length_v1_image [simp]: "length (v1_image val s) = SettingsV1_Size"
  by (simp add: v1_image_def SettingsV1_Size_def)

lemma v1_unconv_conv: "inj val \<Longrightarrow> v1_unconv val (val (v1_conv p)) = p"
  by (cases p) (auto simp: v1_unconv_def inj_eq)

lemma take12_image: "take 12 (v1_image val s) = le32 (st_magic s) @ le32 (st_version s) @ le32 (of_nat SettingsV1_Size)"
  by (simp add: v1_image_def)

lemma rd32_image:
  "rd32 0 (v1_image val s) = st_magic s"
  "rd32 4 (v1_image val s) = st_version s"
  "rd32 8 (take 12 (v1_image val s)) = of_nat SettingsV1_Size"
  "rd32 4 (take 12 (v1_image val s)) = st_version s"
  "rd32 12 (v1_image val s) = val (v1_conv (st_powerState s))"
  "rd32 24 (v1_image val s) = st_deepSleepTimeout s"
  unfolding take12_image unfolding v1_image_def
  using rd32_le32_at [of "[]" 0] rd32_le32_at [of "le32 (st_magic s)" 4]
    rd32_le32_at [of "le32 (st_magic s) @ le32 (st_version s)" 8 _ "[]"]
    rd32_le32_at [of "le32 (st_magic s) @ le32 (st_version s) @ le32 (of_nat SettingsV1_Size)" 12]
    rd32_le32_at [of "le32 (st_magic s) @ le32 (st_version s) @ le32 (of_nat SettingsV1_Size)
      @ le32 (val (v1_conv (st_powerState s))) @ le32 0 @ le32 0" 24]
  by simp_all

lemma nth_image_flag: "v1_image val s ! 28 = (if st_nwStandbyMode s then 1 else 0)"
  by (simp add: v1_image_def nth_append)

text \<open>What loading makes of a file whose first 32 bytes are an image of version 1.\<close>

definition loaded :: "int \<Rightarrow> Settings \<Rightarrow> Settings" where
  "loaded now s = (Settings_new now)\<lparr>st_magic := st_magic s, st_version := st_version s,
     st_powerState := st_powerState s, st_deepSleepTimeout := st_deepSleepTimeout s,
     st_nwStandbyMode := st_nwStandbyMode s\<rparr>"

lemma take_le: "take m (take n xs) = take m xs" if "m \<le> n"
  using that by (simp add: min_def)

lemma load_file_image:
  assumes h: "healthy 32 fs path" and inj: "inj val" and v: "st_version s = Version_V1"
    and img: "take 32 (content fs path) = v1_image val s"
  shows "fst (load_file val now path fs) = loaded now s"
    and "content (snd (load_file val now path fs)) q = content fs q"
    and "same_env fs (snd (load_file val now path fs))"
proof -
  from h obtain fs1 where o: "sys_open path fs = Some fs1"
    by (auto simp: healthy_def sys_open_def)
  have c1: "content fs1 r = content fs r" and e1: "same_env fs fs1" for r
    using sys_open_Some [OF o] by auto
  have h1: "healthy 32 fs1 path" using healthy_same_env [OF e1] h by simp
  have img1: "take 32 (content fs1 path) = v1_image val s" by (simp add: c1 img)
  have hd: "take 12 (content fs1 path) = take 12 (v1_image val s)"
    unfolding img1 [symmetric] by (simp add: min_def)
  have rd: "sys_read path 12 fs1 = Some (take 12 (v1_image val s))"
    using h1 by (simp add: sys_read_def healthy_def hd)
  have rd32': "sys_read path SettingsV1_Size fs1 = Some (v1_image val s)"
    using h1 by (simp add: sys_read_def healthy_def SettingsV1_Size_def img1)
  have seek: "px_seek fs1 path" using h1 by (simp add: healthy_def)
  have l12: "length (take 12 (v1_image val s)) = 12" by (simp add: SettingsV1_Size_def)
  have v1: "SettingsV1_Load val path (of_nat SettingsV1_Size) fs1 (Settings_new now) = (True, loaded now s)"
    by (simp add: SettingsV1_Load_def seek rd32' rd32_image nth_image_flag v1_unconv_conv [OF inj] loaded_def)
  have eq: "load_file val now path fs = (loaded now s, fs1)"
    by (simp add: load_file_def o rd l12 rd32_image v v1 Let_def del: length_take)
  show "fst (load_file val now path fs) = loaded now s" by (simp add: eq)
  show "content (snd (load_file val now path fs)) q = content fs q" by (simp add: eq c1)
  show "same_env fs (snd (load_file val now path fs))" by (simp add: eq e1)
qed

lemma same_env_V1_Save: "same_env fs (snd (SettingsV1_Save val path s fs))"
  by (auto simp: SettingsV1_Save_def split: option.splits prod.splits)
     (metis same_env_write snd_conv)+

lemma content_V1_Save_other: "q \<noteq> path \<Longrightarrow> content (snd (SettingsV1_Save val path s fs)) q = content fs q"
  by (auto simp: SettingsV1_Save_def split: option.splits prod.splits)
     (metis content_write_other snd_conv)+

lemma same_env_Save: "same_env fs (snd (Settings_Save val path s fs))"
  by (auto simp: Settings_Save_def split: option.splits
       intro: same_env_trans same_env_V1_Save sys_open_Some(2))

lemma content_Save_other: "q \<noteq> path \<Longrightarrow> content (snd (Settings_Save val path s fs)) q = content fs q"
  by (auto simp: Settings_Save_def content_V1_Save_other sys_open_Some(1) split: option.splits)

lemma V1_Save_image:
  assumes "healthy 32 fs path"
  shows "fst (SettingsV1_Save val path s fs)"
    and "take 32 (content (snd (SettingsV1_Save val path s fs)) path) = v1_image val s"
proof -
  have h: "healthy (length (v1_image val s)) fs path" using assms by (simp add: SettingsV1_Size_def)
  then have sk: "px_seek fs path" by (simp add: healthy_def)
  obtain n fs1 where w: "sys_write path (v1_image val s) fs = (Some n, fs1)"
    using healthy_write(1) [OF h] by (cases "sys_write path (v1_image val s) fs") auto
  have "take 32 (content fs1 path) = v1_image val s"
    using take_content_write [OF h, of 32] w by (simp add: SettingsV1_Size_def)
  then show "fst (SettingsV1_Save val path s fs)"
    "take 32 (content (snd (SettingsV1_Save val path s fs)) path) = v1_image val s"
    by (simp_all add: SettingsV1_Save_def sk w)
qed

lemma Save_image:
  assumes "healthy 32 fs path"
  shows "fst (Settings_Save val path s fs)"
    and "take 32 (content (snd (Settings_Save val path s fs)) path) = v1_image val s"
proof -
  from assms obtain fs1 where o: "sys_open path fs = Some fs1"
    by (auto simp: healthy_def sys_open_def)
  have "healthy 32 fs1 path" using healthy_same_env [OF sys_open_Some(2) [OF o]] assms by simp
  from V1_Save_image [OF this]
  show "fst (Settings_Save val path s fs)"
    "take 32 (content (snd (Settings_Save val path s fs)) path) = v1_image val s"
    by (simp_all add: Settings_Save_def o)
qed

lemma file_exists_Save: "healthy 32 fs path \<Longrightarrow> file_exists path (snd (Settings_Save val path s fs))"
proof -
  assume "healthy 32 fs path"
  from Save_image(2) [OF this, of val s]
  have "content (snd (Settings_Save val path s fs)) path \<noteq> []"
    by (auto simp: v1_image_def)
  then show ?thesis by (auto simp: content_def file_exists_def split: option.splits)
qed

text \<open>
  Loading a file on which every call works: the result is always of version 1, and the file it
  leaves behind holds the image of a settings record that loads to the same result.
\<close>

lemma load_file_heals:
  assumes h: "healthy 32 fs path" and inj: "inj val"
  shows "same_env fs (snd (load_file val now path fs))"
    and "st_version (fst (load_file val now path fs)) = Version_V1"
    and "fst (load_file val now' path (snd (load_file val now path fs))) =
           (fst (load_file val now path fs))\<lparr>st_lastUpdateTime := now'\<rparr>"
    and "q \<noteq> path \<Longrightarrow> content (snd (load_file val now path fs)) q = content fs q"
proof -
  let ?s = "Settings_new now"
  from h obtain fs1 where o: "sys_open path fs = Some fs1"
    by (auto simp: healthy_def sys_open_def)
  have c1: "content fs1 r = content fs r" and e1: "same_env fs fs1" for r
    using sys_open_Some [OF o] by auto
  have h1: "healthy 32 fs1 path" using healthy_same_env [OF e1] h by simp
  have again: "sys_open path fs1 = Some fs1"
    using o by (auto simp: sys_open_def content_def split: if_splits)
  define hdr where "hdr = take 12 (content fs1 path)"
  have rd: "sys_read path 12 fs1 = Some hdr" using h1 by (simp add: sys_read_def healthy_def hdr_def)
  let ?parse = "\<lambda>s0. if length hdr = 12
                then if rd32 4 hdr = Version_V1 then SettingsV1_Load val path (rd32 8 hdr) fs1 s0 else (False, s0)
                else (False, s0)"
  have lf: "load_file val now path fs =
      (if fst (?parse ?s) then (snd (?parse ?s), fs1)
       else (SettingsV1_initDefaults (snd (?parse ?s)),
             snd (SettingsV1_Save val path (SettingsV1_initDefaults (snd (?parse ?s))) fs1)))"
    by (simp add: load_file_def o rd Let_def split: prod.splits)
  have lf1: "load_file val now' path fs1 =
      (if fst (?parse (Settings_new now')) then (snd (?parse (Settings_new now')), fs1)
       else (SettingsV1_initDefaults (snd (?parse (Settings_new now'))),
             snd (SettingsV1_Save val path (SettingsV1_initDefaults (snd (?parse (Settings_new now')))) fs1)))"
    by (simp add: load_file_def again rd Let_def split: prod.splits)
  show "same_env fs (snd (load_file val now path fs))"
    unfolding lf using e1 same_env_trans [OF e1 same_env_V1_Save] by simp
  show "q \<noteq> path \<Longrightarrow> content (snd (load_file val now path fs)) q = content fs q"
    unfolding lf by (simp add: content_V1_Save_other c1)
  have "st_version (fst (load_file val now path fs)) = Version_V1 \<and>
    fst (load_file val now' path (snd (load_file val now path fs))) =
           (fst (load_file val now path fs))\<lparr>st_lastUpdateTime := now'\<rparr>"
  proof (cases "fst (?parse ?s)")
    case True
    then have "length hdr = 12" "rd32 4 hdr = Version_V1" "rd32 8 hdr = of_nat SettingsV1_Size"
      "px_seek fs1 path"
      by (auto simp: SettingsV1_Load_def split: if_splits)
    moreover obtain bs where "sys_read path SettingsV1_Size fs1 = Some bs" and l: "length bs = SettingsV1_Size"
      using True by (auto simp: SettingsV1_Load_def split: if_splits option.splits)
    moreover have "rd32 4 bs = Version_V1"
    proof -
      have "take 12 bs = hdr"
        using calculation(5) by (auto simp: sys_read_def hdr_def SettingsV1_Size_def min_def split: if_splits)
      then have "\<And>i. i < 12 \<Longrightarrow> bs ! i = hdr ! i" by auto
      then have "rd32 4 bs = rd32 4 hdr" by (simp add: rd32_def)
      with calculation(2) show ?thesis by simp
    qed
    ultimately show ?thesis
      using True by (simp add: lf lf1 SettingsV1_Load_def Settings_new_def)
  next
    case False
    have keep: "snd (?parse ?s) = ?s" using False
      by (auto simp: SettingsV1_Load_def split: if_splits option.splits)
    let ?d = "SettingsV1_initDefaults ?s"
    let ?g = "snd (SettingsV1_Save val path ?d fs1)"
    have l: "load_file val now path fs = (?d, ?g)" unfolding lf keep using False by simp
    have hg: "healthy 32 ?g path" using healthy_same_env [OF same_env_V1_Save] h1 by simp
    have "fst (load_file val now' path ?g) = loaded now' ?d"
      using load_file_image(1) [OF hg inj _ V1_Save_image(2) [OF h1]]
      by (simp add: SettingsV1_initDefaults_def)
    then show ?thesis by (simp add: l loaded_def SettingsV1_initDefaults_def Settings_new_def)
  qed
  then show "st_version (fst (load_file val now path fs)) = Version_V1"
    "fst (load_file val now' path (snd (load_file val now path fs))) =
           (fst (load_file val now path fs))\<lparr>st_lastUpdateTime := now'\<rparr>"
    by simp_all
qed

section \<open>Settings as a persistent store\<close>

text \<open>The part of the settings that the file keeps.\<close>

definition persisted :: "Settings \<Rightarrow> u32 \<times> u32 \<times> PowerState \<times> u32 \<times> bool" where
  "persisted s = (st_magic s, st_version s, st_powerState s, st_deepSleepTimeout s, st_nwStandbyMode s)"

lemma persisted_loaded [simp]: "persisted (loaded now s) = persisted s"
  by (simp add: persisted_def loaded_def)

lemma persisted_update [simp]:
  "persisted (s\<lparr>st_lastUpdateTime := t\<rparr>) = persisted s"
  "persisted (s\<lparr>st_powerStateBeforeReboot := p\<rparr>) = persisted s"
  by (simp_all add: persisted_def)

lemma load_after_save:
  "healthy 32 fs path \<Longrightarrow> inj val \<Longrightarrow> st_version s = Version_V1 \<Longrightarrow>
     fst (load_file val now path (snd (Settings_Save val path s fs))) = loaded now s"
  using load_file_image(1) [OF _ _ _ Save_image(2)] healthy_same_env [OF same_env_Save] by metis

interpretation settings_store: persistent_store
  "\<lambda>s fs. snd (Settings_Save val path s fs)" "load_file val now path"
  "\<lambda>s. st_version s = Version_V1" persisted "\<lambda>fs. inj val \<and> healthy 32 fs path"
  for val path now
proof (unfold_locales, goal_cases)
  case (1 m v)
  then show ?case by (simp add: healthy_same_env [OF same_env_Save])
next
  case (2 m)
  then show ?case by (simp add: healthy_same_env [OF load_file_heals(1)])
next
  case (3 m v)
  then show ?case by (simp add: load_after_save)
next
  case (4 m)
  then show ?case by (simp add: load_file_heals(2))
next
  case (5 m)
  then show ?case by (simp add: load_file_heals(3))
qed

text \<open>\<^verbatim>\<open>Load\<close> of a settings file other than the RAM copy, in the terms of \<open>load_file\<close>.\<close>

lemma file_exists_other:
  assumes "q \<noteq> p"
  shows "sys_open p fs = Some gs \<Longrightarrow> file_exists q gs = file_exists q fs"
    and "file_exists q (snd (sys_write p bs fs)) = file_exists q fs"
    and "file_exists q (snd (SettingsV1_Save val p s fs)) = file_exists q fs"
    and "file_exists q (snd (Settings_Save val p s fs)) = file_exists q fs"
    and "file_exists q (snd (load_file val now p fs)) = file_exists q fs"
proof -
  show op: "file_exists q gs = file_exists q fs" if "sys_open p fs = Some gs" for fs gs
    using assms that by (auto simp: file_exists_def sys_open_def split: if_splits)
  show wr: "file_exists q (snd (sys_write p bs fs)) = file_exists q fs" for bs fs
    using assms by (auto simp: file_exists_def sys_write_def Let_def split: option.splits)
  show sv: "file_exists q (snd (SettingsV1_Save val p s fs)) = file_exists q fs" for s fs
    by (auto simp: SettingsV1_Save_def split: option.splits prod.splits) (metis wr snd_conv)+
  show "file_exists q (snd (Settings_Save val p s fs)) = file_exists q fs"
    by (auto simp: Settings_Save_def sv op split: option.splits)
  show "file_exists q (snd (load_file val now p fs)) = file_exists q fs"
    by (auto simp: load_file_def Let_def sv op split: option.splits prod.splits)
qed

text \<open>
  What a load makes of the power state: in a build with \<^verbatim>\<open>PLATCO_BOOTTO_STANDBY\<close> the first load
  after a boot, before the marker file is there, replaces it.
\<close>

definition boots_to_standby :: "bool \<Rightarrow> posix \<Rightarrow> bool" where
  "boots_to_standby platco fs \<longleftrightarrow> platco \<and> \<not> file_exists restartedMarker fs"

lemma Load_main:
  assumes "path \<noteq> kRamSettingsFilePath" "path \<noteq> restartedMarker"
  shows "persisted (fst (Settings_Load val platco now path fs)) =
    (if boots_to_standby platco fs
     then persisted ((fst (load_file val now path fs))\<lparr>st_powerState := POWER_STATE_STANDBY\<rparr>)
     else persisted (fst (load_file val now path fs)))"
proof -
  have "restartedMarker \<noteq> kRamSettingsFilePath" by (simp add: restartedMarker_def kRamSettingsFilePath_def)
  with assms show ?thesis
    by (auto simp: Settings_Load_def boots_to_standby_def file_exists_other persisted_def Let_def split_beta)
qed

lemma Load_before:
  assumes "path \<noteq> kRamSettingsFilePath" and "load_file val now path fs = (s, fs1)"
  shows "st_powerStateBeforeReboot (fst (Settings_Load val platco now path fs)) =
     (if file_exists kRamSettingsFilePath fs1
      then st_powerState (fst (load_file val now kRamSettingsFilePath fs1)) else st_powerState s)"
  using assms by (auto simp: Settings_Load_def Let_def split: prod.splits)

lemma Load_files:
  assumes "path \<noteq> kRamSettingsFilePath" and "load_file val now path fs = (s, fs1)"
  shows "snd (Settings_Load val platco now path fs) =
     (if file_exists kRamSettingsFilePath fs1 then snd (load_file val now kRamSettingsFilePath fs1)
      else snd (Settings_Save val kRamSettingsFilePath (s\<lparr>st_powerStateBeforeReboot := st_powerState s\<rparr>) fs1))"
  using assms by (auto simp: Settings_Load_def Let_def split: prod.splits)

text \<open>
  C25. Settings survive a restart. When every call on the settings file works and the platform's
  power states have distinct values, loading the file gives back every persistent field of the
  last settings saved to it, whatever was saved before and whatever the file held; except
  that a build with \<^verbatim>\<open>PLATCO_BOOTTO_STANDBY\<close>, at the first load after a boot, takes standby for
  the power state, whatever was saved. (The settings saved are of version 1, as all are
  that have been loaded once.)
\<close>

theorem settings_survive_restart:
  assumes "inj val" and "healthy 32 fs path" and "path \<noteq> kRamSettingsFilePath" "path \<noteq> restartedMarker"
    and "st_version s = Version_V1"
  shows "persisted (fst (Settings_Load val platco now path
           (fold (\<lambda>x f. snd (Settings_Save val path x f)) (older @ [s]) fs))) =
         (st_magic s, Version_V1, if platco \<and> \<not> file_exists restartedMarker fs then POWER_STATE_STANDBY else st_powerState s,
          st_deepSleepTimeout s, st_nwStandbyMode s)"
proof -
  have marker: "file_exists restartedMarker (fold (\<lambda>x f. snd (Settings_Save val path x f)) xs fs) =
      file_exists restartedMarker fs" for xs
    using assms(4) by (induction xs rule: rev_induct) (simp_all add: file_exists_other)
  have "persisted (fst (load_file val now path (fold (\<lambda>x f. snd (Settings_Save val path x f)) (older @ [s]) fs))) =
      persisted s"
    by (rule settings_store.last_write_wins) (use assms in auto)
  then show ?thesis
    unfolding Load_main [OF assms(3,4)] boots_to_standby_def marker by (simp add: persisted_def assms(5))
qed

definition demo_val :: "PWRMgr_PowerState_t \<Rightarrow> u32" where
  "demo_val p = (case p of PWRMGR_POWERSTATE_OFF \<Rightarrow> 0 | PWRMGR_POWERSTATE_STANDBY \<Rightarrow> 1
     | PWRMGR_POWERSTATE_ON \<Rightarrow> 2 | PWRMGR_POWERSTATE_STANDBY_LIGHT_SLEEP \<Rightarrow> 3
     | PWRMGR_POWERSTATE_STANDBY_DEEP_SLEEP \<Rightarrow> 4 | PWRMGR_POWERSTATE_MAX \<Rightarrow> 5)"

lemma inj_demo_val: "inj demo_val"
  by (rule injI) (auto simp: demo_val_def split: PWRMgr_PowerState_t.splits)

definition demo_fs :: posix where
  "demo_fs = \<lparr>px_files = Map.empty, px_open = (\<lambda>_. True), px_seek = (\<lambda>_. True),
     px_read = (\<lambda>_. True), px_write = (\<lambda>_. Some 4096)\<rparr>"

lemma healthy_demo_fs: "healthy 32 demo_fs p"
  by (simp add: healthy_def demo_fs_def)

definition demo_settings :: Settings where
  "demo_settings = (SettingsV1_initDefaults (Settings_new 0))\<lparr>st_powerState := POWER_STATE_ON,
     st_deepSleepTimeout := 60, st_nwStandbyMode := True\<rparr>"

lemma settings_survive_restart_witness:
  "let fs = fold (\<lambda>x f. snd (Settings_Save demo_val kSettingsFilePath x f)) ([] @ [demo_settings]) demo_fs
   in persisted (fst (Settings_Load demo_val False 9 kSettingsFilePath fs)) = (UIMGR_SETTINGS_MAGIC, 1, POWER_STATE_ON, 60, True) \<and>
      persisted (fst (Settings_Load demo_val True 9 kSettingsFilePath fs)) = (UIMGR_SETTINGS_MAGIC, 1, POWER_STATE_STANDBY, 60, True)"
proof -
  have "st_version demo_settings = Version_V1" "kSettingsFilePath \<noteq> kRamSettingsFilePath" "kSettingsFilePath \<noteq> restartedMarker"
    by (simp_all add: demo_settings_def SettingsV1_initDefaults_def kSettingsFilePath_def kRamSettingsFilePath_def restartedMarker_def)
  note t = settings_survive_restart [OF inj_demo_val healthy_demo_fs this(2,3,1)]
  from t [of False 9 "[]"] t [of True 9 "[]"] show ?thesis
    unfolding Let_def
    by (simp add: demo_settings_def SettingsV1_initDefaults_def Settings_new_def Version_V1_def demo_fs_def file_exists_def)
qed

text \<open>
  A damaged settings file heals itself: whatever bytes the file holds (or if it is absent),
  loading it leaves a file from which a second load gives the same settings, and the settings
  are always of version 1.
\<close>

lemma damaged_settings_heal:
  assumes "inj val" and "healthy 32 fs path"
  shows "st_version (fst (load_file val now path fs)) = Version_V1 \<and>
         persisted (fst (load_file val now' path (snd (load_file val now path fs)))) =
         persisted (fst (load_file val now path fs))"
  using load_file_heals(2,3) [OF assms(2,1)] by simp

lemma damaged_settings_heal_witness:
  "let fs = demo_fs\<lparr>px_files := [kSettingsFilePath \<mapsto> [1, 2, 3]]\<rparr>;
       (s, fs1) = load_file demo_val 0 kSettingsFilePath fs
   in persisted s = (UIMGR_SETTINGS_MAGIC, 1, POWER_STATE_ON, 28800, False) \<and>
      persisted (fst (load_file demo_val 5 kSettingsFilePath fs1)) = persisted s"
proof -
  let ?fs = "demo_fs\<lparr>px_files := [kSettingsFilePath \<mapsto> [1, 2, 3]]\<rparr>"
  have h: "healthy 32 ?fs kSettingsFilePath" by (simp add: healthy_def demo_fs_def)
  have "persisted (fst (load_file demo_val 0 kSettingsFilePath ?fs)) =
      (UIMGR_SETTINGS_MAGIC, 1, POWER_STATE_ON, 28800, False)"
    by (simp add: load_file_def sys_open_def sys_read_def content_def demo_fs_def persisted_def
        SettingsV1_initDefaults_def Settings_new_def Version_V1_def kDeepSleepTimeoutSec_def Let_def)
  with damaged_settings_heal [OF inj_demo_val h, of 0 5] show ?thesis
    by (simp add: Let_def split_beta)
qed

text \<open>Nothing the settings code does deletes a file, and loading depends on the file alone.\<close>

lemma exists_write: "file_exists q fs \<Longrightarrow> file_exists q (snd (sys_write p bs fs))"
  by (auto simp: file_exists_def sys_write_def Let_def split: option.splits)

lemma exists_V1_Save: "file_exists q fs \<Longrightarrow> file_exists q (snd (SettingsV1_Save val p s fs))"
  by (auto simp: SettingsV1_Save_def split: option.splits prod.splits) (metis exists_write snd_conv)+

lemma exists_open: "sys_open p fs = Some gs \<Longrightarrow> file_exists q fs \<Longrightarrow> file_exists q gs"
  by (auto simp: file_exists_def sys_open_def split: if_splits)

lemma exists_Save: "file_exists q fs \<Longrightarrow> file_exists q (snd (Settings_Save val p s fs))"
  by (auto simp: Settings_Save_def split: option.splits intro: exists_V1_Save exists_open)

lemma exists_load_file: "file_exists q fs \<Longrightarrow> file_exists q (snd (load_file val now p fs))"
  by (auto simp: load_file_def Let_def split: option.splits prod.splits intro: exists_V1_Save exists_open)

lemma load_file_cong:
  assumes "same_env f g" and "content f p = content g p"
  shows "fst (load_file val now p f) = fst (load_file val now p g)"
proof (cases "sys_open p f")
  case None
  with assms(1) have "sys_open p g = None" by (simp add: sys_open_def same_env_def split: if_splits)
  with None show ?thesis by (simp add: load_file_def Let_def)
next
  case (Some f1)
  with assms(1) obtain g1 where g1: "sys_open p g = Some g1"
    by (auto simp: sys_open_def same_env_def split: if_splits)
  have c: "content f1 p = content g1 p" and e: "same_env f1 g1"
    using sys_open_Some(1,2) [OF Some] sys_open_Some(1,2) [OF g1] assms by (auto simp: same_env_def)
  then have "sys_read p n f1 = sys_read p n g1" for n by (simp add: sys_read_def same_env_def)
  moreover have "SettingsV1_Load val p h f1 s = SettingsV1_Load val p h g1 s" for h s
    using calculation e by (simp add: SettingsV1_Load_def same_env_def)
  ultimately show ?thesis
    using Some g1 by (simp add: load_file_def Let_def split: option.splits prod.splits)
qed

text \<open>After a first load the RAM copy is there, and it reads as the state before the reboot.\<close>

lemma first_load_settles_ram:
  assumes "inj val" and "healthy 32 fs path" and "healthy 32 fs kRamSettingsFilePath"
    and "path \<noteq> kRamSettingsFilePath" and "snd (Settings_Load val platco now path fs) = fs2"
  shows "same_env fs fs2" and "file_exists kRamSettingsFilePath fs2"
    and "st_powerState (fst (load_file val t kRamSettingsFilePath fs2)) =
         st_powerStateBeforeReboot (fst (Settings_Load val platco now path fs))"
proof -
  let ?ram = "kRamSettingsFilePath"
  obtain s fs1 where l1: "load_file val now path fs = (s, fs1)" by fastforce
  have e1: "same_env fs fs1" and v: "st_version s = Version_V1"
    using load_file_heals(1,2) [OF assms(2,1), of now] l1 by auto
  have ram1: "healthy 32 fs1 ?ram" using healthy_same_env [OF e1] assms(3) by simp
  let ?s1 = "s\<lparr>st_powerStateBeforeReboot := st_powerState s\<rparr>"
  note b = Load_before [OF assms(4) l1, of platco] and f = Load_files [OF assms(4) l1, of platco]
  have "same_env fs1 fs2 \<and> file_exists ?ram fs2 \<and>
    st_powerState (fst (load_file val t ?ram fs2)) = st_powerStateBeforeReboot (fst (Settings_Load val platco now path fs))"
  proof (cases "file_exists ?ram fs1")
    case True
    then have fs2: "fs2 = snd (load_file val now ?ram fs1)" using f assms(5) by simp
    show ?thesis
      using True load_file_heals(1) [OF ram1 assms(1)] load_file_heals(3) [OF ram1 assms(1), of t now]
      by (simp add: b fs2 exists_load_file)
  next
    case False
    then have fs2: "fs2 = snd (Settings_Save val ?ram ?s1 fs1)" using f assms(5) by simp
    show ?thesis
      using False load_after_save [OF ram1 assms(1), of ?s1 t] v file_exists_Save [OF ram1]
      by (simp add: b fs2 same_env_Save loaded_def)
  qed
  with e1 show "same_env fs fs2" "file_exists ?ram fs2"
    "st_powerState (fst (load_file val t ?ram fs2)) =
     st_powerStateBeforeReboot (fst (Settings_Load val platco now path fs))"
    by (auto intro: same_env_trans)
qed

lemma saves_keep_ram:
  assumes "path \<noteq> kRamSettingsFilePath"
  shows "same_env fs (fold (\<lambda>x f. snd (Settings_Save val path x f)) xs fs) \<and>
    content (fold (\<lambda>x f. snd (Settings_Save val path x f)) xs fs) kRamSettingsFilePath =
      content fs kRamSettingsFilePath \<and>
    (file_exists kRamSettingsFilePath fs \<longrightarrow>
      file_exists kRamSettingsFilePath (fold (\<lambda>x f. snd (Settings_Save val path x f)) xs fs))"
proof (induction xs arbitrary: fs)
  case (Cons x xs)
  have "content (snd (Settings_Save val path x fs)) kRamSettingsFilePath = content fs kRamSettingsFilePath"
    by (rule content_Save_other) (use assms in simp)
  with Cons [of "snd (Settings_Save val path x fs)"] show ?case
    using same_env_trans [OF same_env_Save] exists_Save by auto
qed simp

text \<open>
  The state before the last reboot does not change while the device is up: once it has been
  determined by the first load after a boot, a restart of the plugin finds the same one, however
  often the settings file was rewritten in between, because the RAM copy taken at the first load
  is never overwritten.
\<close>

lemma state_before_reboot_is_stable:
  assumes "inj val" and "healthy 32 fs path" and "healthy 32 fs kRamSettingsFilePath"
    and "path \<noteq> kRamSettingsFilePath"
  shows "st_powerStateBeforeReboot (fst (Settings_Load val platco' now' path
           (fold (\<lambda>x f. snd (Settings_Save val path x f)) saves
             (snd (Settings_Load val platco now path fs))))) =
         st_powerStateBeforeReboot (fst (Settings_Load val platco now path fs))"
proof -
  let ?ram = "kRamSettingsFilePath"
  obtain fs2 where fs2: "snd (Settings_Load val platco now path fs) = fs2" by simp
  note first = first_load_settles_ram [OF assms fs2]
  define fs3 where "fs3 = fold (\<lambda>x f. snd (Settings_Save val path x f)) saves fs2"
  have k: "same_env fs2 fs3" "content fs3 ?ram = content fs2 ?ram" "file_exists ?ram fs3"
    using saves_keep_ram [OF assms(4), of fs2 val saves] first(2) by (auto simp: fs3_def)
  have hp3: "healthy 32 fs3 path"
    using healthy_same_env [OF same_env_trans [OF first(1) k(1)]] assms(2) by simp
  obtain t fs4 where l4: "load_file val now' path fs3 = (t, fs4)" by fastforce
  have c4: "content fs4 ?ram = content fs2 ?ram" and e4: "same_env fs2 fs4" and x4: "file_exists ?ram fs4"
    using load_file_heals(4) [OF hp3 assms(1), of ?ram now'] assms(4) l4 k(2)
      same_env_trans [OF k(1) load_file_heals(1) [OF hp3 assms(1), of now']]
      exists_load_file [OF k(3), of val now' path]
    by auto
  have "st_powerStateBeforeReboot (fst (Settings_Load val platco' now' path fs3)) =
        st_powerState (fst (load_file val now' ?ram fs4))"
    using Load_before [OF assms(4) l4, of platco'] x4 by simp
  also have "\<dots> = st_powerState (fst (load_file val now' ?ram fs2))"
    using load_file_cong [OF e4, of ?ram val now'] c4 by simp
  also have "\<dots> = st_powerStateBeforeReboot (fst (Settings_Load val platco now path fs))"
    by (rule first(3))
  finally show ?thesis by (simp add: fs2 fs3_def)
qed

lemma state_before_reboot_is_stable_witness:
  "let s = demo_settings;
       fs = snd (Settings_Save demo_val kSettingsFilePath s demo_fs)
   in st_powerStateBeforeReboot (fst (Settings_Load demo_val True 7 kSettingsFilePath
        (fold (\<lambda>x f. snd (Settings_Save demo_val kSettingsFilePath x f))
          [s\<lparr>st_powerState := POWER_STATE_ON\<rparr>, s\<lparr>st_powerState := POWER_STATE_OFF\<rparr>]
          (snd (Settings_Load demo_val False 3 kSettingsFilePath fs))))) =
      st_powerStateBeforeReboot (fst (Settings_Load demo_val False 3 kSettingsFilePath fs))"
proof -
  let ?fs = "snd (Settings_Save demo_val kSettingsFilePath demo_settings demo_fs)"
  have h: "healthy 32 ?fs p" for p
    using healthy_same_env [OF same_env_Save] healthy_demo_fs by blast
  have ne: "kSettingsFilePath \<noteq> kRamSettingsFilePath"
    by (simp add: kSettingsFilePath_def kRamSettingsFilePath_def)
  show ?thesis
    unfolding Let_def by (rule state_before_reboot_is_stable [OF inj_demo_val h h ne])
qed

text \<open>
  A settings object that could not be loaded because the file did not open keeps the version
  number of the constructor; when it is saved later, the next load rejects the file and falls
  back to the defaults, so the power state saved in between is lost.
\<close>

lemma unopened_settings_are_not_reloadable:
  assumes "inj val" and "healthy 32 fs path" and "\<not> px_open fs0 path"
    and "s = fst (load_file val now path fs0)"
  shows "st_powerState (fst (load_file val now' path
           (snd (Settings_Save val path (s\<lparr>st_powerState := POWER_STATE_STANDBY\<rparr>) fs)))) = POWER_STATE_ON"
proof -
  let ?s = "s\<lparr>st_powerState := POWER_STATE_STANDBY\<rparr>"
  let ?g = "snd (Settings_Save val path ?s fs)"
  have s: "s = Settings_new now"
    using assms(3,4) by (simp add: load_file_def sys_open_def)
  have h: "healthy 32 ?g path" using healthy_same_env [OF same_env_Save] assms(2) by simp
  then obtain g1 where o: "sys_open path ?g = Some g1" by (auto simp: healthy_def sys_open_def)
  have c: "content g1 path = content ?g path" and e: "same_env ?g g1"
    using sys_open_Some(1,2) [OF o] by auto
  have "take 12 (content g1 path) = take 12 (take 32 (content ?g path))" by (simp add: c min_def)
  also have "\<dots> = take 12 (v1_image val ?s)" using Save_image(2) [OF assms(2)] by simp
  finally have t: "take 12 (content g1 path) = take 12 (v1_image val ?s)" .
  have "healthy 32 g1 path" using healthy_same_env [OF e] h by simp
  then have "sys_read path 12 g1 = Some (take 12 (v1_image val ?s))"
    by (simp add: sys_read_def healthy_def t)
  moreover have "length (take 12 (v1_image val ?s)) = 12" by (simp add: SettingsV1_Size_def)
  moreover have "st_version ?s \<noteq> Version_V1" by (simp add: s Settings_new_def Version_V1_def)
  ultimately show ?thesis
    by (simp add: load_file_def o Let_def rd32_image SettingsV1_initDefaults_def Settings_new_def del: length_take)
qed

end
