(* ===== verification/PowerHal.thy ===== *)
theory PowerHal
  imports Settings
begin

text \<open>
  The power side of the hardware abstraction: the interface \<^verbatim>\<open>hal::power::IPlatform\<close>
  (\<^verbatim>\<open>plugin/hal/Power.h\<close>) and its implementation \<^verbatim>\<open>PowerImpl\<close> (\<^verbatim>\<open>plugin/hal/PowerImpl.h\<close>)
  on top of the platform's C functions \<^verbatim>\<open>PLAT_*\<close>. Those functions, and the numbers of the
  enumerators of \<^verbatim>\<open>plat_power.h\<close>, are not in the repository: they are the fields of
  \<open>plat_api\<close>, over a device state \<open>'p\<close>.

  An out-parameter passed by reference is an argument (its value before the call) and a result.
\<close>

section \<open>The interface\<close>

record 'p power_platform =
  ipp_SetPowerState :: "PowerState \<Rightarrow> 'p \<Rightarrow> hresult \<times> 'p"
  ipp_GetPowerState :: "PowerState \<Rightarrow> 'p \<Rightarrow> hresult \<times> PowerState \<times> 'p"
  ipp_SetWakeupSrc :: "WakeupSrcType \<Rightarrow> bool \<Rightarrow> bool \<Rightarrow> 'p \<Rightarrow> hresult \<times> bool \<times> 'p"
  ipp_GetWakeupSrc :: "WakeupSrcType \<Rightarrow> bool \<Rightarrow> bool \<Rightarrow> 'p \<Rightarrow> hresult \<times> bool \<times> bool"

section \<open>The platform's C functions\<close>

datatype pmStatus_t =
    PWRMGR_SUCCESS
  | PWRMGR_INVALID_ARGUMENT
  | PWRMGR_ALREADY_INITIALIZED
  | PWRMGR_NOT_INITIALIZED
  | PWRMGR_INIT_FAILURE
  | PWRMGR_SET_FAILURE
  | PWRMGR_GET_FAILURE
  | PWRMGR_OPERATION_NOT_SUPPORTED
  | PWRMGR_TERM_FAILURE
  | PWRMGR_MAX
  | PWRMGR_OTHER int        \<comment> \<open>a number that is no enumerator\<close>

datatype PWRMGR_WakeupSrcType_t =
    PWRMGR_WAKEUPSRC_VOICE
  | PWRMGR_WAKEUPSRC_PRESENCE_DETECTION
  | PWRMGR_WAKEUPSRC_BLUETOOTH
  | PWRMGR_WAKEUPSRC_WIFI
  | PWRMGR_WAKEUPSRC_IR
  | PWRMGR_WAKEUPSRC_POWER_KEY
  | PWRMGR_WAKEUPSRC_TIMER
  | PWRMGR_WAKEUPSRC_CEC
  | PWRMGR_WAKEUPSRC_LAN
  | PWRMGR_WAKEUPSRC_MAX

record 'p plat_api =
  pm_val :: "pmStatus_t \<Rightarrow> int"
  PLAT_INIT :: "'p \<Rightarrow> pmStatus_t option \<times> 'p"        \<comment> \<open>\<open>None\<close>: it threw an exception\<close>
  PLAT_TERM :: "'p \<Rightarrow> pmStatus_t \<times> 'p"
  PLAT_API_SetPowerState :: "PWRMgr_PowerState_t \<Rightarrow> 'p \<Rightarrow> pmStatus_t \<times> 'p"
  PLAT_API_GetPowerState :: "PWRMgr_PowerState_t \<Rightarrow> 'p \<Rightarrow> pmStatus_t \<times> PWRMgr_PowerState_t \<times> 'p"
  PLAT_API_SetWakeupSrc :: "PWRMGR_WakeupSrcType_t \<Rightarrow> bool \<Rightarrow> 'p \<Rightarrow> pmStatus_t \<times> 'p"
  PLAT_API_GetWakeupSrc :: "PWRMGR_WakeupSrcType_t \<Rightarrow> bool \<Rightarrow> 'p \<Rightarrow> pmStatus_t \<times> bool"

section \<open>\<^verbatim>\<open>PowerImpl\<close>\<close>

primrec PowerImpl_conv_src :: "WakeupSrcType \<Rightarrow> PWRMGR_WakeupSrcType_t" where
  "PowerImpl_conv_src WAKEUP_SRC_VOICE = PWRMGR_WAKEUPSRC_VOICE"
| "PowerImpl_conv_src WAKEUP_SRC_PRESENCEDETECTED = PWRMGR_WAKEUPSRC_PRESENCE_DETECTION"
| "PowerImpl_conv_src WAKEUP_SRC_BLUETOOTH = PWRMGR_WAKEUPSRC_BLUETOOTH"
| "PowerImpl_conv_src WAKEUP_SRC_WIFI = PWRMGR_WAKEUPSRC_WIFI"
| "PowerImpl_conv_src WAKEUP_SRC_IR = PWRMGR_WAKEUPSRC_IR"
| "PowerImpl_conv_src WAKEUP_SRC_POWERKEY = PWRMGR_WAKEUPSRC_POWER_KEY"
| "PowerImpl_conv_src WAKEUP_SRC_TIMER = PWRMGR_WAKEUPSRC_TIMER"
| "PowerImpl_conv_src WAKEUP_SRC_CEC = PWRMGR_WAKEUPSRC_CEC"
| "PowerImpl_conv_src WAKEUP_SRC_LAN = PWRMGR_WAKEUPSRC_LAN"
| "PowerImpl_conv_src WAKEUP_SRC_RF4CE = PWRMGR_WAKEUPSRC_MAX"
| "PowerImpl_conv_src WAKEUP_SRC_UNKNOWN = PWRMGR_WAKEUPSRC_MAX"

primrec PowerImpl_conv_from :: "PWRMgr_PowerState_t \<Rightarrow> PowerState" where
  "PowerImpl_conv_from PWRMGR_POWERSTATE_OFF = POWER_STATE_OFF"
| "PowerImpl_conv_from PWRMGR_POWERSTATE_ON = POWER_STATE_ON"
| "PowerImpl_conv_from PWRMGR_POWERSTATE_STANDBY = POWER_STATE_STANDBY"
| "PowerImpl_conv_from PWRMGR_POWERSTATE_STANDBY_LIGHT_SLEEP = POWER_STATE_STANDBY_LIGHT_SLEEP"
| "PowerImpl_conv_from PWRMGR_POWERSTATE_STANDBY_DEEP_SLEEP = POWER_STATE_STANDBY_DEEP_SLEEP"
| "PowerImpl_conv_from PWRMGR_POWERSTATE_MAX = POWER_STATE_UNKNOWN"

primrec PowerImpl_conv_to :: "PowerState \<Rightarrow> PWRMgr_PowerState_t" where
  "PowerImpl_conv_to POWER_STATE_OFF = PWRMGR_POWERSTATE_OFF"
| "PowerImpl_conv_to POWER_STATE_ON = PWRMGR_POWERSTATE_ON"
| "PowerImpl_conv_to POWER_STATE_STANDBY = PWRMGR_POWERSTATE_STANDBY"
| "PowerImpl_conv_to POWER_STATE_STANDBY_LIGHT_SLEEP = PWRMGR_POWERSTATE_STANDBY_LIGHT_SLEEP"
| "PowerImpl_conv_to POWER_STATE_STANDBY_DEEP_SLEEP = PWRMGR_POWERSTATE_STANDBY_DEEP_SLEEP"
| "PowerImpl_conv_to POWER_STATE_UNKNOWN = PWRMGR_POWERSTATE_MAX"

definition PowerImpl_conv_result :: "(pmStatus_t \<Rightarrow> int) \<Rightarrow> pmStatus_t \<Rightarrow> hresult" where
  "PowerImpl_conv_result val result =
     (if val result < 0 then ERROR_GENERAL
      else case result of
             PWRMGR_SUCCESS \<Rightarrow> ERROR_NONE
           | PWRMGR_INVALID_ARGUMENT \<Rightarrow> ERROR_INVALID_PARAMETER
           | PWRMGR_NOT_INITIALIZED \<Rightarrow> ERROR_ILLEGAL_STATE
           | PWRMGR_SET_FAILURE \<Rightarrow> ERROR_WRITE_ERROR
           | PWRMGR_GET_FAILURE \<Rightarrow> ERROR_READ_ERROR
           | _ \<Rightarrow> ERROR_GENERAL)"

definition PowerImpl_SetWakeupSrc ::
  "'p plat_api \<Rightarrow> WakeupSrcType \<Rightarrow> bool \<Rightarrow> bool \<Rightarrow> 'p \<Rightarrow> hresult \<times> bool \<times> 'p" where
  "PowerImpl_SetWakeupSrc api src enabled supported p =
     (let (result, p1) = PLAT_API_SetWakeupSrc api (PowerImpl_conv_src src) enabled p
      in (PowerImpl_conv_result (pm_val api) result, \<not> (pm_val api result > 0), p1))"

definition PowerImpl_GetWakeupSrc ::
  "'p plat_api \<Rightarrow> WakeupSrcType \<Rightarrow> bool \<Rightarrow> bool \<Rightarrow> 'p \<Rightarrow> hresult \<times> bool \<times> bool" where
  "PowerImpl_GetWakeupSrc api src enabled supported p =
     (let (result, en) = PLAT_API_GetWakeupSrc api (PowerImpl_conv_src src) enabled p
      in (PowerImpl_conv_result (pm_val api) result, en, \<not> (pm_val api result > 0)))"

text \<open>
  The constructor: initialise the platform, and retry every 100 ms while it fails or throws, 35
  attempts at most. The result is \<^verbatim>\<open>m_isPlatformInitialized\<close>.
\<close>

function PowerImpl_init_loop :: "'p plat_api \<Rightarrow> nat \<Rightarrow> 'p \<Rightarrow> bool \<times> 'p" where
  "PowerImpl_init_loop api retryCount p =
     (case PLAT_INIT api p of
        (res, p1) \<Rightarrow>
          if res = Some PWRMGR_SUCCESS then (True, p1)
          else if retryCount < 35 then PowerImpl_init_loop api (Suc retryCount) p1
          else (False, p1))"
  by pat_completeness auto
termination
  by (relation "measure (\<lambda>(api, retryCount, p). 35 - retryCount)") auto

declare PowerImpl_init_loop.simps [simp del]

definition PowerImpl_new :: "'p plat_api \<Rightarrow> 'p \<Rightarrow> bool \<times> 'p" where
  "PowerImpl_new api p = PowerImpl_init_loop api 1 p"

definition PowerImpl_delete :: "'p plat_api \<Rightarrow> 'p \<Rightarrow> 'p" where
  "PowerImpl_delete api p = snd (PLAT_TERM api p)"

definition PowerImpl_SetPowerState :: "'p plat_api \<Rightarrow> PowerState \<Rightarrow> 'p \<Rightarrow> hresult \<times> 'p" where
  "PowerImpl_SetPowerState api newState p =
     (let (result, p1) = PLAT_API_SetPowerState api (PowerImpl_conv_to newState) p
      in (if result = PWRMGR_SUCCESS then ERROR_NONE else ERROR_GENERAL, p1))"

definition PowerImpl_GetPowerState :: "'p plat_api \<Rightarrow> PowerState \<Rightarrow> 'p \<Rightarrow> hresult \<times> PowerState \<times> 'p" where
  "PowerImpl_GetPowerState api curState p =
     (let (result, state, p1) = PLAT_API_GetPowerState api PWRMGR_POWERSTATE_MAX p
      in if result = PWRMGR_SUCCESS then (ERROR_NONE, PowerImpl_conv_from state, p1)
         else (ERROR_GENERAL, curState, p1))"

definition PowerImpl :: "'p plat_api \<Rightarrow> 'p power_platform" where
  "PowerImpl api =
     \<lparr>ipp_SetPowerState = PowerImpl_SetPowerState api,
      ipp_GetPowerState = PowerImpl_GetPowerState api,
      ipp_SetWakeupSrc = PowerImpl_SetWakeupSrc api,
      ipp_GetWakeupSrc = PowerImpl_GetWakeupSrc api\<rparr>"

lemmas powerimpl_defs [pm_ops] =
  PowerImpl_def PowerImpl_SetPowerState_def PowerImpl_GetPowerState_def
  PowerImpl_SetWakeupSrc_def PowerImpl_GetWakeupSrc_def

section \<open>Conversions and initialisation\<close>

lemma PowerImpl_conv_from_to [simp]: "PowerImpl_conv_from (PowerImpl_conv_to s) = s"
  by (cases s) simp_all

lemma PowerImpl_conv_to_from [simp]: "PowerImpl_conv_to (PowerImpl_conv_from s) = s"
  by (cases s) simp_all

lemma PowerImpl_conv_is_v1_conv: "PowerImpl_conv_to = v1_conv"
proof
  show "PowerImpl_conv_to s = v1_conv s" for s by (cases s) simp_all
qed

text \<open>Calls of \<^verbatim>\<open>PLAT_INIT\<close> made by the loop, as the states before each of them.\<close>

fun init_states :: "'p plat_api \<Rightarrow> nat \<Rightarrow> 'p \<Rightarrow> 'p list" where
  "init_states api 0 p = []"
| "init_states api (Suc n) p = p # init_states api n (snd (PLAT_INIT api p))"

lemma init_loop_spec:
  "k \<le> 35 \<Longrightarrow> fst (PowerImpl_init_loop api k p) \<longleftrightarrow>
     (\<exists>q \<in> set (init_states api (36 - k) p). fst (PLAT_INIT api q) = Some PWRMGR_SUCCESS)"
proof (induction api k p rule: PowerImpl_init_loop.induct)
  case (1 api k p)
  obtain res p1 where i: "PLAT_INIT api p = (res, p1)" by fastforce
  show ?case
  proof (cases "k < 35")
    case True
    then have "36 - k = Suc (36 - Suc k)" by simp
    with True 1 i show ?thesis by (subst PowerImpl_init_loop.simps) simp
  next
    case False
    with 1(2) have "k = 35" by simp
    with i show ?thesis by (subst PowerImpl_init_loop.simps) simp
  qed
qed

text \<open>
  The platform counts as initialised exactly when one of its first 35 initialisation calls
  succeeds, each made in the state the previous one left; later calls are never made.
\<close>

lemma platform_initialised_iff:
  "fst (PowerImpl_new api p) \<longleftrightarrow>
     (\<exists>q \<in> set (init_states api 35 p). fst (PLAT_INIT api q) = Some PWRMGR_SUCCESS)"
  using init_loop_spec [of 1 api p] by (simp add: PowerImpl_new_def)

text \<open>Setting a wake-up source can only report failure for a negative platform status.\<close>

lemma SetWakeupSrc_failure_iff:
  assumes "pm_val api PWRMGR_SUCCESS = 0" and "\<And>r. pm_val api r = 0 \<Longrightarrow> r = PWRMGR_SUCCESS"
  shows "(case PowerImpl_SetWakeupSrc api src en sp p of (r, s, _) \<Rightarrow> r \<noteq> ERROR_NONE \<and> s) \<longleftrightarrow>
         pm_val api (fst (PLAT_API_SetWakeupSrc api (PowerImpl_conv_src src) en p)) < 0"
proof (cases "PLAT_API_SetWakeupSrc api (PowerImpl_conv_src src) en p")
  case (Pair result p1)
  show ?thesis
    using assms(1) assms(2) [of result]
    by (cases "pm_val api result" "0 :: int" rule: linorder_cases)
       (auto simp: PowerImpl_SetWakeupSrc_def PowerImpl_conv_result_def Pair)
qed

end
