(* ===== verification/DeepSleepHal.thy ===== *)
theory DeepSleepHal
  imports PowerTypes
begin

text \<open>
  The deep-sleep side of the hardware abstraction: \<^verbatim>\<open>hal::deepsleep::IPlatform\<close>
  (\<^verbatim>\<open>plugin/hal/DeepSleep.h\<close>) and \<^verbatim>\<open>DeepSleepImpl\<close> (\<^verbatim>\<open>plugin/hal/DeepSleepImpl.h\<close>). The
  C functions \<^verbatim>\<open>PLAT_DS_xxx\<close> are not in the repository: they are the fields of \<open>ds_api\<close>,
  over a device state \<open>'d\<close>. Entering deep sleep is a call that returns when the device wakes.
\<close>

record 'd deepsleep_platform =
  ipd_SetDeepSleep :: "u32 \<Rightarrow> bool \<Rightarrow> bool \<Rightarrow> 'd \<Rightarrow> hresult \<times> bool \<times> 'd"
  ipd_DeepSleepWakeup :: "'d \<Rightarrow> hresult \<times> 'd"
  ipd_GetLastWakeupReason :: "WakeupReason \<Rightarrow> 'd \<Rightarrow> hresult \<times> WakeupReason"
  ipd_GetLastWakeupKeyCode :: "int \<Rightarrow> 'd \<Rightarrow> hresult \<times> int"

datatype DeepSleep_WakeupReason_t =
    DEEPSLEEP_WAKEUPREASON_IR
  | DEEPSLEEP_WAKEUPREASON_RCU_BT
  | DEEPSLEEP_WAKEUPREASON_RCU_RF4CE
  | DEEPSLEEP_WAKEUPREASON_GPIO
  | DEEPSLEEP_WAKEUPREASON_LAN
  | DEEPSLEEP_WAKEUPREASON_WLAN
  | DEEPSLEEP_WAKEUPREASON_TIMER
  | DEEPSLEEP_WAKEUPREASON_FRONT_PANEL
  | DEEPSLEEP_WAKEUPREASON_WATCHDOG
  | DEEPSLEEP_WAKEUPREASON_SOFTWARE_RESET
  | DEEPSLEEP_WAKEUPREASON_THERMAL_RESET
  | DEEPSLEEP_WAKEUPREASON_WARM_RESET
  | DEEPSLEEP_WAKEUPREASON_COLDBOOT
  | DEEPSLEEP_WAKEUPREASON_STR_AUTH_FAILURE
  | DEEPSLEEP_WAKEUPREASON_CEC
  | DEEPSLEEP_WAKEUPREASON_PRESENCE
  | DEEPSLEEP_WAKEUPREASON_VOICE
  | DEEPSLEEP_WAKEUPREASON_UNKNOWN

datatype DeepSleep_Return_Status_t =
    DEEPSLEEPMGR_SUCCESS
  | DEEPSLEEPMGR_INVALID_ARGUMENT
  | DEEPSLEEPMGR_ALREADY_INITIALIZED
  | DEEPSLEEPMGR_NOT_INITIALIZED
  | DEEPSLEEPMGR_INIT_FAILURE
  | DEEPSLEEPMGR_SET_FAILURE
  | DEEPSLEEPMGR_WAKEUP_FAILURE
  | DEEPSLEEPMGR_TERM_FAILURE
  | DEEPSLEEPMGR_OTHER int      \<comment> \<open>a number that is no enumerator of the switch\<close>

record 'd ds_api =
  PLAT_DS_INIT :: "'d \<Rightarrow> 'd"
  PLAT_DS_TERM :: "'d \<Rightarrow> 'd"
  PLAT_DS_SetDeepSleep :: "u32 \<Rightarrow> bool \<Rightarrow> bool \<Rightarrow> 'd \<Rightarrow> DeepSleep_Return_Status_t \<times> bool \<times> 'd"
  PLAT_DS_DeepSleepWakeup :: "'d \<Rightarrow> DeepSleep_Return_Status_t \<times> 'd"
  PLAT_DS_GetLastWakeupReason :: "DeepSleep_WakeupReason_t \<Rightarrow> 'd \<Rightarrow> DeepSleep_Return_Status_t \<times> DeepSleep_WakeupReason_t"
  PLAT_DS_GetLastWakeupKeyCode :: "int \<Rightarrow> 'd \<Rightarrow> DeepSleep_Return_Status_t \<times> int"
  v_secure_system :: "string \<Rightarrow> 'd \<Rightarrow> int \<times> 'd"

section \<open>\<^verbatim>\<open>DeepSleepImpl\<close>\<close>

primrec DeepSleepImpl_conv_reason :: "DeepSleep_WakeupReason_t \<Rightarrow> WakeupReason" where
  "DeepSleepImpl_conv_reason DEEPSLEEP_WAKEUPREASON_IR = WAKEUP_REASON_IR"
| "DeepSleepImpl_conv_reason DEEPSLEEP_WAKEUPREASON_RCU_BT = WAKEUP_REASON_BLUETOOTH"
| "DeepSleepImpl_conv_reason DEEPSLEEP_WAKEUPREASON_RCU_RF4CE = WAKEUP_REASON_RF4CE"
| "DeepSleepImpl_conv_reason DEEPSLEEP_WAKEUPREASON_GPIO = WAKEUP_REASON_GPIO"
| "DeepSleepImpl_conv_reason DEEPSLEEP_WAKEUPREASON_LAN = WAKEUP_REASON_LAN"
| "DeepSleepImpl_conv_reason DEEPSLEEP_WAKEUPREASON_WLAN = WAKEUP_REASON_WIFI"
| "DeepSleepImpl_conv_reason DEEPSLEEP_WAKEUPREASON_TIMER = WAKEUP_REASON_TIMER"
| "DeepSleepImpl_conv_reason DEEPSLEEP_WAKEUPREASON_FRONT_PANEL = WAKEUP_REASON_FRONTPANEL"
| "DeepSleepImpl_conv_reason DEEPSLEEP_WAKEUPREASON_WATCHDOG = WAKEUP_REASON_WATCHDOG"
| "DeepSleepImpl_conv_reason DEEPSLEEP_WAKEUPREASON_SOFTWARE_RESET = WAKEUP_REASON_SOFTWARERESET"
| "DeepSleepImpl_conv_reason DEEPSLEEP_WAKEUPREASON_THERMAL_RESET = WAKEUP_REASON_THERMALRESET"
| "DeepSleepImpl_conv_reason DEEPSLEEP_WAKEUPREASON_WARM_RESET = WAKEUP_REASON_WARMRESET"
| "DeepSleepImpl_conv_reason DEEPSLEEP_WAKEUPREASON_COLDBOOT = WAKEUP_REASON_COLDBOOT"
| "DeepSleepImpl_conv_reason DEEPSLEEP_WAKEUPREASON_STR_AUTH_FAILURE = WAKEUP_REASON_STRAUTHFAIL"
| "DeepSleepImpl_conv_reason DEEPSLEEP_WAKEUPREASON_CEC = WAKEUP_REASON_CEC"
| "DeepSleepImpl_conv_reason DEEPSLEEP_WAKEUPREASON_PRESENCE = WAKEUP_REASON_PRESENCE"
| "DeepSleepImpl_conv_reason DEEPSLEEP_WAKEUPREASON_VOICE = WAKEUP_REASON_VOICE"
| "DeepSleepImpl_conv_reason DEEPSLEEP_WAKEUPREASON_UNKNOWN = WAKEUP_REASON_UNKNOWN"

primrec DeepSleepImpl_conv_status :: "DeepSleep_Return_Status_t \<Rightarrow> hresult" where
  "DeepSleepImpl_conv_status DEEPSLEEPMGR_SUCCESS = ERROR_NONE"
| "DeepSleepImpl_conv_status DEEPSLEEPMGR_INVALID_ARGUMENT = ERROR_INVALID_PARAMETER"
| "DeepSleepImpl_conv_status DEEPSLEEPMGR_ALREADY_INITIALIZED = ERROR_GENERAL"
| "DeepSleepImpl_conv_status DEEPSLEEPMGR_NOT_INITIALIZED = ERROR_GENERAL"
| "DeepSleepImpl_conv_status DEEPSLEEPMGR_INIT_FAILURE = ERROR_GENERAL"
| "DeepSleepImpl_conv_status DEEPSLEEPMGR_WAKEUP_FAILURE = ERROR_GENERAL"
| "DeepSleepImpl_conv_status DEEPSLEEPMGR_TERM_FAILURE = ERROR_GENERAL"
| "DeepSleepImpl_conv_status DEEPSLEEPMGR_SET_FAILURE = ERROR_ABORTED"
| "DeepSleepImpl_conv_status (DEEPSLEEPMGR_OTHER n) = ERROR_GENERAL"

definition DeepSleepImpl_new :: "'d ds_api \<Rightarrow> 'd \<Rightarrow> 'd" where
  "DeepSleepImpl_new api d = PLAT_DS_INIT api d"

definition DeepSleepImpl_delete :: "'d ds_api \<Rightarrow> 'd \<Rightarrow> 'd" where
  "DeepSleepImpl_delete api d = PLAT_DS_TERM api d"

text \<open>The marker script runs first; its result is only logged.\<close>

definition DeepSleepImpl_SetDeepSleep ::
  "'d ds_api \<Rightarrow> u32 \<Rightarrow> bool \<Rightarrow> bool \<Rightarrow> 'd \<Rightarrow> hresult \<times> bool \<times> 'd" where
  "DeepSleepImpl_SetDeepSleep api deepSleepTime isGPIOWakeup networkStandby d =
     (let d1 = snd (v_secure_system api ''sh /lib/rdk/alertSystem.sh deepSleepMgrMain SYST_INFO_devicetoDS'' d);
          (status, gpio, d2) = PLAT_DS_SetDeepSleep api deepSleepTime isGPIOWakeup networkStandby d1
      in (DeepSleepImpl_conv_status status, gpio, d2))"

definition DeepSleepImpl_DeepSleepWakeup :: "'d ds_api \<Rightarrow> 'd \<Rightarrow> hresult \<times> 'd" where
  "DeepSleepImpl_DeepSleepWakeup api d =
     (let (status, d1) = PLAT_DS_DeepSleepWakeup api d in (DeepSleepImpl_conv_status status, d1))"

definition DeepSleepImpl_GetLastWakeupReason :: "'d ds_api \<Rightarrow> WakeupReason \<Rightarrow> 'd \<Rightarrow> hresult \<times> WakeupReason" where
  "DeepSleepImpl_GetLastWakeupReason api wakeupReason d =
     (let (status, reason) = PLAT_DS_GetLastWakeupReason api DEEPSLEEP_WAKEUPREASON_UNKNOWN d;
          retCode = DeepSleepImpl_conv_status status
      in (retCode, if retCode = ERROR_NONE then DeepSleepImpl_conv_reason reason else wakeupReason))"

definition DeepSleepImpl_GetLastWakeupKeyCode :: "'d ds_api \<Rightarrow> int \<Rightarrow> 'd \<Rightarrow> hresult \<times> int" where
  "DeepSleepImpl_GetLastWakeupKeyCode api wakeupKeyCode d =
     (let (status, keyCode) = PLAT_DS_GetLastWakeupKeyCode api 0 d;
          retCode = DeepSleepImpl_conv_status status
      in (retCode, if retCode = ERROR_NONE then keyCode else wakeupKeyCode))"

definition DeepSleepImpl :: "'d ds_api \<Rightarrow> 'd deepsleep_platform" where
  "DeepSleepImpl api =
     \<lparr>ipd_SetDeepSleep = DeepSleepImpl_SetDeepSleep api,
      ipd_DeepSleepWakeup = DeepSleepImpl_DeepSleepWakeup api,
      ipd_GetLastWakeupReason = DeepSleepImpl_GetLastWakeupReason api,
      ipd_GetLastWakeupKeyCode = DeepSleepImpl_GetLastWakeupKeyCode api\<rparr>"

lemmas deepsleepimpl_defs [pm_ops] =
  DeepSleepImpl_def DeepSleepImpl_SetDeepSleep_def DeepSleepImpl_DeepSleepWakeup_def
  DeepSleepImpl_GetLastWakeupReason_def DeepSleepImpl_GetLastWakeupKeyCode_def

section \<open>Facts\<close>

text \<open>Only a set failure of the platform is reported as an abort, the one code that is retried.\<close>

lemma SetDeepSleep_aborted_iff:
  "fst (ipd_SetDeepSleep (DeepSleepImpl api) t g n d) = ERROR_ABORTED \<longleftrightarrow>
     fst (PLAT_DS_SetDeepSleep api t g n
            (snd (v_secure_system api ''sh /lib/rdk/alertSystem.sh deepSleepMgrMain SYST_INFO_devicetoDS'' d)))
       = DEEPSLEEPMGR_SET_FAILURE"
proof -
  have "DeepSleepImpl_conv_status s = ERROR_ABORTED \<longleftrightarrow> s = DEEPSLEEPMGR_SET_FAILURE" for s
    by (cases s) simp_all
  then show ?thesis by (simp add: deepsleepimpl_defs Let_def split: prod.split)
qed

lemma GetLastWakeupReason_failed:
  "fst (ipd_GetLastWakeupReason (DeepSleepImpl api) r d) \<noteq> ERROR_NONE \<Longrightarrow>
     snd (ipd_GetLastWakeupReason (DeepSleepImpl api) r d) = r"
  by (simp add: deepsleepimpl_defs Let_def split: prod.splits if_splits)

end
