(* ===== verification/DeepSleepWakeup.thy ===== *)
theory DeepSleepWakeup
  imports Settings
begin

text \<open>
  \<^verbatim>\<open>DeepSleepWakeupSettings\<close> (\<^verbatim>\<open>plugin/DeepSleepController.h\<close>, \<^verbatim>\<open>.cpp\<close>): how long the
  device may stay in deep sleep. Unless a client has set a timeout, the device wakes for its
  maintenance between 2 and 3 o'clock at night, in a randomly chosen second.

  The clock, the calendar functions of the C library, the random device and the answer of the
  system manager on the bus are the fields of \<open>calendar\<close>.
\<close>

section \<open>The environment\<close>

record tm =
  tm_hour :: int
  tm_min :: int
  tm_sec :: int
  tm_day :: int      \<comment> \<open>the date fields, which the code copies\<close>

record sysmgr_states =
  tz_error :: bool
  tz_state :: int
  tz_payload :: string

record calendar =
  time_now :: int
  localtime :: "int \<Rightarrow> tm option"
  mktime :: "tm \<Rightarrow> int"
  urandom :: u32
  GetSystemStates :: "sysmgr_states option"    \<comment> \<open>\<open>None\<close>: the bus call failed\<close>

section \<open>Time zones\<close>

definition maptzValues :: "(string \<times> u32) list" where
  "maptzValues =
     [(''HST11'', 11),
      (''HST11HDT,M3.2.0,M11.1.0'', 10),
      (''AKST'', 9),
      (''AKST09AKDT,M3.2.0,M11.1.0'', 8),
      (''PST08'', 8),
      (''PST08PDT,M3.2.0,M11.1.0'', 8),
      (''MST07'', 7),
      (''MST07MDT,M3.2.0,M11.1.0'', 6),
      (''CST06'', 6),
      (''CST06CDT,M3.2.0,M11.1.0'', 5),
      (''EST05'', 5),
      (''EST05EDT,M3.2.0,M11.1.0'', 4)]"

text \<open>\<^verbatim>\<open>std::map::operator[]\<close> gives (and inserts) 0 for a key that is not there.\<close>

definition tz_lookup :: "string \<Rightarrow> u32" where
  "tz_lookup k = (case map_of maptzValues k of None \<Rightarrow> 0 | Some v \<Rightarrow> v)"

definition getTZDiffInSec :: "sysmgr_states option \<Rightarrow> u32" where
  "getTZDiffInSec r =
     (case r of
        None \<Rightarrow> 6 * 3600
      | Some param \<Rightarrow>
          if tz_error param then 6 * 3600
          else if tz_state param = 2
          then (if length (tz_payload param) > 1 then tz_lookup (tz_payload param) * 3600 else 6 * 3600)
          else 6 * 3600)"

section \<open>The wake-up time\<close>

definition wakeup_limit :: u32 where "wakeup_limit = 6 * 24 * 60 * 60"
definition wakeupTimerFile :: string where "wakeupTimerFile = ''/tmp/deepSleepWakeupTimer''"

text \<open>
  The branch of \<^verbatim>\<open>getWakeupTime\<close> that reads the override: \<open>None\<close> when there is no such file
  or \<^verbatim>\<open>fscanf\<close> reports an end of file. When the file holds no number, the initial 5 stays.
\<close>

definition wakeup_override :: "posix \<Rightarrow> u32 option" where
  "wakeup_override fs =
     (case fopen_r wakeupTimerFile fs of
        None \<Rightarrow> None
      | Some t \<Rightarrow>
          (let sec = (\<lambda>m :: u32. if m * 60 > wakeup_limit then wakeup_limit else m * 60)
           in case fscanf_int t of
                ScanEOF \<Rightarrow> None
              | ScanNoMatch \<Rightarrow> Some (sec 5)
              | ScanInt m \<Rightarrow> Some (sec m)))"

text \<open>The conversion of the difference from \<^verbatim>\<open>double\<close> to \<^verbatim>\<open>uint32_t\<close> is exact where it is defined.\<close>

definition getWakeupTime :: "posix \<Rightarrow> calendar \<Rightarrow> u32" where
  "getWakeupTime fs cal =
     (case wakeup_override fs of
        Some t \<Rightarrow> t
      | None \<Rightarrow>
          (case localtime cal (time_now cal) of
             None \<Rightarrow> 0
           | Some wakeupTime \<Rightarrow>
               (let sec =
                  (if tm_hour wakeupTime \<ge> 0 \<and> tm_hour wakeupTime < 2
                   then word_of_int (mktime cal (wakeupTime\<lparr>tm_hour := 2, tm_min := 0, tm_sec := 0\<rparr>)
                                     - time_now cal)
                   else word_of_int (mktime cal (wakeupTime\<lparr>tm_hour := 23, tm_min := 59, tm_sec := 60\<rparr>)
                                     - time_now cal) + 7200);
                    rnd = urandom cal mod 3600
                in sec + rnd + getTZDiffInSec (GetSystemStates cal))))"

section \<open>The object\<close>

text \<open>The object shares the settings of the power controller, and keeps one flag of its own.\<close>

definition DSWS_SetTimeout ::
  "(PWRMgr_PowerState_t \<Rightarrow> u32) \<Rightarrow> u32 \<Rightarrow> Settings \<Rightarrow> posix \<Rightarrow> bool \<times> Settings \<times> posix" where
  "DSWS_SetTimeout val t s fs =
     (let s1 = SetDeepSleepTimeout t s
      in (True, s1, snd (Settings_Save val kSettingsFilePath s1 fs)))"

definition DSWS_timeout :: "bool \<Rightarrow> Settings \<Rightarrow> posix \<Rightarrow> calendar \<Rightarrow> u32" where
  "DSWS_timeout isDeepSleepTimeoutSet s fs cal =
     (if isDeepSleepTimeoutSet then st_deepSleepTimeout s else getWakeupTime fs cal)"

section \<open>When the device wakes\<close>

lemma map_of_range_bound: "list_all (\<lambda>(k, v). P v) xs \<Longrightarrow> map_of xs k = Some v \<Longrightarrow> P v"
  by (induction xs) (auto split: if_splits)

lemma tz_lookup_bound: "tz_lookup k \<le> 11"
proof (cases "map_of maptzValues k")
  case None
  then show ?thesis by (simp add: tz_lookup_def)
next
  case (Some v)
  have "list_all (\<lambda>(k, v). v \<le> 11) maptzValues" by (simp add: maptzValues_def)
  from map_of_range_bound [OF this Some] Some show ?thesis by (simp add: tz_lookup_def)
qed

lemma tz_bound: "uint (getTZDiffInSec r) \<le> 39600"
proof -
  have "uint (tz_lookup k * 3600) \<le> 39600" for k
  proof -
    have "uint (tz_lookup k) \<le> 11" using tz_lookup_bound [of k] by (simp add: word_le_def)
    then show ?thesis by (simp add: uint_word_ariths mod_pos_pos_trivial)
  qed
  then show ?thesis by (auto simp: getTZDiffInSec_def split: option.splits)
qed

definition second_of_day :: "tm \<Rightarrow> int" where
  "second_of_day t = 3600 * tm_hour t + 60 * tm_min t + tm_sec t"

text \<open>
  The documented behaviour of \<^verbatim>\<open>mktime\<close> on a day on which the local clock is not changed:
  another time of the same day lies as far from the current one as the two readings are apart,
  also for the out-of-range second 60.
\<close>

definition regular_day :: "calendar \<Rightarrow> tm \<Rightarrow> bool" where
  "regular_day cal t \<longleftrightarrow>
     localtime cal (time_now cal) = Some t \<and>
     0 \<le> tm_hour t \<and> tm_hour t < 24 \<and> 0 \<le> tm_min t \<and> tm_min t < 60 \<and> 0 \<le> tm_sec t \<and> tm_sec t < 60 \<and>
     (\<forall>h m s. mktime cal (t\<lparr>tm_hour := h, tm_min := m, tm_sec := s\<rparr>) - time_now cal
              = 3600 * h + 60 * m + s - second_of_day t)"

lemma urandom_bound: "0 \<le> uint (u mod 3600 :: u32)" "uint (u mod 3600 :: u32) < 3600"
  by (simp_all add: uint_mod)

text \<open>The words involved are small, so the sums of \<^verbatim>\<open>getWakeupTime\<close> do not wrap.\<close>

lemma uint_sum3:
  fixes a b c :: u32
  assumes "uint a + uint b + uint c < 2 ^ 32"
  shows "uint (a + b + c) = uint a + uint b + uint c"
proof -
  have nn: "0 \<le> uint a" "0 \<le> uint b" "0 \<le> uint c" by simp_all
  then have "uint a + uint b < 2 ^ 32" using assms by linarith
  then have "uint (a + b) = uint a + uint b"
    by (simp add: uint_word_ariths mod_pos_pos_trivial)
  with assms show ?thesis by (simp add: uint_word_ariths(1) [of "a + b"] mod_pos_pos_trivial)
qed

lemma uint_small: "0 \<le> i \<Longrightarrow> i < 2 ^ 32 \<Longrightarrow> uint (word_of_int i :: u32) = i"
  by (simp add: uint_word_of_int)

lemma getWakeupTime_value:
  assumes "wakeup_override fs = None" and "regular_day cal t"
  shows "uint (getWakeupTime fs cal) =
     (if tm_hour t < 2 then 7200 - second_of_day t else 93600 - second_of_day t)
     + uint (urandom cal mod 3600) + uint (getTZDiffInSec (GetSystemStates cal))"
proof -
  let ?d = "if tm_hour t < 2 then 7200 - second_of_day t else 86400 - second_of_day t"
  let ?e = "if tm_hour t < 2 then 0 else 7200 :: int"
  have d: "0 \<le> ?d" "?d \<le> 86400"
    using assms(2) by (auto simp: regular_day_def second_of_day_def)
  have w: "getWakeupTime fs cal =
     word_of_int (?d + ?e) + urandom cal mod 3600 + getTZDiffInSec (GetSystemStates cal)"
    using assms by (auto simp: getWakeupTime_def regular_day_def Let_def)
  have u: "uint (word_of_int (?d + ?e) :: u32) = ?d + ?e"
    using d by (intro uint_small) (auto split: if_splits)
  show ?thesis
    unfolding w using d u urandom_bound [of "urandom cal"] tz_bound [of "GetSystemStates cal"]
    by (subst uint_sum3) (auto split: if_splits)
qed

text \<open>
  C39. Without an override, the time in deep sleep, less the time zone's correction, ends between
  2 and 3 o'clock at night: it is positive and less than 25 hours, and the second of the day at
  which it ends lies in that hour, whatever the random device gives.
\<close>

theorem maintenance_window:
  assumes "wakeup_override fs = None" and "regular_day cal t"
  shows "let d = uint (getWakeupTime fs cal) - uint (getTZDiffInSec (GetSystemStates cal))
         in 0 < d \<and> d < 25 * 3600 \<and>
            2 * 3600 \<le> (second_of_day t + d) mod 86400 \<and> (second_of_day t + d) mod 86400 < 3 * 3600"
proof -
  define r where "r = uint (urandom cal mod 3600)"
  define d where "d = uint (getWakeupTime fs cal) - uint (getTZDiffInSec (GetSystemStates cal))"
  define s where "s = second_of_day t"
  have r: "0 \<le> r" "r < 3600" unfolding r_def by (rule urandom_bound)+
  have s: "0 \<le> s" "s < 86400" "tm_hour t < 2 \<longleftrightarrow> s < 7200"
    using assms(2) by (auto simp: s_def regular_day_def second_of_day_def)
  have "d = (if tm_hour t < 2 then 7200 - s else 93600 - s) + r"
    using getWakeupTime_value [OF assms] by (simp add: d_def r_def s_def)
  then consider "s + d = 7200 + r" "s < 7200" | "s + d = 7200 + r + 86400" "7200 \<le> s"
    using s(3) by (auto split: if_splits)
  then have "0 < d \<and> d < 90000 \<and> (s + d) mod 86400 = 7200 + r"
  proof cases
    case 1
    with r s show ?thesis by auto
  next
    case 2
    then have "(s + d) mod 86400 = (7200 + r) mod 86400" by (simp only: mod_add_self2)
    with 2 r s show ?thesis by auto
  qed
  with r show ?thesis unfolding Let_def d_def [symmetric] s_def [symmetric] by auto
qed

definition demo_tm :: "int \<Rightarrow> tm" where
  "demo_tm n = \<lparr>tm_hour = n mod 86400 div 3600, tm_min = n mod 3600 div 60, tm_sec = n mod 60,
                tm_day = n div 86400\<rparr>"

definition demo_calendar :: calendar where
  "demo_calendar =
     \<lparr>time_now = 1000 * 86400 + 55000, localtime = \<lambda>n. Some (demo_tm n),
      mktime = \<lambda>t. 86400 * tm_day t + second_of_day t, urandom = 4000000000,
      GetSystemStates = Some \<lparr>tz_error = False, tz_state = 2, tz_payload = ''EST05EDT,M3.2.0,M11.1.0''\<rparr>\<rparr>"

lemma demo_regular_day: "regular_day demo_calendar (demo_tm (1000 * 86400 + 55000))"
  by (simp add: regular_day_def demo_calendar_def demo_tm_def second_of_day_def)

lemma maintenance_window_witness:
  "let d = uint (getWakeupTime no_files demo_calendar) - 14400
   in 0 < d \<and> d < 25 * 3600 \<and> 2 * 3600 \<le> (55000 + d) mod 86400 \<and> (55000 + d) mod 86400 < 3 * 3600"
proof -
  have o: "wakeup_override no_files = None"
    by (simp add: wakeup_override_def fopen_r_def no_files_def)
  have tz: "getTZDiffInSec (GetSystemStates demo_calendar) = 14400"
    by (simp add: getTZDiffInSec_def demo_calendar_def tz_lookup_def maptzValues_def)
  have s: "second_of_day (demo_tm (1000 * 86400 + 55000)) = 55000"
    by (simp add: second_of_day_def demo_tm_def)
  show ?thesis
    using maintenance_window [OF o demo_regular_day] unfolding tz s by simp
qed

section \<open>The override file\<close>

text \<open>
  The override file holds minutes: for a number up to 71582788 the device stays in deep
  sleep for that many minutes and six days at most; a file without a number means five minutes.
\<close>

lemma override_minutes:
  "fopen_r wakeupTimerFile fs = Some t \<Longrightarrow>
     (\<forall>m. fscanf_int t = ScanInt m \<longrightarrow> unat m \<le> 71582788 \<longrightarrow>
          unat (getWakeupTime fs cal) = min (6 * 24 * 60 * 60) (60 * unat m)) \<and>
     (fscanf_int t = ScanNoMatch \<longrightarrow> getWakeupTime fs cal = 300)"
proof (intro conjI allI impI)
  fix m assume f: "fopen_r wakeupTimerFile fs = Some t" "fscanf_int t = ScanInt m" and m: "unat m \<le> 71582788"
  have "unat (m * 60) = unat m * unat (60 :: u32)"
    by (rule unat_mult_lem [THEN iffD1]) (use m in simp)
  then have "unat (m * 60) = 60 * unat m" by simp
  with f show "unat (getWakeupTime fs cal) = min (6 * 24 * 60 * 60) (60 * unat m)"
    by (simp add: getWakeupTime_def wakeup_override_def wakeup_limit_def word_less_nat_alt min_def)
next
  assume "fopen_r wakeupTimerFile fs = Some t" "fscanf_int t = ScanNoMatch"
  then show "getWakeupTime fs cal = 300"
    by (simp add: getWakeupTime_def wakeup_override_def wakeup_limit_def)
qed

lemma override_minutes_witness:
  "unat (getWakeupTime (text_file wakeupTimerFile ''90'') demo_calendar) = 5400"
proof -
  have "fscanf_int ''90'' = ScanInt 90"
    by (simp add: fscanf_int_def is_space_def is_digit_def strtol10_def digit_val_def)
  then show ?thesis
    using override_minutes [OF fopen_text_file [of wakeupTimerFile "''90''"], of demo_calendar] by simp
qed

text \<open>
  The product is computed in 32 bits before it is compared with the limit: 71582789 minutes,
  far more than six days, give 44 seconds.
\<close>

lemma override_wraps_before_the_clamp:
  "getWakeupTime (text_file wakeupTimerFile ''71582789'') cal = 44"
  by (simp add: getWakeupTime_def wakeup_override_def fopen_text_file fscanf_int_def is_space_def
        is_digit_def strtol10_def digit_val_def wakeup_limit_def)

end
