(* ===== verification/DeepSleepController.thy ===== *)
theory DeepSleepController
  imports DeepSleepHal DeepSleepWakeup
begin

text \<open>
  \<^verbatim>\<open>DeepSleepController\<close> (\<^verbatim>\<open>plugin/DeepSleepController.h\<close>, \<^verbatim>\<open>.cpp\<close>): entering deep sleep
  on a worker thread, with a delay, retries and an abort flag that another thread may set at
  any time.

  \<open>enter_step\<close> is the body of \<^verbatim>\<open>enterDeepSleepNow\<close>, cut where another thread can act: at the
  end of each wait, at the head of the retry loop and around the blocking call of the platform.
  \<open>enterDeepSleepNow\<close> iterates it for a thread that is not disturbed; \<open>ds_step\<close> interleaves
  it with the other operations. Calls of the parent's notification interface are the values
  \<open>ds_call\<close>; \<open>dsc_delayJob\<close> is the delay, in milliseconds, of the job queued in the worker
  pool.
\<close>

section \<open>State and operations\<close>

datatype DeepSleepState = DS_Failed | DS_NotStarted | DS_InProgress | DS_Completed

record 'd dsc =
  dsc_state :: DeepSleepState
  dsc_startTime :: int
  dsc_delaySec :: u32
  dsc_wakeupTimeoutSec :: u32
  dsc_delayJob :: "u32 option"
  dsc_nwStandbyMode :: bool
  dsc_abort :: bool
  dsc_dev :: 'd

datatype ds_call =
    onDeepSleepTimerWakeup int
  | onDeepSleepUserWakeup bool
  | onDeepSleepFailed

definition DeepSleepController_new :: "'d \<Rightarrow> 'd dsc" where
  "DeepSleepController_new d =
     \<lparr>dsc_state = DS_NotStarted, dsc_startTime = 0, dsc_delaySec = 0, dsc_wakeupTimeoutSec = 0,
      dsc_delayJob = None, dsc_nwStandbyMode = False, dsc_abort = False, dsc_dev = d\<rparr>"

definition DeepSleepController_delete :: "'d dsc \<Rightarrow> 'd dsc" where
  "DeepSleepController_delete s = (if dsc_delayJob s \<noteq> None then s\<lparr>dsc_delayJob := None\<rparr> else s)"

definition DSC_GetLastWakeupReason :: "'d deepsleep_platform \<Rightarrow> WakeupReason \<Rightarrow> 'd dsc \<Rightarrow> hresult \<times> WakeupReason" where
  "DSC_GetLastWakeupReason pl r s = ipd_GetLastWakeupReason pl r (dsc_dev s)"

definition DSC_GetLastWakeupKeyCode :: "'d deepsleep_platform \<Rightarrow> int \<Rightarrow> 'd dsc \<Rightarrow> hresult \<times> int" where
  "DSC_GetLastWakeupKeyCode pl k s = ipd_GetLastWakeupKeyCode pl k (dsc_dev s)"

text \<open>\<^verbatim>\<open>Elapsed\<close>, in the clock's nanoseconds.\<close>

definition Elapsed :: "int \<Rightarrow> 'd dsc \<Rightarrow> int" where
  "Elapsed now s = (if dsc_startTime s = 0 then 0 else now - dsc_startTime s)"

definition IsDeepSleepInProgress :: "'d dsc \<Rightarrow> bool" where
  "IsDeepSleepInProgress s \<longleftrightarrow> dsc_state s = DS_InProgress"

text \<open>
  The abort flag, under its mutex. A delay that can be aborted ends when the flag is set or the
  time is over, and reports the flag.
\<close>

definition requestAbortDeepSleep :: "'d dsc \<Rightarrow> 'd dsc" where
  [simp]: "requestAbortDeepSleep s = s\<lparr>dsc_abort := True\<rparr>"

definition clearAbortDeepSleep :: "'d dsc \<Rightarrow> 'd dsc" where
  [simp]: "clearAbortDeepSleep s = s\<lparr>dsc_abort := False\<rparr>"

definition isAbortDeepSleepRequested :: "'d dsc \<Rightarrow> bool" where
  [simp]: "isAbortDeepSleepRequested s = dsc_abort s"

definition waitForAbortableDelay :: "'d dsc \<Rightarrow> bool" where
  [simp]: "waitForAbortableDelay s = dsc_abort s"

definition Deactivate :: "'d deepsleep_platform \<Rightarrow> 'd dsc \<Rightarrow> hresult \<times> 'd dsc" where
  "Deactivate pl s =
     (let s1 = requestAbortDeepSleep s;
          s2 = (if dsc_delayJob s1 \<noteq> None then s1\<lparr>dsc_delayJob := None\<rparr> else s1);
          (errorCode, d) = ipd_DeepSleepWakeup pl (dsc_dev s2)
      in (errorCode, s2\<lparr>dsc_dev := d, dsc_state := DS_NotStarted\<rparr>))"

definition read_integer_conf :: "string \<Rightarrow> u32 \<Rightarrow> posix \<Rightarrow> bool \<times> u32" where
  "read_integer_conf file_name val fs =
     (case fopen_r file_name fs of
        None \<Rightarrow> (False, val)
      | Some t \<Rightarrow> (case fscanf_int t of ScanInt v \<Rightarrow> (True, v) | _ \<Rightarrow> (False, val)))"

definition delayTimerFile :: string where "delayTimerFile = ''/tmp/deepSleepDelayTimer''"

text \<open>What an activation does next: nothing, wait for the queued job, or enter deep sleep.\<close>

datatype activation = ActIgnored | ActDelayed | ActNow

definition performActivate ::
  "int \<Rightarrow> posix \<Rightarrow> u32 \<Rightarrow> bool \<Rightarrow> 'd dsc \<Rightarrow> activation \<times> 'd dsc" where
  "performActivate now fs timeOut nwStandbyMode s =
     (if \<not> IsDeepSleepInProgress s
      then let s1 = (clearAbortDeepSleep s)\<lparr>dsc_state := DS_InProgress, dsc_startTime := now,
                      dsc_nwStandbyMode := nwStandbyMode, dsc_wakeupTimeoutSec := timeOut,
                      dsc_delaySec := 0\<rparr>;
               (ok1, delayTimeOut) = read_integer_conf delayTimerFile 0 fs;
               s2 = (if ok1 \<and> delayTimeOut \<noteq> 0 then s1\<lparr>dsc_delaySec := delayTimeOut\<rparr> else s1);
               (ok2, wakeupTimer) = read_integer_conf wakeupTimerFile 0 fs;
               s3 = (if ok2 \<and> wakeupTimer \<noteq> 0 then s2\<lparr>dsc_wakeupTimeoutSec := wakeupTimer\<rparr> else s2)
           in if dsc_delaySec s3 \<noteq> 0
              then (ActDelayed, s3\<lparr>dsc_delayJob := Some (dsc_delaySec s3 * 1000)\<rparr>)
              else (ActNow, s3)
      else (ActIgnored, s))"

text \<open>The parent is notified of a timer wake-up whatever the elapsed time and the reason are.\<close>

definition deepSleepTimerWakeup :: "'d dsc \<Rightarrow> ds_call" where
  "deepSleepTimerWakeup s = onDeepSleepTimerWakeup (sint (dsc_wakeupTimeoutSec s))"

section \<open>Entering deep sleep\<close>

text \<open>
  The points of \<^verbatim>\<open>enterDeepSleepNow\<close>: in the first delay, at the head of the loop, in the
  platform's call, in the delay before a retry, and returned, with the parent's callback if one
  was called. Between them travel \<^verbatim>\<open>retryCount\<close>, \<^verbatim>\<open>userWakeup\<close> and, during the call,
  its arguments.
\<close>

datatype ds_pc =
    PreDelay
  | RetryLoop nat bool
  | InSetDeepSleep nat bool u32 bool
  | RetryDelay nat bool
  | Returned "ds_call option"

fun enter_step :: "'d deepsleep_platform \<Rightarrow> ds_pc \<Rightarrow> 'd dsc \<Rightarrow> ds_pc \<times> 'd dsc" where
  "enter_step pl PreDelay s =
     (if waitForAbortableDelay s then (Returned None, s\<lparr>dsc_state := DS_NotStarted\<rparr>) else (RetryLoop 5 False, s))"
| "enter_step pl (RetryLoop retryCount userWakeup) s =
     (if retryCount = 0 then (Returned (Some onDeepSleepFailed), s)
      else if isAbortDeepSleepRequested s then (Returned None, s\<lparr>dsc_state := DS_NotStarted\<rparr>)
      else (InSetDeepSleep retryCount userWakeup (dsc_wakeupTimeoutSec s) (dsc_nwStandbyMode s), s))"
| "enter_step pl (InSetDeepSleep retryCount userWakeup timeout nw) s =
     (let (errorCode, userWakeup1, d) = ipd_SetDeepSleep pl timeout userWakeup nw (dsc_dev s);
          s1 = s\<lparr>dsc_dev := d\<rparr>
      in if errorCode \<noteq> ERROR_NONE
         then let s2 = s1\<lparr>dsc_state := DS_Failed\<rparr>; retryCount1 = retryCount - 1
              in if errorCode = ERROR_ABORTED \<and> retryCount1 > 0 then (RetryDelay retryCount1 userWakeup1, s2)
                 else (Returned (Some onDeepSleepFailed), s2)
         else let s2 = s1\<lparr>dsc_state := DS_Completed\<rparr>
              in (Returned (Some (if userWakeup1 then onDeepSleepUserWakeup userWakeup1
                                  else deepSleepTimerWakeup s2)), s2))"
| "enter_step pl (RetryDelay retryCount userWakeup) s =
     (if waitForAbortableDelay s then (Returned None, s\<lparr>dsc_state := DS_NotStarted\<rparr>)
      else (RetryLoop retryCount userWakeup, s))"
| "enter_step pl (Returned c) s = (Returned c, s)"

fun ds_rank :: "ds_pc \<Rightarrow> nat" where
  "ds_rank PreDelay = 18"
| "ds_rank (RetryLoop r u) = 3 * r + 2"
| "ds_rank (InSetDeepSleep r u t n) = 3 * r + 1"
| "ds_rank (RetryDelay r u) = 3 * r + 3"
| "ds_rank (Returned c) = 0"

definition returned :: "ds_pc \<Rightarrow> bool" where
  "returned pc \<longleftrightarrow> ds_rank pc = 0"

lemma returned_simps [simp]:
  "\<not> returned PreDelay" "\<not> returned (RetryLoop r u)" "\<not> returned (InSetDeepSleep r u t n)"
  "\<not> returned (RetryDelay r u)" "returned (Returned c)"
  by (simp_all add: returned_def)

lemma returned_iff: "returned pc \<longleftrightarrow> (\<exists>c. pc = Returned c)"
  by (cases pc) simp_all

text \<open>Whatever the state is at each step, a step that is not the last brings a thread closer to its end.\<close>

lemma enter_step_rank: "\<not> returned pc \<Longrightarrow> ds_rank (fst (enter_step pl pc s)) < ds_rank pc"
  by (cases pc) (auto simp: Let_def split: prod.split)

function ds_run :: "'d deepsleep_platform \<Rightarrow> ds_pc \<Rightarrow> 'd dsc \<Rightarrow> ds_call option \<times> 'd dsc" where
  "ds_run pl pc s =
     (case pc of
        Returned c \<Rightarrow> (c, s)
      | _ \<Rightarrow> ds_run pl (fst (enter_step pl pc s)) (snd (enter_step pl pc s)))"
  by pat_completeness auto
termination
proof (relation "measure (\<lambda>(pl, pc, s). ds_rank pc)", goal_cases)
  case 1
  show ?case by simp
qed (simp_all only: in_measure prod.case, (rule enter_step_rank, simp)+)

declare ds_run.simps [simp del]

lemma ds_run_Returned [simp]: "ds_run pl (Returned c) s = (c, s)"
  by (simp add: ds_run.simps)

lemma ds_run_step: "\<not> returned pc \<Longrightarrow> ds_run pl pc s = ds_run pl (fst (enter_step pl pc s)) (snd (enter_step pl pc s))"
  by (subst ds_run.simps) (cases pc; simp del: enter_step.simps)

text \<open>A thread that nothing disturbs, and the job that the delay queues.\<close>

definition enterDeepSleepNow :: "'d deepsleep_platform \<Rightarrow> 'd dsc \<Rightarrow> ds_call option \<times> 'd dsc" where
  "enterDeepSleepNow pl s = ds_run pl PreDelay s"

definition enterDeepSleepDelayed :: "'d dsc \<Rightarrow> ds_pc \<times> 'd dsc" where
  "enterDeepSleepDelayed s = (PreDelay, s\<lparr>dsc_delayJob := None\<rparr>)"

lemmas dsc_defs [pm_ops] =
  Deactivate_def performActivate_def enterDeepSleepDelayed_def IsDeepSleepInProgress_def
  deepSleepTimerWakeup_def

section \<open>Attempts and their bound\<close>

text \<open>
  What a thread promises: call the platform until it answers anything but an abort, five times
  at most.
\<close>

fun attempts :: "'d deepsleep_platform \<Rightarrow> u32 \<Rightarrow> bool \<Rightarrow> nat \<Rightarrow> bool \<Rightarrow> 'd \<Rightarrow> hresult \<times> bool \<times> 'd" where
  "attempts pl t n 0 u d = (ERROR_ABORTED, u, d)"
| "attempts pl t n (Suc r) u d =
     (let (e, u1, d1) = ipd_SetDeepSleep pl t u n d
      in if e = ERROR_ABORTED \<and> r > 0 then attempts pl t n r u1 d1 else (e, u1, d1))"

definition deep_sleep_outcome :: "'d dsc \<Rightarrow> hresult \<times> bool \<times> 'd \<Rightarrow> ds_call option \<times> 'd dsc" where
  "deep_sleep_outcome s r =
     (case r of (e, u, d) \<Rightarrow>
        if e = ERROR_NONE
        then (Some (if u then onDeepSleepUserWakeup True
                    else onDeepSleepTimerWakeup (sint (dsc_wakeupTimeoutSec s))),
              s\<lparr>dsc_dev := d, dsc_state := DS_Completed\<rparr>)
        else (Some onDeepSleepFailed, s\<lparr>dsc_dev := d, dsc_state := DS_Failed\<rparr>))"

lemma deep_sleep_outcome_upd:
  "deep_sleep_outcome (s\<lparr>dsc_dev := d, dsc_state := x\<rparr>) r = deep_sleep_outcome s r"
  by (simp add: deep_sleep_outcome_def split: prod.split)

lemma ds_run_RetryLoop:
  "\<not> dsc_abort s \<Longrightarrow>
     ds_run pl (RetryLoop (Suc r) u) s =
       deep_sleep_outcome s (attempts pl (dsc_wakeupTimeoutSec s) (dsc_nwStandbyMode s) (Suc r) u (dsc_dev s))"
proof (induction r arbitrary: u s)
  case 0
  then show ?case
    by (auto simp: ds_run_step Let_def deep_sleep_outcome_def deepSleepTimerWakeup_def split: prod.split)
next
  case (Suc r)
  obtain e u1 d1 where c:
    "ipd_SetDeepSleep pl (dsc_wakeupTimeoutSec s) u (dsc_nwStandbyMode s) (dsc_dev s) = (e, u1, d1)"
    by (metis prod_cases3)
  let ?s = "s\<lparr>dsc_dev := d1, dsc_state := DS_Failed\<rparr>"
  have "ds_run pl (RetryLoop (Suc r) u1) ?s =
      deep_sleep_outcome ?s (attempts pl (dsc_wakeupTimeoutSec ?s) (dsc_nwStandbyMode ?s) (Suc r) u1 (dsc_dev ?s))"
    using Suc.prems by (intro Suc.IH) simp
  then have IH: "ds_run pl (RetryLoop (Suc r) u1) ?s =
      deep_sleep_outcome s (attempts pl (dsc_wakeupTimeoutSec s) (dsc_nwStandbyMode s) (Suc r) u1 d1)"
    by (simp add: deep_sleep_outcome_upd del: attempts.simps)
  show ?case
  proof (cases "e = ERROR_ABORTED")
    case True
    have "ds_run pl (RetryLoop (Suc (Suc r)) u) s = ds_run pl (RetryLoop (Suc r) u1) ?s"
      using Suc.prems True by (simp add: ds_run_step [of "RetryLoop (Suc (Suc r)) u"]
          ds_run_step [of "InSetDeepSleep x y z w" for x y z w] ds_run_step [of "RetryDelay x y" for x y] c)
    then show ?thesis
      using IH True c by (simp add: attempts.simps(2) [of _ _ _ "Suc r"] del: attempts.simps)
  next
    case False
    then show ?thesis
      using Suc.prems c by (simp add: ds_run_step deep_sleep_outcome_def deepSleepTimerWakeup_def)
  qed
qed

text \<open>
  C20. A thread that enters deep sleep and is not asked to stop calls the platform with the
  configured timeout and network flag until the answer is not an abort, five times at most;
  the last answer decides the callback and the final state.
\<close>

theorem enter_deep_sleep_refines_attempts:
  "\<not> dsc_abort s \<Longrightarrow>
     enterDeepSleepNow pl s =
       deep_sleep_outcome s (attempts pl (dsc_wakeupTimeoutSec s) (dsc_nwStandbyMode s) 5 False (dsc_dev s))"
  using ds_run_RetryLoop [of s pl 4 False]
  by (simp add: enterDeepSleepNow_def ds_run_step [of PreDelay] del: attempts.simps)

text \<open>A platform that counts its calls, aborts the first three and is woken by the user.\<close>

definition demo_ds :: "nat deepsleep_platform" where
  "demo_ds =
     \<lparr>ipd_SetDeepSleep = \<lambda>t g n d. (if d < 3 then ERROR_ABORTED else ERROR_NONE, d \<ge> 3, Suc d),
      ipd_DeepSleepWakeup = \<lambda>d. (ERROR_NONE, d),
      ipd_GetLastWakeupReason = \<lambda>r d. (ERROR_NONE, WAKEUP_REASON_TIMER),
      ipd_GetLastWakeupKeyCode = \<lambda>k d. (ERROR_NONE, 0)\<rparr>"

lemma enter_deep_sleep_refines_attempts_witness:
  "enterDeepSleepNow demo_ds (DeepSleepController_new 0) =
     (Some (onDeepSleepUserWakeup True), (DeepSleepController_new 0)\<lparr>dsc_dev := 4, dsc_state := DS_Completed\<rparr>)"
proof -
  have "\<not> dsc_abort (DeepSleepController_new (0 :: nat))" by (simp add: DeepSleepController_new_def)
  from enter_deep_sleep_refines_attempts [OF this, of demo_ds] show ?thesis
    by (simp add: numeral_eq_Suc demo_ds_def DeepSleepController_new_def deep_sleep_outcome_def)
qed

end
