(* ===== verification/PowerController.thy ===== *)
theory PowerController
  imports PowerHal DeepSleepController
begin

text \<open>
  \<^verbatim>\<open>plugin/PowerController.h\<close>, \<^verbatim>\<open>.cpp\<close>: the component that sets the platform's power
  state, records it in the settings file, and configures the wake-up sources.

  \<open>'p\<close> is the state of the platform behind \<^verbatim>\<open>hal::power::IPlatform\<close>. The settings path is
  the default one; \<open>val\<close> and \<open>platco\<close> are those of the settings. A job submitted to the
  worker pool is a result, to be run later (\<open>reboot_job\<close>, the arguments of \<^verbatim>\<open>Activate\<close>).
  The settings members \<^verbatim>\<open>_powerStateBeforeReboot\<close> (never used) and \<^verbatim>\<open>_workerPool\<close> have
  no field.
\<close>

section \<open>State and operations\<close>

record 'p pwc =
  pwc_platform :: 'p
  pwc_lastKnown :: PowerState
  pwc_settings :: Settings
  pwc_timeoutSet :: bool            \<comment> \<open>\<^verbatim>\<open>_deepSleepWakeupSettings._isDeepSleepTimeoutSet\<close>\<close>
  pwc_wakeupTimestamp :: int
  pwc_fs :: posix

definition ignoreDeepSleepFile :: string where "ignoreDeepSleepFile = ''/tmp/ignoredeepsleep''"

definition pwc_save :: "(PWRMgr_PowerState_t \<Rightarrow> u32) \<Rightarrow> 'p pwc \<Rightarrow> bool \<times> 'p pwc" where
  "pwc_save val s =
     (let (ok, fs) = Settings_Save val kSettingsFilePath (pwc_settings s) (pwc_fs s)
      in (ok, s\<lparr>pwc_fs := fs\<rparr>))"

definition PWC_SetPowerState ::
  "'p power_platform \<Rightarrow> (PWRMgr_PowerState_t \<Rightarrow> u32) \<Rightarrow> int \<Rightarrow> int \<Rightarrow> PowerState \<Rightarrow> string \<Rightarrow> 'p pwc \<Rightarrow> hresult \<times> 'p pwc"
where
  "PWC_SetPowerState pl val now keyCode powerState reason s =
     (if file_exists ignoreDeepSleepFile (pwc_fs s) \<and> powerState = POWER_STATE_STANDBY_DEEP_SLEEP
      then (ERROR_ILLEGAL_STATE, s)
      else let curState = st_powerState (pwc_settings s);
               (errCode, p) = ipp_SetPowerState pl powerState (pwc_platform s);
               s1 = s\<lparr>pwc_platform := p\<rparr>
           in if errCode \<noteq> ERROR_NONE then (errCode, s1)
              else let s2 = s1\<lparr>pwc_settings := Settings_SetPowerState now powerState (pwc_settings s1)\<rparr>;
                       s3 = snd (pwc_save val s2);
                       s4 = s3\<lparr>pwc_lastKnown := curState\<rparr>;
                       s5 = (if powerState = POWER_STATE_ON \<and> curState \<noteq> POWER_STATE_ON
                             then s4\<lparr>pwc_wakeupTimestamp := now\<rparr> else s4)
                   in (errCode, s5))"

definition PWC_GetPowerState :: "'p pwc \<Rightarrow> hresult \<times> PowerState \<times> PowerState" where
  "PWC_GetPowerState s = (ERROR_NONE, st_powerState (pwc_settings s), pwc_lastKnown s)"

definition PWC_GetPowerStateBeforeReboot :: "'p pwc \<Rightarrow> hresult \<times> PowerState" where
  "PWC_GetPowerStateBeforeReboot s = (ERROR_NONE, st_powerStateBeforeReboot (pwc_settings s))"

text \<open>The arguments with which \<^verbatim>\<open>DeepSleepController::Activate\<close> is called.\<close>

definition PWC_ActivateDeepSleep :: "calendar \<Rightarrow> 'p pwc \<Rightarrow> u32 \<times> bool" where
  "PWC_ActivateDeepSleep cal s =
     (DSWS_timeout (pwc_timeoutSet s) (pwc_settings s) (pwc_fs s) cal, st_nwStandbyMode (pwc_settings s))"

fun set_wakeup_srcs :: "'p power_platform \<Rightarrow> WakeupSourceConfig list \<Rightarrow> bool \<Rightarrow> 'p \<Rightarrow> bool \<times> 'p" where
  "set_wakeup_srcs pl [] failed p = (failed, p)"
| "set_wakeup_srcs pl (config # configs) failed p =
     (let (result, supported, p1) = ipp_SetWakeupSrc pl (wsc_wakeupSource config) (wsc_enabled config) False p
      in set_wakeup_srcs pl configs (if result \<noteq> ERROR_NONE \<and> supported then True else failed) p1)"

definition PWC_SetWakeupSourceConfig :: "'p power_platform \<Rightarrow> WakeupSourceConfig list \<Rightarrow> 'p pwc \<Rightarrow> hresult \<times> 'p pwc" where
  "PWC_SetWakeupSourceConfig pl configs s =
     (let (failed, p) = set_wakeup_srcs pl configs False (pwc_platform s)
      in (if failed then ERROR_GENERAL else ERROR_NONE, s\<lparr>pwc_platform := p\<rparr>))"

fun get_wakeup_srcs ::
  "'p power_platform \<Rightarrow> 'p \<Rightarrow> WakeupSrcType list \<Rightarrow> bool \<Rightarrow> WakeupSourceConfig list \<Rightarrow> bool \<times> WakeupSourceConfig list"
where
  "get_wakeup_srcs pl p [] failed configs = (failed, configs)"
| "get_wakeup_srcs pl p (src # srcs) failed configs =
     (let (result, enabled, supported) = ipp_GetWakeupSrc pl src False False p
      in if result = ERROR_NONE
         then get_wakeup_srcs pl p srcs failed (configs @ [\<lparr>wsc_wakeupSource = src, wsc_enabled = enabled\<rparr>])
         else if \<not> supported then get_wakeup_srcs pl p srcs failed configs
         else get_wakeup_srcs pl p srcs True configs)"

definition PWC_GetWakeupSourceConfig ::
  "'p power_platform \<Rightarrow> WakeupSourceConfig list \<Rightarrow> 'p pwc \<Rightarrow> hresult \<times> WakeupSourceConfig list" where
  "PWC_GetWakeupSourceConfig pl configs s =
     (let (failed, cs) = get_wakeup_srcs pl (pwc_platform s) wakeup_sources False configs
      in (if failed then ERROR_GENERAL else ERROR_NONE, cs))"

definition nw_configs :: "bool \<Rightarrow> WakeupSourceConfig list" where
  "nw_configs b = [\<lparr>wsc_wakeupSource = WAKEUP_SRC_WIFI, wsc_enabled = b\<rparr>,
                   \<lparr>wsc_wakeupSource = WAKEUP_SRC_LAN, wsc_enabled = b\<rparr>]"

definition PWC_SetNetworkStandbyMode ::
  "'p power_platform \<Rightarrow> (PWRMgr_PowerState_t \<Rightarrow> u32) \<Rightarrow> bool \<Rightarrow> 'p pwc \<Rightarrow> hresult \<times> 'p pwc" where
  "PWC_SetNetworkStandbyMode pl val standbyMode s =
     (if standbyMode = st_nwStandbyMode (pwc_settings s) then (ERROR_NONE, s)
      else let (errorCode, s1) = PWC_SetWakeupSourceConfig pl (nw_configs standbyMode) s
           in if errorCode = ERROR_NONE
              then let s2 = s1\<lparr>pwc_settings := SetNwStandbyMode standbyMode (pwc_settings s1)\<rparr>;
                       (ok, s3) = pwc_save val s2
                   in (if \<not> ok then ERROR_GENERAL else errorCode, s3)
              else (errorCode, s1))"

definition PWC_GetNetworkStandbyMode :: "'p pwc \<Rightarrow> hresult \<times> bool" where
  "PWC_GetNetworkStandbyMode s = (ERROR_NONE, st_nwStandbyMode (pwc_settings s))"

text \<open>The job that \<^verbatim>\<open>Reboot\<close> submits: the shell commands it runs, as format and arguments.\<close>

definition reboot_job :: "string \<Rightarrow> string \<Rightarrow> string \<Rightarrow> posix \<Rightarrow> (string \<times> string list) list" where
  "reboot_job requestor reasonCustom reasonOther fs =
     [(''echo 0 > /opt/.rebootFlag'', []),
      if file_exists ''/rebootNow.sh'' fs
      then (''/rebootNow.sh -s '' @ [CHR 0x27] @ ''%s'' @ [CHR 0x27] @ '' -r '' @ [CHR 0x27] @ ''%s'' @ [CHR 0x27]
              @ '' -o '' @ [CHR 0x27] @ ''%s'' @ [CHR 0x27], [requestor, reasonCustom, reasonOther])
      else (''/lib/rdk/rebootNow.sh -s '' @ [CHR 0x27] @ ''%s'' @ [CHR 0x27] @ '' -r '' @ [CHR 0x27] @ ''%s'' @ [CHR 0x27]
              @ '' -o '' @ [CHR 0x27] @ ''%s'' @ [CHR 0x27], [requestor, reasonCustom, reasonOther])]"

definition PWC_Reboot :: "string \<Rightarrow> string \<Rightarrow> string \<Rightarrow> hresult \<times> (posix \<Rightarrow> (string \<times> string list) list)" where
  "PWC_Reboot requestor reasonCustom reasonOther =
     (ERROR_NONE, reboot_job requestor reasonCustom reasonOther)"

text \<open>The settings are saved twice, by \<^verbatim>\<open>SetTimeout\<close> and by the caller.\<close>

definition PWC_SetDeepSleepTimer ::
  "(PWRMgr_PowerState_t \<Rightarrow> u32) \<Rightarrow> int \<Rightarrow> 'p pwc \<Rightarrow> hresult \<times> 'p pwc" where
  "PWC_SetDeepSleepTimer val timeOut s =
     (let (flag, st, fs) = DSWS_SetTimeout val (word_of_int timeOut) (pwc_settings s) (pwc_fs s);
          s1 = s\<lparr>pwc_timeoutSet := flag, pwc_settings := st, pwc_fs := fs\<rparr>
      in (ERROR_NONE, snd (pwc_save val s1)))"

text \<open>\<^verbatim>\<open>duration_cast\<close> from nanoseconds to seconds, truncating.\<close>

definition to_seconds :: "int \<Rightarrow> int" where
  "to_seconds ns = sgn ns * (\<bar>ns\<bar> div 1000000000)"

definition PWC_GetTimeSinceWakeup :: "int \<Rightarrow> 'p pwc \<Rightarrow> hresult \<times> u32" where
  "PWC_GetTimeSinceWakeup now s =
     (if st_powerState (pwc_settings s) \<noteq> POWER_STATE_ON then (ERROR_NONE, 0)
      else let elapsedSeconds = to_seconds (now - pwc_wakeupTimestamp s)
           in (ERROR_NONE, if elapsedSeconds > 4294967295 then 4294967295 else word_of_int elapsedSeconds))"

definition PWC_init ::
  "'p power_platform \<Rightarrow> (PWRMgr_PowerState_t \<Rightarrow> u32) \<Rightarrow> int \<Rightarrow> 'p pwc \<Rightarrow> 'p pwc" where
  "PWC_init pl val now s =
     (let s1 = s\<lparr>pwc_lastKnown := st_powerState (pwc_settings s)\<rparr>;
          (errorCode, currentState, p) = ipp_GetPowerState pl POWER_STATE_UNKNOWN (pwc_platform s1);
          s2 = s1\<lparr>pwc_platform := p\<rparr>;
          s5 = (if errorCode \<noteq> ERROR_NONE then s2
                else if st_powerState (pwc_settings s2) = currentState then s2
                else let (errorCode2, s3) =
                           PWC_SetPowerState pl val now 0 (st_powerState (pwc_settings s2)) ''Initialization'' s2
                     in if errorCode2 = ERROR_NONE then s3
                        else let s4 = s3\<lparr>pwc_settings := Settings_SetPowerState now currentState (pwc_settings s3)\<rparr>
                             in snd (pwc_save val s4))
      in if st_powerState (pwc_settings s5) = POWER_STATE_ON then s5\<lparr>pwc_wakeupTimestamp := now\<rparr> else s5)"

definition PWC_new ::
  "'p power_platform \<Rightarrow> (PWRMgr_PowerState_t \<Rightarrow> u32) \<Rightarrow> bool \<Rightarrow> int \<Rightarrow> 'p \<Rightarrow> posix \<Rightarrow> 'p pwc" where
  "PWC_new pl val platco now p fs =
     (let (st, fs1) = Settings_Load val platco now kSettingsFilePath fs;
          s = \<lparr>pwc_platform = p, pwc_lastKnown = POWER_STATE_ON, pwc_settings = st, pwc_timeoutSet = False,
               pwc_wakeupTimestamp = 0, pwc_fs = fs1\<rparr>;
          (_, s1) = PWC_SetWakeupSourceConfig pl (nw_configs (st_nwStandbyMode st)) s
      in PWC_init pl val now s1)"

lemmas pwc_defs [pm_ops] =
  pwc_save_def PWC_SetPowerState_def PWC_SetNetworkStandbyMode_def PWC_SetDeepSleepTimer_def
  PWC_SetWakeupSourceConfig_def PWC_init_def DSWS_SetTimeout_def

section \<open>Wake-up sources\<close>

lemma get_wakeup_srcs_spec:
  "get_wakeup_srcs pl p srcs failed configs =
     (failed \<or> (\<exists>src \<in> set srcs. case ipp_GetWakeupSrc pl src False False p of
                   (r, _, spt) \<Rightarrow> r \<noteq> ERROR_NONE \<and> spt),
      configs @ [\<lparr>wsc_wakeupSource = src, wsc_enabled = fst (snd (ipp_GetWakeupSrc pl src False False p))\<rparr>.
                   src \<leftarrow> srcs, fst (ipp_GetWakeupSrc pl src False False p) = ERROR_NONE])"
  by (induction srcs arbitrary: failed configs) (auto simp: Let_def split: prod.splits)

lemma map_filter_src:
  "map wsc_wakeupSource [\<lparr>wsc_wakeupSource = src, wsc_enabled = f src\<rparr>. src \<leftarrow> srcs, P src] = filter P srcs"
  by (induction srcs) auto

lemma sorted_wrt_filter_less: "sorted_wrt (<) xs \<Longrightarrow> sorted_wrt (<) (filter P (xs :: WakeupSrcType list))"
  by (rule sorted_wrt_filter)

text \<open>
  Reading the wake-up configuration lists every source that the platform can read, once, in
  the enumeration's order and with the platform's value, never the unknown one; it fails exactly
  when a source that is supported cannot be read.
\<close>

lemma wakeup_config_is_complete:
  "let (err, configs) = PWC_GetWakeupSourceConfig pl [] s;
       get = \<lambda>src. ipp_GetWakeupSrc pl src False False (pwc_platform s)
   in sorted_wrt (<) (map wsc_wakeupSource configs) \<and>
      set configs = {\<lparr>wsc_wakeupSource = src, wsc_enabled = fst (snd (get src))\<rparr> | src.
                       src \<noteq> WAKEUP_SRC_UNKNOWN \<and> fst (get src) = ERROR_NONE} \<and>
      (err = ERROR_NONE \<longleftrightarrow>
         \<not> (\<exists>src. src \<noteq> WAKEUP_SRC_UNKNOWN \<and> fst (get src) \<noteq> ERROR_NONE \<and> snd (snd (get src))))"
proof -
  let ?get = "\<lambda>src. ipp_GetWakeupSrc pl src False False (pwc_platform s)"
  let ?cs = "[\<lparr>wsc_wakeupSource = src, wsc_enabled = fst (snd (?get src))\<rparr>.
                src \<leftarrow> wakeup_sources, fst (?get src) = ERROR_NONE]"
  let ?failed = "\<exists>src \<in> set wakeup_sources. case ?get src of (r, _, spt) \<Rightarrow> r \<noteq> ERROR_NONE \<and> spt"
  have r: "PWC_GetWakeupSourceConfig pl [] s = (if ?failed then ERROR_GENERAL else ERROR_NONE, ?cs)"
    by (simp add: PWC_GetWakeupSourceConfig_def get_wakeup_srcs_spec)
  have "sorted_wrt (<) (map wsc_wakeupSource ?cs)"
    unfolding map_filter_src by (rule sorted_wrt_filter_less) (rule wakeup_sources_sorted)
  moreover have "set ?cs = {\<lparr>wsc_wakeupSource = src, wsc_enabled = fst (snd (?get src))\<rparr> | src.
                       src \<noteq> WAKEUP_SRC_UNKNOWN \<and> fst (?get src) = ERROR_NONE}"
    by (auto simp: wakeup_sources_all)
  moreover have "(if ?failed then ERROR_GENERAL else ERROR_NONE) = ERROR_NONE \<longleftrightarrow>
      \<not> (\<exists>src. src \<noteq> WAKEUP_SRC_UNKNOWN \<and> fst (?get src) \<noteq> ERROR_NONE \<and> snd (snd (?get src)))"
    by (auto simp: wakeup_sources_all split_beta)
  ultimately show ?thesis unfolding r by (simp add: Let_def)
qed

section \<open>Sequences of operations\<close>

datatype pwc_op =
    OpPower int PowerState               \<comment> \<open>with the time of the call\<close>
  | OpNwStandby bool
  | OpDeepSleepTimer int
  | OpSources "WakeupSourceConfig list"

primrec pwc_exec :: "'p power_platform \<Rightarrow> (PWRMgr_PowerState_t \<Rightarrow> u32) \<Rightarrow> pwc_op \<Rightarrow> 'p pwc \<Rightarrow> 'p pwc" where
  "pwc_exec pl val (OpPower now ps) s = snd (PWC_SetPowerState pl val now 0 ps [] s)"
| "pwc_exec pl val (OpNwStandby b) s = snd (PWC_SetNetworkStandbyMode pl val b s)"
| "pwc_exec pl val (OpDeepSleepTimer t) s = snd (PWC_SetDeepSleepTimer val t s)"
| "pwc_exec pl val (OpSources cs) s = snd (PWC_SetWakeupSourceConfig pl cs s)"

text \<open>
  A change of power state is all or nothing for the plugin's own records: when it is refused,
  or the platform fails, the settings, the last known state, the wake-up time and the files are
  untouched; when it succeeds the target is the current state and the state it left is the last
  known one.
\<close>

lemma power_change_all_or_nothing:
  "let (err, s1) = PWC_SetPowerState pl val now keyCode ps reason s
   in if err = ERROR_NONE
      then PWC_GetPowerState s1 = (ERROR_NONE, ps, st_powerState (pwc_settings s))
      else s1 = s\<lparr>pwc_platform := pwc_platform s1\<rparr>"
  by (auto simp: pwc_defs PWC_GetPowerState_def Settings_SetPowerState_def Let_def split: prod.splits)

section \<open>Durability\<close>

text \<open>
  Reading the settings file at any time would give the current settings, as far as \<open>f\<close> tells; this
  needs a file on which every call works.
\<close>

definition durable ::
  "(u32 \<times> u32 \<times> PowerState \<times> u32 \<times> bool \<Rightarrow> 'w) \<Rightarrow> (PWRMgr_PowerState_t \<Rightarrow> u32) \<Rightarrow> 'p pwc \<Rightarrow> bool" where
  "durable f val s \<longleftrightarrow>
     healthy 32 (pwc_fs s) kSettingsFilePath \<and> st_version (pwc_settings s) = Version_V1 \<and>
     (\<forall>t. f (persisted (fst (load_file val t kSettingsFilePath (pwc_fs s)))) = f (persisted (pwc_settings s)))"

lemma durable_save:
  assumes "inj val" "healthy 32 (pwc_fs s) kSettingsFilePath" "st_version (pwc_settings s) = Version_V1"
  shows "durable f val (snd (pwc_save val s))"
  using assms settings_store.fetch_store [where val = val and path = kSettingsFilePath and m = "pwc_fs s" and v = "pwc_settings s"]
  by (simp add: durable_def pwc_save_def healthy_same_env [OF same_env_Save] split_beta)

lemma durable_cong:
  "pwc_fs s = pwc_fs r \<Longrightarrow> persisted (pwc_settings s) = persisted (pwc_settings r) \<Longrightarrow>
     durable f val s \<longleftrightarrow> durable f val r"
  by (auto simp: durable_def persisted_def)

lemma durable_fields [simp]:
  "durable f val (s\<lparr>pwc_platform := p\<rparr>) = durable f val s"
  "durable f val (s\<lparr>pwc_lastKnown := l\<rparr>) = durable f val s"
  "durable f val (s\<lparr>pwc_wakeupTimestamp := t\<rparr>) = durable f val s"
  "durable f val (s\<lparr>pwc_timeoutSet := b\<rparr>) = durable f val s"
  by (rule durable_cong; simp)+

text \<open>Changing the settings in memory and then saving them restores durability.\<close>

lemma durable_change_and_save:
  "inj val \<Longrightarrow> durable f val s \<Longrightarrow> st_version st = Version_V1 \<Longrightarrow>
     durable f val (snd (pwc_save val (s\<lparr>pwc_settings := st\<rparr>)))"
  by (rule durable_save) (simp_all add: durable_def)

lemma version_updates [simp]:
  "st_version (Settings_SetPowerState now ps st) = st_version st"
  "st_version (SetNwStandbyMode b st) = st_version st"
  "st_version (SetDeepSleepTimeout t st) = st_version st"
  by (simp_all add: Settings_SetPowerState_def SetNwStandbyMode_def SetDeepSleepTimeout_def)

lemma durable_version: "durable f val s \<Longrightarrow> st_version (pwc_settings s) = Version_V1"
  by (simp add: durable_def)

lemma durable_SetWakeupSourceConfig [pm_inv]:
  "durable f val s \<Longrightarrow> durable f val (snd (PWC_SetWakeupSourceConfig pl cs s))"
  by (simp add: PWC_SetWakeupSourceConfig_def split_beta)

lemma durable_SetPowerState [pm_inv]:
  assumes "inj val" "durable f val s"
  shows "durable f val (snd (PWC_SetPowerState pl val now k ps r s))"
proof -
  have "durable f val (snd (pwc_save val
      (s\<lparr>pwc_platform := p, pwc_settings := Settings_SetPowerState now ps (pwc_settings s)\<rparr>)))" for p
    using durable_change_and_save [of val f "s\<lparr>pwc_platform := p\<rparr>"] assms durable_version [OF assms(2)]
    by simp
  with assms(2) show ?thesis by (auto simp: PWC_SetPowerState_def Let_def split_beta)
qed

lemma durable_SetNetworkStandbyMode [pm_inv]:
  assumes "inj val" "durable f val s"
  shows "durable f val (snd (PWC_SetNetworkStandbyMode pl val b s))"
proof -
  let ?s1 = "snd (PWC_SetWakeupSourceConfig pl (nw_configs b) s)"
  have d: "durable f val ?s1" by (rule durable_SetWakeupSourceConfig [OF assms(2)])
  have "durable f val (snd (pwc_save val (?s1\<lparr>pwc_settings := SetNwStandbyMode b (pwc_settings ?s1)\<rparr>)))"
    by (rule durable_change_and_save [OF assms(1) d]) (simp add: durable_version [OF d])
  with assms(2) d show ?thesis by (auto simp: PWC_SetNetworkStandbyMode_def Let_def split_beta)
qed

lemma durable_SetDeepSleepTimer [pm_inv]:
  assumes "inj val" "durable f val s"
  shows "durable f val (snd (PWC_SetDeepSleepTimer val t s))"
  unfolding PWC_SetDeepSleepTimer_def DSWS_SetTimeout_def Let_def prod.case snd_conv
  by (rule durable_save)
     (use assms in \<open>simp_all add: durable_def healthy_same_env [OF same_env_Save]\<close>)

lemma durable_exec: "inj val \<Longrightarrow> durable f val s \<Longrightarrow> durable f val (fold (pwc_exec pl val) ops s)"
proof (induction ops arbitrary: s)
  case (Cons x ops)
  have "durable f val (pwc_exec pl val x s)"
    using Cons.prems by (cases x) (simp_all add: pm_inv)
  then show ?case using Cons by simp
qed simp

lemma durable_init: "inj val \<Longrightarrow> durable f val s \<Longrightarrow> durable f val (PWC_init pl val now s)"
proof -
  assume i: "inj val" and d: "durable f val s"
  let ?s2 = "\<lambda>p. s\<lparr>pwc_lastKnown := st_powerState (pwc_settings s), pwc_platform := p\<rparr>"
  have d3: "durable f val (snd (PWC_SetPowerState pl val now 0 ps r (?s2 p)))" for ps r p
    by (rule durable_SetPowerState [OF i]) (simp add: d)
  have "durable f val (snd (pwc_save val (x\<lparr>pwc_settings := Settings_SetPowerState now c (pwc_settings x)\<rparr>)))"
    if "durable f val x" for x :: "'b pwc" and c
    by (rule durable_change_and_save [OF i that]) (simp add: durable_version [OF that])
  with d d3 show ?thesis by (simp add: PWC_init_def Let_def split_beta)
qed

text \<open>
  A view of the settings that a load keeps: any, except when the load boots to standby; then one that
  does not look at the power state.
\<close>

definition kept_by_load :: "(u32 \<times> u32 \<times> PowerState \<times> u32 \<times> bool \<Rightarrow> 'w) \<Rightarrow> bool \<Rightarrow> posix \<Rightarrow> bool" where
  "kept_by_load f platco fs \<longleftrightarrow> (boots_to_standby platco fs \<longrightarrow> (\<forall>m v p q t n. f (m, v, p, t, n) = f (m, v, q, t, n)))"

lemma paths_differ:
  "kSettingsFilePath \<noteq> kRamSettingsFilePath" "kSettingsFilePath \<noteq> restartedMarker" "kRamSettingsFilePath \<noteq> restartedMarker"
  by (simp_all add: kSettingsFilePath_def kRamSettingsFilePath_def restartedMarker_def)

lemma Load_kept:
  "kept_by_load f platco fs \<Longrightarrow>
     f (persisted (fst (Settings_Load val platco now kSettingsFilePath fs))) = f (persisted (fst (load_file val now kSettingsFilePath fs)))"
proof (cases "boots_to_standby platco fs")
  case True
  assume "kept_by_load f platco fs"
  with True have "f (persisted (x\<lparr>st_powerState := POWER_STATE_STANDBY\<rparr>)) = f (persisted x)" for x
    by (simp add: kept_by_load_def persisted_def)
  with True show ?thesis by (simp add: Load_main paths_differ)
qed (simp add: Load_main paths_differ)

text \<open>A load of the settings file leaves it as reading it does: the rest of the load is about the RAM copy.\<close>

lemma Load_reads_once:
  assumes "inj val" "healthy 32 fs kSettingsFilePath" "healthy 32 fs kRamSettingsFilePath"
    and "load_file val now kSettingsFilePath fs = (s0, fs0)" "Settings_Load val platco now kSettingsFilePath fs = (st, fs1)"
  shows "same_env fs fs1 \<and> fst (load_file val t kSettingsFilePath fs1) = fst (load_file val t kSettingsFilePath fs0)"
proof -
  let ?p = kSettingsFilePath and ?r = kRamSettingsFilePath
  have e0: "same_env fs fs0" using load_file_heals(1) [OF assms(2,1), of now] assms(4) by simp
  have hr: "healthy 32 fs0 ?r" using healthy_same_env [OF e0] assms(3) by simp
  have fs1: "fs1 = (if file_exists ?r fs0 then snd (load_file val now ?r fs0)
      else snd (Settings_Save val ?r (s0\<lparr>st_powerStateBeforeReboot := st_powerState s0\<rparr>) fs0))"
    using Load_files [OF paths_differ(1) assms(4), of platco] assms(5) by simp
  have e1: "same_env fs0 fs1" and c1: "content fs1 ?p = content fs0 ?p"
    unfolding fs1 using load_file_heals(1) [OF hr assms(1), of now] load_file_heals(4) [OF hr assms(1), of ?p now] paths_differ(1)
    by (auto simp: same_env_Save content_Save_other)
  have "fst (load_file val t ?p fs1) = fst (load_file val t ?p fs0)"
    by (rule load_file_cong) (use e1 c1 in \<open>auto simp: same_env_def\<close>)
  with same_env_trans [OF e0 e1] show ?thesis by simp
qed

lemma Load_durable:
  assumes "inj val" "healthy 32 fs kSettingsFilePath" "healthy 32 fs kRamSettingsFilePath" "kept_by_load f platco fs"
    and "Settings_Load val platco now kSettingsFilePath fs = (st, fs1)"
  shows "healthy 32 fs1 kSettingsFilePath \<and> st_version st = Version_V1 \<and>
     f (persisted (fst (load_file val t kSettingsFilePath fs1))) = f (persisted st)"
proof -
  obtain s0 fs0 where l: "load_file val now kSettingsFilePath fs = (s0, fs0)" by fastforce
  have v0: "st_version s0 = Version_V1" and again: "persisted (fst (load_file val t kSettingsFilePath fs0)) = persisted s0"
    using load_file_heals(2,3) [OF assms(2,1), where now = now] l by (auto dest: spec [of _ t])
  have "f (persisted st) = f (persisted s0)" using Load_kept [OF assms(4), of val now] assms(5) l by simp
  moreover have "st_version st = st_version s0"
    using Load_main [OF paths_differ(1,2), of val platco now fs] assms(5) l by (auto simp: persisted_def split: if_splits)
  moreover note once = Load_reads_once [OF assms(1-3) l assms(5), of t]
  moreover have "healthy 32 fs1 kSettingsFilePath" using healthy_same_env once assms(2) by blast
  ultimately show ?thesis using again v0 by simp
qed

lemma durable_new:
  assumes "inj val" "healthy 32 fs kSettingsFilePath" "healthy 32 fs kRamSettingsFilePath" "kept_by_load f platco fs"
  shows "durable f val (PWC_new pl val platco now p fs)"
proof -
  obtain st fs1 where l: "Settings_Load val platco now kSettingsFilePath fs = (st, fs1)" by fastforce
  let ?s = "\<lparr>pwc_platform = p, pwc_lastKnown = POWER_STATE_ON, pwc_settings = st, pwc_timeoutSet = False,
               pwc_wakeupTimestamp = 0, pwc_fs = fs1\<rparr>"
  have "durable f val ?s" using Load_durable [OF assms l] by (simp add: durable_def)
  then show ?thesis
    by (simp add: PWC_new_def l split_beta durable_init [OF assms(1)] durable_SetWakeupSourceConfig)
qed

text \<open>Later, the rest of the file system may have changed: a power cut empties \<^verbatim>\<open>/tmp\<close>.\<close>

lemma durable_later:
  assumes "durable f val s" "same_env (pwc_fs s) fs" "content fs kSettingsFilePath = content (pwc_fs s) kSettingsFilePath"
    and "kept_by_load f platco fs"
  shows "f (persisted (fst (Settings_Load val platco now kSettingsFilePath fs))) = f (persisted (pwc_settings s))"
proof -
  have "fst (load_file val now kSettingsFilePath fs) = fst (load_file val now kSettingsFilePath (pwc_fs s))"
    by (rule load_file_cong) (use assms(2,3) in \<open>auto simp: same_env_def\<close>)
  with assms(1) show ?thesis by (simp add: Load_kept [OF assms(4)] durable_def)
qed

text \<open>
  C14. No operation is lost by a restart or a power cut, when every call on the settings
  files works and the platform's power states have distinct values. Whatever sequence of
  operations the plugin performs after it is constructed, and whatever becomes of the other
  files, loading the settings gives the current deep-sleep timeout and network standby mode. It
  gives the current power state too if neither the construction nor this load boots to standby;
  when this load does (a build with \<^verbatim>\<open>PLATCO_BOOTTO_STANDBY\<close>, without the marker file), it gives standby.
\<close>

theorem power_settings_durable:
  assumes "inj val" "healthy 32 fs kSettingsFilePath" "healthy 32 fs kRamSettingsFilePath"
    and "same_env (pwc_fs s) fs'" "content fs' kSettingsFilePath = content (pwc_fs s) kSettingsFilePath"
    and "s = fold (pwc_exec pl val) ops (PWC_new pl val platco now p fs)"
  shows "let st = fst (Settings_Load val platco now' kSettingsFilePath fs'); cur = pwc_settings s;
             standby = (\<lambda>fs. platco \<and> \<not> file_exists restartedMarker fs)
         in st_deepSleepTimeout st = st_deepSleepTimeout cur \<and> st_nwStandbyMode st = st_nwStandbyMode cur \<and>
            (\<not> standby fs \<and> \<not> standby fs' \<longrightarrow> st_powerState st = st_powerState cur) \<and>
            (standby fs' \<longrightarrow> st_powerState st = POWER_STATE_STANDBY)"
proof -
  let ?rest = "\<lambda>(m :: u32, v :: u32, p :: PowerState, t :: u32, n :: bool). (t, n)"
  let ?st = "fst (Settings_Load val platco now' kSettingsFilePath fs')"
  note run = durable_exec [OF assms(1) durable_new [OF assms(1-3)], of _ platco pl ops pl now p, folded assms(6)]
  have d: "durable ?rest val s" by (rule run) (simp add: kept_by_load_def)
  have "kept_by_load ?rest platco fs'" by (simp add: kept_by_load_def)
  then have "?rest (persisted ?st) = ?rest (persisted (pwc_settings s))"
    by (rule durable_later [OF d assms(4,5)])
  moreover have "persisted ?st = persisted (pwc_settings s)"
    if "\<not> boots_to_standby platco fs" "\<not> boots_to_standby platco fs'"
    by (rule durable_later [OF run assms(4,5)]) (use that in \<open>simp_all add: kept_by_load_def\<close>)
  moreover have "st_powerState ?st = POWER_STATE_STANDBY" if "boots_to_standby platco fs'"
    using Load_main [OF paths_differ(1,2), of val platco now' fs'] that by (simp add: persisted_def)
  ultimately show ?thesis
    by (auto simp: Let_def boots_to_standby_def [symmetric] persisted_def)
qed

text \<open>A platform whose state is the power state, and which refuses deep sleep.\<close>

definition demo_power :: "PowerState power_platform" where
  "demo_power =
     \<lparr>ipp_SetPowerState = \<lambda>s p. if s = POWER_STATE_STANDBY_DEEP_SLEEP then (ERROR_GENERAL, p) else (ERROR_NONE, s),
      ipp_GetPowerState = \<lambda>c p. (ERROR_NONE, p, p),
      ipp_SetWakeupSrc = \<lambda>src en b p. (ERROR_NONE, True, p),
      ipp_GetWakeupSrc = \<lambda>src en b p. (ERROR_NONE, False, True)\<rparr>"

lemma power_settings_durable_witness:
  "let s = fold (pwc_exec demo_power demo_val) [OpPower 3 POWER_STATE_OFF, OpNwStandby True]
             (PWC_new demo_power demo_val False 1 POWER_STATE_ON demo_fs);
       st = fst (Settings_Load demo_val False 9 kSettingsFilePath (pwc_fs s))
   in (st_powerState st, st_deepSleepTimeout st, st_nwStandbyMode st) =
        (st_powerState (pwc_settings s), st_deepSleepTimeout (pwc_settings s), st_nwStandbyMode (pwc_settings s))"
proof -
  have "same_env fs fs" for fs by (simp add: same_env_def)
  from power_settings_durable [OF inj_demo_val healthy_demo_fs healthy_demo_fs this refl refl, where platco = False and now' = 9
      and pl = demo_power and ops = "[OpPower 3 POWER_STATE_OFF, OpNwStandby True]" and now = 1 and p = POWER_STATE_ON]
  show ?thesis by (simp add: Let_def)
qed

section \<open>Agreement with the platform\<close>

text \<open>The state the platform reports, \<open>None\<close> when it cannot be read.\<close>

definition reported :: "'p power_platform \<Rightarrow> 'p \<Rightarrow> PowerState option" where
  "reported pl p = (case ipp_GetPowerState pl POWER_STATE_UNKNOWN p of
     (e, st, _) \<Rightarrow> if e = ERROR_NONE then Some st else None)"

text \<open>
  The documented behaviour of the platform: setting the power state either succeeds, and then
  that state is reported, or fails and changes nothing; reading it and configuring wake-up
  sources do not change it.
\<close>

definition platform_law :: "'p power_platform \<Rightarrow> bool" where
  "platform_law pl \<longleftrightarrow>
     (\<forall>st p. reported pl (snd (ipp_SetPowerState pl st p)) =
        (if fst (ipp_SetPowerState pl st p) = ERROR_NONE then Some st else reported pl p)) \<and>
     (\<forall>c p. reported pl (snd (snd (ipp_GetPowerState pl c p))) = reported pl p) \<and>
     (\<forall>src en spt p. reported pl (snd (snd (ipp_SetWakeupSrc pl src en spt p))) = reported pl p)"

definition in_sync :: "'p power_platform \<Rightarrow> 'p pwc \<Rightarrow> bool" where
  "in_sync pl s \<longleftrightarrow> reported pl (pwc_platform s) = Some (st_powerState (pwc_settings s))"

lemma set_wakeup_srcs_reported:
  "platform_law pl \<Longrightarrow> reported pl (snd (set_wakeup_srcs pl cs failed p)) = reported pl p"
  by (induction cs arbitrary: failed p) (auto simp: Let_def split_beta platform_law_def)

lemma SetWakeupSourceConfig_frame:
  "platform_law pl \<Longrightarrow> reported pl (pwc_platform (snd (PWC_SetWakeupSourceConfig pl cs s))) = reported pl (pwc_platform s)"
  "pwc_settings (snd (PWC_SetWakeupSourceConfig pl cs s)) = pwc_settings s"
  "pwc_wakeupTimestamp (snd (PWC_SetWakeupSourceConfig pl cs s)) = pwc_wakeupTimestamp s"
  by (simp_all add: PWC_SetWakeupSourceConfig_def split_beta set_wakeup_srcs_reported)

lemma pwc_save_frame [simp]:
  "pwc_platform (snd (pwc_save val s)) = pwc_platform s"
  "pwc_settings (snd (pwc_save val s)) = pwc_settings s"
  "pwc_lastKnown (snd (pwc_save val s)) = pwc_lastKnown s"
  "pwc_wakeupTimestamp (snd (pwc_save val s)) = pwc_wakeupTimestamp s"
  by (simp_all add: pwc_save_def split_beta)

lemma settings_state [simp]:
  "st_powerState (Settings_SetPowerState now ps st) = ps"
  "st_powerState (SetNwStandbyMode b st) = st_powerState st"
  "st_powerState (SetDeepSleepTimeout t st) = st_powerState st"
  by (simp_all add: Settings_SetPowerState_def SetNwStandbyMode_def SetDeepSleepTimeout_def)

lemma SetPowerState_reported:
  assumes "platform_law pl"
  shows "fst (PWC_SetPowerState pl val now k ps r s) = ERROR_NONE \<Longrightarrow> in_sync pl (snd (PWC_SetPowerState pl val now k ps r s))"
    and "fst (PWC_SetPowerState pl val now k ps r s) \<noteq> ERROR_NONE \<Longrightarrow>
      reported pl (pwc_platform (snd (PWC_SetPowerState pl val now k ps r s))) = reported pl (pwc_platform s) \<and>
      pwc_settings (snd (PWC_SetPowerState pl val now k ps r s)) = pwc_settings s"
  using assms
  by (auto simp: PWC_SetPowerState_def Let_def split_beta in_sync_def platform_law_def split: if_splits)

lemma in_sync_exec: "platform_law pl \<Longrightarrow> in_sync pl s \<Longrightarrow> in_sync pl (pwc_exec pl val x s)"
proof (cases x)
  case (OpPower now ps)
  assume "platform_law pl" "in_sync pl s"
  with SetPowerState_reported [of pl val now 0 ps "[]" s] OpPower show ?thesis
    by (cases "fst (PWC_SetPowerState pl val now 0 ps [] s) = ERROR_NONE") (auto simp: in_sync_def)
next
  case (OpNwStandby b)
  assume "platform_law pl" "in_sync pl s"
  with OpNwStandby show ?thesis
    by (auto simp: PWC_SetNetworkStandbyMode_def Let_def split_beta in_sync_def SetWakeupSourceConfig_frame)
next
  case (OpDeepSleepTimer t)
  assume "in_sync pl s"
  with OpDeepSleepTimer show ?thesis
    by (simp add: PWC_SetDeepSleepTimer_def DSWS_SetTimeout_def Let_def in_sync_def)
next
  case (OpSources cs)
  assume "platform_law pl" "in_sync pl s"
  with OpSources show ?thesis by (simp add: in_sync_def SetWakeupSourceConfig_frame)
qed

lemma in_sync_init:
  assumes "platform_law pl" "reported pl (pwc_platform s) \<noteq> None"
  shows "in_sync pl (PWC_init pl val now s)"
proof -
  obtain e c p where g: "ipp_GetPowerState pl POWER_STATE_UNKNOWN (pwc_platform s) = (e, c, p)"
    by (metis prod_cases3)
  have e: "e = ERROR_NONE" "reported pl (pwc_platform s) = Some c"
    using assms(2) g by (auto simp: reported_def split: if_splits)
  have p: "reported pl p = Some c"
    using assms(1) e(2) g unfolding platform_law_def by (metis snd_conv)
  let ?s = "s\<lparr>pwc_lastKnown := st_powerState (pwc_settings s), pwc_platform := p\<rparr>"
  let ?r = "PWC_SetPowerState pl val now 0 (st_powerState (pwc_settings s)) ''Initialization'' ?s"
  have "in_sync pl (x\<lparr>pwc_wakeupTimestamp := now\<rparr>) = in_sync pl x" for x :: "'a pwc"
    by (simp add: in_sync_def)
  then show ?thesis
    using SetPowerState_reported [OF assms(1), of val now 0 "st_powerState (pwc_settings s)" "''Initialization''" ?s] p
    by (cases "fst ?r = ERROR_NONE") (auto simp: PWC_init_def g e Let_def split_beta in_sync_def)
qed

text \<open>
  C8. The recorded power state never drifts from the hardware: if the platform can be read when
  the plugin starts, then from construction on, after any sequence of operations, the state the
  platform reports is the state in the settings.
\<close>

theorem settings_agree_with_platform:
  assumes "platform_law pl" and "reported pl p \<noteq> None"
  shows "in_sync pl (fold (pwc_exec pl val) ops (PWC_new pl val platco now p fs))"
proof -
  have "in_sync pl (PWC_new pl val platco now p fs)"
    unfolding PWC_new_def Let_def split_beta using assms
    by (intro in_sync_init) (simp_all add: SetWakeupSourceConfig_frame)
  moreover have "in_sync pl s \<Longrightarrow> in_sync pl (fold (pwc_exec pl val) ops s)" for s
    by (induction ops arbitrary: s) (simp_all add: in_sync_exec [OF assms(1)])
  ultimately show ?thesis by simp
qed

lemma demo_power_law: "platform_law demo_power"
  by (simp add: platform_law_def demo_power_def reported_def)

lemma settings_agree_with_platform_witness:
  "in_sync demo_power (fold (pwc_exec demo_power demo_val)
      [OpPower 3 POWER_STATE_OFF, OpPower 4 POWER_STATE_STANDBY_DEEP_SLEEP]
      (PWC_new demo_power demo_val True 1 POWER_STATE_STANDBY_DEEP_SLEEP demo_fs))"
  by (rule settings_agree_with_platform [OF demo_power_law]) (simp add: reported_def demo_power_def)

section \<open>Time since wake-up\<close>

text \<open>Operations during which the device never leaves the state \<^verbatim>\<open>ON\<close>.\<close>

fun stays_on :: "'p power_platform \<Rightarrow> (PWRMgr_PowerState_t \<Rightarrow> u32) \<Rightarrow> pwc_op list \<Rightarrow> 'p pwc \<Rightarrow> bool" where
  "stays_on pl val [] s \<longleftrightarrow> st_powerState (pwc_settings s) = POWER_STATE_ON"
| "stays_on pl val (x # xs) s \<longleftrightarrow>
     st_powerState (pwc_settings s) = POWER_STATE_ON \<and> stays_on pl val xs (pwc_exec pl val x s)"

lemma exec_keeps_timestamp:
  "st_powerState (pwc_settings s) = POWER_STATE_ON \<Longrightarrow>
     pwc_wakeupTimestamp (pwc_exec pl val x s) = pwc_wakeupTimestamp s"
  by (cases x)
     (auto simp: PWC_SetPowerState_def PWC_SetNetworkStandbyMode_def PWC_SetDeepSleepTimer_def
        DSWS_SetTimeout_def Let_def split_beta SetWakeupSourceConfig_frame)

lemma stays_on_timestamp:
  "stays_on pl val ops s \<Longrightarrow>
     pwc_wakeupTimestamp (fold (pwc_exec pl val) ops s) = pwc_wakeupTimestamp s \<and>
     st_powerState (pwc_settings (fold (pwc_exec pl val) ops s)) = POWER_STATE_ON"
  by (induction ops arbitrary: s) (auto simp: exec_keeps_timestamp)

lemma to_seconds_nonneg: "0 \<le> n \<Longrightarrow> to_seconds n = n div 1000000000"
  by (cases "n = 0") (auto simp: to_seconds_def)

text \<open>
  The time since wake-up counts from the change to \<^verbatim>\<open>ON\<close>: as long as the device stays
  on, whatever else is done and however often it is switched on again, it is the number of whole
  seconds since then, cut off at the largest 32-bit value.
\<close>

lemma time_since_wakeup:
  assumes "st_powerState (pwc_settings s) \<noteq> POWER_STATE_ON"
    and "PWC_SetPowerState pl val t0 k POWER_STATE_ON r s = (ERROR_NONE, s1)"
    and "stays_on pl val ops s1" and "t0 \<le> t"
  shows "uint (snd (PWC_GetTimeSinceWakeup t (fold (pwc_exec pl val) ops s1))) =
         min ((t - t0) div 1000000000) (2 ^ 32 - 1)"
proof -
  have ts: "pwc_wakeupTimestamp s1 = t0"
    using assms(1,2) by (auto simp: PWC_SetPowerState_def Let_def split_beta split: if_splits)
  define n where "n = (t - t0) div 1000000000"
  have "0 \<le> n" using assms(4) by (simp add: n_def pos_imp_zdiv_nonneg_iff)
  then show ?thesis
    using stays_on_timestamp [OF assms(3)] assms(4)
    by (auto simp: PWC_GetTimeSinceWakeup_def Let_def ts to_seconds_nonneg simp flip: n_def
          intro: uint_small)
qed

definition demo_pwc :: "PowerState pwc" where
  "demo_pwc = \<lparr>pwc_platform = POWER_STATE_STANDBY, pwc_lastKnown = POWER_STATE_ON,
     pwc_settings = demo_settings\<lparr>st_powerState := POWER_STATE_STANDBY\<rparr>, pwc_timeoutSet = False, pwc_wakeupTimestamp = 0, pwc_fs = demo_fs\<rparr>"

lemma time_since_wakeup_witness:
  "let s1 = snd (PWC_SetPowerState demo_power demo_val 5000000000 0 POWER_STATE_ON [] demo_pwc);
       ops = [OpDeepSleepTimer 30, OpPower 7000000000 POWER_STATE_ON]
   in uint (snd (PWC_GetTimeSinceWakeup 9500000000 (fold (pwc_exec demo_power demo_val) ops s1))) = 4"
proof -
  let ?r = "PWC_SetPowerState demo_power demo_val 5000000000 0 POWER_STATE_ON [] demo_pwc"
  let ?ops = "[OpDeepSleepTimer 30, OpPower 7000000000 POWER_STATE_ON]"
  have s: "st_powerState (pwc_settings demo_pwc) = POWER_STATE_STANDBY"
    by (simp add: demo_pwc_def demo_settings_def)
  have e: "fst ?r = ERROR_NONE" "st_powerState (pwc_settings (snd ?r)) = POWER_STATE_ON"
    by (simp_all add: PWC_SetPowerState_def Let_def split_beta demo_power_def)
  have p: "st_powerState (pwc_settings (pwc_exec demo_power demo_val x a)) = POWER_STATE_ON"
    if "st_powerState (pwc_settings a) = POWER_STATE_ON" "x \<in> set ?ops" for x and a :: "PowerState pwc"
    using that by (auto simp: PWC_SetPowerState_def PWC_SetDeepSleepTimer_def DSWS_SetTimeout_def Let_def split_beta)
  have "stays_on demo_power demo_val ?ops (snd ?r)"
    using e(2) p by (simp del: pwc_exec.simps)
  moreover have "?r = (ERROR_NONE, snd ?r)" using e(1) by (simp add: prod_eq_iff)
  ultimately show ?thesis
    using time_since_wakeup [of demo_pwc demo_power demo_val 5000000000 0 "[]" "snd ?r" ?ops 9500000000] s
    by (simp add: Let_def)
qed

section \<open>A restart and the deep-sleep timer\<close>

lemma timeoutSet_kept [simp]:
  "pwc_timeoutSet (snd (pwc_save val s)) = pwc_timeoutSet s"
  "pwc_timeoutSet (snd (PWC_SetWakeupSourceConfig pl cs s)) = pwc_timeoutSet s"
  "pwc_timeoutSet (snd (PWC_SetPowerState pl val now k ps r s)) = pwc_timeoutSet s"
  by (auto simp: pwc_save_def PWC_SetWakeupSourceConfig_def PWC_SetPowerState_def Let_def split_beta)

lemma timeoutSet_new: "\<not> pwc_timeoutSet (PWC_new pl val platco now p fs)"
  by (simp add: PWC_new_def PWC_init_def Let_def split_beta)

text \<open>
  The timer a client has set is what deep sleep is entered with, and a power cut leaves it in the
  settings; but the controller constructed after the power cut computes the wake-up time of the
  maintenance window instead, whatever the settings hold.
\<close>

lemma timer_forgotten_after_restart:
  fixes t now :: int and cal :: calendar and pl :: "'p power_platform" and p :: 'p and s0 :: "'p pwc"
  assumes "inj val" "durable (\<lambda>x. x) val s0"
  defines "s \<equiv> snd (PWC_SetDeepSleepTimer val t s0)"
  defines "r \<equiv> PWC_new pl val False now p (pwc_fs s)"
  shows "fst (PWC_ActivateDeepSleep cal s) = word_of_int t"
    and "st_deepSleepTimeout (fst (Settings_Load val False now kSettingsFilePath (pwc_fs s))) = word_of_int t"
    and "fst (PWC_ActivateDeepSleep cal r) = getWakeupTime (pwc_fs r) cal"
proof -
  have set: "pwc_timeoutSet s" "st_deepSleepTimeout (pwc_settings s) = word_of_int t"
    by (simp_all add: s_def PWC_SetDeepSleepTimer_def DSWS_SetTimeout_def pwc_save_def SetDeepSleepTimeout_def
        Let_def split_beta)
  then show "fst (PWC_ActivateDeepSleep cal s) = word_of_int t"
    by (simp add: PWC_ActivateDeepSleep_def DSWS_timeout_def)
  have d: "durable (\<lambda>x. x) val s" unfolding s_def by (rule durable_SetDeepSleepTimer [OF assms(1,2)])
  have "persisted (fst (Settings_Load val False now kSettingsFilePath (pwc_fs s))) = persisted (pwc_settings s)"
    by (rule durable_later [OF d]) (simp_all add: same_env_def kept_by_load_def boots_to_standby_def)
  with set(2) show "st_deepSleepTimeout (fst (Settings_Load val False now kSettingsFilePath (pwc_fs s))) = word_of_int t"
    by (simp add: persisted_def)
  show "fst (PWC_ActivateDeepSleep cal r) = getWakeupTime (pwc_fs r) cal"
    by (simp add: PWC_ActivateDeepSleep_def DSWS_timeout_def r_def timeoutSet_new)
qed

section \<open>Booting to standby\<close>

text \<open>
  C40. In a build with \<^verbatim>\<open>PLATCO_BOOTTO_STANDBY\<close>, a device that is in standby already when the plugin
  is constructed at a boot is recorded as being in standby, but this is not saved, against the
  durability of every other change of state: when the plugin is constructed again, with the marker
  file there, it loads the power state from before the boot, with every call on the settings files
  working and whatever became of the other files.
\<close>

theorem standby_at_boot_not_saved:
  assumes "inj val" "healthy 32 fs kSettingsFilePath" "healthy 32 fs kRamSettingsFilePath"
    and "\<not> file_exists restartedMarker fs" and get: "\<And>c q. fst (snd (ipp_GetPowerState pl c q)) = POWER_STATE_STANDBY"
    and "same_env (pwc_fs (PWC_new pl val True now p fs)) fs'"
    and "content fs' kSettingsFilePath = content (pwc_fs (PWC_new pl val True now p fs)) kSettingsFilePath"
    and "file_exists restartedMarker fs'"
  shows "st_powerState (pwc_settings (PWC_new pl val True now p fs)) = POWER_STATE_STANDBY \<and>
    st_powerState (fst (Settings_Load val True now' kSettingsFilePath fs')) =
      st_powerState (fst (load_file val now kSettingsFilePath fs))"
proof -
  let ?p = kSettingsFilePath and ?s = "PWC_new pl val True now p fs"
  obtain st fs1 where l: "Settings_Load val True now ?p fs = (st, fs1)" by fastforce
  have st: "st_powerState st = POWER_STATE_STANDBY"
    using Load_main [OF paths_differ(1,2), of val True now fs] l assms(4) by (simp add: boots_to_standby_def persisted_def)
  have init: "pwc_settings (PWC_init pl val now x) = pwc_settings x \<and> pwc_fs (PWC_init pl val now x) = pwc_fs x"
    if "st_powerState (pwc_settings x) = POWER_STATE_STANDBY" for x
    using that get by (simp add: PWC_init_def Let_def split_beta)
  have s: "pwc_settings ?s = st" "pwc_fs ?s = fs1"
    using init st by (simp_all add: PWC_new_def l split_beta PWC_SetWakeupSourceConfig_def)
  obtain s0 fs0 where l0: "load_file val now ?p fs = (s0, fs0)" by fastforce
  have "fst (load_file val now' ?p fs') = fst (load_file val now' ?p fs1)"
    by (rule load_file_cong) (use assms(6,7) s in \<open>auto simp: same_env_def\<close>)
  also have "\<dots> = fst (load_file val now' ?p fs0)" using Load_reads_once [OF assms(1-3) l0 l] by blast
  also have "persisted \<dots> = persisted s0" using load_file_heals(3) [OF assms(2,1), of now' now] l0 by simp
  finally show ?thesis
    using Load_main [OF paths_differ(1,2), of val True now' fs'] assms(8) l0 st s by (simp add: boots_to_standby_def persisted_def)
qed

lemma standby_at_boot_not_saved_witness:
  "let pl = demo_power\<lparr>ipp_GetPowerState := \<lambda>c p. (ERROR_NONE, POWER_STATE_STANDBY, p)\<rparr>;
       s = PWC_new pl demo_val True 1 POWER_STATE_STANDBY demo_fs;
       fs = (pwc_fs s)\<lparr>px_files := (px_files (pwc_fs s))(restartedMarker \<mapsto> [])\<rparr>
   in st_powerState (pwc_settings s) = POWER_STATE_STANDBY \<and>
      st_powerState (fst (Settings_Load demo_val True 9 kSettingsFilePath fs)) = POWER_STATE_ON"
proof -
  let ?pl = "demo_power\<lparr>ipp_GetPowerState := \<lambda>c p. (ERROR_NONE, POWER_STATE_STANDBY, p)\<rparr>"
  let ?s = "PWC_new ?pl demo_val True 1 POWER_STATE_STANDBY demo_fs"
  let ?fs = "(pwc_fs ?s)\<lparr>px_files := (px_files (pwc_fs ?s))(restartedMarker \<mapsto> [])\<rparr>"
  have fs: "same_env (pwc_fs ?s) ?fs" "content ?fs kSettingsFilePath = content (pwc_fs ?s) kSettingsFilePath"
    "file_exists restartedMarker ?fs" "\<not> file_exists restartedMarker demo_fs"
    by (simp_all add: same_env_def content_def file_exists_def demo_fs_def kSettingsFilePath_def restartedMarker_def)
  have get: "fst (snd (ipp_GetPowerState ?pl c q)) = POWER_STATE_STANDBY" for c q by simp
  have on: "st_powerState (fst (load_file demo_val 1 kSettingsFilePath demo_fs)) = POWER_STATE_ON"
    by (simp add: load_file_def sys_open_def sys_read_def content_def demo_fs_def Settings_new_def SettingsV1_initDefaults_def Let_def)
  from standby_at_boot_not_saved [OF inj_demo_val healthy_demo_fs healthy_demo_fs fs(4) get fs(1-3), of 9] on
  show ?thesis by (simp add: Let_def)
qed

end
