(* ===== verification/ThermalHal.thy ===== *)
theory ThermalHal
  imports PowerTypes PosixFiles
begin

text \<open>
  The thermal side of the hardware abstraction: \<^verbatim>\<open>hal::Thermal::IPlatform\<close>
  (\<^verbatim>\<open>plugin/hal/Thermal.h\<close>), \<^verbatim>\<open>ThermalImpl\<close> on the manufacturer library and the kernel's
  \<^verbatim>\<open>cpufreq\<close> files (\<^verbatim>\<open>ThermalImpl.h\<close>), and \<^verbatim>\<open>ThermalMfrImpl\<close> on calls over the bus
  (\<^verbatim>\<open>ThermalMfrImpl.h\<close>). The libraries, the files and the bus are the fields of
  \<open>mfr_api\<close> and \<open>mfr_bus\<close>, over a device state \<open>'t\<close>.
\<close>

record 't thermal_platform =
  ipt_GetTemperatureThresholds :: "cfloat \<Rightarrow> cfloat \<Rightarrow> 't \<Rightarrow> hresult \<times> cfloat \<times> cfloat"
  ipt_SetTemperatureThresholds :: "cfloat \<Rightarrow> cfloat \<Rightarrow> 't \<Rightarrow> hresult \<times> 't"
  ipt_GetClockSpeed :: "u32 \<Rightarrow> 't \<Rightarrow> hresult \<times> u32"
  ipt_SetClockSpeed :: "u32 \<Rightarrow> 't \<Rightarrow> hresult \<times> 't"
  ipt_DetemineClockSpeeds :: "u32 \<Rightarrow> u32 \<Rightarrow> u32 \<Rightarrow> 't \<Rightarrow> hresult \<times> u32 \<times> u32 \<times> u32"
  ipt_GetTemperature :: "ThermalTemperature \<Rightarrow> cfloat \<Rightarrow> cfloat \<Rightarrow> 't \<Rightarrow> hresult \<times> ThermalTemperature \<times> cfloat \<times> cfloat"

section \<open>\<^verbatim>\<open>ThermalImpl\<close>\<close>

record 't mfr_api =
  mfrGetTempThresholds :: "'t \<Rightarrow> (int \<times> int) option"        \<comment> \<open>\<open>None\<close>: not \<^verbatim>\<open>mfrERR_NONE\<close>\<close>
  mfrSetTempThresholds :: "int \<Rightarrow> int \<Rightarrow> 't \<Rightarrow> bool \<times> 't"
  mfrGetTemperature :: "'t \<Rightarrow> (int \<times> int \<times> int) option"
  sysfs_read :: "string \<Rightarrow> 't \<Rightarrow> string option"               \<comment> \<open>\<open>None\<close>: \<^verbatim>\<open>fopen\<close> failed\<close>
  sysfs_write :: "string \<Rightarrow> string \<Rightarrow> 't \<Rightarrow> 't option"

definition cpufreq_cur :: string where
  "cpufreq_cur = ''/sys/devices/system/cpu/cpu0/cpufreq/scaling_cur_freq''"
definition cpufreq_governor :: string where
  "cpufreq_governor = ''/sys/devices/system/cpu/cpu0/cpufreq/scaling_governor''"
definition cpufreq_setspeed :: string where
  "cpufreq_setspeed = ''/sys/devices/system/cpu/cpu0/cpufreq/scaling_setspeed''"
definition cpufreq_available :: string where
  "cpufreq_available = ''/sys/devices/system/cpu/cpu0/cpufreq/scaling_available_frequencies''"

text \<open>The conversion switches on the number of the state; unknown numbers are unknown states.\<close>

definition ThermalImpl_conv_from :: "int \<Rightarrow> ThermalTemperature" where
  "ThermalImpl_conv_from state =
     (if state = 0 then THERMAL_TEMPERATURE_NORMAL
      else if state = 1 then THERMAL_TEMPERATURE_HIGH
      else if state = 2 then THERMAL_TEMPERATURE_CRITICAL
      else THERMAL_TEMPERATURE_UNKNOWN)"

primrec ThermalImpl_conv_to :: "ThermalTemperature \<Rightarrow> int" where
  "ThermalImpl_conv_to THERMAL_TEMPERATURE_NORMAL = 0"
| "ThermalImpl_conv_to THERMAL_TEMPERATURE_HIGH = 1"
| "ThermalImpl_conv_to THERMAL_TEMPERATURE_CRITICAL = 2"
| "ThermalImpl_conv_to THERMAL_TEMPERATURE_UNKNOWN = 0"

definition ThermalImpl_GetTemperatureThresholds ::
  "'t mfr_api \<Rightarrow> cfloat \<Rightarrow> cfloat \<Rightarrow> 't \<Rightarrow> hresult \<times> cfloat \<times> cfloat" where
  "ThermalImpl_GetTemperatureThresholds api tempHigh tempCritical t =
     (case mfrGetTempThresholds api t of
        None \<Rightarrow> (ERROR_GENERAL, tempHigh, tempCritical)
      | Some (high, critical) \<Rightarrow> (ERROR_NONE, float_of_int high, float_of_int critical))"

text \<open>The library takes integers; the floats are converted at the call.\<close>

definition ThermalImpl_SetTemperatureThresholds :: "'t mfr_api \<Rightarrow> cfloat \<Rightarrow> cfloat \<Rightarrow> 't \<Rightarrow> hresult \<times> 't" where
  "ThermalImpl_SetTemperatureThresholds api tempHigh tempCritical t =
     (let (ok, t1) = mfrSetTempThresholds api (int_of_float tempHigh) (int_of_float tempCritical) t
      in (if ok then ERROR_NONE else ERROR_GENERAL, t1))"

definition ThermalImpl_GetClockSpeed :: "'t mfr_api \<Rightarrow> u32 \<Rightarrow> 't \<Rightarrow> hresult \<times> u32" where
  "ThermalImpl_GetClockSpeed api speed t =
     (case sysfs_read api cpufreq_cur t of
        None \<Rightarrow> (ERROR_GENERAL, speed)
      | Some s \<Rightarrow> (ERROR_NONE, case fscanf_int s of ScanInt v \<Rightarrow> v | _ \<Rightarrow> speed))"

text \<open>Printing with \<^verbatim>\<open>%u\<close>.\<close>

fun print_digits :: "nat \<Rightarrow> nat \<Rightarrow> string \<Rightarrow> string" where
  "print_digits 0 n acc = acc"
| "print_digits (Suc k) n acc =
     (let acc1 = char_of (48 + n mod 10) # acc in if n < 10 then acc1 else print_digits k (n div 10) acc1)"

definition print_u32 :: "u32 \<Rightarrow> string" where
  "print_u32 w = print_digits 10 (unat w) []"

definition ThermalImpl_SetClockSpeed :: "'t mfr_api \<Rightarrow> u32 \<Rightarrow> 't \<Rightarrow> hresult \<times> 't" where
  "ThermalImpl_SetClockSpeed api speed t =
     (case sysfs_write api cpufreq_governor ''userspace'' t of
        None \<Rightarrow> (ERROR_GENERAL, t)
      | Some t1 \<Rightarrow>
          (case sysfs_write api cpufreq_setspeed (print_u32 speed) t1 of
             None \<Rightarrow> (ERROR_GENERAL, t1)
           | Some t2 \<Rightarrow>
               (let (r, cur_speed) = ThermalImpl_GetClockSpeed api 0 t2
                in if r \<noteq> ERROR_NONE then (ERROR_NONE, t2)
                   else (if speed = cur_speed then ERROR_NONE else ERROR_GENERAL, t2))))"

text \<open>
  The loop of \<^verbatim>\<open>fscanf("%u")\<close> over the list of frequencies: what one conversion leaves of
  the input, and the numbers read until a conversion fails, 32 at most.
\<close>

definition scan_rest :: "string \<Rightarrow> string" where
  "scan_rest s =
     (case dropWhile is_space s of
        [] \<Rightarrow> []
      | c # cs \<Rightarrow> dropWhile is_digit (if c = CHR ''-'' \<or> c = CHR ''+'' then cs else c # cs))"

fun scan_freqs :: "nat \<Rightarrow> string \<Rightarrow> u32 list" where
  "scan_freqs 0 s = []"
| "scan_freqs (Suc room) s =
     (case fscanf_int s of ScanInt v \<Rightarrow> v # scan_freqs room (scan_rest s) | _ \<Rightarrow> [])"

definition uint32_compare :: "u32 \<Rightarrow> u32 \<Rightarrow> int" where
  "uint32_compare l r = (if l = r then 0 else if l < r then -1 else 1)"

text \<open>
  \<^verbatim>\<open>qsort\<close> sorts into an order in which no element compares greater than its successor; for a
  total order on plain numbers that is \<open>sort\<close>.
\<close>

definition ThermalImpl_DetemineClockSpeeds ::
  "'t mfr_api \<Rightarrow> u32 \<Rightarrow> u32 \<Rightarrow> u32 \<Rightarrow> 't \<Rightarrow> hresult \<times> u32 \<times> u32 \<times> u32" where
  "ThermalImpl_DetemineClockSpeeds api rNormal rScaled rMinimal t =
     (case sysfs_read api cpufreq_available t of
        None \<Rightarrow> (ERROR_GENERAL, rNormal, rScaled, rMinimal)
      | Some txt \<Rightarrow>
          (let freqs = scan_freqs 32 txt; numFreqs = length freqs
           in if numFreqs = 0 then (ERROR_GENERAL, rNormal, rScaled, rMinimal)
              else let freqList = sort freqs;
                       minimal = freqList ! 0;
                       scaled = freqList ! (numFreqs div 2);
                       normal = freqList ! (numFreqs - 1)
                   in (ERROR_NONE,
                       if rNormal = 0 then normal else rNormal,
                       if rScaled = 0 then scaled else rScaled,
                       if rMinimal = 0 then minimal else rMinimal)))"

definition ThermalImpl_GetTemperature ::
  "'t mfr_api \<Rightarrow> ThermalTemperature \<Rightarrow> cfloat \<Rightarrow> cfloat \<Rightarrow> 't \<Rightarrow> hresult \<times> ThermalTemperature \<times> cfloat \<times> cfloat" where
  "ThermalImpl_GetTemperature api curState curTemperature wifiTemperature t =
     (case mfrGetTemperature api t of
        None \<Rightarrow> (ERROR_GENERAL, curState, curTemperature, wifiTemperature)
      | Some (state, temperatureValue, wifiTempValue) \<Rightarrow>
          (ERROR_NONE, ThermalImpl_conv_from state, float_of_int temperatureValue, float_of_int wifiTempValue))"

definition ThermalImpl :: "'t mfr_api \<Rightarrow> 't thermal_platform" where
  "ThermalImpl api =
     \<lparr>ipt_GetTemperatureThresholds = ThermalImpl_GetTemperatureThresholds api,
      ipt_SetTemperatureThresholds = ThermalImpl_SetTemperatureThresholds api,
      ipt_GetClockSpeed = ThermalImpl_GetClockSpeed api,
      ipt_SetClockSpeed = ThermalImpl_SetClockSpeed api,
      ipt_DetemineClockSpeeds = ThermalImpl_DetemineClockSpeeds api,
      ipt_GetTemperature = ThermalImpl_GetTemperature api\<rparr>"

section \<open>\<^verbatim>\<open>ThermalMfrImpl\<close>\<close>

record soc_temp_param =
  stp_highTemp :: int
  stp_criticalTemp :: int
  stp_curState :: int
  stp_curSoCTemperature :: int
  stp_curWiFiTemperature :: int

record soc_freq_param =
  sfp_cpu_clock_speed :: u32
  sfp_cpu_rate_Normal :: u32
  sfp_cpu_rate_Scaled :: u32
  sfp_cpu_rate_Minimal :: u32

record 't mfr_bus =
  bus_GetTemperatureThresholds :: "'t \<Rightarrow> soc_temp_param option"     \<comment> \<open>\<open>None\<close>: the call failed\<close>
  bus_SetTemperatureThresholds :: "int \<Rightarrow> int \<Rightarrow> 't \<Rightarrow> bool \<times> 't"
  bus_GetCPUClockSpeed :: "'t \<Rightarrow> soc_freq_param option"
  bus_SetCPUClockSpeed :: "u32 \<Rightarrow> 't \<Rightarrow> bool \<times> 't"
  bus_SearchCPUClockSpeeds :: "'t \<Rightarrow> soc_freq_param option"
  bus_GetTemperature :: "'t \<Rightarrow> soc_temp_param option"

definition ThermalMfrImpl_GetTemperatureThresholds ::
  "'t mfr_bus \<Rightarrow> cfloat \<Rightarrow> cfloat \<Rightarrow> 't \<Rightarrow> hresult \<times> cfloat \<times> cfloat" where
  "ThermalMfrImpl_GetTemperatureThresholds bus tempHigh tempCritical t =
     (case bus_GetTemperatureThresholds bus t of
        None \<Rightarrow> (ERROR_GENERAL, tempHigh, tempCritical)
      | Some param \<Rightarrow> (ERROR_NONE, float_of_int (stp_highTemp param), float_of_int (stp_criticalTemp param)))"

definition ThermalMfrImpl_SetTemperatureThresholds :: "'t mfr_bus \<Rightarrow> cfloat \<Rightarrow> cfloat \<Rightarrow> 't \<Rightarrow> hresult \<times> 't" where
  "ThermalMfrImpl_SetTemperatureThresholds bus tempHigh tempCritical t =
     (let (ok, t1) = bus_SetTemperatureThresholds bus (int_of_float tempHigh) (int_of_float tempCritical) t
      in (if ok then ERROR_NONE else ERROR_GENERAL, t1))"

definition ThermalMfrImpl_GetClockSpeed :: "'t mfr_bus \<Rightarrow> u32 \<Rightarrow> 't \<Rightarrow> hresult \<times> u32" where
  "ThermalMfrImpl_GetClockSpeed bus speed t =
     (case bus_GetCPUClockSpeed bus t of
        None \<Rightarrow> (ERROR_GENERAL, speed)
      | Some param \<Rightarrow> (ERROR_NONE, sfp_cpu_clock_speed param))"

definition ThermalMfrImpl_SetClockSpeed :: "'t mfr_bus \<Rightarrow> u32 \<Rightarrow> 't \<Rightarrow> hresult \<times> 't" where
  "ThermalMfrImpl_SetClockSpeed bus speed t =
     (let (ok, t1) = bus_SetCPUClockSpeed bus speed t in (if ok then ERROR_NONE else ERROR_GENERAL, t1))"

definition ThermalMfrImpl_DetemineClockSpeeds ::
  "'t mfr_bus \<Rightarrow> u32 \<Rightarrow> u32 \<Rightarrow> u32 \<Rightarrow> 't \<Rightarrow> hresult \<times> u32 \<times> u32 \<times> u32" where
  "ThermalMfrImpl_DetemineClockSpeeds bus rNormal rScaled rMinimal t =
     (case bus_SearchCPUClockSpeeds bus t of
        None \<Rightarrow> (ERROR_GENERAL, rNormal, rScaled, rMinimal)
      | Some param \<Rightarrow>
          (ERROR_NONE, sfp_cpu_rate_Normal param, sfp_cpu_rate_Scaled param, sfp_cpu_rate_Minimal param))"

definition ThermalMfrImpl_conv_from :: "int \<Rightarrow> ThermalTemperature" where
  "ThermalMfrImpl_conv_from state =
     (if state = 0 then THERMAL_TEMPERATURE_NORMAL
      else if state = 1 then THERMAL_TEMPERATURE_HIGH
      else if state = 2 then THERMAL_TEMPERATURE_CRITICAL
      else THERMAL_TEMPERATURE_UNKNOWN)"

primrec ThermalMfrImpl_conv_to :: "ThermalTemperature \<Rightarrow> int" where
  "ThermalMfrImpl_conv_to THERMAL_TEMPERATURE_NORMAL = 0"
| "ThermalMfrImpl_conv_to THERMAL_TEMPERATURE_HIGH = 1"
| "ThermalMfrImpl_conv_to THERMAL_TEMPERATURE_CRITICAL = 2"
| "ThermalMfrImpl_conv_to THERMAL_TEMPERATURE_UNKNOWN = 0"

definition ThermalMfrImpl_GetTemperature ::
  "'t mfr_bus \<Rightarrow> ThermalTemperature \<Rightarrow> cfloat \<Rightarrow> cfloat \<Rightarrow> 't \<Rightarrow> hresult \<times> ThermalTemperature \<times> cfloat \<times> cfloat" where
  "ThermalMfrImpl_GetTemperature bus curState curTemperature wifiTemperature t =
     (case bus_GetTemperature bus t of
        None \<Rightarrow> (ERROR_GENERAL, curState, curTemperature, wifiTemperature)
      | Some param \<Rightarrow>
          (ERROR_NONE, ThermalMfrImpl_conv_from (stp_curState param),
           float_of_int (stp_curSoCTemperature param), float_of_int (stp_curWiFiTemperature param)))"

definition ThermalMfrImpl :: "'t mfr_bus \<Rightarrow> 't thermal_platform" where
  "ThermalMfrImpl bus =
     \<lparr>ipt_GetTemperatureThresholds = ThermalMfrImpl_GetTemperatureThresholds bus,
      ipt_SetTemperatureThresholds = ThermalMfrImpl_SetTemperatureThresholds bus,
      ipt_GetClockSpeed = ThermalMfrImpl_GetClockSpeed bus,
      ipt_SetClockSpeed = ThermalMfrImpl_SetClockSpeed bus,
      ipt_DetemineClockSpeeds = ThermalMfrImpl_DetemineClockSpeeds bus,
      ipt_GetTemperature = ThermalMfrImpl_GetTemperature bus\<rparr>"

section \<open>Clock speeds\<close>

lemma conv_from_to_known:
  "s \<noteq> THERMAL_TEMPERATURE_UNKNOWN \<Longrightarrow> ThermalImpl_conv_from (ThermalImpl_conv_to s) = s"
  "s \<noteq> THERMAL_TEMPERATURE_UNKNOWN \<Longrightarrow> ThermalMfrImpl_conv_from (ThermalMfrImpl_conv_to s) = s"
  by (cases s; simp add: ThermalImpl_conv_from_def ThermalMfrImpl_conv_from_def)+

lemma sort_nth_mono: "i \<le> j \<Longrightarrow> j < length xs \<Longrightarrow> sort (xs :: u32 list) ! i \<le> sort xs ! j"
  by (rule sorted_nth_mono) simp_all

text \<open>
  When the frequencies can be read and none is configured, the three clock speeds are
  frequencies of the list, minimal at most scaled at most normal, and the minimal and normal ones
  bound the whole list.
\<close>

lemma clock_speeds_ordered:
  assumes "sysfs_read api cpufreq_available t = Some txt" and "scan_freqs 32 txt \<noteq> []"
  shows "\<exists>n s m. ThermalImpl_DetemineClockSpeeds api 0 0 0 t = (ERROR_NONE, n, s, m) \<and>
     m \<le> s \<and> s \<le> n \<and> {m, s, n} \<subseteq> set (scan_freqs 32 txt) \<and> set (scan_freqs 32 txt) \<subseteq> {m..n}"
proof -
  let ?f = "scan_freqs 32 txt"
  let ?k = "length ?f"
  have k: "0 < ?k" "?k div 2 < ?k" "?k - 1 < ?k" "?k div 2 \<le> ?k - 1" using assms(2) by auto
  have d: "ThermalImpl_DetemineClockSpeeds api 0 0 0 t =
      (ERROR_NONE, sort ?f ! (?k - 1), sort ?f ! (?k div 2), sort ?f ! 0)"
    using assms by (simp add: ThermalImpl_DetemineClockSpeeds_def Let_def)
  have mem: "sort ?f ! i \<in> set ?f" if "i < ?k" for i
    using that nth_mem [of i "sort ?f"] by simp
  have bnd: "set ?f \<subseteq> {sort ?f ! 0 .. sort ?f ! (?k - 1)}"
  proof
    fix x assume "x \<in> set ?f"
    then obtain i where "i < ?k" "x = sort ?f ! i" by (metis in_set_conv_nth length_sort set_sort)
    then show "x \<in> {sort ?f ! 0 .. sort ?f ! (?k - 1)}"
      using sort_nth_mono [of 0 i ?f] sort_nth_mono [of i "?k - 1" ?f] k(1) by auto
  qed
  show ?thesis
    unfolding d using k mem bnd sort_nth_mono [of 0 "?k div 2" ?f] sort_nth_mono [of "?k div 2" "?k - 1" ?f]
    by auto
qed

definition demo_mfr :: "unit mfr_api" where
  "demo_mfr =
     \<lparr>mfrGetTempThresholds = \<lambda>t. Some (100, 110), mfrSetTempThresholds = \<lambda>h c t. (True, t),
      mfrGetTemperature = \<lambda>t. Some (0, 50, 40),
      sysfs_read = \<lambda>p t. Some ''600 1200 900 1500'', sysfs_write = \<lambda>p x t. Some t\<rparr>"

lemma demo_freqs: "scan_freqs 32 ''600 1200 900 1500'' = [600, 1200, 900, 1500]"
  by (simp add: numeral_eq_Suc fscanf_int_def scan_rest_def is_space_def is_digit_def strtol10_def digit_val_def)

lemma clock_speeds_ordered_witness:
  "\<exists>n s m. ThermalImpl_DetemineClockSpeeds demo_mfr 0 0 0 () = (ERROR_NONE, n, s, m) \<and>
     m \<le> s \<and> s \<le> n \<and> {m, s, n} \<subseteq> {600, 1200, 900, 1500} \<and> {600, 1200, 900, 1500} \<subseteq> {m..n}"
proof -
  have r: "sysfs_read demo_mfr cpufreq_available () = Some ''600 1200 900 1500''" by (simp add: demo_mfr_def)
  from clock_speeds_ordered [OF r] show ?thesis unfolding demo_freqs by simp
qed

end
