(* ===== verification/ZoneMonitor.thy ===== *)
theory ZoneMonitor
  imports PM_Prelude
begin

text \<open>
  The contract of a temperature check with hysteresis, which the thermal controller uses twice
  (for deep sleep and for rebooting): at or above the critical temperature it acts at once;
  reaching the concern temperature enters a zone that is only left below the safe temperature,
  and it acts when the zone has lasted for the grace interval. A grace interval of 0 disables
  the check.
\<close>

record thresholds =
  th_critical :: int
  th_concern :: int
  th_safe :: int
  th_graceInterval :: int

text \<open>The zone after a sample, \<open>Some t\<close> when it was entered at \<open>t\<close>.\<close>

definition zone_next :: "thresholds \<Rightarrow> int \<Rightarrow> int \<Rightarrow> int option \<Rightarrow> int option" where
  "zone_next th now temp z =
     (if temp \<ge> th_critical th then z
      else if z = None \<and> temp \<ge> th_concern th then Some now
      else if z \<noteq> None \<and> temp < th_safe th then None
      else z)"

locale zone_monitor =
  fixes poll :: "int \<Rightarrow> int \<Rightarrow> 's \<Rightarrow> 's \<times> 'c list"     \<comment> \<open>time of day and temperature of the sample\<close>
    and zone :: "'s \<Rightarrow> int option"
    and limits :: "'s \<Rightarrow> thresholds"
  assumes poll_limits: "limits (fst (poll now temp s)) = limits s"
    and poll_disabled: "th_graceInterval (limits s) = 0 \<Longrightarrow> snd (poll now temp s) = []"
    and poll_zone: "th_graceInterval (limits s) \<noteq> 0 \<Longrightarrow>
      zone (fst (poll now temp s)) = zone_next (limits s) now temp (zone s)"
    and poll_acts: "th_graceInterval (limits s) \<noteq> 0 \<Longrightarrow>
      snd (poll now temp s) = [] \<longleftrightarrow>
        temp < th_critical (limits s) \<and>
        (case zone_next (limits s) now temp (zone s) of
           None \<Rightarrow> True | Some t \<Rightarrow> now - t < th_graceInterval (limits s))"
begin

text \<open>A sequence of samples, and the actions of each.\<close>

fun polls :: "(int \<times> int) list \<Rightarrow> 's \<Rightarrow> 's \<times> 'c list list" where
  "polls [] s = (s, [])"
| "polls ((now, temp) # xs) s =
     (let (s1, cs) = poll now temp s; (s2, css) = polls xs s1 in (s2, cs # css))"

lemma polls_limits: "limits (fst (polls xs s)) = limits s"
proof (induction xs arbitrary: s)
  case (Cons x xs)
  obtain now temp where x: "x = (now, temp)" by fastforce
  from Cons [of "fst (poll now temp s)"] show ?case
    by (simp add: x Let_def split_beta poll_limits)
qed simp

lemma disabled_never_acts:
  "th_graceInterval (limits s) = 0 \<Longrightarrow> concat (snd (polls xs s)) = []"
proof (induction xs arbitrary: s)
  case (Cons x xs)
  obtain now temp where x: "x = (now, temp)" by fastforce
  from Cons.prems Cons.IH [of "fst (poll now temp s)"] show ?case
    by (simp add: x Let_def split_beta poll_limits poll_disabled)
qed simp

text \<open>As long as every sample is below the concern temperature, nothing happens.\<close>

lemma cool_never_acts:
  assumes "zone s = None" "th_concern (limits s) \<le> th_critical (limits s)"
    and "\<forall>(now, temp) \<in> set xs. temp < th_concern (limits s)"
  shows "concat (snd (polls xs s)) = [] \<and>
    (th_graceInterval (limits s) \<noteq> 0 \<longrightarrow> zone (fst (polls xs s)) = None)"
proof (cases "th_graceInterval (limits s) = 0")
  case True
  then show ?thesis by (simp add: disabled_never_acts)
next
  case g: False
  show ?thesis using assms g
  proof (induction xs arbitrary: s)
    case (Cons x xs)
    obtain now temp where x: "x = (now, temp)" by fastforce
    have z: "zone_next (limits s) now temp (zone s) = None"
      using Cons.prems by (auto simp: zone_next_def x)
    have p: "zone (fst (poll now temp s)) = None" "snd (poll now temp s) = []"
      using Cons.prems z by (auto simp: poll_zone poll_acts x)
    have "concat (snd (polls xs (fst (poll now temp s)))) = [] \<and>
        zone (fst (polls xs (fst (poll now temp s)))) = None"
      using Cons.prems p Cons.IH [of "fst (poll now temp s)"] by (auto simp: poll_limits)
    then show ?case by (simp add: x Let_def split_beta p)
  qed simp
qed

text \<open>
  Inside the zone, as long as every sample stays between the safe and the critical temperature,
  a sample acts exactly when the grace interval has passed since the zone was entered.
\<close>

lemma warm_acts_after_grace:
  assumes "th_graceInterval (limits s) \<noteq> 0" "zone s = Some t0"
    and "\<forall>(now, temp) \<in> set xs. th_safe (limits s) \<le> temp \<and> temp < th_critical (limits s)"
  shows "map (\<lambda>cs. cs = []) (snd (polls xs s)) =
         map (\<lambda>(now, temp). now - t0 < th_graceInterval (limits s)) xs"
  using assms
proof (induction xs arbitrary: s)
  case (Cons x xs)
  obtain now temp where x: "x = (now, temp)" by fastforce
  have z: "zone_next (limits s) now temp (zone s) = Some t0"
    using Cons.prems by (auto simp: zone_next_def x)
  let ?s = "fst (poll now temp s)"
  have "map (\<lambda>cs. cs = []) (snd (polls xs ?s)) = map (\<lambda>(now, temp). now - t0 < th_graceInterval (limits ?s)) xs"
    using Cons.prems z by (intro Cons.IH) (auto simp: poll_limits poll_zone)
  moreover have "snd (poll now temp s) = [] \<longleftrightarrow> now - t0 < th_graceInterval (limits s)"
    using Cons.prems z by (auto simp: poll_acts x)
  ultimately show ?case by (simp add: x Let_def split_beta poll_limits)
qed simp

text \<open>The sample that enters the zone starts the interval, and does not act itself.\<close>

lemma entering:
  assumes "0 < th_graceInterval (limits s)" "zone s = None"
    and "th_concern (limits s) \<le> temp" "temp < th_critical (limits s)"
  shows "zone (fst (poll t0 temp s)) = Some t0" "snd (poll t0 temp s) = []"
  using assms by (auto simp: poll_zone poll_acts zone_next_def)

lemma enter_then_grace:
  assumes "0 < th_graceInterval (limits s)" "zone s = None"
    and "th_concern (limits s) \<le> temp0" "temp0 < th_critical (limits s)"
    and "\<forall>(now, temp) \<in> set xs. th_safe (limits s) \<le> temp \<and> temp < th_critical (limits s)"
  shows "map (\<lambda>cs. cs = []) (snd (polls ((t0, temp0) # xs) s)) =
         True # map (\<lambda>(now, temp). now - t0 < th_graceInterval (limits s)) xs"
  using assms entering [OF assms(1-4), of t0]
    warm_acts_after_grace [of "fst (poll t0 temp0 s)" t0 xs]
  by (simp add: Let_def split_beta poll_limits)

text \<open>Cooling below the safe temperature forgets the zone, so a new excursion starts a new interval.\<close>

lemma cooling_resets:
  assumes "th_graceInterval (limits s) \<noteq> 0" "temp < th_safe (limits s)"
    and "th_safe (limits s) \<le> th_concern (limits s)" "th_concern (limits s) \<le> th_critical (limits s)"
  shows "zone (fst (poll now temp s)) = None" "snd (poll now temp s) = []"
proof -
  have "zone_next (limits s) now temp (zone s) = None"
    using assms(2-4) by (auto simp: zone_next_def)
  with assms show "zone (fst (poll now temp s)) = None" "snd (poll now temp s) = []"
    by (auto simp: poll_zone poll_acts)
qed

lemma critical_acts:
  "th_graceInterval (limits s) \<noteq> 0 \<Longrightarrow> th_critical (limits s) \<le> temp \<Longrightarrow> snd (poll now temp s) \<noteq> []"
  by (simp add: poll_acts)

end

end
