(* ===== verification/ThermalController.thy ===== *)
theory ThermalController
  imports ThermalHal ZoneMonitor "HOL-Library.Monad_Syntax"
begin

text \<open>
  \<^verbatim>\<open>plugin/ThermalController.h\<close>, \<^verbatim>\<open>.cpp\<close>: the thread that polls the temperature and
  reacts to it by deep sleep, reboot and lower clock speeds, and the thresholds it uses.

  The function-local static variables of the checks (\<^verbatim>\<open>monitorTime\<close>, \<^verbatim>\<open>deepSleepZone\<close>)
  are fields of the state, which a later object of the same process inherits
  (\<open>ThermalController_again\<close>). Calls of the parent and shell commands are values \<open>th_call\<close>. The
  build options \<^verbatim>\<open>MFR_TEMP_CLOCK_READ\<close> and \<^verbatim>\<open>DISABLE_DECLOCKING_LOGIC\<close> are arguments.
  Remote configuration is a function from keys to values, \<open>None\<close> when the lookup fails.
  Undefined behaviour (division by zero, an overflowing copy, \<^verbatim>\<open>atoi\<close> out of range) is the
  result \<open>None\<close>. The clock is read once per check.
\<close>

section \<open>State\<close>

datatype th_call =
    ThShell string
  | ThDeepSleep                                                    \<comment> \<open>\<^verbatim>\<open>onDeepSleepForThermalChange\<close>\<close>
  | ThChanged ThermalTemperature ThermalTemperature cfloat         \<comment> \<open>\<^verbatim>\<open>onThermalTemperatureChanged\<close>\<close>

record 't thc =
  thc_dev :: 't
  thc_rebootZone :: bool
  thc_rebootTime :: int
  thc_deepSleepZone :: bool
  thc_deepSleepTime :: int
  thc_declockTime :: int
  thc_reboot :: thresholds
  thc_deepsleep :: thresholds
  thc_declock :: thresholds
  thc_poll_interval :: int
  thc_read_config_param :: bool
  thc_isFeatureEnabled :: bool
  thc_cur_Level :: ThermalTemperature
  thc_cur_Value :: int
  thc_cur_Cpu_Speed :: u32
  thc_NORMAL :: u32
  thc_SCALED :: u32
  thc_MINIMAL :: u32
  thc_thread :: bool

text \<open>The initial values of the members, for both variants of the build.\<close>

definition rebootThreshold_mfr :: thresholds where
  [simp]: "rebootThreshold_mfr = \<lparr>th_critical = 110, th_concern = 102, th_safe = 100, th_graceInterval = 600\<rparr>"

definition rebootThreshold_init :: "bool \<Rightarrow> thresholds" where
  "rebootThreshold_init mfr =
     (if mfr then rebootThreshold_mfr
      else \<lparr>th_critical = 120, th_concern = 120, th_safe = 110, th_graceInterval = 600\<rparr>)"

definition deepsleepThreshold_mfr :: thresholds where
  [simp]: "deepsleepThreshold_mfr = \<lparr>th_critical = 105, th_concern = 100, th_safe = 90, th_graceInterval = 600\<rparr>"

definition deepsleepThreshold_init :: "bool \<Rightarrow> thresholds" where
  "deepsleepThreshold_init mfr =
     (if mfr then deepsleepThreshold_mfr
      else \<lparr>th_critical = 115, th_concern = 110, th_safe = 100, th_graceInterval = 600\<rparr>)"

definition declockThreshold_mfr :: thresholds where
  [simp]: "declockThreshold_mfr = \<lparr>th_critical = 100, th_concern = 90, th_safe = 80, th_graceInterval = 60\<rparr>"

definition declockThreshold_init :: "bool \<Rightarrow> thresholds" where
  "declockThreshold_init mfr =
     (if mfr then declockThreshold_mfr
      else \<lparr>th_critical = 110, th_concern = 100, th_safe = 90, th_graceInterval = 60\<rparr>)"

definition thc_members :: "bool \<Rightarrow> 't \<Rightarrow> 't thc" where
  "thc_members mfr t =
     \<lparr>thc_dev = t, thc_rebootZone = False, thc_rebootTime = 0, thc_deepSleepZone = False,
      thc_deepSleepTime = 0, thc_declockTime = 0, thc_reboot = rebootThreshold_init mfr,
      thc_deepsleep = deepsleepThreshold_init mfr, thc_declock = declockThreshold_init mfr,
      thc_poll_interval = 30, thc_read_config_param = False, thc_isFeatureEnabled = True,
      thc_cur_Level = THERMAL_TEMPERATURE_NORMAL, thc_cur_Value = 0, thc_cur_Cpu_Speed = 0,
      thc_NORMAL = 0, thc_SCALED = 0, thc_MINIMAL = 0, thc_thread = False\<rparr>"

section \<open>Accessors\<close>

definition THC_GetThermalState :: "'t thc \<Rightarrow> hresult \<times> ThermalTemperature \<times> cfloat" where
  "THC_GetThermalState s = (ERROR_NONE, thc_cur_Level s, float_of_int (thc_cur_Value s))"

definition THC_GetTemperatureThresholds :: "'t thermal_platform \<Rightarrow> cfloat \<Rightarrow> cfloat \<Rightarrow> 't thc \<Rightarrow> hresult \<times> cfloat \<times> cfloat" where
  "THC_GetTemperatureThresholds pl high critical s = ipt_GetTemperatureThresholds pl high critical (thc_dev s)"

definition THC_SetTemperatureThresholds :: "'t thermal_platform \<Rightarrow> cfloat \<Rightarrow> cfloat \<Rightarrow> 't thc \<Rightarrow> hresult \<times> 't thc" where
  "THC_SetTemperatureThresholds pl high critical s =
     (let (retCode, t) = ipt_SetTemperatureThresholds pl high critical (thc_dev s)
      in (retCode, s\<lparr>thc_dev := t\<rparr>))"

definition THC_GetOvertempGraceInterval :: "'t thc \<Rightarrow> hresult \<times> int" where
  "THC_GetOvertempGraceInterval s = (ERROR_NONE, th_graceInterval (thc_reboot s))"

definition THC_SetOvertempGraceInterval :: "int \<Rightarrow> 't thc \<Rightarrow> hresult \<times> 't thc" where
  "THC_SetOvertempGraceInterval graceInterval s =
     (if graceInterval \<ge> 0
      then (ERROR_NONE, s\<lparr>thc_reboot := (thc_reboot s)\<lparr>th_graceInterval := graceInterval\<rparr>,
                          thc_deepsleep := (thc_deepsleep s)\<lparr>th_graceInterval := graceInterval\<rparr>\<rparr>)
      else (ERROR_INVALID_PARAMETER, s))"

definition THC_str :: "ThermalTemperature \<Rightarrow> string" where
  "THC_str mode =
     (case mode of
        THERMAL_TEMPERATURE_NORMAL \<Rightarrow> ''NORMAL''
      | THERMAL_TEMPERATURE_HIGH \<Rightarrow> ''HIGH''
      | THERMAL_TEMPERATURE_CRITICAL \<Rightarrow> ''CRITICAL''
      | THERMAL_TEMPERATURE_UNKNOWN \<Rightarrow> ''UNKNOWN'')"

section \<open>Remote configuration\<close>

definition tolower :: "char \<Rightarrow> char" where
  "tolower c = (let n = of_char c :: nat in if 65 \<le> n \<and> n \<le> 90 then char_of (n + 32) else c)"

text \<open>\<^verbatim>\<open>strncasecmp(value, "false", 5) == 0\<close>: a prefix is enough.\<close>

definition updateRFCStatus :: "(string \<Rightarrow> string option) \<Rightarrow> 't thc \<Rightarrow> bool \<times> 't thc" where
  "updateRFCStatus rfc s =
     (let s1 = s\<lparr>thc_isFeatureEnabled := True\<rparr>
      in case rfc ''RFC_ENABLE_ThermalProtection'' of
           None \<Rightarrow> (False, s1)
         | Some v \<Rightarrow> if map tolower (take 5 v) = ''false'' then (False, s1\<lparr>thc_isFeatureEnabled := False\<rparr>)
                     else (True, s1))"

text \<open>
  The value of a property, in a buffer of 16 bytes: \<open>None\<close> for the copy of \<^verbatim>\<open>dataLen - 2\<close>
  bytes that wraps around, \<open>Some None\<close> when there is no value.
\<close>

definition read_ConfigProperty :: "(string \<Rightarrow> string option) \<Rightarrow> string \<Rightarrow> string option option" where
  "read_ConfigProperty rfc key =
     (case rfc key of
        None \<Rightarrow> Some None
      | Some v \<Rightarrow>
          (let dataLen = min (length v) 15
           in if v \<noteq> [] \<and> hd v = CHR 0x22 \<and> v ! (dataLen - 1) = CHR 0x22
              then if dataLen < 2 then None
                   else let b = take (dataLen - 2) (tl v) in Some (if b = [] then None else Some b)
              else let b = take 15 v in Some (if b = [] then None else Some b)))"

definition rfc_int :: "(string \<Rightarrow> string option) \<Rightarrow> string \<Rightarrow> int \<Rightarrow> int option" where
  "rfc_int rfc key old = do {
     v \<leftarrow> read_ConfigProperty rfc (''RFC_DATA_ThermalProtection_'' @ key);
     case v of None \<Rightarrow> Some old | Some t \<Rightarrow> atoi t }"

definition read_ConfigProps :: "(string \<Rightarrow> string option) \<Rightarrow> 't thc \<Rightarrow> 't thc option" where
  "read_ConfigProps rfc s = do {
     rc \<leftarrow> rfc_int rfc ''REBOOT_CRITICAL_THRESHOLD'' (th_critical (thc_reboot s));
     rn \<leftarrow> rfc_int rfc ''REBOOT_CONCERN_THRESHOLD'' (th_concern (thc_reboot s));
     rs \<leftarrow> rfc_int rfc ''REBOOT_SAFE_THRESHOLD'' (th_safe (thc_reboot s));
     rg \<leftarrow> rfc_int rfc ''REBOOT_GRACE_INTERVAL'' (th_graceInterval (thc_reboot s));
     cc \<leftarrow> rfc_int rfc ''DECLOCK_CRITICAL_THRESHOLD'' (th_critical (thc_declock s));
     cn \<leftarrow> rfc_int rfc ''DECLOCK_CONCERN_THRESHOLD'' (th_concern (thc_declock s));
     cs \<leftarrow> rfc_int rfc ''DECLOCK_SAFE_THRESHOLD'' (th_safe (thc_declock s));
     cg \<leftarrow> rfc_int rfc ''DECLOCK_GRACE_INTERVAL'' (th_graceInterval (thc_declock s));
     dc \<leftarrow> rfc_int rfc ''DEEPSLEEP_CRITICAL_THRESHOLD'' (th_critical (thc_deepsleep s));
     dn \<leftarrow> rfc_int rfc ''DEEPSLEEP_CONCERN_THRESHOLD'' (th_concern (thc_deepsleep s));
     ds \<leftarrow> rfc_int rfc ''DEEPSLEEP_SAFE_THRESHOLD'' (th_safe (thc_deepsleep s));
     dg \<leftarrow> rfc_int rfc ''DEEPSLEEP_GRACE_INTERVAL'' (th_graceInterval (thc_deepsleep s));
     pi \<leftarrow> rfc_int rfc ''POLL_INTERVAL'' (thc_poll_interval s);
     fn \<leftarrow> rfc_int rfc ''PLAT_CPU_SPEED_NORMAL'' (uint (thc_NORMAL s));
     fs \<leftarrow> rfc_int rfc ''PLAT_CPU_SPEED_SCALED'' (uint (thc_SCALED s));
     fm \<leftarrow> rfc_int rfc ''PLAT_CPU_SPEED_MINIMAL'' (uint (thc_MINIMAL s));
     Some (s\<lparr>thc_reboot := \<lparr>th_critical = rc, th_concern = rn, th_safe = rs, th_graceInterval = rg\<rparr>,
             thc_declock := \<lparr>th_critical = cc, th_concern = cn, th_safe = cs, th_graceInterval = cg\<rparr>,
             thc_deepsleep := \<lparr>th_critical = dc, th_concern = dn, th_safe = ds, th_graceInterval = dg\<rparr>,
             thc_poll_interval := pi, thc_NORMAL := word_of_int fn, thc_SCALED := word_of_int fs,
             thc_MINIMAL := word_of_int fm\<rparr>) }"

definition isThermalProtectionEnabled :: "(string \<Rightarrow> string option) \<Rightarrow> 't thc \<Rightarrow> (bool \<times> 't thc) option" where
  "isThermalProtectionEnabled rfc s =
     (if \<not> thc_read_config_param s
      then (let (result, s1) = updateRFCStatus rfc s
            in do { s2 \<leftarrow> (if result then read_ConfigProps rfc s1 else Some s1);
                    Some (thc_isFeatureEnabled s2, s2\<lparr>thc_read_config_param := True\<rparr>) })
      else Some (thc_isFeatureEnabled s, s))"

definition initializeThermalProtection ::
  "'t thermal_platform \<Rightarrow> bool \<Rightarrow> (string \<Rightarrow> string option) \<Rightarrow> 't thc \<Rightarrow> 't thc option" where
  "initializeThermalProtection pl disable_declock rfc s = do {
     (enabled, s1) \<leftarrow> isThermalProtectionEnabled rfc s;
     if enabled
     then (let s3 =
             (if \<not> disable_declock \<and> th_graceInterval (thc_declock s1) > 0
              then let (_, n, sc, m) = ipt_DetemineClockSpeeds pl (thc_NORMAL s1) (thc_SCALED s1) (thc_MINIMAL s1) (thc_dev s1);
                       s2 = s1\<lparr>thc_NORMAL := n, thc_SCALED := sc, thc_MINIMAL := m\<rparr>;
                       s2' = (if n = 0 \<or> sc = 0 \<or> m = 0
                              then s2\<lparr>thc_declock := (thc_declock s2)\<lparr>th_graceInterval := 0\<rparr>\<rparr> else s2)
                   in s2'\<lparr>thc_cur_Cpu_Speed := n\<rparr>
              else s1);
             (_, t) = ipt_SetTemperatureThresholds pl (float_of_int (th_concern (thc_declock s3)))
                        (float_of_int (th_critical (thc_declock s3))) (thc_dev s3)
           in Some (s3\<lparr>thc_dev := t, thc_thread := True\<rparr>))
     else Some s1 }"

definition ThermalController_new ::
  "'t thermal_platform \<Rightarrow> bool \<Rightarrow> bool \<Rightarrow> (string \<Rightarrow> string option) \<Rightarrow> 't \<Rightarrow> 't thc option" where
  "ThermalController_new pl mfr disable_declock rfc t =
     initializeThermalProtection pl disable_declock rfc (thc_members mfr t)"

section \<open>The checks\<close>

definition logThermalShutdownReason :: th_call where
  "logThermalShutdownReason = ThShell ''echo THERMAL_SHUTDOWN > /opt/standbyReason.txt''"

definition reboot_cmd :: "string \<Rightarrow> th_call" where
  "reboot_cmd why = ThShell (''/rebootNow.sh -s Power_Thermmgr -o '' @ [CHR 0x27] @ why @ [CHR 0x27])"

definition reboot_forced :: th_call where
  "reboot_forced = reboot_cmd ''Rebooting the box due to stb temperature greater than rebootThreshold critical...''"

definition reboot_expired :: th_call where
  "reboot_expired = reboot_cmd ''Rebooting the box as the stb temperature is still above critical level after 20 seconds...''"

definition rebootIfNeeded :: "int \<Rightarrow> 't thc \<Rightarrow> 't thc \<times> th_call list" where
  "rebootIfNeeded now s =
     (if th_graceInterval (thc_reboot s) = 0 then (s, [])
      else let (s1, cs) =
             (if thc_cur_Value s \<ge> th_critical (thc_reboot s) then (s, [reboot_forced])
              else if \<not> thc_rebootZone s \<and> thc_cur_Value s \<ge> th_concern (thc_reboot s)
              then (s\<lparr>thc_rebootTime := now, thc_rebootZone := True\<rparr>, [])
              else if thc_rebootZone s \<and> thc_cur_Value s < th_safe (thc_reboot s)
              then (s\<lparr>thc_rebootZone := False\<rparr>, [])
              else (s, []))
           in if thc_rebootZone s1
              then if now - thc_rebootTime s1 \<ge> th_graceInterval (thc_reboot s1)
                   then (s1, cs @ [reboot_expired]) else (s1, cs)
              else (s1, cs))"

definition deepSleepIfNeeded :: "int \<Rightarrow> 't thc \<Rightarrow> 't thc \<times> th_call list" where
  "deepSleepIfNeeded now s =
     (if th_graceInterval (thc_deepsleep s) = 0 then (s, [])
      else let (s1, cs) =
             (if thc_cur_Value s \<ge> th_critical (thc_deepsleep s)
              then (s, [logThermalShutdownReason, ThDeepSleep])
              else if \<not> thc_deepSleepZone s \<and> thc_cur_Value s \<ge> th_concern (thc_deepsleep s)
              then (s\<lparr>thc_deepSleepTime := now, thc_deepSleepZone := True\<rparr>, [])
              else if thc_deepSleepZone s \<and> thc_cur_Value s < th_safe (thc_deepsleep s)
              then (s\<lparr>thc_deepSleepZone := False\<rparr>, [])
              else (s, []))
           in if thc_deepSleepZone s1
              then if now - thc_deepSleepTime s1 \<ge> th_graceInterval (thc_deepsleep s1)
                   then (s1, cs @ [logThermalShutdownReason, ThDeepSleep]) else (s1, cs)
              else (s1, cs))"

text \<open>A failing \<^verbatim>\<open>SetClockSpeed\<close> is only logged.\<close>

definition set_clock :: "'t thermal_platform \<Rightarrow> u32 \<Rightarrow> 't thc \<Rightarrow> 't thc" where
  "set_clock pl speed s = s\<lparr>thc_dev := snd (ipt_SetClockSpeed pl speed (thc_dev s)), thc_cur_Cpu_Speed := speed\<rparr>"

definition declockIfNeeded :: "'t thermal_platform \<Rightarrow> bool \<Rightarrow> int \<Rightarrow> 't thc \<Rightarrow> 't thc" where
  "declockIfNeeded pl disable_declock now s =
     (if disable_declock then s
      else let th = thc_declock s; temp = thc_cur_Value s; speed = thc_cur_Cpu_Speed s
      in if th_graceInterval th = 0 then s
      else if temp \<ge> th_critical th
      then (if speed \<noteq> thc_MINIMAL s then set_clock pl (thc_MINIMAL s) s else s)\<lparr>thc_declockTime := now\<rparr>
      else if temp \<ge> th_concern th
      then (if speed = thc_NORMAL s then set_clock pl (thc_SCALED s) s else s)\<lparr>thc_declockTime := now\<rparr>
      else if temp > th_safe th
      then (if speed = thc_MINIMAL s
            then if now - thc_declockTime s \<ge> th_graceInterval th
                 then (set_clock pl (thc_SCALED s) s)\<lparr>thc_declockTime := now\<rparr> else s
            else s\<lparr>thc_declockTime := now\<rparr>)
      else if speed \<noteq> thc_NORMAL s
      then if now - thc_declockTime s \<ge> th_graceInterval th then set_clock pl (thc_NORMAL s) s else s
      else s)"

section \<open>The poll thread\<close>

text \<open>
  What the parent answers and the clock shows during one iteration, and whether the destructor
  has asked the thread to stop by the time the flag is read after the measurement.
\<close>

record poll_env =
  pe_result :: hresult
  pe_state :: PowerState
  pe_now :: int
  pe_stop :: bool

datatype 't poll_outcome =
    PollTrap                              \<comment> \<open>division by zero\<close>
  | PollBreak "'t thc" "th_call list"     \<comment> \<open>the thread ends with \<^verbatim>\<open>_therm_mutex\<close> locked\<close>
  | PollEnd "'t thc" "th_call list"       \<comment> \<open>the thread ends at the head of the loop\<close>
  | PollNext "'t thc" u32 "th_call list"  \<comment> \<open>with the next value of \<^verbatim>\<open>pollCount\<close>\<close>

text \<open>The intervals computed before the loop, \<open>None\<close> when the poll interval is 0.\<close>

definition poll_intervals :: "'t thc \<Rightarrow> (u32 \<times> u32) option" where
  "poll_intervals s = do {
     thermalLogInterval \<leftarrow> cdiv 300 (thc_poll_interval s);
     fifteenMinInterval \<leftarrow> cdiv 900 (thc_poll_interval s);
     Some (word_of_int thermalLogInterval, word_of_int fifteenMinInterval) }"

definition poll_measure ::
  "'t thermal_platform \<Rightarrow> bool \<Rightarrow> u32 \<Rightarrow> u32 \<Rightarrow> poll_env \<Rightarrow> u32 \<Rightarrow> 't thc \<Rightarrow> 't poll_outcome" where
  "poll_measure pl disable_declock logInterval fifteenMin env pollCount s =
     (case ipt_GetTemperature pl THERMAL_TEMPERATURE_UNKNOWN 0 0 (thc_dev s) of
        (result, state, current_Temp, _) \<Rightarrow>
          if result = ERROR_NONE
          then (let cs = (if thc_cur_Level s \<noteq> state then [ThChanged (thc_cur_Level s) state current_Temp] else []);
                    s1 = (if thc_cur_Level s \<noteq> state then s\<lparr>thc_cur_Level := state\<rparr> else s)
                in case (umod pollCount fifteenMin, umod pollCount logInterval) of
                     (Some _, Some _) \<Rightarrow>
                       (let s2 = s1\<lparr>thc_cur_Value := int_of_float current_Temp\<rparr>
                        in if pe_stop env then PollBreak s2 cs
                           else let (s3, ds) = deepSleepIfNeeded (pe_now env) s2;
                                    (s4, rs) = rebootIfNeeded (pe_now env) s3;
                                    s5 = declockIfNeeded pl disable_declock (pe_now env) s4
                                in PollNext s5 (pollCount + 1) (cs @ ds @ rs))
                   | _ \<Rightarrow> PollTrap)
          else PollNext s (pollCount + 1) [])"

text \<open>One iteration of \<^verbatim>\<open>pollThermalLevels\<close>: nothing is done while the device is in deep sleep.\<close>

definition poll_iteration ::
  "'t thermal_platform \<Rightarrow> bool \<Rightarrow> poll_env \<Rightarrow> u32 \<Rightarrow> 't thc \<Rightarrow> 't poll_outcome" where
  "poll_iteration pl disable_declock env pollCount s =
     (case poll_intervals s of
        None \<Rightarrow> PollTrap
      | Some (logInterval, fifteenMin) \<Rightarrow>
          if pe_result env = ERROR_NONE \<and> pe_state env = POWER_STATE_STANDBY_DEEP_SLEEP
          then PollNext s pollCount []
          else poll_measure pl disable_declock logInterval fifteenMin env pollCount s)"

text \<open>
  The thread, along the values of \<^verbatim>\<open>_stopThread\<close> that the head of the loop reads and the
  environments of its iterations; a wait between two iterations ends early when the flag is set.
\<close>

fun prepend_calls :: "th_call list \<Rightarrow> 't poll_outcome \<Rightarrow> 't poll_outcome" where
  "prepend_calls cs PollTrap = PollTrap"
| "prepend_calls cs (PollBreak s ds) = PollBreak s (cs @ ds)"
| "prepend_calls cs (PollEnd s ds) = PollEnd s (cs @ ds)"
| "prepend_calls cs (PollNext s c ds) = PollNext s c (cs @ ds)"

fun pollThermalLevels ::
  "'t thermal_platform \<Rightarrow> bool \<Rightarrow> (bool \<times> poll_env) list \<Rightarrow> u32 \<Rightarrow> 't thc \<Rightarrow> 't poll_outcome" where
  "pollThermalLevels pl dd [] pollCount s = PollNext s pollCount []"
| "pollThermalLevels pl dd ((stopThread, env) # envs) pollCount s =
     (if stopThread then PollEnd s []
      else case poll_iteration pl dd env pollCount s of
             PollNext s1 c cs \<Rightarrow> prepend_calls cs (pollThermalLevels pl dd envs c s1)
           | r \<Rightarrow> r)"

text \<open>
  The destructor sets the flag, wakes the thread and waits for its end. The thread, if there is
  one, is about to test the flag at the head of the loop, is on its way to the test after the
  measurement, or is past that test, where it finishes its iteration; every later test succeeds.
  The result is how the thread ends.
\<close>

datatype poll_point = AtHead | BeforeTest | PastTest

definition ThermalController_delete ::
  "'t thermal_platform \<Rightarrow> bool \<Rightarrow> poll_point \<Rightarrow> poll_env \<Rightarrow> u32 \<Rightarrow> 't thc \<Rightarrow> 't poll_outcome option \<times> 't thc" where
  "ThermalController_delete pl dd point env pollCount s =
     (if \<not> thc_thread s then (None, s)
      else let envs = [(point = AtHead, env\<lparr>pe_stop := point \<noteq> PastTest\<rparr>), (True, env\<lparr>pe_stop := True\<rparr>)]
           in (Some (pollThermalLevels pl dd envs pollCount s), s\<lparr>thc_thread := False\<rparr>))"

section \<open>The checks keep the contract of a zone\<close>

interpretation reboot_zone: zone_monitor
  "\<lambda>now temp s. rebootIfNeeded now (s\<lparr>thc_cur_Value := temp\<rparr>)"
  "\<lambda>s. if thc_rebootZone s then Some (thc_rebootTime s) else None" thc_reboot
  by unfold_locales (auto simp: rebootIfNeeded_def zone_next_def Let_def)

interpretation deepsleep_zone: zone_monitor
  "\<lambda>now temp s. deepSleepIfNeeded now (s\<lparr>thc_cur_Value := temp\<rparr>)"
  "\<lambda>s. if thc_deepSleepZone s then Some (thc_deepSleepTime s) else None" thc_deepsleep
  by unfold_locales (auto simp: deepSleepIfNeeded_def zone_next_def Let_def)

lemma deepSleepIfNeeded_acts: "ThDeepSleep \<in> set (snd (deepSleepIfNeeded now s)) \<longleftrightarrow> snd (deepSleepIfNeeded now s) \<noteq> []"
  by (auto simp: deepSleepIfNeeded_def Let_def)

text \<open>One check after the other, for samples of the time and the temperature.\<close>

fun deepsleep_checks :: "(int \<times> int) list \<Rightarrow> 't thc \<Rightarrow> 't thc \<times> th_call list list" where
  "deepsleep_checks [] s = (s, [])"
| "deepsleep_checks ((now, temp) # xs) s =
     (let (s1, cs) = deepSleepIfNeeded now (s\<lparr>thc_cur_Value := temp\<rparr>); (s2, css) = deepsleep_checks xs s1
      in (s2, cs # css))"

fun reboot_checks :: "(int \<times> int) list \<Rightarrow> 't thc \<Rightarrow> 't thc \<times> th_call list list" where
  "reboot_checks [] s = (s, [])"
| "reboot_checks ((now, temp) # xs) s =
     (let (s1, cs) = rebootIfNeeded now (s\<lparr>thc_cur_Value := temp\<rparr>); (s2, css) = reboot_checks xs s1
      in (s2, cs # css))"

lemma checks_polls:
  "deepsleep_zone.polls xs s = deepsleep_checks xs s" "reboot_zone.polls xs s = reboot_checks xs s"
  by (induction xs arbitrary: s) (auto simp: Let_def split: prod.splits)

lemma deepsleep_checks_act:
  "cs \<in> set (snd (deepsleep_checks xs s)) \<Longrightarrow> ThDeepSleep \<in> set cs \<longleftrightarrow> cs \<noteq> []"
proof (induction xs arbitrary: s)
  case (Cons x xs)
  obtain now temp where x: "x = (now, temp)" by fastforce
  from Cons.prems Cons.IH show ?case
    by (auto simp: x Let_def split_beta deepSleepIfNeeded_acts)
qed simp

text \<open>
  C33. A device that reaches the concern temperature is sent to deep sleep exactly when the grace
  interval has passed since then, at every check from that moment on and at none before, as long
  as it neither cools below the safe temperature nor reaches the critical one.
\<close>

theorem deep_sleep_after_grace:
  assumes "0 < th_graceInterval (thc_deepsleep s)" and "\<not> thc_deepSleepZone s"
    and "th_concern (thc_deepsleep s) \<le> temp0" and "temp0 < th_critical (thc_deepsleep s)"
    and "\<forall>(now, temp) \<in> set xs. th_safe (thc_deepsleep s) \<le> temp \<and> temp < th_critical (thc_deepsleep s)"
  shows "map (\<lambda>cs. ThDeepSleep \<in> set cs) (snd (deepsleep_checks ((t0, temp0) # xs) s)) =
         False # map (\<lambda>(now, temp). now - t0 \<ge> th_graceInterval (thc_deepsleep s)) xs"
proof -
  let ?css = "snd (deepsleep_checks ((t0, temp0) # xs) s)"
  have "map (\<lambda>cs. cs = []) ?css = True # map (\<lambda>(now, temp). now - t0 < th_graceInterval (thc_deepsleep s)) xs"
    using deepsleep_zone.enter_then_grace [of s temp0 xs t0] assms unfolding checks_polls by simp
  then have "map Not (map (\<lambda>cs. cs = []) ?css) =
      False # map (\<lambda>(now, temp). now - t0 \<ge> th_graceInterval (thc_deepsleep s)) xs"
    by (simp only: list.map) (auto simp: comp_def split_beta not_less)
  moreover have "map (\<lambda>cs. ThDeepSleep \<in> set cs) ?css = map Not (map (\<lambda>cs. cs = []) ?css)"
    unfolding map_map comp_def by (rule map_cong [OF refl]) (rule deepsleep_checks_act)
  ultimately show ?thesis by simp
qed

lemma deep_sleep_after_grace_witness:
  "map (\<lambda>cs. ThDeepSleep \<in> set cs)
     (snd (deepsleep_checks [(1000, 112), (1300, 105), (1600, 104)] (thc_members False ()))) = [False, False, True]"
  using deep_sleep_after_grace [of "thc_members False ()" 112 "[(1300, 105), (1600, 104)]" 1000]
  by (simp add: thc_members_def deepsleepThreshold_init_def)

text \<open>
  The device is never rebooted for its temperature while every sample stays below the
  concern temperature, and it is rebooted at once at every sample that reaches the critical one.
\<close>

lemma reboot_only_when_hot:
  assumes "th_graceInterval (thc_reboot s) \<noteq> 0" and "\<not> thc_rebootZone s"
    and "th_concern (thc_reboot s) \<le> th_critical (thc_reboot s)"
    and "\<forall>(now, temp) \<in> set xs. temp < th_concern (thc_reboot s)"
    and "th_critical (thc_reboot s) \<le> temp1"
  shows "concat (snd (reboot_checks xs s)) = [] \<and>
         snd (reboot_checks (xs @ [(t1, temp1)]) s) = snd (reboot_checks xs s) @ [[reboot_forced]]"
proof -
  have cool: "concat (snd (reboot_checks xs s)) = []"
    "\<not> thc_rebootZone (fst (reboot_checks xs s))"
    using reboot_zone.cool_never_acts [of s xs] assms unfolding checks_polls by (auto split: if_splits)
  have lim: "thc_reboot (fst (reboot_checks xs s)) = thc_reboot s"
    using reboot_zone.polls_limits [of xs s] unfolding checks_polls .
  have app: "snd (reboot_checks (xs @ [(t1, temp1)]) r) = snd (reboot_checks xs r) @
      [snd (rebootIfNeeded t1 ((fst (reboot_checks xs r))\<lparr>thc_cur_Value := temp1\<rparr>))]" for r :: "'a thc"
    by (induction xs arbitrary: r) (auto simp: Let_def split_beta)
  have "snd (rebootIfNeeded t1 ((fst (reboot_checks xs s))\<lparr>thc_cur_Value := temp1\<rparr>)) = [reboot_forced]"
    using cool(2) lim assms(1,5) by (simp add: rebootIfNeeded_def)
  with cool(1) app show ?thesis by simp
qed

lemma reboot_only_when_hot_witness:
  "concat (snd (reboot_checks [(0, 90), (30, 101)] (thc_members True ()))) = [] \<and>
   snd (reboot_checks ([(0, 90), (30, 101)] @ [(60, 111)]) (thc_members True ())) =
     snd (reboot_checks [(0, 90), (30, 101)] (thc_members True ())) @ [[reboot_forced]]"
  by (rule reboot_only_when_hot) (simp_all add: thc_members_def rebootThreshold_init_def)

section \<open>Clock speed\<close>

text \<open>
  The clock follows the temperature: at the critical temperature it is minimal, from the
  concern temperature on it is at most the scaled one and never raised, below it is never
  lowered, and it is only raised when the grace interval has passed since the device was last
  too hot for the higher speed.
\<close>

lemma declock_follows_temperature:
  assumes "th_graceInterval (thc_declock s) \<noteq> 0"
    and "th_concern (thc_declock s) \<le> th_critical (thc_declock s)"
    and "thc_MINIMAL s \<le> thc_SCALED s" and "thc_SCALED s \<le> thc_NORMAL s"
    and "thc_cur_Cpu_Speed s \<in> {thc_MINIMAL s, thc_SCALED s, thc_NORMAL s}"
  shows "let s1 = declockIfNeeded pl False now s; th = thc_declock s; temp = thc_cur_Value s;
             old = thc_cur_Cpu_Speed s; new = thc_cur_Cpu_Speed s1
         in new \<in> {thc_MINIMAL s, thc_SCALED s, thc_NORMAL s} \<and>
            (th_critical th \<le> temp \<longrightarrow> new = thc_MINIMAL s) \<and>
            (th_concern th \<le> temp \<longrightarrow> new \<le> thc_SCALED s \<and> new \<le> old) \<and>
            (temp < th_concern th \<longrightarrow> old \<le> new) \<and>
            (old < new \<longrightarrow> th_graceInterval th \<le> now - thc_declockTime s)"
proof -
  have o: "thc_MINIMAL s \<le> thc_NORMAL s" using assms(3,4) by (rule order_trans)
  show ?thesis
    using assms o by (auto simp: declockIfNeeded_def set_clock_def Let_def)
qed

definition demo_thermal :: "unit thermal_platform" where
  "demo_thermal =
     \<lparr>ipt_GetTemperatureThresholds = \<lambda>h c t. (ERROR_NONE, 100, 110),
      ipt_SetTemperatureThresholds = \<lambda>h c t. (ERROR_NONE, t),
      ipt_GetClockSpeed = \<lambda>v t. (ERROR_NONE, v),
      ipt_SetClockSpeed = \<lambda>v t. (ERROR_NONE, t),
      ipt_DetemineClockSpeeds = \<lambda>n s m t. (ERROR_NONE, 1500, 1200, 600),
      ipt_GetTemperature = \<lambda>l a b t. (ERROR_NONE, THERMAL_TEMPERATURE_HIGH, 105, 40)\<rparr>"

definition demo_thc :: "int \<Rightarrow> unit thc" where
  "demo_thc temp = (thc_members False ())\<lparr>thc_cur_Value := temp, thc_cur_Cpu_Speed := 1500,
     thc_NORMAL := 1500, thc_SCALED := 1200, thc_MINIMAL := 600\<rparr>"

lemma declock_follows_temperature_witness:
  "thc_cur_Cpu_Speed (declockIfNeeded demo_thermal False 7 (demo_thc 112)) = 600"
proof -
  have s: "thc_declock (demo_thc 112) = declockThreshold_init False" "thc_cur_Value (demo_thc 112) = 112"
    "thc_MINIMAL (demo_thc 112) = 600" "thc_SCALED (demo_thc 112) = 1200" "thc_NORMAL (demo_thc 112) = 1500"
    "thc_cur_Cpu_Speed (demo_thc 112) = 1500"
    by (simp_all add: demo_thc_def thc_members_def)
  have t: "th_critical (declockThreshold_init False) = 110" "th_concern (declockThreshold_init False) = 100"
    "th_graceInterval (declockThreshold_init False) = 60"
    by (simp_all add: declockThreshold_init_def)
  show ?thesis
    using declock_follows_temperature [of "demo_thc 112" demo_thermal 7] unfolding s t Let_def by simp
qed

section \<open>The poll thread\<close>

lemma cdiv_bound: "b \<noteq> 0 \<Longrightarrow> cdiv a b = Some q \<Longrightarrow> \<bar>q\<bar> \<le> \<bar>a\<bar>"
proof -
  assume b: "b \<noteq> 0" and q: "cdiv a b = Some q"
  have "\<bar>a\<bar> div \<bar>b\<bar> \<le> \<bar>a\<bar> div 1" using b by (intro zdiv_mono2) auto
  moreover have "q = sgn a * sgn b * (\<bar>a\<bar> div \<bar>b\<bar>)" using b q by (simp add: cdiv_def)
  then have "\<bar>q\<bar> \<le> \<bar>a\<bar> div \<bar>b\<bar>"
    using b by (auto simp: abs_mult abs_sgn_eq pos_imp_zdiv_nonneg_iff)
  ultimately show ?thesis by simp
qed

lemma word_of_cdiv_zero:
  assumes "b \<noteq> 0" "0 \<le> a" "a < 2 ^ 31" "cdiv a b = Some q"
  shows "(word_of_int q :: u32) = 0 \<longleftrightarrow> a < \<bar>b\<bar>"
proof -
  have q: "\<bar>q\<bar> < 2 ^ 31" using cdiv_bound [OF assms(1,4)] assms(2,3) by simp
  have "(word_of_int q :: u32) = 0 \<longleftrightarrow> 2 ^ 32 dvd q"
    using word_of_int_eq_0_iff [of q, where ?'a = 32] by simp
  also have "\<dots> \<longleftrightarrow> q = 0"
    using q zdvd_imp_le [of "2 ^ 32" "\<bar>q\<bar>"] by (cases "q = 0") auto
  also have "\<dots> \<longleftrightarrow> a < \<bar>b\<bar>" using cdiv_zero_iff [OF assms(1), of a] assms(2,4) by simp
  finally show ?thesis .
qed

text \<open>
  An iteration of the poll thread divides by zero exactly when the configured poll interval is
  0, or longer than 300 seconds and a measurement succeeds.
\<close>

lemma poll_trap_iff:
  "poll_iteration pl dd env c s = PollTrap \<longleftrightarrow>
     thc_poll_interval s = 0 \<or>
     (300 < \<bar>thc_poll_interval s\<bar> \<and>
      (pe_result env, pe_state env) \<noteq> (ERROR_NONE, POWER_STATE_STANDBY_DEEP_SLEEP) \<and>
      fst (ipt_GetTemperature pl THERMAL_TEMPERATURE_UNKNOWN 0 0 (thc_dev s)) = ERROR_NONE)"
proof (cases "thc_poll_interval s = 0")
  case True
  then show ?thesis by (simp add: poll_iteration_def poll_intervals_def cdiv_def)
next
  case False
  then obtain l f where lf: "cdiv 300 (thc_poll_interval s) = Some l" "cdiv 900 (thc_poll_interval s) = Some f"
    by (auto simp: cdiv_def)
  have z: "(word_of_int l :: u32) = 0 \<longleftrightarrow> 300 < \<bar>thc_poll_interval s\<bar>"
    "(word_of_int f :: u32) = 0 \<longleftrightarrow> 900 < \<bar>thc_poll_interval s\<bar>"
    using word_of_cdiv_zero [OF False _ _ lf(1)] word_of_cdiv_zero [OF False _ _ lf(2)] by simp_all
  have i: "poll_intervals s = Some (word_of_int l, word_of_int f)"
    by (simp add: poll_intervals_def lf)
  have u: "umod c (word_of_int l) = None \<longleftrightarrow> 300 < \<bar>thc_poll_interval s\<bar>"
    "umod c (word_of_int f) = None \<longleftrightarrow> 900 < \<bar>thc_poll_interval s\<bar>"
    using z by simp_all
  have "poll_measure pl dd (word_of_int l) (word_of_int f) env c s = PollTrap \<longleftrightarrow>
      300 < \<bar>thc_poll_interval s\<bar> \<and>
      fst (ipt_GetTemperature pl THERMAL_TEMPERATURE_UNKNOWN 0 0 (thc_dev s)) = ERROR_NONE"
    using u by (auto simp: poll_measure_def Let_def umod_def split: prod.split option.split)
  with False i show ?thesis by (auto simp: poll_iteration_def)
qed

text \<open>
  A successful measurement outside deep sleep updates the level and the value, and tells the
  parent about the level exactly once when it has changed and not at all otherwise.
\<close>

lemma poll_reports_level_changes:
  assumes "poll_iteration pl dd env c s = PollNext s1 c1 calls"
    and "ipt_GetTemperature pl THERMAL_TEMPERATURE_UNKNOWN 0 0 (thc_dev s) = (ERROR_NONE, level, temp, wifi)"
    and "pe_state env \<noteq> POWER_STATE_STANDBY_DEEP_SLEEP"
  shows "THC_GetThermalState s1 = (ERROR_NONE, level, float_of_int (int_of_float temp)) \<and>
         [x. x \<leftarrow> calls, case x of ThChanged a b t \<Rightarrow> True | _ \<Rightarrow> False] =
           (if thc_cur_Level s = level then [] else [ThChanged (thc_cur_Level s) level temp])"
proof -
  let ?P = "\<lambda>x. case x of ThChanged a b t \<Rightarrow> True | _ \<Rightarrow> False"
  have ds: "thc_cur_Level (fst (deepSleepIfNeeded n r)) = thc_cur_Level r"
    "thc_cur_Value (fst (deepSleepIfNeeded n r)) = thc_cur_Value r"
    "filter ?P (snd (deepSleepIfNeeded n r)) = []" for n and r :: "'a thc"
    by (auto simp: deepSleepIfNeeded_def Let_def logThermalShutdownReason_def)
  have rb: "thc_cur_Level (fst (rebootIfNeeded n r)) = thc_cur_Level r"
    "thc_cur_Value (fst (rebootIfNeeded n r)) = thc_cur_Value r"
    "filter ?P (snd (rebootIfNeeded n r)) = []" for n and r :: "'a thc"
    by (auto simp: rebootIfNeeded_def Let_def reboot_forced_def reboot_expired_def reboot_cmd_def)
  have dc: "thc_cur_Level (declockIfNeeded pl dd n r) = thc_cur_Level r"
    "thc_cur_Value (declockIfNeeded pl dd n r) = thc_cur_Value r" for n r
    by (auto simp: declockIfNeeded_def set_clock_def Let_def)
  have f: "[x. x \<leftarrow> xs, ?P x] = filter ?P xs" for xs by (induction xs) auto
  show ?thesis
    unfolding f using assms
    by (auto simp: poll_iteration_def poll_measure_def THC_GetThermalState_def Let_def split_beta ds rb dc
        split: option.splits if_splits)
qed

definition demo_env :: poll_env where
  "demo_env = \<lparr>pe_result = ERROR_NONE, pe_state = POWER_STATE_ON, pe_now = 5, pe_stop = False\<rparr>"

lemma poll_reports_level_changes_witness:
  "\<exists>s1 c1 calls. poll_iteration demo_thermal True demo_env 0 (thc_members False ()) = PollNext s1 c1 calls \<and>
     THC_GetThermalState s1 = (ERROR_NONE, THERMAL_TEMPERATURE_HIGH, 105)"
proof -
  let ?s = "thc_members False ()"
  obtain s1 c1 calls where p: "poll_iteration demo_thermal True demo_env 0 ?s = PollNext s1 c1 calls"
    by (simp add: poll_iteration_def poll_intervals_def poll_measure_def cdiv_def umod_def demo_env_def
        demo_thermal_def thc_members_def Let_def split_beta)
  have t: "ipt_GetTemperature demo_thermal THERMAL_TEMPERATURE_UNKNOWN 0 0 (thc_dev ?s) =
      (ERROR_NONE, THERMAL_TEMPERATURE_HIGH, 105, 40)" by (simp add: demo_thermal_def)
  have e: "pe_state demo_env \<noteq> POWER_STATE_STANDBY_DEEP_SLEEP" by (simp add: demo_env_def)
  have "int_of_float 105 = 105" by (simp add: int_of_float_def)
  with conjunct1 [OF poll_reports_level_changes [OF p t e]]
  have "THC_GetThermalState s1 = (ERROR_NONE, THERMAL_TEMPERATURE_HIGH, 105)" by simp
  with p show ?thesis by blast
qed

section \<open>Remote configuration\<close>

text \<open>
  A configured value that fits the buffer is read as it is, and with its quotes taken off when
  it is quoted.
\<close>

theorem rfc_value_unquoted:
  assumes "rfc key = Some v" "length v \<le> 15" "v \<noteq> []" "hd v \<noteq> CHR 0x22"
    and "rfc qkey = Some (CHR 0x22 # v @ [CHR 0x22])" "length v \<le> 13"
  shows "read_ConfigProperty rfc key = Some (Some v) \<and> read_ConfigProperty rfc qkey = Some (Some v)"
proof -
  have m: "min (length v + 2) 15 = length v + 2" using assms(6) by simp
  show ?thesis
    using assms m by (auto simp: read_ConfigProperty_def Let_def nth_append)
qed

lemma rfc_value_unquoted_witness:
  "let rfc = [''A'' \<mapsto> ''105'', ''B'' \<mapsto> [CHR 0x22] @ ''105'' @ [CHR 0x22]]
   in read_ConfigProperty rfc ''A'' = Some (Some ''105'') \<and> read_ConfigProperty rfc ''B'' = Some (Some ''105'')"
  unfolding Let_def by (rule rfc_value_unquoted) simp_all

text \<open>A value that is a single quote wraps the length of the copy.\<close>

lemma rfc_single_quote_overflows:
  "rfc key = Some [CHR 0x22] \<Longrightarrow> read_ConfigProperty rfc key = None"
  by (simp add: read_ConfigProperty_def)

section \<open>Stopping the thread\<close>

text \<open>
  The destructor's wait for the thread is over with the iteration the thread is in, at the
  latest. Unless it was past the test of the flag, the thread asks for nothing any more, neither
  for deep sleep nor for a reboot, whatever the temperature; at most it reports a change of the
  level, and then, having measured, it ends with \<^verbatim>\<open>_therm_mutex\<close> locked.
\<close>

lemma stopped_thread_asks_for_nothing:
  assumes "ThermalController_delete pl dd point env c s = (Some outcome, s2)" and "outcome \<noteq> PollTrap"
  shows "\<not> thc_thread s2 \<and>
    (case outcome of
       PollEnd s1 cs \<Rightarrow> point \<noteq> PastTest \<longrightarrow> cs = [] \<and> s1 = s
     | PollBreak s1 cs \<Rightarrow> point = BeforeTest \<and>
         fst (ipt_GetTemperature pl THERMAL_TEMPERATURE_UNKNOWN 0 0 (thc_dev s)) = ERROR_NONE \<and>
         (\<exists>t. cs = (if thc_cur_Level s1 = thc_cur_Level s then []
                   else [ThChanged (thc_cur_Level s) (thc_cur_Level s1) t]))
     | _ \<Rightarrow> False)"
  using assms
  by (cases point)
     (auto simp: ThermalController_delete_def poll_iteration_def poll_measure_def Let_def
      split: if_splits option.splits prod.splits)

lemma stopped_thread_asks_for_nothing_witness:
  "\<exists>s1 cs. fst (ThermalController_delete demo_thermal True BeforeTest demo_env 0 ((thc_members False ())\<lparr>thc_thread := True\<rparr>)) =
     Some (PollBreak s1 cs) \<and> ThDeepSleep \<notin> set cs"
proof -
  let ?s = "(thc_members False ())\<lparr>thc_thread := True\<rparr>"
  obtain s1 cs s2 where d: "ThermalController_delete demo_thermal True BeforeTest demo_env 0 ?s = (Some (PollBreak s1 cs), s2)"
    by (simp add: ThermalController_delete_def poll_iteration_def poll_intervals_def poll_measure_def cdiv_def umod_def
        demo_env_def demo_thermal_def thc_members_def Let_def split_beta)
  from stopped_thread_asks_for_nothing [OF d] d show ?thesis by (auto split: if_splits)
qed

section \<open>Another object in the same process\<close>

text \<open>
  \<^verbatim>\<open>deepSleepZone\<close> and the three \<^verbatim>\<open>monitorTime\<close> are static variables of the checks, so they
  outlive the object. \<open>ThermalController_new\<close> is the first object of a process; an object created
  after \<open>old\<close>, when the plugin is activated again, finds the values \<open>old\<close> left.
\<close>

definition ThermalController_again ::
  "'t thermal_platform \<Rightarrow> bool \<Rightarrow> bool \<Rightarrow> (string \<Rightarrow> string option) \<Rightarrow> 't thc \<Rightarrow> 't \<Rightarrow> 't thc option" where
  "ThermalController_again pl mfr disable_declock rfc old t =
     initializeThermalProtection pl disable_declock rfc
       ((thc_members mfr t)\<lparr>thc_rebootTime := thc_rebootTime old, thc_deepSleepZone := thc_deepSleepZone old,
                            thc_deepSleepTime := thc_deepSleepTime old, thc_declockTime := thc_declockTime old\<rparr>)"

lemma initialization_keeps_zones:
  assumes "initializeThermalProtection pl dd rfc s = Some s1"
  shows "thc_deepSleepZone s1 = thc_deepSleepZone s \<and> thc_deepSleepTime s1 = thc_deepSleepTime s \<and>
         thc_rebootZone s1 = thc_rebootZone s \<and> thc_rebootTime s1 = thc_rebootTime s"
proof -
  have config: "thc_deepSleepZone y = thc_deepSleepZone x \<and> thc_deepSleepTime y = thc_deepSleepTime x \<and>
      thc_rebootZone y = thc_rebootZone x \<and> thc_rebootTime y = thc_rebootTime x"
    if "read_ConfigProps rfc x = Some y" for x y :: "'a thc"
    using that by (auto simp: read_ConfigProps_def split: bind_splits)
  have enabled: "thc_deepSleepZone y = thc_deepSleepZone s \<and> thc_deepSleepTime y = thc_deepSleepTime s \<and>
      thc_rebootZone y = thc_rebootZone s \<and> thc_rebootTime y = thc_rebootTime s"
    if "isThermalProtectionEnabled rfc s = Some (b, y)" for b y
    using that
    by (auto simp: isThermalProtectionEnabled_def updateRFCStatus_def Let_def dest!: config
             split: if_splits option.splits bind_splits)
  show ?thesis
    using assms
    by (auto simp: initializeThermalProtection_def Let_def dest!: enabled
             split: bind_splits if_splits prod.splits)
qed

text \<open>
  A controller whose predecessor was stopped in the deep-sleep zone starts in that zone: if the
  grace interval has passed since the predecessor entered it, the first check sends the device to
  deep sleep at a temperature that is below the one at which it would enter the zone, and that a
  new process would not act on.
\<close>

lemma zone_survives_restart:
  assumes "ThermalController_again pl mfr dd rfc old t = Some s" "thc_deepSleepZone old"
    and "th_graceInterval (thc_deepsleep s) \<noteq> 0"
    and "th_safe (thc_deepsleep s) \<le> temp" "temp < th_concern (thc_deepsleep s)"
    and "th_concern (thc_deepsleep s) \<le> th_critical (thc_deepsleep s)"
    and "th_graceInterval (thc_deepsleep s) \<le> now - thc_deepSleepTime old"
  shows "snd (deepSleepIfNeeded now (s\<lparr>thc_cur_Value := temp\<rparr>)) = [logThermalShutdownReason, ThDeepSleep]"
    and "snd (deepSleepIfNeeded now (s\<lparr>thc_cur_Value := temp, thc_deepSleepZone := False\<rparr>)) = []"
  using assms
  by (auto simp: ThermalController_again_def deepSleepIfNeeded_def Let_def dest!: initialization_keeps_zones)

end
