(* ===== verification/Registry.thy ===== *)
theory Registry
  imports PM_Prelude
begin

text \<open>
  The contract of a list of callbacks: a key is registered at most once, registering and
  unregistering report whether they changed anything, and entries keep the order in which they
  were added. The plugin's notification lists and the client library's callback lists both
  provide it.
\<close>

fun remove_key :: "'k \<Rightarrow> ('k \<times> 'v) list \<Rightarrow> ('k \<times> 'v) list" where
  "remove_key k [] = []"
| "remove_key k (e # es) = (if fst e = k then es else e # remove_key k es)"

lemma remove_key_absent: "k \<notin> fst ` set es \<Longrightarrow> remove_key k es = es"
  by (induction es) auto

lemma remove_key_subset: "set (remove_key k es) \<subseteq> set es"
  by (induction es) auto

lemma distinct_remove_key:
  "distinct (map fst es) \<Longrightarrow> distinct (map fst (remove_key k es)) \<and>
     fst ` set (remove_key k es) = fst ` set es - {k}"
  by (induction es) (auto dest: remove_key_subset [THEN subsetD] intro: rev_image_eqI)

datatype ('k, 'v) reg_op = RegAdd 'k 'v | RegRemove 'k

text \<open>Whether a key is registered, told from the operations alone: the last one on it decides.\<close>

fun last_decides :: "'k \<Rightarrow> ('k, 'v) reg_op \<Rightarrow> bool \<Rightarrow> bool" where
  "last_decides k (RegAdd k' v) b = (if k' = k then True else b)"
| "last_decides k (RegRemove k') b = (if k' = k then False else b)"

text \<open>The value it is registered with: that of the first registration since the last removal.\<close>

fun value_in_force :: "'k \<Rightarrow> ('k, 'v) reg_op \<Rightarrow> 'v option \<Rightarrow> 'v option" where
  "value_in_force k (RegAdd k' v) r = (if k' = k \<and> r = None then Some v else r)"
| "value_in_force k (RegRemove k') r = (if k' = k then None else r)"

lemma map_of_remove_key:
  "distinct (map fst es) \<Longrightarrow> map_of (remove_key k' es) k = (if k = k' then None else map_of es k)"
  by (induction es) (auto simp: map_of_eq_None_iff [symmetric] dest: map_of_SomeD)

lemma filter_map_of:
  "distinct (map fst es) \<Longrightarrow> filter (\<lambda>e. fst e = k) es = (case map_of es k of None \<Rightarrow> [] | Some v \<Rightarrow> [(k, v)])"
  by (induction es) (force simp: filter_empty_conv split: option.splits)+

locale registry =
  fixes add :: "'k \<Rightarrow> 'v \<Rightarrow> 's \<Rightarrow> hresult \<times> 's"
    and remove :: "'k \<Rightarrow> 's \<Rightarrow> hresult \<times> 's"
    and entries :: "'s \<Rightarrow> ('k \<times> 'v) list"
    and dup :: hresult
    and missing :: hresult
  assumes add_entries: "entries (snd (add k v s)) =
      (if k \<in> fst ` set (entries s) then entries s else entries s @ [(k, v)])"
    and add_code: "fst (add k v s) = (if k \<in> fst ` set (entries s) then dup else ERROR_NONE)"
    and remove_entries: "entries (snd (remove k s)) = remove_key k (entries s)"
    and remove_code: "fst (remove k s) = (if k \<in> fst ` set (entries s) then ERROR_NONE else missing)"
    and codes: "dup \<noteq> ERROR_NONE" "missing \<noteq> ERROR_NONE"
begin

definition keys :: "'s \<Rightarrow> 'k list" where
  "keys s = map fst (entries s)"

primrec exec :: "('k, 'v) reg_op \<Rightarrow> 's \<Rightarrow> 's" where
  "exec (RegAdd k v) s = snd (add k v s)"
| "exec (RegRemove k) s = snd (remove k s)"

lemma exec_keys:
  assumes "distinct (keys s)"
  shows "distinct (keys (exec x s))" and "k \<in> set (keys (exec x s)) \<longleftrightarrow> last_decides k x (k \<in> set (keys s))"
  using assms distinct_remove_key [of "entries s"]
  by (cases x; force simp: keys_def add_entries remove_entries)+

lemma exec_value:
  "distinct (keys s) \<Longrightarrow> map_of (entries (exec x s)) k = value_in_force k x (map_of (entries s) k)"
proof -
  assume "distinct (keys s)"
  then have d: "distinct (map fst (entries s))" by (simp add: keys_def)
  have dom: "k' \<in> fst ` set (entries s) \<longleftrightarrow> map_of (entries s) k' \<noteq> None" for k' by (simp add: map_of_eq_None_iff)
  show ?thesis
    by (cases x) (auto simp: add_entries remove_entries map_of_remove_key [OF d] map_add_def dom split: option.splits)
qed

text \<open>After any operations, no key is twice in the list, and the last operation on a key decides.\<close>

lemma run_keys:
  "distinct (keys s) \<Longrightarrow>
     distinct (keys (fold exec xs s)) \<and>
     (k \<in> set (keys (fold exec xs s)) \<longleftrightarrow> fold (last_decides k) xs (k \<in> set (keys s)))"
  by (induction xs arbitrary: s) (auto simp: exec_keys)

text \<open>The result code tells whether the key was registered before.\<close>

lemma add_ok_iff: "fst (add k v s) = ERROR_NONE \<longleftrightarrow> k \<notin> set (keys s)"
  using codes by (simp add: add_code keys_def)

lemma remove_ok_iff: "fst (remove k s) = ERROR_NONE \<longleftrightarrow> k \<in> set (keys s)"
  using codes by (simp add: remove_code keys_def)

lemma failed_no_effect:
  "fst (add k v s) \<noteq> ERROR_NONE \<Longrightarrow> entries (snd (add k v s)) = entries s"
  "fst (remove k s) \<noteq> ERROR_NONE \<Longrightarrow> entries (snd (remove k s)) = entries s"
  using codes by (auto simp: add_code add_entries remove_code remove_entries remove_key_absent split: if_splits)

text \<open>Removing what was just added restores the list.\<close>

lemma add_remove: "k \<notin> set (keys s) \<Longrightarrow> entries (snd (remove k (snd (add k v s)))) = entries s"
proof -
  have "k \<notin> fst ` set es \<Longrightarrow> remove_key k (es @ [(k, v)]) = es" for es :: "('k \<times> 'v) list"
    by (induction es) auto
  then show "k \<notin> set (keys s) \<Longrightarrow> ?thesis" by (simp add: keys_def add_entries remove_entries)
qed

end

end
