(* ===== verification/Notifications.thy ===== *)
theory Notifications
  imports Registry PowerTypes
begin

text \<open>
  The notification lists of \<^verbatim>\<open>plugin/PowerManagerImplementation.cpp\<close>: the templates
  \<^verbatim>\<open>Register\<close> and \<^verbatim>\<open>Unregister\<close> that the six pairs of overloads share, and the
  functions that dispatch an event to every entry of a list.

  A notification object \<open>'n\<close> is its address. Its reference count, as far as the plugin takes
  and drops references, is \<open>nl_refs\<close>. A call of an object's method is a value \<open>notif_call\<close>.
\<close>

record 'n notif_list =
  nl_list :: "'n list"
  nl_refs :: "'n \<Rightarrow> int"

definition notif_list_new :: "'n notif_list" where
  "notif_list_new = \<lparr>nl_list = [], nl_refs = \<lambda>_. 0\<rparr>"

definition PMI_Register :: "'n \<Rightarrow> 'n notif_list \<Rightarrow> hresult \<times> 'n notif_list" where
  "PMI_Register notification l =
     (if notification \<notin> set (nl_list l)
      then (ERROR_NONE, l\<lparr>nl_list := nl_list l @ [notification],
                          nl_refs := (nl_refs l)(notification := nl_refs l notification + 1)\<rparr>)
      else (ERROR_GENERAL, l))"

definition PMI_Unregister :: "'n \<Rightarrow> 'n notif_list \<Rightarrow> hresult \<times> 'n notif_list" where
  "PMI_Unregister notification l =
     (if notification \<in> set (nl_list l)
      then (ERROR_NONE, l\<lparr>nl_refs := (nl_refs l)(notification := nl_refs l notification - 1),
                          nl_list := remove1 notification (nl_list l)\<rparr>)
      else (ERROR_GENERAL, l))"

section \<open>Dispatch\<close>

datatype pm_event =
    OnPowerModeChanged PowerState PowerState
  | OnPowerModePreChange PowerState PowerState int int
  | OnDeepSleepTimeout u32
  | OnRebootBegin string string string
  | OnThermalModeChanged ThermalTemperature ThermalTemperature cfloat
  | OnNetworkStandbyModeChanged bool

datatype 'n notif_call = NotifCall 'n pm_event

definition dispatchEvent :: "pm_event \<Rightarrow> 'n notif_list \<Rightarrow> 'n notif_call list" where
  "dispatchEvent ev l = map (\<lambda>n. NotifCall n ev) (nl_list l)"

definition dispatchPowerModeChangedEvent :: "PowerState \<Rightarrow> PowerState \<Rightarrow> 'n notif_list \<Rightarrow> 'n notif_call list" where
  "dispatchPowerModeChangedEvent prevState newState l = dispatchEvent (OnPowerModeChanged prevState newState) l"

definition dispatchDeepSleepTimeoutEvent :: "u32 \<Rightarrow> 'n notif_list \<Rightarrow> 'n notif_call list" where
  "dispatchDeepSleepTimeoutEvent timeout l = dispatchEvent (OnDeepSleepTimeout timeout) l"

text \<open>The interface wants the custom reason first, the dispatcher is given the requestor first.\<close>

definition dispatchRebootBeginEvent :: "string \<Rightarrow> string \<Rightarrow> string \<Rightarrow> 'n notif_list \<Rightarrow> 'n notif_call list" where
  "dispatchRebootBeginEvent rebootRequestor rebootReasonCustom rebootReasonOther l =
     dispatchEvent (OnRebootBegin rebootReasonCustom rebootReasonOther rebootRequestor) l"

definition dispatchThermalModeChangedEvent ::
  "ThermalTemperature \<Rightarrow> ThermalTemperature \<Rightarrow> cfloat \<Rightarrow> 'n notif_list \<Rightarrow> 'n notif_call list" where
  "dispatchThermalModeChangedEvent cur new temp l = dispatchEvent (OnThermalModeChanged cur new temp) l"

definition dispatchNetworkStandbyModeChangedEvent :: "bool \<Rightarrow> 'n notif_list \<Rightarrow> 'n notif_call list" where
  "dispatchNetworkStandbyModeChangedEvent enabled l = dispatchEvent (OnNetworkStandbyModeChanged enabled) l"

lemmas dispatch_defs [pm_ops] =
  dispatchEvent_def dispatchPowerModeChangedEvent_def dispatchDeepSleepTimeoutEvent_def
  dispatchRebootBeginEvent_def dispatchThermalModeChangedEvent_def dispatchNetworkStandbyModeChangedEvent_def

section \<open>The lists as registries\<close>

definition nl_entries :: "'n notif_list \<Rightarrow> ('n \<times> unit) list" where
  "nl_entries l = map (\<lambda>n. (n, ())) (nl_list l)"

lemma nl_entries_keys: "fst ` set (nl_entries l) = set (nl_list l)" "map fst (nl_entries l) = nl_list l"
  by (auto simp: nl_entries_def comp_def image_image)

lemma image_fst_unit [simp]: "fst ` (\<lambda>n. (n, ())) ` A = A"
  by (auto simp: image_image)

lemma remove_key_units: "k \<notin> set xs \<Longrightarrow> remove_key k (map (\<lambda>n. (n, ())) xs) = map (\<lambda>n. (n, ())) xs"
  by (induction xs) auto

lemma remove1_remove_key: "map (\<lambda>n. (n, ())) (remove1 k xs) = remove_key k (map (\<lambda>n. (n, ())) xs)"
  by (induction xs) auto

interpretation plugin_lists: registry
  "\<lambda>n (_ :: unit) l. PMI_Register n l" PMI_Unregister nl_entries ERROR_GENERAL ERROR_GENERAL
  by unfold_locales
     (auto simp: PMI_Register_def PMI_Unregister_def nl_entries_keys nl_entries_def remove1_remove_key
        remove_key_units)

text \<open>Sequences of registrations and unregistrations of one list.\<close>

primrec reg_exec :: "('n, unit) reg_op \<Rightarrow> 'n notif_list \<Rightarrow> 'n notif_list" where
  "reg_exec (RegAdd n u) l = snd (PMI_Register n l)"
| "reg_exec (RegRemove n) l = snd (PMI_Unregister n l)"

lemma reg_exec_plugin: "plugin_lists.exec = reg_exec"
proof
  show "plugin_lists.exec x = reg_exec x" for x :: "('n, unit) reg_op"
    by (cases x) (simp_all add: fun_eq_iff)
qed

lemma reg_exec_refs:
  "distinct (nl_list l) \<Longrightarrow> (\<forall>n. nl_refs l n = (if n \<in> set (nl_list l) then 1 else 0)) \<Longrightarrow>
     (\<forall>n. nl_refs (reg_exec x l) n = (if n \<in> set (nl_list (reg_exec x l)) then 1 else 0))"
  by (cases x) (auto simp: PMI_Register_def PMI_Unregister_def)

lemma reg_run:
  "distinct (nl_list (fold reg_exec xs notif_list_new)) \<and>
   (\<forall>n. nl_refs (fold reg_exec xs notif_list_new) n =
        (if n \<in> set (nl_list (fold reg_exec xs notif_list_new)) then 1 else 0))"
proof (induction xs rule: rev_induct)
  case (snoc x xs)
  let ?l = "fold reg_exec xs notif_list_new"
  have "distinct (nl_list (reg_exec x ?l))"
    using snoc plugin_lists.exec_keys(1) [of ?l x]
    by (simp add: reg_exec_plugin plugin_lists.keys_def nl_entries_keys)
  moreover have "\<forall>n. nl_refs (reg_exec x ?l) n = (if n \<in> set (nl_list (reg_exec x ?l)) then 1 else 0)"
    by (rule reg_exec_refs) (use snoc in auto)
  ultimately show ?case by simp
qed (simp add: notif_list_new_def)

text \<open>
  After any sequence of registrations and unregistrations, an event is dispatched to a
  notification object exactly once if the last operation on it registered it, and not at all
  otherwise; the plugin holds one reference to the objects it dispatches to and none to others.
\<close>

lemma dispatch_reaches_registered_once:
  "let l = fold reg_exec xs notif_list_new
   in count_list (dispatchEvent ev l) (NotifCall n ev) = (if fold (last_decides n) xs False then 1 else 0) \<and>
      nl_refs l n = (if fold (last_decides n) xs False then 1 else 0)"
proof -
  let ?l = "fold reg_exec xs notif_list_new"
  have m: "n \<in> set (nl_list ?l) \<longleftrightarrow> fold (last_decides n) xs False"
    using plugin_lists.run_keys [of notif_list_new xs n]
    by (simp add: plugin_lists.keys_def nl_entries_keys reg_exec_plugin) (simp add: notif_list_new_def)
  have c: "count_list (map (\<lambda>n. NotifCall n ev) ns) (NotifCall n ev) = count_list ns n" for ns
    by (induction ns) auto
  have d: "distinct ns \<Longrightarrow> count_list ns n = (if n \<in> set ns then 1 else 0)" for ns
    by (induction ns) auto
  show ?thesis
    using reg_run [of xs] d [of "nl_list ?l"] by (simp add: Let_def dispatchEvent_def c m)
qed

end
