(* ===== verification/PowerManager.thy ===== *)
theory PowerManager
  imports AckController PowerController ThermalController Notifications "HOL-Library.AList"
begin

text \<open>
  \<^verbatim>\<open>plugin/PowerManagerImplementation.h\<close>, \<^verbatim>\<open>.cpp\<close>: the class behind
  \<^verbatim>\<open>IPowerManager\<close>. It owns the controllers, negotiates a change of power state with the
  registered clients, and passes everything else on.

  \<^verbatim>\<open>SetPowerState\<close> is cut where other threads can act: after reading the current state
  (\<open>sps_read\<close>), after the section under \<^verbatim>\<open>_apiLock\<close> (\<open>sps_prepare\<close>) and to its end
  (\<open>sps_schedule\<close>); \<open>PMI_SetPowerState\<close> composes them. The semaphore \<^verbatim>\<open>selfLock\<close> is
  the flag \<open>pmi_selfLock\<close>. A completion handler is the data its closure captures. What
  leaves the object, calls of notification objects and jobs for the worker pool, is a list of
  \<open>pm_out\<close>. \<open>pmi_refs\<close> counts the references taken with \<^verbatim>\<open>AddRef\<close> around transitions.
  Telemetry and logging are left out.
\<close>

section \<open>State\<close>

record pm_handler =
  hd_keyCode :: int
  hd_currState :: PowerState
  hd_newState :: PowerState
  hd_reason :: string
  hd_isSync :: bool

datatype 'n pm_out =
    Notify "'n notif_call"
  | SubmitPreChange "'n notif_call"
  | SubmitReboot string string string

record ('p, 'd, 't, 'n) pmi =
  pmi_power :: "'p pwc"
  pmi_deepSleep :: "'d dsc"
  pmi_activations :: "(u32 \<times> bool) list"      \<comment> \<open>jobs submitted by \<^verbatim>\<open>DeepSleepController::Activate\<close>\<close>
  pmi_thermal :: "'t thc"
  pmi_mcc :: "pm_handler ack option"          \<comment> \<open>\<^verbatim>\<open>_modeChangeController\<close>\<close>
  pmi_clients :: "(u32 \<times> string) list"        \<comment> \<open>\<^verbatim>\<open>_modeChangeClients\<close>\<close>
  pmi_nextClientId :: u32
  pmi_nextTransactionId :: int
  pmi_selfLock :: bool
  pmi_refs :: int
  pmi_rebootL :: "'n notif_list"
  pmi_preChangeL :: "'n notif_list"
  pmi_changedL :: "'n notif_list"
  pmi_deepSleepL :: "'n notif_list"
  pmi_networkL :: "'n notif_list"
  pmi_thermalL :: "'n notif_list"

text \<open>The platforms, and the options of the build.\<close>

record ('p, 'd, 't) pm_env =
  en_power :: "'p power_platform"
  en_deepSleep :: "'d deepsleep_platform"
  en_thermal :: "'t thermal_platform"
  en_val :: "PWRMgr_PowerState_t \<Rightarrow> u32"
  en_platco :: bool                  \<comment> \<open>\<^verbatim>\<open>PLATCO_BOOTTO_STANDBY\<close>\<close>
  en_thermalProtection :: bool       \<comment> \<open>\<^verbatim>\<open>ENABLE_THERMAL_PROTECTION\<close>\<close>
  en_preChangeTimeout :: u32         \<comment> \<open>\<^verbatim>\<open>POWER_MODE_PRECHANGE_TIMEOUT_SEC\<close>\<close>

text \<open>The steady clock, \<^verbatim>\<open>Core::Time::Now().Add(_)\<close>, and the calendar at the time of a call.\<close>

record pm_clock =
  ck_now :: int
  ck_add :: "int \<Rightarrow> int"
  ck_calendar :: calendar

type_synonym ('p, 'd, 't, 'n) pm_step = "('p, 'd, 't, 'n) pmi \<Rightarrow> ('p, 'd, 't, 'n) pmi \<times> 'n pm_out list"

definition PMI_new ::
  "('p, 'd, 't) pm_env \<Rightarrow> int \<Rightarrow> 'p \<Rightarrow> 'd \<Rightarrow> 't thc \<Rightarrow> posix \<Rightarrow> ('p, 'd, 't, 'n) pmi" where
  "PMI_new en now p d th fs =
     \<lparr>pmi_power = PWC_new (en_power en) (en_val en) (en_platco en) now p fs,
      pmi_deepSleep = DeepSleepController_new d, pmi_activations = [], pmi_thermal = th, pmi_mcc = None,
      pmi_clients = [], pmi_nextClientId = 0, pmi_nextTransactionId = 0, pmi_selfLock = False, pmi_refs = 0,
      pmi_rebootL = notif_list_new, pmi_preChangeL = notif_list_new, pmi_changedL = notif_list_new,
      pmi_deepSleepL = notif_list_new, pmi_networkL = notif_list_new, pmi_thermalL = notif_list_new\<rparr>"

section \<open>Completing a transition\<close>

definition setDevicePowerState ::
  "('p, 'd, 't) pm_env \<Rightarrow> pm_clock \<Rightarrow> int \<Rightarrow> PowerState \<Rightarrow> PowerState \<Rightarrow> string \<Rightarrow>
   ('p, 'd, 't, 'n) pmi \<Rightarrow> hresult \<times> ('p, 'd, 't, 'n) pmi \<times> 'n pm_out list" where
  "setDevicePowerState en ck keyCode prevState newState reason s =
     (let (errorCode, pwc) =
            PWC_SetPowerState (en_power en) (en_val en) (ck_now ck) keyCode newState reason (pmi_power s);
          s1 = s\<lparr>pmi_power := pwc\<rparr>
      in if errorCode \<noteq> ERROR_NONE then (errorCode, s1, [])
         else let outs = map Notify (dispatchPowerModeChangedEvent prevState newState (pmi_changedL s1));
                  s2 = (if newState = POWER_STATE_STANDBY_DEEP_SLEEP
                        then s1\<lparr>pmi_activations := pmi_activations s1 @ [PWC_ActivateDeepSleep (ck_calendar ck) (pmi_power s1)]\<rparr>
                        else s1)
              in (errorCode, s2, outs))"

definition powerModePreChangeCompletionHandler ::
  "('p, 'd, 't) pm_env \<Rightarrow> pm_clock \<Rightarrow> int \<Rightarrow> PowerState \<Rightarrow> PowerState \<Rightarrow> string \<Rightarrow> ('p, 'd, 't, 'n) pm_step" where
  [simp]: "powerModePreChangeCompletionHandler en ck keyCode currentState newState reason s =
     (let (_, s1, outs) = setDevicePowerState en ck keyCode currentState newState reason s in (s1, outs))"

text \<open>The completion handler, the closure that \<^verbatim>\<open>SetPowerState\<close> schedules.\<close>

definition completionHandler ::
  "('p, 'd, 't) pm_env \<Rightarrow> pm_clock \<Rightarrow> pm_handler \<Rightarrow> bool \<Rightarrow> bool \<Rightarrow> ('p, 'd, 't, 'n) pm_step" where
  "completionHandler en ck h isTimedout isAborted s =
     (let (s1, outs) =
            (if \<not> isAborted
             then powerModePreChangeCompletionHandler en ck (hd_keyCode h) (hd_currState h) (hd_newState h) (hd_reason h) s
             else (s, []));
          s2 = s1\<lparr>pmi_refs := pmi_refs s1 - 1\<rparr>;
          s3 = (if hd_isSync h then s2\<lparr>pmi_selfLock := False\<rparr> else s2)
      in (s3, outs))"

text \<open>The calls of handlers that an operation of the controller makes, in order.\<close>

fun run_firings :: "('p, 'd, 't) pm_env \<Rightarrow> pm_clock \<Rightarrow> pm_handler firing list \<Rightarrow> ('p, 'd, 't, 'n) pm_step" where
  "run_firings en ck [] s = (s, [])"
| "run_firings en ck (Fire None t r # fs) s = run_firings en ck fs s"
| "run_firings en ck (Fire (Some h) t r # fs) s =
     (let (s1, o1) = completionHandler en ck h t r s; (s2, o2) = run_firings en ck fs s1 in (s2, o1 @ o2))"

section \<open>\<^verbatim>\<open>SetPowerState\<close>\<close>

definition isSyncStateChange :: "PowerState \<Rightarrow> PowerState \<Rightarrow> bool" where
  "isSyncStateChange currState newState \<longleftrightarrow>
     currState = POWER_STATE_STANDBY_DEEP_SLEEP \<and> newState = POWER_STATE_STANDBY_LIGHT_SLEEP"

definition kTransientDeepsleepThresholdSec :: int where
  "kTransientDeepsleepThresholdSec = 5"

text \<open>How a phase ends: the call returns, or it goes on with the current state it has read.\<close>

datatype sps = SpsReturn hresult | SpsGo PowerState bool

definition sps_read ::
  "('p, 'd, 't) pm_env \<Rightarrow> pm_clock \<Rightarrow> PowerState \<Rightarrow> ('p, 'd, 't, 'n) pmi \<Rightarrow> sps \<times> ('p, 'd, 't, 'n) pmi" where
  "sps_read en ck newState s0 =
     (let s = s0\<lparr>pmi_selfLock := True\<rparr>;
          (errorCode, currState, _) = PWC_GetPowerState (pmi_power s)
      in if errorCode \<noteq> ERROR_NONE then (SpsReturn errorCode, s\<lparr>pmi_selfLock := False\<rparr>)
         else if currState \<noteq> newState
         then let isSync = isSyncStateChange currState newState
              in if currState = POWER_STATE_STANDBY_DEEP_SLEEP
                 then if IsDeepSleepInProgress (pmi_deepSleep s)
                         \<and> Elapsed (ck_now ck) (pmi_deepSleep s) < kTransientDeepsleepThresholdSec * 1000000000
                      then (SpsReturn ERROR_NONE, s\<lparr>pmi_selfLock := False\<rparr>)
                      else (SpsGo currState isSync,
                            s\<lparr>pmi_deepSleep := snd (Deactivate (en_deepSleep en) (pmi_deepSleep s))\<rparr>)
                 else (SpsGo currState isSync, s)
         else (SpsReturn ERROR_NONE, s\<lparr>pmi_selfLock := False\<rparr>))"

text \<open>
  The section under \<^verbatim>\<open>_apiLock\<close>: a redundant request returns, a transition to another state
  is cancelled by destroying its controller, and a new controller awaits all clients. The result
  is the transaction id.
\<close>

definition sps_prepare ::
  "('p, 'd, 't) pm_env \<Rightarrow> pm_clock \<Rightarrow> PowerState \<Rightarrow> ('p, 'd, 't, 'n) pmi \<Rightarrow>
   int option \<times> ('p, 'd, 't, 'n) pmi \<times> 'n pm_out list" where
  "sps_prepare en ck newState s =
     (case pmi_mcc s of
        Some c \<Rightarrow>
          if ack_powerState c = newState then (None, s\<lparr>pmi_selfLock := False\<rparr>, [])
          else (let (_, fs) = revoke c;
                    (s1, outs) = run_firings en ck fs (s\<lparr>pmi_mcc := None\<rparr>);
                    tid = pmi_nextTransactionId s1 + 1;
                    ctl = fold AckAwait (map fst (pmi_clients s1)) (AckController_new newState tid (ck_add ck 0))
                in (Some tid, s1\<lparr>pmi_mcc := Some ctl, pmi_nextTransactionId := tid, pmi_refs := pmi_refs s1 + 1\<rparr>, outs))
      | None \<Rightarrow>
          (let tid = pmi_nextTransactionId s + 1;
               ctl = fold AckAwait (map fst (pmi_clients s)) (AckController_new newState tid (ck_add ck 0))
           in (Some tid, s\<lparr>pmi_mcc := Some ctl, pmi_nextTransactionId := tid, pmi_refs := pmi_refs s + 1\<rparr>, [])))"

definition submitPowerModePreChangeEvent :: "PowerState \<Rightarrow> PowerState \<Rightarrow> int \<Rightarrow> int \<Rightarrow> 'n notif_list \<Rightarrow> 'n pm_out list" where
  "submitPowerModePreChangeEvent currentState newState transactionId timeOut l =
     map SubmitPreChange (dispatchEvent (OnPowerModePreChange currentState newState transactionId timeOut) l)"

definition sps_schedule ::
  "('p, 'd, 't) pm_env \<Rightarrow> pm_clock \<Rightarrow> int \<Rightarrow> PowerState \<Rightarrow> PowerState \<Rightarrow> bool \<Rightarrow> int \<Rightarrow> string \<Rightarrow>
   ('p, 'd, 't, 'n) pm_step" where
  "sps_schedule en ck keyCode currState newState isSync transactionId reason s =
     (let timeOut = (if isSync then 0 else en_preChangeTimeout en);
          pre = submitPowerModePreChangeEvent currState newState transactionId (sint timeOut) (pmi_preChangeL s);
          h = \<lparr>hd_keyCode = keyCode, hd_currState = currState, hd_newState = newState, hd_reason = reason,
               hd_isSync = isSync\<rparr>;
          (s1, outs) =
            (case pmi_mcc s of
               None \<Rightarrow> (s, [])
             | Some c \<Rightarrow>
                 (let (c1, fs) = Schedule (ck_add ck) (uint (timeOut * 1000)) h c
                  in run_firings en ck fs (s\<lparr>pmi_mcc := Some c1\<rparr>)));
          s2 = (if \<not> isSync then s1\<lparr>pmi_selfLock := False\<rparr> else s1)
      in (s2, pre @ outs))"

text \<open>The whole call, not interleaved with others; \<open>None\<close> while \<^verbatim>\<open>selfLock\<close> is taken.\<close>

definition PMI_SetPowerState ::
  "('p, 'd, 't) pm_env \<Rightarrow> pm_clock \<Rightarrow> int \<Rightarrow> PowerState \<Rightarrow> string \<Rightarrow> ('p, 'd, 't, 'n) pmi \<Rightarrow>
   (hresult \<times> ('p, 'd, 't, 'n) pmi \<times> 'n pm_out list) option" where
  "PMI_SetPowerState en ck keyCode newState reason s =
     (if pmi_selfLock s then None
      else Some (case sps_read en ck newState s of
          (SpsReturn e, s1) \<Rightarrow> (e, s1, [])
        | (SpsGo currState isSync, s1) \<Rightarrow>
            (case sps_prepare en ck newState s1 of
               (None, s2, o2) \<Rightarrow> (ERROR_NONE, s2, o2)
             | (Some tid, s2, o2) \<Rightarrow>
                 (let (s3, o3) = sps_schedule en ck keyCode currState newState isSync tid reason s2
                  in (ERROR_NONE, s3, o2 @ o3)))))"

section \<open>Clients of a transition\<close>

text \<open>An operation of the controller, followed by the handlers it calls.\<close>

definition PMI_PowerModePreChangeComplete ::
  "('p, 'd, 't) pm_env \<Rightarrow> pm_clock \<Rightarrow> u32 \<Rightarrow> int \<Rightarrow> ('p, 'd, 't, 'n) pmi \<Rightarrow> hresult \<times> ('p, 'd, 't, 'n) pmi \<times> 'n pm_out list" where
  "PMI_PowerModePreChangeComplete en ck clientId transactionId s =
     (case pmi_mcc s of
        None \<Rightarrow> (ERROR_INVALID_PARAMETER, s, [])
      | Some c \<Rightarrow>
          (let (e, c1, fs) = Ack clientId transactionId c;
               (s1, outs) = run_firings en ck fs (s\<lparr>pmi_mcc := Some c1\<rparr>)
           in (e, s1, outs)))"

text \<open>The product of the delay and 1000 is an \<^verbatim>\<open>int\<close>.\<close>

definition PMI_DelayPowerModeChangeBy ::
  "pm_clock \<Rightarrow> u32 \<Rightarrow> int \<Rightarrow> int \<Rightarrow> ('p, 'd, 't, 'n) pmi \<Rightarrow> hresult \<times> ('p, 'd, 't, 'n) pmi" where
  "PMI_DelayPowerModeChangeBy ck clientId transactionId delayPeriod s =
     (case pmi_mcc s of
        None \<Rightarrow> (ERROR_INVALID_PARAMETER, s)
      | Some c \<Rightarrow>
          (let (e, c1) = Reschedule (ck_add ck) clientId transactionId
                           (sint (word_of_int (delayPeriod * 1000) :: u32)) c
           in (e, s\<lparr>pmi_mcc := Some c1\<rparr>)))"

definition PMI_AddPowerModePreChangeClient ::
  "string \<Rightarrow> u32 \<Rightarrow> ('p, 'd, 't, 'n) pmi \<Rightarrow> hresult \<times> u32 \<times> ('p, 'd, 't, 'n) pmi" where
  "PMI_AddPowerModePreChangeClient clientName clientId s =
     (if clientName = [] then (ERROR_INVALID_PARAMETER, clientId, s)
      else case List.find (\<lambda>c. snd c = clientName) (pmi_clients s) of
             None \<Rightarrow>
               (let i = pmi_nextClientId s + 1
                in (ERROR_NONE, i, s\<lparr>pmi_nextClientId := i, pmi_clients := AList.update i clientName (pmi_clients s)\<rparr>))
           | Some c \<Rightarrow> (ERROR_NONE, fst c, s))"

definition PMI_RemovePowerModePreChangeClient ::
  "('p, 'd, 't) pm_env \<Rightarrow> pm_clock \<Rightarrow> u32 \<Rightarrow> ('p, 'd, 't, 'n) pmi \<Rightarrow> hresult \<times> ('p, 'd, 't, 'n) pmi \<times> 'n pm_out list" where
  "PMI_RemovePowerModePreChangeClient en ck clientId s =
     (if map_of (pmi_clients s) clientId = None then (ERROR_INVALID_PARAMETER, s, [])
      else let s1 = s\<lparr>pmi_clients := AList.delete clientId (pmi_clients s)\<rparr>
           in case pmi_mcc s1 of
                None \<Rightarrow> (ERROR_NONE, s1, [])
              | Some c \<Rightarrow>
                  (let (_, c1, fs) = Ack_any clientId c;
                       (s2, outs) = run_firings en ck fs (s1\<lparr>pmi_mcc := Some c1\<rparr>)
                   in (ERROR_NONE, s2, outs)))"

text \<open>The worker pool dispatches the controller's timer job.\<close>

definition PMI_AckTimer :: "('p, 'd, 't) pm_env \<Rightarrow> pm_clock \<Rightarrow> ('p, 'd, 't, 'n) pm_step" where
  "PMI_AckTimer en ck s =
     (case pmi_mcc s of
        None \<Rightarrow> (s, [])
      | Some c \<Rightarrow> (let (c1, fs) = AckTimer c in run_firings en ck fs (s\<lparr>pmi_mcc := Some c1\<rparr>)))"

section \<open>Registration of notifications\<close>

text \<open>The six interfaces, each with its list; the overloads differ in nothing else.\<close>

datatype notif_kind =
    IRebootNotification
  | IModePreChangeNotification
  | IModeChangedNotification
  | IDeepSleepTimeoutNotification
  | INetworkStandbyModeChangedNotification
  | IThermalModeChangedNotification

primrec notif_get :: "notif_kind \<Rightarrow> ('p, 'd, 't, 'n) pmi \<Rightarrow> 'n notif_list" where
  "notif_get IRebootNotification s = pmi_rebootL s"
| "notif_get IModePreChangeNotification s = pmi_preChangeL s"
| "notif_get IModeChangedNotification s = pmi_changedL s"
| "notif_get IDeepSleepTimeoutNotification s = pmi_deepSleepL s"
| "notif_get INetworkStandbyModeChangedNotification s = pmi_networkL s"
| "notif_get IThermalModeChangedNotification s = pmi_thermalL s"

primrec notif_put :: "notif_kind \<Rightarrow> 'n notif_list \<Rightarrow> ('p, 'd, 't, 'n) pmi \<Rightarrow> ('p, 'd, 't, 'n) pmi" where
  "notif_put IRebootNotification l s = s\<lparr>pmi_rebootL := l\<rparr>"
| "notif_put IModePreChangeNotification l s = s\<lparr>pmi_preChangeL := l\<rparr>"
| "notif_put IModeChangedNotification l s = s\<lparr>pmi_changedL := l\<rparr>"
| "notif_put IDeepSleepTimeoutNotification l s = s\<lparr>pmi_deepSleepL := l\<rparr>"
| "notif_put INetworkStandbyModeChangedNotification l s = s\<lparr>pmi_networkL := l\<rparr>"
| "notif_put IThermalModeChangedNotification l s = s\<lparr>pmi_thermalL := l\<rparr>"

lemma notif_put_get: "notif_get j (notif_put i l s) = (if j = i then l else notif_get j s)"
  by (cases i; cases j) simp_all

definition PMI_RegisterNotification ::
  "notif_kind \<Rightarrow> 'n \<Rightarrow> ('p, 'd, 't, 'n) pmi \<Rightarrow> hresult \<times> ('p, 'd, 't, 'n) pmi" where
  "PMI_RegisterNotification k n s =
     (let (errorCode, l) = PMI_Register n (notif_get k s) in (errorCode, notif_put k l s))"

definition PMI_UnregisterNotification ::
  "notif_kind \<Rightarrow> 'n \<Rightarrow> ('p, 'd, 't, 'n) pmi \<Rightarrow> hresult \<times> ('p, 'd, 't, 'n) pmi" where
  "PMI_UnregisterNotification k n s =
     (let (errorCode, l) = PMI_Unregister n (notif_get k s) in (errorCode, notif_put k l s))"

section \<open>Calls passed on to the controllers\<close>

definition PMI_GetPowerState :: "('p, 'd, 't, 'n) pmi \<Rightarrow> hresult \<times> PowerState \<times> PowerState" where
  "PMI_GetPowerState s = PWC_GetPowerState (pmi_power s)"

definition PMI_GetTemperatureThresholds ::
  "('p, 'd, 't) pm_env \<Rightarrow> cfloat \<Rightarrow> cfloat \<Rightarrow> ('p, 'd, 't, 'n) pmi \<Rightarrow> hresult \<times> cfloat \<times> cfloat" where
  "PMI_GetTemperatureThresholds en high critical s =
     THC_GetTemperatureThresholds (en_thermal en) high critical (pmi_thermal s)"

definition PMI_SetTemperatureThresholds ::
  "('p, 'd, 't) pm_env \<Rightarrow> cfloat \<Rightarrow> cfloat \<Rightarrow> ('p, 'd, 't, 'n) pmi \<Rightarrow> hresult \<times> ('p, 'd, 't, 'n) pmi" where
  "PMI_SetTemperatureThresholds en high critical s =
     (let (errorCode, th) = THC_SetTemperatureThresholds (en_thermal en) high critical (pmi_thermal s)
      in (errorCode, s\<lparr>pmi_thermal := th\<rparr>))"

definition PMI_GetOvertempGraceInterval :: "('p, 'd, 't, 'n) pmi \<Rightarrow> hresult \<times> int" where
  "PMI_GetOvertempGraceInterval s = THC_GetOvertempGraceInterval (pmi_thermal s)"

definition PMI_SetOvertempGraceInterval :: "int \<Rightarrow> ('p, 'd, 't, 'n) pmi \<Rightarrow> hresult \<times> ('p, 'd, 't, 'n) pmi" where
  "PMI_SetOvertempGraceInterval graceInterval s =
     (let (errorCode, th) = THC_SetOvertempGraceInterval graceInterval (pmi_thermal s)
      in (errorCode, s\<lparr>pmi_thermal := th\<rparr>))"

definition PMI_GetThermalState :: "('p, 'd, 't) pm_env \<Rightarrow> ('p, 'd, 't, 'n) pmi \<Rightarrow> hresult \<times> cfloat" where
  "PMI_GetThermalState en s =
     (if en_thermalProtection en
      then let (errorCode, _, curTemperature) = THC_GetThermalState (pmi_thermal s) in (errorCode, curTemperature)
      else (ERROR_GENERAL, - 1))"

definition PMI_SetDeepSleepTimer :: "('p, 'd, 't) pm_env \<Rightarrow> int \<Rightarrow> ('p, 'd, 't, 'n) pmi \<Rightarrow> hresult \<times> ('p, 'd, 't, 'n) pmi" where
  "PMI_SetDeepSleepTimer en timeOut s =
     (let timeOutVal = (if timeOut > 86400 then 0 else timeOut);
          (errorCode, pwc) = PWC_SetDeepSleepTimer (en_val en) timeOutVal (pmi_power s)
      in (errorCode, s\<lparr>pmi_power := pwc\<rparr>))"

definition PMI_GetLastWakeupReason ::
  "('p, 'd, 't) pm_env \<Rightarrow> WakeupReason \<Rightarrow> ('p, 'd, 't, 'n) pmi \<Rightarrow> hresult \<times> WakeupReason" where
  "PMI_GetLastWakeupReason en r s = DSC_GetLastWakeupReason (en_deepSleep en) r (pmi_deepSleep s)"

definition PMI_GetLastWakeupKeyCode :: "('p, 'd, 't) pm_env \<Rightarrow> int \<Rightarrow> ('p, 'd, 't, 'n) pmi \<Rightarrow> hresult \<times> int" where
  "PMI_GetLastWakeupKeyCode en k s = DSC_GetLastWakeupKeyCode (en_deepSleep en) k (pmi_deepSleep s)"

definition PMI_GetTimeSinceWakeup :: "pm_clock \<Rightarrow> ('p, 'd, 't, 'n) pmi \<Rightarrow> hresult \<times> u32" where
  "PMI_GetTimeSinceWakeup ck s = PWC_GetTimeSinceWakeup (ck_now ck) (pmi_power s)"

text \<open>The event carries the default for an empty argument; the script is given the arguments as they are.\<close>

definition PMI_Reboot :: "string \<Rightarrow> string \<Rightarrow> string \<Rightarrow> ('p, 'd, 't, 'n) pmi \<Rightarrow> hresult \<times> 'n pm_out list" where
  "PMI_Reboot rebootRequestor rebootReasonCustom rebootReasonOther s =
     (let dflt = (\<lambda>x. if x = [] then ''Unknown'' else x);
          outs = map Notify (dispatchRebootBeginEvent (dflt rebootRequestor) (dflt rebootReasonCustom)
                               (dflt rebootReasonOther) (pmi_rebootL s));
          (errorCode, _) = PWC_Reboot rebootRequestor rebootReasonCustom rebootReasonOther
      in (errorCode, outs @ [SubmitReboot rebootRequestor rebootReasonCustom rebootReasonOther]))"

definition PMI_SetNetworkStandbyMode ::
  "('p, 'd, 't) pm_env \<Rightarrow> bool \<Rightarrow> ('p, 'd, 't, 'n) pmi \<Rightarrow> hresult \<times> ('p, 'd, 't, 'n) pmi \<times> 'n pm_out list" where
  "PMI_SetNetworkStandbyMode en standbyMode s =
     (let (errorCode, pwc) = PWC_SetNetworkStandbyMode (en_power en) (en_val en) standbyMode (pmi_power s);
          s1 = s\<lparr>pmi_power := pwc\<rparr>
      in (errorCode, s1,
          if errorCode = ERROR_NONE
          then map Notify (dispatchNetworkStandbyModeChangedEvent standbyMode (pmi_networkL s1)) else []))"

definition PMI_GetNetworkStandbyMode :: "('p, 'd, 't, 'n) pmi \<Rightarrow> hresult \<times> bool" where
  "PMI_GetNetworkStandbyMode s = PWC_GetNetworkStandbyMode (pmi_power s)"

definition PMI_GetPowerStateBeforeReboot :: "('p, 'd, 't, 'n) pmi \<Rightarrow> hresult \<times> PowerState" where
  "PMI_GetPowerStateBeforeReboot s = PWC_GetPowerStateBeforeReboot (pmi_power s)"

section \<open>Wake-up sources\<close>

definition isWakeupSrcEnabled :: "WakeupSourceConfig list \<Rightarrow> WakeupSrcType \<Rightarrow> bool" where
  "isWakeupSrcEnabled configs src =
     (case List.find (\<lambda>c. wsc_wakeupSource c = src) configs of None \<Rightarrow> False | Some c \<Rightarrow> wsc_enabled c)"

definition getWakeupSourceConfig ::
  "('p, 'd, 't) pm_env \<Rightarrow> WakeupSourceConfig list \<Rightarrow> ('p, 'd, 't, 'n) pmi \<Rightarrow> hresult \<times> WakeupSourceConfig list" where
  "getWakeupSourceConfig en configs s = PWC_GetWakeupSourceConfig (en_power en) configs (pmi_power s)"

text \<open>The configurations of the sources, and the standby mode that follows from those of the network.\<close>

definition setWakeupSourceConfig ::
  "('p, 'd, 't) pm_env \<Rightarrow> WakeupSourceConfig list \<Rightarrow> ('p, 'd, 't, 'n) pmi \<Rightarrow> hresult \<times> ('p, 'd, 't, 'n) pmi \<times> 'n pm_out list" where
  "setWakeupSourceConfig en configs s =
     (let (errorCode, pwc) = PWC_SetWakeupSourceConfig (en_power en) configs (pmi_power s);
          s1 = s\<lparr>pmi_power := pwc\<rparr>
      in if errorCode \<noteq> ERROR_NONE then (errorCode, s1, [])
         else let (errorCode2, currConfigs) = getWakeupSourceConfig en [] s1
              in if errorCode2 \<noteq> ERROR_NONE then (errorCode2, s1, [])
                 else let isWiFiEnabled = isWakeupSrcEnabled currConfigs WAKEUP_SRC_WIFI;
                          isLanEnabled = isWakeupSrcEnabled currConfigs WAKEUP_SRC_LAN
                      in if isWiFiEnabled \<noteq> isLanEnabled then (errorCode2, s1, [])
                         else let (errorCode3, currNwStandbyMode) = PMI_GetNetworkStandbyMode s1
                              in if errorCode3 \<noteq> ERROR_NONE then (errorCode3, s1, [])
                                 else let nwStandbyMode = (isWiFiEnabled \<and> isLanEnabled)
                                      in if nwStandbyMode = currNwStandbyMode then (errorCode3, s1, [])
                                         else PMI_SetNetworkStandbyMode en nwStandbyMode s1)"

text \<open>The client's iterator is the list of what it yields; an unknown source rejects the request.\<close>

definition PMI_SetWakeupSourceConfig ::
  "('p, 'd, 't) pm_env \<Rightarrow> WakeupSourceConfig list \<Rightarrow> ('p, 'd, 't, 'n) pmi \<Rightarrow> hresult \<times> ('p, 'd, 't, 'n) pmi \<times> 'n pm_out list" where
  "PMI_SetWakeupSourceConfig en wakeupSources s =
     (if WAKEUP_SRC_UNKNOWN \<in> set (map wsc_wakeupSource wakeupSources) then (ERROR_INVALID_PARAMETER, s, [])
      else setWakeupSourceConfig en wakeupSources s)"

definition PMI_GetWakeupSourceConfig ::
  "('p, 'd, 't) pm_env \<Rightarrow> ('p, 'd, 't, 'n) pmi \<Rightarrow> hresult \<times> WakeupSourceConfig list option" where
  "PMI_GetWakeupSourceConfig en s =
     (let (errorCode, configs) = getWakeupSourceConfig en [] s
      in (errorCode, if errorCode = ERROR_NONE then Some configs else None))"

section \<open>Callbacks of the controllers\<close>

text \<open>The state to wake to after deep sleep.\<close>

definition wakeup_state :: "('p, 'd, 't) pm_env \<Rightarrow> PowerState" where
  "wakeup_state en = (if en_platco en then POWER_STATE_STANDBY_LIGHT_SLEEP else POWER_STATE_ON)"

type_synonym ('p, 'd, 't, 'n) pm_callback =
  "('p, 'd, 't, 'n) pmi \<Rightarrow> (('p, 'd, 't, 'n) pmi \<times> 'n pm_out list) option"

definition PMI_onDeepSleepTimerWakeup :: "('p, 'd, 't) pm_env \<Rightarrow> pm_clock \<Rightarrow> int \<Rightarrow> ('p, 'd, 't, 'n) pm_callback" where
  "PMI_onDeepSleepTimerWakeup en ck wakeupTimeout s =
     (let o1 = map Notify (dispatchDeepSleepTimeoutEvent (word_of_int wakeupTimeout) (pmi_deepSleepL s))
      in map_option (\<lambda>(_, s1, o2). (s1, o1 @ o2))
           (PMI_SetPowerState en ck 0 POWER_STATE_STANDBY_LIGHT_SLEEP ''DeepSleep timedout'' s))"

definition PMI_onDeepSleepUserWakeup :: "('p, 'd, 't) pm_env \<Rightarrow> pm_clock \<Rightarrow> bool \<Rightarrow> ('p, 'd, 't, 'n) pm_callback" where
  "PMI_onDeepSleepUserWakeup en ck userWakeup s =
     map_option snd (PMI_SetPowerState en ck 0 (wakeup_state en) ''DeepSleep userwakeup'' s)"

definition PMI_onDeepSleepFailed :: "('p, 'd, 't) pm_env \<Rightarrow> pm_clock \<Rightarrow> ('p, 'd, 't, 'n) pm_callback" where
  "PMI_onDeepSleepFailed en ck s =
     map_option snd (PMI_SetPowerState en ck 0 (wakeup_state en) ''DeepSleep failed'' s)"

fun PMI_deepSleepCall :: "('p, 'd, 't) pm_env \<Rightarrow> pm_clock \<Rightarrow> ds_call \<Rightarrow> ('p, 'd, 't, 'n) pm_callback" where
  "PMI_deepSleepCall en ck (onDeepSleepTimerWakeup t) s = PMI_onDeepSleepTimerWakeup en ck t s"
| "PMI_deepSleepCall en ck (onDeepSleepUserWakeup u) s = PMI_onDeepSleepUserWakeup en ck u s"
| "PMI_deepSleepCall en ck onDeepSleepFailed s = PMI_onDeepSleepFailed en ck s"

definition PMI_getPowerState :: "('p, 'd, 't, 'n) pmi \<Rightarrow> hresult \<times> PowerState \<times> PowerState" where
  "PMI_getPowerState s = PWC_GetPowerState (pmi_power s)"

definition PMI_onThermalTemperatureChanged ::
  "ThermalTemperature \<Rightarrow> ThermalTemperature \<Rightarrow> cfloat \<Rightarrow> ('p, 'd, 't, 'n) pmi \<Rightarrow> 'n pm_out list" where
  "PMI_onThermalTemperatureChanged cur new temp s =
     map Notify (dispatchThermalModeChangedEvent cur new temp (pmi_thermalL s))"

definition PMI_onDeepSleepForThermalChange :: "('p, 'd, 't) pm_env \<Rightarrow> pm_clock \<Rightarrow> ('p, 'd, 't, 'n) pm_callback" where
  "PMI_onDeepSleepForThermalChange en ck s =
     map_option snd (PMI_SetPowerState en ck 0 POWER_STATE_STANDBY_DEEP_SLEEP ''DeepSleep on Thermal change'' s)"

section \<open>Out-of-range deep-sleep timers\<close>

text \<open>
  A timer above a day is taken for no timer; a negative one passes that test and is stored as
  the unsigned number of seconds it wraps to, more than 68 years.
\<close>

lemma negative_timer_wraps:
  fixes timeOut :: int
  assumes "- (2 ^ 31) \<le> timeOut" "timeOut < 0"
  shows "st_deepSleepTimeout (pwc_settings (pmi_power (snd (PMI_SetDeepSleepTimer en timeOut s)))) =
           word_of_int (timeOut + 2 ^ 32)"
    and "2 ^ 31 \<le> uint (st_deepSleepTimeout (pwc_settings (pmi_power (snd (PMI_SetDeepSleepTimer en timeOut s)))))"
proof -
  have w: "(word_of_int timeOut :: u32) = word_of_int (timeOut + 2 ^ 32)"
    by (rule word_uint_eqI, unfold uint_word_of_int) simp
  show st: "st_deepSleepTimeout (pwc_settings (pmi_power (snd (PMI_SetDeepSleepTimer en timeOut s)))) =
      word_of_int (timeOut + 2 ^ 32)"
    using assms w
    by (simp add: PMI_SetDeepSleepTimer_def PWC_SetDeepSleepTimer_def DSWS_SetTimeout_def pwc_save_def
        SetDeepSleepTimeout_def Let_def split_beta)
  have "uint (word_of_int (timeOut + 2 ^ 32) :: u32) = timeOut + 2 ^ 32"
    unfolding uint_word_of_int by (rule mod_pos_pos_trivial) (use assms in simp_all)
  with assms st show "2 ^ 31 \<le> uint (st_deepSleepTimeout (pwc_settings (pmi_power (snd (PMI_SetDeepSleepTimer en timeOut s)))))"
    by simp
qed

end
