(* ===== verification/PowerTransitions.thy ===== *)
theory PowerTransitions
  imports PowerManager
begin

text \<open>
  What \<^verbatim>\<open>PowerManagerImplementation\<close> promises about a change of power state: the
  bookkeeping of its lock and its references under every interleaving of callers, clients and
  the timer, and the course of a transition from the request to the notification. A timer job
  and the handler it calls are one step here; \<open>PowerRaces\<close> takes them apart.
\<close>

section \<open>Frames\<close>

lemma setDevicePowerState_frame [simp]:
  "pmi_mcc (fst (snd (setDevicePowerState en ck k p n r s))) = pmi_mcc s"
  "pmi_clients (fst (snd (setDevicePowerState en ck k p n r s))) = pmi_clients s"
  "pmi_selfLock (fst (snd (setDevicePowerState en ck k p n r s))) = pmi_selfLock s"
  "pmi_refs (fst (snd (setDevicePowerState en ck k p n r s))) = pmi_refs s"
  "pmi_nextTransactionId (fst (snd (setDevicePowerState en ck k p n r s))) = pmi_nextTransactionId s"
  "pmi_nextClientId (fst (snd (setDevicePowerState en ck k p n r s))) = pmi_nextClientId s"
  "pmi_changedL (fst (snd (setDevicePowerState en ck k p n r s))) = pmi_changedL s"
  "pmi_preChangeL (fst (snd (setDevicePowerState en ck k p n r s))) = pmi_preChangeL s"
  "pmi_deepSleep (fst (snd (setDevicePowerState en ck k p n r s))) = pmi_deepSleep s"
  by (simp_all add: setDevicePowerState_def Let_def split_beta)

lemma completionHandler_frame [simp]:
  "pmi_mcc (fst (completionHandler en ck h t a s)) = pmi_mcc s"
  "pmi_clients (fst (completionHandler en ck h t a s)) = pmi_clients s"
  "pmi_nextTransactionId (fst (completionHandler en ck h t a s)) = pmi_nextTransactionId s"
  "pmi_nextClientId (fst (completionHandler en ck h t a s)) = pmi_nextClientId s"
  "pmi_changedL (fst (completionHandler en ck h t a s)) = pmi_changedL s"
  "pmi_preChangeL (fst (completionHandler en ck h t a s)) = pmi_preChangeL s"
  "pmi_deepSleep (fst (completionHandler en ck h t a s)) = pmi_deepSleep s"
  "pmi_refs (fst (completionHandler en ck h t a s)) = pmi_refs s - 1"
  "pmi_selfLock (fst (completionHandler en ck h t a s)) = (pmi_selfLock s \<and> \<not> hd_isSync h)"
  by (simp_all add: completionHandler_def Let_def split_beta)

lemma completionHandler_pair:
  "completionHandler en ck h t a s = (s1, outs) \<Longrightarrow>
     pmi_mcc s1 = pmi_mcc s \<and> pmi_clients s1 = pmi_clients s \<and> pmi_selfLock s1 = (pmi_selfLock s \<and> \<not> hd_isSync h)"
  by (metis fst_conv completionHandler_frame(1,2,9))

lemma run_firings_one [simp]: "run_firings en ck [Fire (Some h) t a] s = completionHandler en ck h t a s"
  by (simp add: split_beta)

lemma run_firings_frame [simp]:
  "pmi_mcc (fst (run_firings en ck fs s)) = pmi_mcc s"
  "pmi_nextTransactionId (fst (run_firings en ck fs s)) = pmi_nextTransactionId s"
  "pmi_clients (fst (run_firings en ck fs s)) = pmi_clients s"
  "pmi_nextClientId (fst (run_firings en ck fs s)) = pmi_nextClientId s"
proof -
  have "pmi_mcc (fst (run_firings en ck fs s)) = pmi_mcc s \<and>
    pmi_nextTransactionId (fst (run_firings en ck fs s)) = pmi_nextTransactionId s \<and>
    pmi_clients (fst (run_firings en ck fs s)) = pmi_clients s \<and>
    pmi_nextClientId (fst (run_firings en ck fs s)) = pmi_nextClientId s"
  proof (induction fs arbitrary: s)
    case (Cons f fs)
    obtain h t a where "f = Fire h t a" by (cases f)
    with Cons.IH show ?case by (cases h) (simp_all add: split_beta)
  qed simp
  then show "pmi_mcc (fst (run_firings en ck fs s)) = pmi_mcc s"
    "pmi_nextTransactionId (fst (run_firings en ck fs s)) = pmi_nextTransactionId s"
    "pmi_clients (fst (run_firings en ck fs s)) = pmi_clients s"
    "pmi_nextClientId (fst (run_firings en ck fs s)) = pmi_nextClientId s" by simp_all
qed

lemma run_firings_pair:
  "run_firings en ck fs s = (s1, outs) \<Longrightarrow> pmi_mcc s1 = pmi_mcc s \<and>
     pmi_nextTransactionId s1 = pmi_nextTransactionId s"
  by (metis fst_conv run_firings_frame(1,2))

text \<open>Each operation of a controller calls at most one handler, and its own.\<close>

lemma ack_firings:
  "snd (snd (Ack i tid c)) =
     (if tid = ack_transactionId c \<and> ack_pending c = {i} \<and> ack_running c
      then [Fire (ack_handler c) False False] else [])"
  by (auto simp: ack_defs Let_def)

lemma ack_fields:
  "ack_running (fst (snd (Ack i tid c))) =
     (ack_running c \<and> \<not> (tid = ack_transactionId c \<and> ack_pending c - {i} = {} \<and> i \<in> ack_pending c))"
  "ack_handler (fst (snd (Ack i tid c))) = ack_handler c"
  "ack_transactionId (fst (snd (Ack i tid c))) = ack_transactionId c"
  "ack_powerState (fst (snd (Ack i tid c))) = ack_powerState c"
  "ack_timerJob (fst (snd (Ack i tid c))) = ack_timerJob c"
  by (auto simp: ack_defs Let_def)

lemma reschedule_fields:
  "ack_running (snd (Reschedule na i tid off c)) = ack_running c"
  "ack_handler (snd (Reschedule na i tid off c)) = ack_handler c"
  "ack_transactionId (snd (Reschedule na i tid off c)) = ack_transactionId c"
  "ack_powerState (snd (Reschedule na i tid off c)) = ack_powerState c"
  "ack_timerJob (snd (Reschedule na i tid off c)) = ack_timerJob c"
  by (auto simp: ack_defs Let_def)

lemma timer_result:
  "AckTimer c = (c\<lparr>ack_sched := None, ack_running := False\<rparr>,
     if ack_running c then [Fire (ack_handler c) True False] else [])"
  by (cases c) (auto simp: ack_defs Let_def)

lemma revoke_result:
  "ack_running c \<longrightarrow> ack_timerJob c \<Longrightarrow>
     snd (revoke c) = (if ack_running c then [Fire (ack_handler c) False True] else [])"
  by (auto simp: ack_defs Let_def)

lemma fold_AckAwait: "fold AckAwait ids a = a\<lparr>ack_pending := ack_pending a \<union> set ids\<rparr>"
  by (induction ids arbitrary: a) (auto simp: AckAwait_def insert_commute)

lemma new_controller:
  "fold AckAwait ids (AckController_new ps tid now) =
     (AckController_new ps tid now)\<lparr>ack_pending := set ids\<rparr>"
  by (simp add: fold_AckAwait AckController_new_def)

section \<open>Interleavings\<close>

text \<open>
  At most one call of \<^verbatim>\<open>SetPowerState\<close> is past \<^verbatim>\<open>selfLock\<close>; its program point carries
  its local variables.
\<close>

datatype sps_pc =
    AfterRead int PowerState string PowerState bool          \<comment> \<open>key code, target, reason, current state, sync\<close>
  | AfterPrepare int PowerState string PowerState bool int   \<comment> \<open>and the transaction id\<close>

record ('p, 'd, 't, 'n) pm_sys =
  sy_pmi :: "('p, 'd, 't, 'n) pmi"
  sy_call :: "sps_pc option"

definition power_state :: "('p, 'd, 't, 'n) pmi \<Rightarrow> PowerState" where
  "power_state s = st_powerState (pwc_settings (pmi_power s))"

text \<open>
  The other operations (of the thermal controller, of the wake-up sources, of the notification
  lists, and so on) leave transitions and their clients alone; they may change everything else.
\<close>

definition same_transition :: "('p, 'd, 't, 'n) pmi \<Rightarrow> ('p, 'd, 't, 'n) pmi \<Rightarrow> bool" where
  "same_transition s r \<longleftrightarrow> pmi_mcc r = pmi_mcc s \<and> pmi_selfLock r = pmi_selfLock s \<and>
     pmi_refs r = pmi_refs s \<and> pmi_nextTransactionId r = pmi_nextTransactionId s \<and>
     pmi_clients r = pmi_clients s \<and> pmi_nextClientId r = pmi_nextClientId s \<and> power_state r = power_state s"

inductive pm_step ::
  "('p, 'd, 't) pm_env \<Rightarrow> ('p, 'd, 't, 'n) pm_sys \<Rightarrow> 'n pm_out list \<Rightarrow> ('p, 'd, 't, 'n) pm_sys \<Rightarrow> bool"
  for en where
  Return: "\<not> pmi_selfLock s \<Longrightarrow> sps_read en ck new s = (SpsReturn e, s1) \<Longrightarrow>
    pm_step en \<lparr>sy_pmi = s, sy_call = None\<rparr> [] \<lparr>sy_pmi = s1, sy_call = None\<rparr>"
| Read: "\<not> pmi_selfLock s \<Longrightarrow> sps_read en ck new s = (SpsGo cur sync, s1) \<Longrightarrow>
    pm_step en \<lparr>sy_pmi = s, sy_call = None\<rparr> []
      \<lparr>sy_pmi = s1, sy_call = Some (AfterRead k new reason cur sync)\<rparr>"
| Redundant: "sps_prepare en ck new s = (None, s1, outs) \<Longrightarrow>
    pm_step en \<lparr>sy_pmi = s, sy_call = Some (AfterRead k new reason cur sync)\<rparr> outs
      \<lparr>sy_pmi = s1, sy_call = None\<rparr>"
| Prepare: "sps_prepare en ck new s = (Some tid, s1, outs) \<Longrightarrow>
    pm_step en \<lparr>sy_pmi = s, sy_call = Some (AfterRead k new reason cur sync)\<rparr> outs
      \<lparr>sy_pmi = s1, sy_call = Some (AfterPrepare k new reason cur sync tid)\<rparr>"
| Sched: "sps_schedule en ck k cur new sync tid reason s = (s1, outs) \<Longrightarrow>
    pm_step en \<lparr>sy_pmi = s, sy_call = Some (AfterPrepare k new reason cur sync tid)\<rparr> outs
      \<lparr>sy_pmi = s1, sy_call = None\<rparr>"
| AckOp: "PMI_PowerModePreChangeComplete en ck i tid s = (e, s1, outs) \<Longrightarrow>
    pm_step en \<lparr>sy_pmi = s, sy_call = c\<rparr> outs \<lparr>sy_pmi = s1, sy_call = c\<rparr>"
| DelayOp: "PMI_DelayPowerModeChangeBy ck i tid d s = (e, s1) \<Longrightarrow>
    pm_step en \<lparr>sy_pmi = s, sy_call = c\<rparr> [] \<lparr>sy_pmi = s1, sy_call = c\<rparr>"
| AddClient: "PMI_AddPowerModePreChangeClient name i s = (e, j, s1) \<Longrightarrow>
    pm_step en \<lparr>sy_pmi = s, sy_call = c\<rparr> [] \<lparr>sy_pmi = s1, sy_call = c\<rparr>"
| RemoveClient: "PMI_RemovePowerModePreChangeClient en ck i s = (e, s1, outs) \<Longrightarrow>
    pm_step en \<lparr>sy_pmi = s, sy_call = c\<rparr> outs \<lparr>sy_pmi = s1, sy_call = c\<rparr>"
| Timer: "pmi_mcc s = Some ctl \<Longrightarrow> ack_sched ctl \<noteq> None \<Longrightarrow> PMI_AckTimer en ck s = (s1, outs) \<Longrightarrow>
    pm_step en \<lparr>sy_pmi = s, sy_call = c\<rparr> outs \<lparr>sy_pmi = s1, sy_call = c\<rparr>"
| Other: "same_transition s s1 \<Longrightarrow>
    pm_step en \<lparr>sy_pmi = s, sy_call = c\<rparr> [] \<lparr>sy_pmi = s1, sy_call = c\<rparr>"

inductive pm_reach :: "('p, 'd, 't) pm_env \<Rightarrow> ('p, 'd, 't, 'n) pm_sys \<Rightarrow> bool" for en where
  start: "pm_reach en \<lparr>sy_pmi = PMI_new en now p d th fs, sy_call = None\<rparr>"
| step: "pm_reach en S \<Longrightarrow> pm_step en S outs S' \<Longrightarrow> pm_reach en S'"

section \<open>Bookkeeping\<close>

definition mcc_running :: "('p, 'd, 't, 'n) pmi \<Rightarrow> bool" where
  "mcc_running s \<longleftrightarrow> (case pmi_mcc s of None \<Rightarrow> False | Some c \<Rightarrow> ack_running c)"

fun prepared :: "sps_pc option \<Rightarrow> bool" where
  "prepared (Some (AfterPrepare k n r c sy t)) = True"
| "prepared _ = False"

text \<open>What a running controller will call is asynchronous, and fits its target.\<close>

definition ctl_ok :: "pm_handler ack option \<Rightarrow> bool" where
  "ctl_ok m \<longleftrightarrow> (case m of None \<Rightarrow> True | Some c \<Rightarrow> ack_running c \<longrightarrow> ack_timerJob c \<and>
     (case ack_handler c of None \<Rightarrow> False | Some h \<Rightarrow> \<not> hd_isSync h \<and> hd_newState h = ack_powerState c))"

lemma ctl_ok_None [simp]: "ctl_ok None"
  by (simp add: ctl_ok_def)

definition pc_fits :: "sps_pc option \<Rightarrow> pm_handler ack option \<Rightarrow> bool" where
  "pc_fits c m \<longleftrightarrow> (case c of Some (AfterPrepare k new r cur sync tid) \<Rightarrow>
       (case m of None \<Rightarrow> False | Some a \<Rightarrow> \<not> ack_running a \<and> ack_handler a = None \<and>
          ack_transactionId a = tid \<and> ack_powerState a = new)
     | _ \<Rightarrow> True)"

definition sys_ok :: "('p, 'd, 't, 'n) pm_sys \<Rightarrow> bool" where
  "sys_ok S \<longleftrightarrow> (pmi_selfLock (sy_pmi S) \<longleftrightarrow> sy_call S \<noteq> None) \<and>
     ctl_ok (pmi_mcc (sy_pmi S)) \<and> pc_fits (sy_call S) (pmi_mcc (sy_pmi S))"

text \<open>The references taken beyond those of a prepared call and of a running transition.\<close>

definition surplus :: "('p, 'd, 't, 'n) pm_sys \<Rightarrow> int" where
  "surplus S = pmi_refs (sy_pmi S) - (if prepared (sy_call S) then 1 else 0) - (if mcc_running (sy_pmi S) then 1 else 0)"

text \<open>
  An operation on the controller in use that calls the handler exactly when it stops the
  controller keeps the bookkeeping.
\<close>

lemma mcc_update_ok:
  assumes "sys_ok \<lparr>sy_pmi = s, sy_call = call\<rparr>" "pmi_mcc s = Some c"
    and "ack_handler c1 = ack_handler c" "ack_transactionId c1 = ack_transactionId c"
    and "ack_powerState c1 = ack_powerState c" "ack_timerJob c1 = ack_timerJob c" "ack_running c1 \<longrightarrow> ack_running c"
    and "fs = (if ack_running c \<and> \<not> ack_running c1 then [Fire (ack_handler c) t a] else [])"
  shows "sys_ok \<lparr>sy_pmi = fst (run_firings en ck fs (s\<lparr>pmi_mcc := Some c1\<rparr>)), sy_call = call\<rparr> \<and>
     surplus \<lparr>sy_pmi = fst (run_firings en ck fs (s\<lparr>pmi_mcc := Some c1\<rparr>)), sy_call = call\<rparr> =
     surplus \<lparr>sy_pmi = s, sy_call = call\<rparr>"
proof (cases "ack_running c \<and> \<not> ack_running c1")
  case False
  with assms show ?thesis
    by (auto simp: sys_ok_def surplus_def mcc_running_def ctl_ok_def pc_fits_def split: option.splits sps_pc.splits)
next
  case True
  with assms(1,2) obtain h where h: "ack_handler c = Some h" "\<not> hd_isSync h"
    by (auto simp: sys_ok_def ctl_ok_def split: option.splits)
  from True assms h show ?thesis
    by (auto simp: sys_ok_def surplus_def mcc_running_def ctl_ok_def pc_fits_def simp del: run_firings.simps
        split: option.splits sps_pc.splits)
qed

lemma Ack_ok:
  assumes "sys_ok \<lparr>sy_pmi = s, sy_call = call\<rparr>" "pmi_mcc s = Some c" "Ack i tid c = (e, c1, fs)"
    and "run_firings en ck fs (s\<lparr>pmi_mcc := Some c1\<rparr>) = (s1, outs)"
  shows "sys_ok \<lparr>sy_pmi = s1, sy_call = call\<rparr> \<and> surplus \<lparr>sy_pmi = s1, sy_call = call\<rparr> = surplus \<lparr>sy_pmi = s, sy_call = call\<rparr>"
proof -
  have "fs = (if ack_running c \<and> \<not> ack_running c1 then [Fire (ack_handler c) False False] else [])"
    using ack_firings [of i tid c] ack_fields(1) [of i tid c] assms(3) by (auto split: if_splits)
  from mcc_update_ok [OF assms(1,2) _ _ _ _ _ this, of en ck] ack_fields [of i tid c] assms(3,4) show ?thesis by simp
qed

lemma sys_ok_clients [simp]:
  "sys_ok \<lparr>sy_pmi = s\<lparr>pmi_clients := cs\<rparr>, sy_call = call\<rparr> = sys_ok \<lparr>sy_pmi = s, sy_call = call\<rparr>"
  "sys_ok \<lparr>sy_pmi = s\<lparr>pmi_nextClientId := n\<rparr>, sy_call = call\<rparr> = sys_ok \<lparr>sy_pmi = s, sy_call = call\<rparr>"
  "surplus \<lparr>sy_pmi = s\<lparr>pmi_clients := cs\<rparr>, sy_call = call\<rparr> = surplus \<lparr>sy_pmi = s, sy_call = call\<rparr>"
  "surplus \<lparr>sy_pmi = s\<lparr>pmi_nextClientId := n\<rparr>, sy_call = call\<rparr> = surplus \<lparr>sy_pmi = s, sy_call = call\<rparr>"
  by (simp_all add: sys_ok_def surplus_def mcc_running_def)

text \<open>A request replaces the controller in use, and cancels its transition.\<close>

lemma prepare_effect:
  assumes "ctl_ok (pmi_mcc s)" and "sps_prepare en ck new s = (Some tid, s1, outs)"
  shows "outs = [] \<and> tid = pmi_nextTransactionId s + 1 \<and>
     s1 = s\<lparr>pmi_mcc := Some ((AckController_new new tid (ck_add ck 0))\<lparr>ack_pending := set (map fst (pmi_clients s))\<rparr>),
            pmi_nextTransactionId := tid, pmi_refs := pmi_refs s - (if mcc_running s then 1 else 0) + 1\<rparr>"
proof (cases "pmi_mcc s")
  case None
  with assms show ?thesis by (auto simp: sps_prepare_def Let_def new_controller mcc_running_def)
next
  case (Some c)
  with assms(1) have r: "snd (revoke c) = (if ack_running c then [Fire (ack_handler c) False True] else [])"
    by (intro revoke_result) (simp add: ctl_ok_def)
  have ne: "ack_powerState c \<noteq> new" using assms(2) Some by (auto simp: sps_prepare_def)
  show ?thesis
  proof (cases "ack_running c")
    case False
    with Some assms(2) ne r show ?thesis
      by (auto simp: sps_prepare_def Let_def split_beta new_controller mcc_running_def)
  next
    case True
    with Some assms(1) obtain h where h: "ack_handler c = Some h" "\<not> hd_isSync h"
      by (auto simp: ctl_ok_def split: option.splits)
    have "completionHandler en ck h False True (s\<lparr>pmi_mcc := None\<rparr>) =
        (s\<lparr>pmi_mcc := None, pmi_refs := pmi_refs s - 1\<rparr>, [])"
      using h by (simp add: completionHandler_def)
    with Some assms(2) ne r True h show ?thesis
      by (auto simp: sps_prepare_def Let_def split_beta new_controller mcc_running_def
          simp del: run_firings.simps)
  qed
qed

lemma schedule_ok:
  assumes "sys_ok \<lparr>sy_pmi = s, sy_call = Some (AfterPrepare k new reason cur sync tid)\<rparr>"
    and "sps_schedule en ck k cur new sync tid reason s = (s1, outs)"
  shows "sys_ok \<lparr>sy_pmi = s1, sy_call = None\<rparr> \<and> surplus \<lparr>sy_pmi = s1, sy_call = None\<rparr> =
     surplus \<lparr>sy_pmi = s, sy_call = Some (AfterPrepare k new reason cur sync tid)\<rparr>"
proof -
  from assms(1) obtain c where c: "pmi_mcc s = Some c" "\<not> ack_running c" "ack_powerState c = new" and lock: "pmi_selfLock s"
    by (auto simp: sys_ok_def pc_fits_def split: option.splits)
  define h where "h = \<lparr>hd_keyCode = k, hd_currState = cur, hd_newState = new, hd_reason = reason, hd_isSync = sync\<rparr>"
  define off where "off = uint ((if sync then 0 else en_preChangeTimeout en) * 1000)"
  have s1: "s1 = (let r = fst (run_firings en ck (snd (Schedule (ck_add ck) off h c))
        (s\<lparr>pmi_mcc := Some (fst (Schedule (ck_add ck) off h c))\<rparr>))
      in if \<not> sync then r\<lparr>pmi_selfLock := False\<rparr> else r)"
    using assms(2) c by (auto simp: sps_schedule_def Let_def split_beta h_def off_def)
  show ?thesis
  proof (cases "ack_pending c = {} \<or> off = 0")
    case True
    then have "Schedule (ck_add ck) off h c = (c, [Fire (Some h) False False])" by (simp add: Schedule_def)
    with c lock show ?thesis
      unfolding s1
      by (simp add: sys_ok_def surplus_def mcc_running_def ctl_ok_def pc_fits_def h_def Let_def del: run_firings.simps)
  next
    case False
    then have "\<not> sync" by (auto simp: off_def)
    moreover have "snd (Schedule (ck_add ck) off h c) = []" "ack_running (fst (Schedule (ck_add ck) off h c))"
      "ack_handler (fst (Schedule (ck_add ck) off h c)) = Some h" "ack_timerJob (fst (Schedule (ck_add ck) off h c))"
      "ack_powerState (fst (Schedule (ck_add ck) off h c)) = new"
      using False c by (auto simp: Schedule_def Let_def)
    ultimately show ?thesis
      unfolding s1 using c by (auto simp: sys_ok_def surplus_def mcc_running_def ctl_ok_def pc_fits_def h_def Let_def)
  qed
qed

lemma read_frame:
  "pmi_mcc (snd (sps_read en ck new s)) = pmi_mcc s"
  "pmi_refs (snd (sps_read en ck new s)) = pmi_refs s"
  "pmi_selfLock (snd (sps_read en ck new s)) = (case fst (sps_read en ck new s) of SpsReturn e \<Rightarrow> False | _ \<Rightarrow> True)"
  by (auto simp: sps_read_def Let_def split_beta)

lemma pm_step_ok: "pm_step en S outs S' \<Longrightarrow> sys_ok S \<Longrightarrow> sys_ok S' \<and> surplus S' = surplus S"
proof (induction rule: pm_step.induct)
  case (Return s ck new e s1)
  with read_frame [of en ck new s] show ?case by (simp add: sys_ok_def surplus_def mcc_running_def pc_fits_def)
next
  case (Read s ck new cur sync s1 k reason)
  with read_frame [of en ck new s] show ?case by (simp add: sys_ok_def surplus_def mcc_running_def pc_fits_def)
next
  case (Redundant ck new s s1 outs k reason cur sync)
  then have "s1 = s\<lparr>pmi_selfLock := False\<rparr>"
    by (auto simp: sps_prepare_def Let_def split_beta split: option.splits if_splits)
  with Redundant(2) show ?case by (simp add: sys_ok_def surplus_def mcc_running_def pc_fits_def)
next
  case (Prepare ck new s tid s1 outs k reason cur sync)
  have "ctl_ok (pmi_mcc s)" using Prepare(2) by (simp add: sys_ok_def)
  from prepare_effect [OF this Prepare(1)] Prepare(2) show ?case
    by (auto simp: sys_ok_def surplus_def mcc_running_def pc_fits_def ctl_ok_def AckController_new_def)
next
  case (Sched ck k cur new sync tid reason s s1 outs)
  then show ?case by (intro schedule_ok)
next
  case (AckOp ck i tid s e s1 outs c)
  show ?case
  proof (cases "pmi_mcc s")
    case (Some a)
    obtain e1 a1 fs where "Ack i tid a = (e1, a1, fs)" by (metis prod_cases3)
    with AckOp Some show ?thesis
      by (intro Ack_ok [where en = en and ck = ck]) (auto simp: PMI_PowerModePreChangeComplete_def Let_def split_beta prod_eq_iff)
  qed (use AckOp in \<open>simp add: PMI_PowerModePreChangeComplete_def\<close>)
next
  case (DelayOp ck i tid d s e s1 c)
  show ?case
  proof (cases "pmi_mcc s")
    case (Some a)
    let ?c1 = "snd (Reschedule (ck_add ck) i tid (sint (word_of_int (d * 1000) :: u32)) a)"
    have "s1 = fst (run_firings en ck [] (s\<lparr>pmi_mcc := Some ?c1\<rparr>))"
      using DelayOp(1) Some by (auto simp: PMI_DelayPowerModeChangeBy_def Let_def split_beta)
    moreover have "[] = (if ack_running a \<and> \<not> ack_running ?c1 then [Fire (ack_handler a) True True] else [])"
      by (simp add: reschedule_fields)
    ultimately show ?thesis
      using mcc_update_ok [OF DelayOp(2) Some, of ?c1 "[]" True True en ck] by (simp add: reschedule_fields)
  qed (use DelayOp in \<open>simp add: PMI_DelayPowerModeChangeBy_def\<close>)
next
  case (AddClient name i s e j s1 c)
  then show ?case
    by (auto simp: PMI_AddPowerModePreChangeClient_def Let_def split: if_splits option.splits)
next
  case (RemoveClient ck i s e s1 outs c)
  let ?s = "s\<lparr>pmi_clients := AList.delete i (pmi_clients s)\<rparr>"
  show ?case
  proof (cases "map_of (pmi_clients s) i = None \<or> pmi_mcc s = None")
    case True
    with RemoveClient show ?thesis by (auto simp: PMI_RemovePowerModePreChangeClient_def split: if_splits)
  next
    case False
    then obtain a where a: "pmi_mcc ?s = Some a" by auto
    obtain e1 a1 fs where ack: "Ack i (ack_transactionId a) a = (e1, a1, fs)" by (metis prod_cases3)
    have "sys_ok \<lparr>sy_pmi = ?s, sy_call = c\<rparr>" using RemoveClient(2) by simp
    moreover have "run_firings en ck fs (?s\<lparr>pmi_mcc := Some a1\<rparr>) = (s1, outs)"
      using RemoveClient(1) False a ack
      by (auto simp: PMI_RemovePowerModePreChangeClient_def Ack_any_def split_beta Let_def prod_eq_iff split: if_splits)
    ultimately show ?thesis using Ack_ok [OF _ a ack] by simp
  qed
next
  case (Timer s ctl ck s1 outs c)
  have "snd (AckTimer ctl) = (if ack_running ctl \<and> \<not> ack_running (fst (AckTimer ctl)) then [Fire (ack_handler ctl) True False] else [])"
    by (simp add: timer_result)
  from mcc_update_ok [OF Timer(4,1) _ _ _ _ _ this, of en ck] Timer(1,3) show ?case
    by (simp add: PMI_AckTimer_def timer_result split_beta)
next
  case (Other s s1 c)
  then show ?case by (simp add: sys_ok_def surplus_def same_transition_def mcc_running_def)
qed

text \<open>Without interruptions, moreover, a controller is scheduled exactly while it runs.\<close>

definition mcc_ok :: "pm_handler ack option \<Rightarrow> bool" where
  "mcc_ok m \<longleftrightarrow> (case m of None \<Rightarrow> True | Some c \<Rightarrow> ack_inv c) \<and> ctl_ok m"

definition pm_inv :: "('p, 'd, 't, 'n) pm_sys \<Rightarrow> bool" where
  "pm_inv S \<longleftrightarrow>
     (pmi_selfLock (sy_pmi S) \<longleftrightarrow> sy_call S \<noteq> None) \<and>
     pmi_refs (sy_pmi S) = (if prepared (sy_call S) then 1 else 0) + (if mcc_running (sy_pmi S) then 1 else 0) \<and>
     mcc_ok (pmi_mcc (sy_pmi S)) \<and> pc_fits (sy_call S) (pmi_mcc (sy_pmi S))"

lemma pm_inv_parts:
  "pm_inv S \<longleftrightarrow> sys_ok S \<and> surplus S = 0 \<and> (case pmi_mcc (sy_pmi S) of None \<Rightarrow> True | Some c \<Rightarrow> ack_inv c)"
  by (auto simp: pm_inv_def sys_ok_def surplus_def mcc_ok_def)

lemma pm_inv_ok: "pm_inv S \<Longrightarrow> sys_ok S"
  by (simp add: pm_inv_parts)

lemma pm_inv_refs: "pm_inv \<lparr>sy_pmi = s, sy_call = None\<rparr> \<Longrightarrow> pmi_refs s - (if mcc_running s then 1 else 0) + 1 = 1"
  by (simp add: pm_inv_def)

lemma mcc_okD:
  assumes "mcc_ok (Some c)"
  shows "ack_inv c" and "ack_running c \<Longrightarrow> \<exists>h. ack_handler c = Some h \<and> \<not> hd_isSync h \<and> hd_newState h = ack_powerState c"
  using assms by (auto simp: mcc_ok_def ctl_ok_def split: option.splits)

lemma pm_inv_clients [simp]:
  "pm_inv \<lparr>sy_pmi = s\<lparr>pmi_clients := cs\<rparr>, sy_call = call\<rparr> = pm_inv \<lparr>sy_pmi = s, sy_call = call\<rparr>"
  "pm_inv \<lparr>sy_pmi = s\<lparr>pmi_nextClientId := n\<rparr>, sy_call = call\<rparr> = pm_inv \<lparr>sy_pmi = s, sy_call = call\<rparr>"
  by (simp_all add: pm_inv_parts)

lemma prepare_state:
  assumes "pm_inv \<lparr>sy_pmi = s, sy_call = Some (AfterRead k new reason cur sync)\<rparr>"
    and "sps_prepare en ck new s = (Some tid, s1, outs)"
  shows "outs = [] \<and>
     s1 = s\<lparr>pmi_mcc := Some ((AckController_new new tid (ck_add ck 0))\<lparr>ack_pending := set (map fst (pmi_clients s))\<rparr>),
            pmi_nextTransactionId := tid, pmi_refs := 1\<rparr> \<and> tid = pmi_nextTransactionId s + 1"
proof -
  have "ctl_ok (pmi_mcc s)" and "pmi_refs s = (if mcc_running s then 1 else 0)"
    using assms(1) by (auto simp: pm_inv_def mcc_ok_def)
  with prepare_effect [OF this(1) assms(2)] show ?thesis by auto
qed

lemma pm_step_ack_inv:
  "pm_step en S outs S' \<Longrightarrow> sys_ok S \<Longrightarrow> (case pmi_mcc (sy_pmi S) of None \<Rightarrow> True | Some c \<Rightarrow> ack_inv c) \<Longrightarrow>
     (case pmi_mcc (sy_pmi S') of None \<Rightarrow> True | Some c \<Rightarrow> ack_inv c)"
proof (induction rule: pm_step.induct)
  case (Prepare ck new s tid s1 outs k reason cur sync)
  have "ctl_ok (pmi_mcc s)" using Prepare(2) by (simp add: sys_ok_def)
  from prepare_effect [OF this Prepare(1)] show ?case by (simp add: ack_inv_def AckController_new_def)
next
  case (Redundant ck new s s1 outs k reason cur sync)
  then have "s1 = s\<lparr>pmi_selfLock := False\<rparr>"
    by (auto simp: sps_prepare_def Let_def split_beta split: option.splits if_splits)
  with Redundant(3) show ?case by simp
next
  case (Return s ck new e s1)
  with read_frame(1) [of en ck new s] show ?case by simp
next
  case (Read s ck new cur sync s1 k reason)
  with read_frame(1) [of en ck new s] show ?case by simp
qed (auto simp: sps_schedule_def PMI_PowerModePreChangeComplete_def PMI_DelayPowerModeChangeBy_def PMI_AckTimer_def
      PMI_AddPowerModePreChangeClient_def PMI_RemovePowerModePreChangeClient_def Ack_any_def same_transition_def Let_def split_beta
      intro: pm_inv dest!: run_firings_pair split: option.splits if_splits)

lemma pm_step_inv: "pm_step en S outs S' \<Longrightarrow> pm_inv S \<Longrightarrow> pm_inv S'"
  using pm_step_ok [of en S outs S'] pm_step_ack_inv [of en S outs S'] by (simp add: pm_inv_parts)

lemma pm_reach_inv: "pm_reach en S \<Longrightarrow> pm_inv S"
proof (induction rule: pm_reach.induct)
  case (start now p d th fs)
  show ?case by (simp add: pm_inv_def PMI_new_def mcc_running_def mcc_ok_def pc_fits_def)
next
  case (step S outs S')
  from step.hyps(2) step.IH show ?case by (rule pm_step_inv)
qed

lemma pm_reach_ok: "pm_reach en S \<Longrightarrow> sys_ok S"
  by (simp add: pm_inv_ok pm_reach_inv)

definition demo_pm_env :: "(PowerState, nat, unit) pm_env" where
  "demo_pm_env =
     \<lparr>en_power = demo_power, en_deepSleep = demo_ds, en_thermal = demo_thermal, en_val = demo_val,
      en_platco = False, en_thermalProtection = True, en_preChangeTimeout = 1\<rparr>"

definition demo_clock :: pm_clock where
  "demo_clock = \<lparr>ck_now = 5, ck_add = \<lambda>off. 100 + off, ck_calendar = demo_calendar\<rparr>"

section \<open>Every change of state is announced\<close>

lemma PWC_SetPowerState_state:
  "st_powerState (pwc_settings (snd (PWC_SetPowerState pl val now k ps r s))) =
     (if fst (PWC_SetPowerState pl val now k ps r s) = ERROR_NONE then ps else st_powerState (pwc_settings s))"
  by (auto simp: PWC_SetPowerState_def Let_def split_beta)

definition announced :: "'n pm_out list \<Rightarrow> 'n notif_list \<Rightarrow> PowerState \<Rightarrow> bool" where
  "announced outs l new \<longleftrightarrow>
     (\<exists>prev. \<forall>n \<in> set (nl_list l). Notify (NotifCall n (OnPowerModeChanged prev new)) \<in> set outs)"

lemma announced_append: "announced o1 l new \<Longrightarrow> announced (o0 @ o1 @ o2) l new"
  by (auto simp: announced_def)

lemma setDevicePowerState_result:
  "setDevicePowerState en ck k p n r s = (e, s1, outs) \<Longrightarrow>
     (e = ERROR_NONE \<longrightarrow> power_state s1 = n \<and>
        outs = map Notify (dispatchPowerModeChangedEvent p n (pmi_changedL s))) \<and>
     (e \<noteq> ERROR_NONE \<longrightarrow> power_state s1 = power_state s \<and> outs = [])"
  by (auto simp: setDevicePowerState_def power_state_def Let_def split_beta PWC_SetPowerState_state
      split: if_splits)

lemma completionHandler_power_state:
  "completionHandler en ck h t a s =
     (let (e, s1, outs) = (if a then (ERROR_GENERAL, s, []) else
            setDevicePowerState en ck (hd_keyCode h) (hd_currState h) (hd_newState h) (hd_reason h) s)
      in (s1\<lparr>pmi_refs := pmi_refs s1 - 1, pmi_selfLock := pmi_selfLock s1 \<and> \<not> hd_isSync h\<rparr>, outs))"
  by (auto simp: completionHandler_def Let_def split_beta)

lemma completionHandler_announces:
  assumes "power_state (fst (completionHandler en ck h t a s)) \<noteq> power_state s"
  shows "announced (snd (completionHandler en ck h t a s)) (pmi_changedL s)
       (power_state (fst (completionHandler en ck h t a s)))"
proof -
  obtain e s1 outs where r: "setDevicePowerState en ck (hd_keyCode h) (hd_currState h) (hd_newState h)
      (hd_reason h) s = (e, s1, outs)" by (metis prod_cases3)
  have ps: "\<And>b n. power_state (s1\<lparr>pmi_refs := n, pmi_selfLock := b\<rparr>) = power_state s1"
    by (simp add: power_state_def)
  have "\<not> a" "e = ERROR_NONE"
    using assms setDevicePowerState_result [OF r]
    by (auto simp: completionHandler_power_state r ps power_state_def split: if_splits)
  with setDevicePowerState_result [OF r] show ?thesis
    by (auto simp: completionHandler_power_state r ps announced_def dispatch_defs)
qed

lemma run_firings_announces:
  "length fs \<le> 1 \<Longrightarrow> power_state (fst (run_firings en ck fs s)) \<noteq> power_state s \<Longrightarrow>
     announced (snd (run_firings en ck fs s)) (pmi_changedL s) (power_state (fst (run_firings en ck fs s)))"
proof (cases fs)
  case (Cons f gs)
  assume l: "length fs \<le> 1" and d: "power_state (fst (run_firings en ck fs s)) \<noteq> power_state s"
  from l Cons have fs: "fs = [f]" by simp
  show ?thesis
  proof (cases f)
    case (Fire h t a)
    with fs d show ?thesis
      by (cases h) (auto simp: completionHandler_announces simp del: run_firings.simps(3))
  qed
qed simp

lemma firings_short:
  "length (snd (snd (Ack i tid c))) \<le> 1" "length (snd (snd (Ack_any i c))) \<le> 1"
  "length (snd (AckTimer c)) \<le> 1" "length (snd (revoke c)) \<le> 1" "length (snd (Schedule na off h c)) \<le> 1"
  by (auto simp: ack_defs Let_def)

lemma power_state_frame [simp]:
  "power_state (s\<lparr>pmi_mcc := m\<rparr>) = power_state s" "power_state (s\<lparr>pmi_clients := cs\<rparr>) = power_state s"
  "power_state (s\<lparr>pmi_selfLock := b\<rparr>) = power_state s" "power_state (s\<lparr>pmi_refs := n\<rparr>) = power_state s"
  "power_state (s\<lparr>pmi_nextTransactionId := i\<rparr>) = power_state s"
  "power_state (s\<lparr>pmi_nextClientId := j\<rparr>) = power_state s"
  "power_state (s\<lparr>pmi_deepSleep := d\<rparr>) = power_state s"
  by (simp_all add: power_state_def)

lemma read_power_state: "power_state (snd (sps_read en ck new s)) = power_state s"
  by (auto simp: sps_read_def Let_def split_beta)

lemma prepare_power_state:
  assumes "power_state (fst (snd (sps_prepare en ck new s))) \<noteq> power_state s"
  shows "announced (snd (snd (sps_prepare en ck new s))) (pmi_changedL s)
    (power_state (fst (snd (sps_prepare en ck new s))))"
proof (cases "pmi_mcc s")
  case (Some c)
  with assms run_firings_announces [OF firings_short(4) [of c], of en ck "s\<lparr>pmi_mcc := None\<rparr>"] show ?thesis
    by (auto simp: sps_prepare_def Let_def split_beta split: if_splits)
qed (use assms in \<open>simp add: sps_prepare_def Let_def\<close>)

lemma schedule_power_state:
  assumes "power_state (fst (sps_schedule en ck k cur new sync tid reason s)) \<noteq> power_state s"
  shows "announced (snd (sps_schedule en ck k cur new sync tid reason s)) (pmi_changedL s)
    (power_state (fst (sps_schedule en ck k cur new sync tid reason s)))"
proof (cases "pmi_mcc s")
  case (Some c)
  let ?h = "\<lparr>hd_keyCode = k, hd_currState = cur, hd_newState = new, hd_reason = reason, hd_isSync = sync\<rparr>"
  let ?S = "Schedule (ck_add ck) (uint ((if sync then 0 else en_preChangeTimeout en) * 1000)) ?h c"
  from Some assms run_firings_announces [OF firings_short(5), of en ck "ck_add ck"
      "uint ((if sync then 0 else en_preChangeTimeout en) * 1000)" ?h c "s\<lparr>pmi_mcc := Some (fst ?S)\<rparr>"]
  show ?thesis
    by (auto simp: sps_schedule_def Let_def split_beta intro!: announced_append [where ?o2.0 = "[]", simplified])
qed (use assms in \<open>simp add: sps_schedule_def Let_def split_beta split: if_splits\<close>)

lemma step_announces:
  "pm_step en S outs S' \<Longrightarrow> power_state (sy_pmi S') \<noteq> power_state (sy_pmi S) \<Longrightarrow>
     announced outs (pmi_changedL (sy_pmi S)) (power_state (sy_pmi S'))"
proof (induction rule: pm_step.induct)
  case (Return s ck new e s1)
  with read_power_state [of en ck new s] show ?case by simp
next
  case (Read s ck new cur sync s1 k reason)
  with read_power_state [of en ck new s] show ?case by simp
next
  case (Redundant ck new s s1 outs k reason cur sync)
  with prepare_power_state [of en ck new s] show ?case by simp
next
  case (Prepare ck new s tid s1 outs k reason cur sync)
  with prepare_power_state [of en ck new s] show ?case by simp
next
  case (Sched ck k cur new sync tid reason s s1 outs)
  with schedule_power_state [of en ck k cur new sync tid reason s] show ?case by simp
next
  case (AckOp ck i tid s e s1 outs c)
  show ?case
  proof (cases "pmi_mcc s")
    case (Some a)
    with AckOp run_firings_announces [OF firings_short(1), of en ck i tid a
        "s\<lparr>pmi_mcc := Some (fst (snd (Ack i tid a)))\<rparr>"]
    show ?thesis by (auto simp: PMI_PowerModePreChangeComplete_def Let_def split_beta)
  qed (use AckOp in \<open>simp add: PMI_PowerModePreChangeComplete_def\<close>)
next
  case (DelayOp ck i tid d s e s1 c)
  then show ?case by (auto simp: PMI_DelayPowerModeChangeBy_def Let_def split_beta split: option.splits)
next
  case (AddClient name i s e j s1 c)
  then show ?case
    by (auto simp: PMI_AddPowerModePreChangeClient_def Let_def split: if_splits option.splits)
next
  case (RemoveClient ck i s e s1 outs c)
  let ?s = "s\<lparr>pmi_clients := AList.delete i (pmi_clients s)\<rparr>"
  show ?case
  proof (cases "pmi_mcc s")
    case None
    with RemoveClient show ?thesis
      by (auto simp: PMI_RemovePowerModePreChangeClient_def split: if_splits)
  next
    case (Some a)
    with RemoveClient run_firings_announces [OF firings_short(2), of en ck i a
        "?s\<lparr>pmi_mcc := Some (fst (snd (Ack_any i a)))\<rparr>"]
    show ?thesis
      by (auto simp: PMI_RemovePowerModePreChangeClient_def Let_def split_beta split: if_splits)
  qed
next
  case (Timer s ctl ck s1 outs c)
  with run_firings_announces [OF firings_short(3), of en ck ctl "s\<lparr>pmi_mcc := Some (fst (AckTimer ctl))\<rparr>"]
  show ?case by (auto simp: PMI_AckTimer_def split_beta)
next
  case (Other s s1 c)
  then show ?case by (simp add: same_transition_def)
qed

text \<open>
  The recorded power state never changes silently: every step that changes it, in any
  interleaving, tells each registered \<^verbatim>\<open>IModeChanged\<close> notification object the new state.
\<close>

lemma state_changes_are_announced:
  assumes "pm_step en S outs S'" and "power_state (sy_pmi S') \<noteq> power_state (sy_pmi S)"
  shows "\<exists>prev. \<forall>n \<in> set (nl_list (pmi_changedL (sy_pmi S))).
           Notify (NotifCall n (OnPowerModeChanged prev (power_state (sy_pmi S')))) \<in> set outs"
  using step_announces [OF assms] by (simp add: announced_def)

section \<open>The course of a transition\<close>

text \<open>A controller is awaiting the acknowledgements of the clients \<open>P\<close> before it calls \<open>h\<close>.\<close>

definition awaiting :: "pm_handler \<Rightarrow> int \<Rightarrow> u32 set \<Rightarrow> ('p, 'd, 't, 'n) pmi \<Rightarrow> bool" where
  "awaiting h tid P s \<longleftrightarrow> (\<exists>c. pmi_mcc s = Some c \<and> ack_running c \<and> ack_handler c = Some h \<and>
     ack_transactionId c = tid \<and> ack_powerState c = hd_newState h \<and> ack_pending c = P)"

text \<open>Clients acknowledge one after the other, each at its own time.\<close>

fun complete_all ::
  "('p, 'd, 't) pm_env \<Rightarrow> (u32 \<times> pm_clock) list \<Rightarrow> int \<Rightarrow> ('p, 'd, 't, 'n) pm_step" where
  "complete_all en [] tid s = (s, [])"
| "complete_all en ((i, ck) # qs) tid s =
     (let (_, s1, o1) = PMI_PowerModePreChangeComplete en ck i tid s; (s2, o2) = complete_all en qs tid s1
      in (s2, o1 @ o2))"

text \<open>Everything of the state but the controller is unchanged.\<close>

definition only_mcc :: "('p, 'd, 't, 'n) pmi \<Rightarrow> ('p, 'd, 't, 'n) pmi \<Rightarrow> bool" where
  "only_mcc s r \<longleftrightarrow> r = s\<lparr>pmi_mcc := pmi_mcc r\<rparr>"

lemma only_mcc_trans: "only_mcc s r \<Longrightarrow> only_mcc r q \<Longrightarrow> only_mcc s q"
  unfolding only_mcc_def by (metis pmi.update_convs(5) pmi.surjective)

lemma complete_one:
  assumes "awaiting h tid P s" "i \<in> P" "P \<noteq> {i}"
    and "PMI_PowerModePreChangeComplete en ck i tid s = (e, s1, outs)"
  shows "e = ERROR_NONE \<and> outs = [] \<and> awaiting h tid (P - {i}) s1 \<and> only_mcc s s1"
proof -
  from assms(1) obtain c where c: "pmi_mcc s = Some c" "ack_running c" "ack_handler c = Some h"
    "ack_transactionId c = tid" "ack_powerState c = hd_newState h" "ack_pending c = P"
    by (auto simp: awaiting_def)
  then have "Ack i tid c = (ERROR_NONE, c\<lparr>ack_pending := P - {i}\<rparr>, [])"
    using Ack_member [of i c] assms(2,3) by simp
  with assms(4) c have "(e, s1, outs) = (ERROR_NONE, s\<lparr>pmi_mcc := Some (c\<lparr>ack_pending := P - {i}\<rparr>)\<rparr>, [])"
    by (simp add: PMI_PowerModePreChangeComplete_def)
  with c show ?thesis by (simp add: awaiting_def only_mcc_def)
qed

lemma complete_last:
  assumes "awaiting h tid {i} s" "PMI_PowerModePreChangeComplete en ck i tid s = (e, s1, outs)"
  shows "e = ERROR_NONE \<and> \<not> mcc_running s1 \<and>
     (\<exists>c. \<not> ack_running c \<and> ack_powerState c = hd_newState h \<and>
        (s1, outs) = completionHandler en ck h False False (s\<lparr>pmi_mcc := Some c\<rparr>))"
proof -
  from assms(1) obtain c where c: "pmi_mcc s = Some c" "ack_running c" "ack_handler c = Some h"
    "ack_transactionId c = tid" "ack_powerState c = hd_newState h" "ack_pending c = {i}"
    by (auto simp: awaiting_def)
  let ?c = "c\<lparr>ack_pending := {}, ack_running := False, ack_sched := None\<rparr>"
  have a: "Ack i tid c = (ERROR_NONE, ?c, [Fire (Some h) False False])"
    using c Ack_member [of i c] by simp
  then have "(e, s1, outs) = (ERROR_NONE, completionHandler en ck h False False (s\<lparr>pmi_mcc := Some ?c\<rparr>))"
    using assms(2) c by (simp add: PMI_PowerModePreChangeComplete_def Let_def split_beta)
  moreover from this have "pmi_mcc s1 = Some ?c" by (metis completionHandler_frame(1) fst_conv pmi.select_convs(5)
        pmi.surjective pmi.update_convs(5) prod.inject)
  ultimately show ?thesis using c(5)
    by (simp add: mcc_running_def) (rule exI [of _ ?c], simp)
qed

lemma complete_prefix:
  "awaiting h tid P s \<Longrightarrow> distinct (map fst qs) \<Longrightarrow> set (map fst qs) \<subset> P \<Longrightarrow>
     complete_all en qs tid s = (s1, outs) \<Longrightarrow>
     outs = [] \<and> awaiting h tid (P - set (map fst qs)) s1 \<and> only_mcc s s1"
proof (induction qs arbitrary: P s s1 outs)
  case Nil
  then show ?case by (simp add: only_mcc_def)
next
  case (Cons q qs)
  obtain i ck where q: "q = (i, ck)" by (cases q)
  obtain e r o1 where c: "PMI_PowerModePreChangeComplete en ck i tid s = (e, r, o1)" by (metis prod_cases3)
  obtain s2 o2 where d: "complete_all en qs tid r = (s2, o2)" by (metis surj_pair)
  have one: "o1 = [] \<and> awaiting h tid (P - {i}) r \<and> only_mcc s r"
    using complete_one [OF Cons.prems(1) _ _ c] Cons.prems(3) q by auto
  have "set (map fst qs) \<subset> P - {i}" using Cons.prems q by auto
  from Cons.IH [OF _ _ this d] one Cons.prems(2) q
  have "o2 = []" "awaiting h tid (P - {i} - set (map fst qs)) s2" "only_mcc r s2" by auto
  moreover have "P - {i} - set (map fst qs) = P - set (map fst (q # qs))" using q by auto
  ultimately show ?case using Cons.prems(4) one only_mcc_trans [of s r s2] q c d by auto
qed

text \<open>A request that starts an asynchronous transition.\<close>

definition fresh_request ::
  "('p, 'd, 't) pm_env \<Rightarrow> pm_clock \<Rightarrow> PowerState \<Rightarrow> ('p, 'd, 't, 'n) pmi \<Rightarrow> bool" where
  "fresh_request en ck new s \<longleftrightarrow> new \<noteq> power_state s \<and> \<not> isSyncStateChange (power_state s) new \<and>
     (power_state s = POWER_STATE_STANDBY_DEEP_SLEEP \<longrightarrow>
        \<not> (IsDeepSleepInProgress (pmi_deepSleep s)
           \<and> Elapsed (ck_now ck) (pmi_deepSleep s) < kTransientDeepsleepThresholdSec * 1000000000)) \<and>
     (case pmi_mcc s of None \<Rightarrow> True | Some c \<Rightarrow> ack_powerState c \<noteq> new)"

definition request_handler :: "int \<Rightarrow> PowerState \<Rightarrow> string \<Rightarrow> ('p, 'd, 't, 'n) pmi \<Rightarrow> pm_handler" where
  "request_handler k new r s =
     \<lparr>hd_keyCode = k, hd_currState = power_state s, hd_newState = new, hd_reason = r,
      hd_isSync = isSyncStateChange (power_state s) new\<rparr>"

lemma read_go:
  assumes "new \<noteq> power_state s"
    and "power_state s = POWER_STATE_STANDBY_DEEP_SLEEP \<longrightarrow>
        \<not> (IsDeepSleepInProgress (pmi_deepSleep s)
           \<and> Elapsed (ck_now ck) (pmi_deepSleep s) < kTransientDeepsleepThresholdSec * 1000000000)"
  shows "\<exists>d. (power_state s \<noteq> POWER_STATE_STANDBY_DEEP_SLEEP \<longrightarrow> d = pmi_deepSleep s) \<and> sps_read en ck new s =
     (SpsGo (power_state s) (isSyncStateChange (power_state s) new), s\<lparr>pmi_selfLock := True, pmi_deepSleep := d\<rparr>)"
proof (cases "power_state s = POWER_STATE_STANDBY_DEEP_SLEEP")
  case True
  with assms show ?thesis
    by (intro exI [of _ "snd (Deactivate (en_deepSleep en) (pmi_deepSleep s))"])
       (simp add: sps_read_def PWC_GetPowerState_def power_state_def Let_def)
next
  case False
  with assms show ?thesis
    by (intro exI [of _ "pmi_deepSleep s"])
       (simp add: sps_read_def PWC_GetPowerState_def power_state_def Let_def)
qed

lemma prepare_go:
  assumes "case pmi_mcc s of None \<Rightarrow> True | Some c \<Rightarrow> ack_powerState c \<noteq> new"
  shows "\<exists>s1 outs tid. sps_prepare en ck new s = (Some tid, s1, outs)"
  using assms by (auto simp: sps_prepare_def Let_def split_beta split: option.splits)

lemma request_prepares:
  assumes ok: "sys_ok \<lparr>sy_pmi = s, sy_call = None\<rparr>"
    and new: "new \<noteq> power_state s" "case pmi_mcc s of None \<Rightarrow> True | Some c \<Rightarrow> ack_powerState c \<noteq> new"
    and deep: "power_state s = POWER_STATE_STANDBY_DEEP_SLEEP \<longrightarrow>
        \<not> (IsDeepSleepInProgress (pmi_deepSleep s)
           \<and> Elapsed (ck_now ck) (pmi_deepSleep s) < kTransientDeepsleepThresholdSec * 1000000000)"
  obtains d where
    "power_state s \<noteq> POWER_STATE_STANDBY_DEEP_SLEEP \<longrightarrow> d = pmi_deepSleep s"
    "PMI_SetPowerState en ck k new r s = Some (ERROR_NONE,
       sps_schedule en ck k (power_state s) new (isSyncStateChange (power_state s) new)
         (pmi_nextTransactionId s + 1) r
         (s\<lparr>pmi_selfLock := True, pmi_deepSleep := d,
            pmi_mcc := Some ((AckController_new new (pmi_nextTransactionId s + 1) (ck_add ck 0))
                          \<lparr>ack_pending := set (map fst (pmi_clients s))\<rparr>),
            pmi_nextTransactionId := pmi_nextTransactionId s + 1, pmi_refs := pmi_refs s - (if mcc_running s then 1 else 0) + 1\<rparr>))"
proof -
  from read_go [OF new(1) deep, of en] obtain d where
    d: "power_state s \<noteq> POWER_STATE_STANDBY_DEEP_SLEEP \<longrightarrow> d = pmi_deepSleep s" and
    r1: "sps_read en ck new s = (SpsGo (power_state s) (isSyncStateChange (power_state s) new),
       s\<lparr>pmi_selfLock := True, pmi_deepSleep := d\<rparr>)" by blast
  let ?s = "s\<lparr>pmi_selfLock := True, pmi_deepSleep := d\<rparr>"
  from ok have lock: "\<not> pmi_selfLock s" and "ctl_ok (pmi_mcc ?s)" by (simp_all add: sys_ok_def)
  from new(2) obtain s1 outs tid where p: "sps_prepare en ck new ?s = (Some tid, s1, outs)"
    using prepare_go [of new ?s en ck] by auto
  from prepare_effect [OF \<open>ctl_ok (pmi_mcc ?s)\<close> p] p
  have "sps_prepare en ck new ?s = (Some (pmi_nextTransactionId s + 1),
      s\<lparr>pmi_selfLock := True, pmi_deepSleep := d,
        pmi_mcc := Some ((AckController_new new (pmi_nextTransactionId s + 1) (ck_add ck 0))\<lparr>ack_pending := set (map fst (pmi_clients s))\<rparr>),
        pmi_nextTransactionId := pmi_nextTransactionId s + 1, pmi_refs := pmi_refs s - (if mcc_running s then 1 else 0) + 1\<rparr>, [])"
    by (auto simp: mcc_running_def)
  from that [of d] d this lock r1 show ?thesis by (simp add: PMI_SetPowerState_def split_beta)
qed

lemma request_starts:
  assumes ok: "sys_ok \<lparr>sy_pmi = s, sy_call = None\<rparr>" and fresh: "fresh_request en ck new s"
    and clients: "pmi_clients s \<noteq> []" and timeout: "en_preChangeTimeout en * 1000 \<noteq> 0"
  obtains s1 where
    "PMI_SetPowerState en ck k new r s = Some (ERROR_NONE, s1,
       map SubmitPreChange (dispatchEvent (OnPowerModePreChange (power_state s) new (pmi_nextTransactionId s + 1)
          (sint (en_preChangeTimeout en))) (pmi_preChangeL s)))"
    "awaiting (request_handler k new r s) (pmi_nextTransactionId s + 1) (set (map fst (pmi_clients s))) s1"
    "pmi_power s1 = pmi_power s" "pmi_changedL s1 = pmi_changedL s" "\<not> pmi_selfLock s1"
    "pmi_nextTransactionId s1 = pmi_nextTransactionId s + 1" "pmi_clients s1 = pmi_clients s"
proof -
  let ?tid = "pmi_nextTransactionId s + 1"
  let ?c = "\<lambda>ps. (AckController_new ps ?tid (ck_add ck 0))\<lparr>ack_pending := set (map fst (pmi_clients s))\<rparr>"
  from fresh have sync: "\<not> isSyncStateChange (power_state s) new"
    by (simp add: fresh_request_def)
  from fresh obtain d where r: "PMI_SetPowerState en ck k new r s = Some (ERROR_NONE,
       sps_schedule en ck k (power_state s) new False ?tid r
         (s\<lparr>pmi_selfLock := True, pmi_deepSleep := d, pmi_mcc := Some (?c new),
            pmi_nextTransactionId := ?tid, pmi_refs := pmi_refs s - (if mcc_running s then 1 else 0) + 1\<rparr>))"
    using request_prepares [OF ok, of new ck en k r thesis] sync by (auto simp: fresh_request_def)
  have off: "uint (en_preChangeTimeout en * 1000) \<noteq> 0" using timeout by (simp add: uint_0_iff)
  let ?h = "request_handler k new r s"
  have h: "?h = \<lparr>hd_keyCode = k, hd_currState = power_state s, hd_newState = new, hd_reason = r, hd_isSync = False\<rparr>"
    using sync by (simp add: request_handler_def)
  have ne: "fst ` set (pmi_clients s) \<noteq> {}" using clients by simp
  obtain c1 where c1: "Schedule (ck_add ck) (uint (en_preChangeTimeout en * 1000)) ?h (?c new) = (c1, [])"
    and c1': "ack_running c1" "ack_handler c1 = Some ?h" "ack_transactionId c1 = ?tid" "ack_powerState c1 = new"
      "ack_pending c1 = set (map fst (pmi_clients s))"
    using off ne by (simp add: Schedule_def Let_def AckController_new_def)
  show thesis
    by (rule that [of "s\<lparr>pmi_selfLock := False, pmi_deepSleep := d, pmi_mcc := Some c1,
            pmi_nextTransactionId := ?tid, pmi_refs := pmi_refs s - (if mcc_running s then 1 else 0) + 1\<rparr>"])
       (use r c1 c1' in \<open>simp_all add: sps_schedule_def submitPowerModePreChangeEvent_def awaiting_def h [symmetric],
          simp_all add: request_handler_def\<close>)
qed

text \<open>What the handler of an asynchronous request does when it is not aborted.\<close>

lemma handler_effect:
  assumes "\<not> isSyncStateChange (power_state s0) new"
    and "completionHandler en ck (request_handler k new r s0) t False s = (s1, outs)"
  shows "let (e, p) = PWC_SetPowerState (en_power en) (en_val en) (ck_now ck) k new r (pmi_power s)
     in pmi_power s1 = p \<and> outs =
          (if e = ERROR_NONE then map Notify (dispatchPowerModeChangedEvent (power_state s0) new (pmi_changedL s)) else [])"
  using assms
  by (auto simp: completionHandler_power_state setDevicePowerState_def request_handler_def Let_def split_beta
      split: if_splits)

lemma only_mcc_fields:
  "only_mcc s r \<Longrightarrow> pmi_power r = pmi_power s \<and> pmi_changedL r = pmi_changedL s"
  unfolding only_mcc_def by (metis pmi.select_convs(1,13) pmi.surjective pmi.update_convs(5))

lemma complete_full:
  assumes "awaiting h tid P s" "distinct (map fst (qs @ [(i, ck)]))" "set (map fst (qs @ [(i, ck)])) = P"
    and "complete_all en (qs @ [(i, ck)]) tid s = (s2, outs)"
  obtains s1 c where "only_mcc s s1" "(s2, outs) = completionHandler en ck h False False (s1\<lparr>pmi_mcc := Some c\<rparr>)"
    "\<not> mcc_running s2" "ack_powerState c = hd_newState h"
proof -
  have snoc: "complete_all en (xs @ [(i, ck)]) tid s =
      (let (s1, o1) = complete_all en xs tid s; (_, s2, o2) = PMI_PowerModePreChangeComplete en ck i tid s1
       in (s2, o1 @ o2))" for xs and s :: "('a, 'b, 'c, 'd) pmi"
    by (induction xs arbitrary: s) (auto simp: Let_def split_beta)
  obtain s1 o1 where a: "complete_all en qs tid s = (s1, o1)" by (metis surj_pair)
  obtain e r o2 where b: "PMI_PowerModePreChangeComplete en ck i tid s1 = (e, r, o2)" by (metis prod_cases3)
  have sub: "set (map fst qs) \<subset> P" using assms(2,3) by auto
  have rest: "P - set (map fst qs) = {i}" using assms(2,3) by auto
  have p: "o1 = [] \<and> awaiting h tid {i} s1 \<and> only_mcc s s1"
    using complete_prefix [OF assms(1) _ sub a] assms(2) rest by simp
  moreover have "r = s2" "outs = o1 @ o2" using assms(4) a b by (simp_all add: snoc)
  ultimately show ?thesis using complete_last [OF _ b, of h] that by auto
qed

lemma timer_full:
  assumes "awaiting h tid P s" "PMI_AckTimer en ck s = (s2, outs)"
  obtains c where "(s2, outs) = completionHandler en ck h True False (s\<lparr>pmi_mcc := Some c\<rparr>)" "\<not> mcc_running s2"
proof -
  from assms(1) obtain c where c: "pmi_mcc s = Some c" "ack_running c" "ack_handler c = Some h"
    by (auto simp: awaiting_def)
  let ?c = "c\<lparr>ack_sched := None, ack_running := False\<rparr>"
  have e: "(s2, outs) = completionHandler en ck h True False (s\<lparr>pmi_mcc := Some ?c\<rparr>)"
    using assms(2) c by (simp add: PMI_AckTimer_def timer_result split_beta)
  then have "s2 = fst (completionHandler en ck h True False (s\<lparr>pmi_mcc := Some ?c\<rparr>))" by (metis fst_conv)
  with that [OF e] show ?thesis by (simp add: mcc_running_def)
qed

text \<open>
  C1. From request to notification. When no call is under way, a request for another state never
  waits for \<^verbatim>\<open>selfLock\<close>: it returns success, sends the pre-change event with a new transaction
  id to each \<^verbatim>\<open>IModePreChange\<close> notification object, and leaves the power controller alone.
  Acknowledgements of all registered clients, in any order and at any times, then set the
  device's power state once, at the last of them, and exactly when that succeeds the
  \<^verbatim>\<open>IModeChanged\<close> objects are told; before the last nothing leaves the object and the power
  controller is unchanged. If some clients stay silent, the timer does the same.
\<close>

theorem transition_completes:
  assumes reach: "pm_reach en \<lparr>sy_pmi = s, sy_call = None\<rparr>" and fresh: "fresh_request en ck new s"
    and clients: "pmi_clients s \<noteq> []" and timeout: "en_preChangeTimeout en * 1000 \<noteq> 0"
    and acks: "set (map fst (qs @ [(i, ck1)])) = set (map fst (pmi_clients s))" "distinct (map fst (qs @ [(i, ck1)]))"
  shows "\<exists>s1 tid. tid = pmi_nextTransactionId s + 1 \<and>
    PMI_SetPowerState en ck k new r s = Some (ERROR_NONE, s1, map SubmitPreChange (dispatchEvent
      (OnPowerModePreChange (power_state s) new tid (sint (en_preChangeTimeout en))) (pmi_preChangeL s))) \<and>
    pmi_power s1 = pmi_power s \<and>
    (let (s2, outs) = complete_all en qs tid s1 in outs = [] \<and> pmi_power s2 = pmi_power s \<and> mcc_running s2) \<and>
    (let (s2, outs) = complete_all en (qs @ [(i, ck1)]) tid s1;
         (e, p) = PWC_SetPowerState (en_power en) (en_val en) (ck_now ck1) k new r (pmi_power s)
     in pmi_power s2 = p \<and> \<not> mcc_running s2 \<and> outs =
          (if e = ERROR_NONE then map Notify (dispatchPowerModeChangedEvent (power_state s) new (pmi_changedL s)) else [])) \<and>
    (let (s2, outs) = PMI_AckTimer en ck2 (fst (complete_all en qs tid s1));
         (e, p) = PWC_SetPowerState (en_power en) (en_val en) (ck_now ck2) k new r (pmi_power s)
     in pmi_power s2 = p \<and> \<not> mcc_running s2 \<and> outs =
          (if e = ERROR_NONE then map Notify (dispatchPowerModeChangedEvent (power_state s) new (pmi_changedL s)) else []))"
proof -
  have inv: "pm_inv \<lparr>sy_pmi = s, sy_call = None\<rparr>" by (rule pm_reach_inv [OF reach])
  let ?tid = "pmi_nextTransactionId s + 1" and ?h = "request_handler k new r s"
  obtain s1 where r: "PMI_SetPowerState en ck k new r s = Some (ERROR_NONE, s1, map SubmitPreChange (dispatchEvent
      (OnPowerModePreChange (power_state s) new ?tid (sint (en_preChangeTimeout en))) (pmi_preChangeL s)))"
    and w: "awaiting ?h ?tid (set (map fst (pmi_clients s))) s1" and s1: "pmi_power s1 = pmi_power s"
      "pmi_changedL s1 = pmi_changedL s"
    by (rule request_starts [OF pm_inv_ok [OF inv] fresh clients timeout])
  have sync: "\<not> isSyncStateChange (power_state s) new" using fresh by (simp add: fresh_request_def)
  obtain s2 o2 where a: "complete_all en qs ?tid s1 = (s2, o2)" by (metis surj_pair)
  have "i \<notin> set (map fst qs)" using acks(2) by auto
  then have "set (map fst qs) \<subset> set (map fst (pmi_clients s))" unfolding acks(1) [symmetric] by auto
  from complete_prefix [OF w _ this a] acks(2)
  have p: "o2 = []" "awaiting ?h ?tid (set (map fst (pmi_clients s)) - set (map fst qs)) s2" "only_mcc s1 s2"
    by auto
  have run: "mcc_running s2" using p(2) by (auto simp: awaiting_def mcc_running_def)
  have A: "let (s2, outs) = complete_all en qs ?tid s1 in outs = [] \<and> pmi_power s2 = pmi_power s \<and> mcc_running s2"
    using a p(1) only_mcc_fields [OF p(3)] run s1 by simp
  obtain s3 o3 where b: "complete_all en (qs @ [(i, ck1)]) ?tid s1 = (s3, o3)" by (metis surj_pair)
  obtain m c where m: "only_mcc s1 m" "(s3, o3) = completionHandler en ck1 ?h False False (m\<lparr>pmi_mcc := Some c\<rparr>)"
    "\<not> mcc_running s3"
    using complete_full [OF w acks(2,1) b] by metis
  have B: "let (s2, outs) = complete_all en (qs @ [(i, ck1)]) ?tid s1;
         (e, p) = PWC_SetPowerState (en_power en) (en_val en) (ck_now ck1) k new r (pmi_power s)
     in pmi_power s2 = p \<and> \<not> mcc_running s2 \<and> outs =
          (if e = ERROR_NONE then map Notify (dispatchPowerModeChangedEvent (power_state s) new (pmi_changedL s)) else [])"
    using handler_effect [OF sync m(2) [symmetric]] only_mcc_fields [OF m(1)] b m(3) s1
    by (simp add: split_beta Let_def)
  obtain s4 o4 where t: "PMI_AckTimer en ck2 s2 = (s4, o4)" by (metis surj_pair)
  obtain c2 where n: "(s4, o4) = completionHandler en ck2 ?h True False (s2\<lparr>pmi_mcc := Some c2\<rparr>)" "\<not> mcc_running s4"
    by (rule timer_full [OF p(2) t])
  have C: "let (s2, outs) = PMI_AckTimer en ck2 (fst (complete_all en qs ?tid s1));
         (e, p) = PWC_SetPowerState (en_power en) (en_val en) (ck_now ck2) k new r (pmi_power s)
     in pmi_power s2 = p \<and> \<not> mcc_running s2 \<and> outs =
          (if e = ERROR_NONE then map Notify (dispatchPowerModeChangedEvent (power_state s) new (pmi_changedL s)) else [])"
    using handler_effect [OF sync n(1) [symmetric]] only_mcc_fields [OF p(3)] a t n(2) s1
    by (simp add: split_beta Let_def)
  show ?thesis
    by (rule exI [of _ s1], rule exI [of _ ?tid]) (intro conjI refl r s1(1) A B C)
qed

text \<open>A small device: a fresh object, and one with a registered client.\<close>

definition demo_pmi :: "(PowerState, nat, unit, nat) pmi" where
  "demo_pmi = PMI_new demo_pm_env 1 POWER_STATE_ON 0 (thc_members False ()) demo_fs"

definition demo_pmi1 :: "(PowerState, nat, unit, nat) pmi" where
  "demo_pmi1 = snd (snd (PMI_AddPowerModePreChangeClient ''app'' 0 demo_pmi))"

definition demo_target :: PowerState where
  "demo_target = (if power_state demo_pmi = POWER_STATE_ON then POWER_STATE_OFF else POWER_STATE_ON)"

lemma demo_fields:
  "pmi_mcc demo_pmi1 = None" "pmi_clients demo_pmi1 = [(1, ''app'')]" "pmi_nextTransactionId demo_pmi1 = 0"
  "pmi_power demo_pmi1 = pmi_power demo_pmi" "pmi_deepSleep demo_pmi1 = DeepSleepController_new 0"
  "pmi_selfLock demo_pmi1 = False" "pmi_refs demo_pmi1 = 0"
  by (simp_all add: demo_pmi1_def demo_pmi_def PMI_new_def PMI_AddPowerModePreChangeClient_def)

lemma demo_reach: "pm_reach demo_pm_env \<lparr>sy_pmi = demo_pmi1, sy_call = None\<rparr>"
proof -
  have r: "pm_reach demo_pm_env \<lparr>sy_pmi = demo_pmi, sy_call = None\<rparr>"
    unfolding demo_pmi_def by (rule pm_reach.start)
  obtain e j where a: "PMI_AddPowerModePreChangeClient ''app'' 0 demo_pmi = (e, j, demo_pmi1)"
    unfolding demo_pmi1_def by (metis prod.collapse)
  show ?thesis by (rule pm_reach.step [OF r pm_step.AddClient [OF a]])
qed

lemma demo_fresh: "fresh_request demo_pm_env demo_clock demo_target demo_pmi1"
  by (simp add: fresh_request_def power_state_def demo_fields demo_target_def isSyncStateChange_def
      IsDeepSleepInProgress_def DeepSleepController_new_def)

lemma transition_completes_witness:
  "\<exists>s1 outs. PMI_SetPowerState demo_pm_env demo_clock 0 demo_target [] demo_pmi1 = Some (ERROR_NONE, s1, outs) \<and>
     pmi_power s1 = pmi_power demo_pmi1 \<and> mcc_running s1 \<and>
     pmi_power (fst (complete_all demo_pm_env [(1, demo_clock)] 1 s1)) =
       snd (PWC_SetPowerState demo_power demo_val 5 0 demo_target [] (pmi_power demo_pmi1))"
proof -
  have "pmi_clients demo_pmi1 \<noteq> []" "en_preChangeTimeout demo_pm_env * 1000 \<noteq> 0"
    "set (map fst ([] @ [(1, demo_clock)])) = set (map fst (pmi_clients demo_pmi1))"
    "distinct (map fst ([] @ [(1 :: u32, demo_clock)]))"
    by (simp_all add: demo_fields demo_pm_env_def)
  from transition_completes [OF demo_reach demo_fresh this, of 0 "[]" demo_clock]
  show ?thesis
    by (elim exE conjE) (simp add: split_beta Let_def demo_fields demo_clock_def demo_pm_env_def)
qed

lemma state_changes_are_announced_witness:
  "\<exists>S S' :: (PowerState, nat, unit, nat) pm_sys. \<exists>outs. pm_step demo_pm_env S outs S' \<and>
     power_state (sy_pmi S') \<noteq> power_state (sy_pmi S) \<and> 7 \<in> set (nl_list (pmi_changedL (sy_pmi S))) \<and>
     (\<exists>prev. Notify (NotifCall 7 (OnPowerModeChanged prev (power_state (sy_pmi S')))) \<in> set outs)"
proof -
  define c where "c = (AckController_new demo_target 4 0)\<lparr>ack_pending := {1}, ack_running := True,
    ack_handler := Some (request_handler 0 demo_target [] demo_pmi1)\<rparr>"
  define s where "s = demo_pmi1\<lparr>pmi_mcc := Some c, pmi_changedL := \<lparr>nl_list = [7], nl_refs = nl_refs (pmi_changedL demo_pmi1)\<rparr>\<rparr>"
  have sync: "\<not> isSyncStateChange (power_state demo_pmi1) demo_target"
    and ne: "demo_target \<noteq> power_state demo_pmi1" using demo_fresh by (simp_all add: fresh_request_def)
  have w: "awaiting (request_handler 0 demo_target [] demo_pmi1) 4 {1} s"
    by (simp add: awaiting_def s_def c_def AckController_new_def request_handler_def)
  obtain e s1 outs where r: "PMI_PowerModePreChangeComplete demo_pm_env demo_clock 1 4 s = (e, s1, outs)"
    by (metis prod_cases3)
  from complete_last [OF w r] obtain c2 where c2: "completionHandler demo_pm_env demo_clock
      (request_handler 0 demo_target [] demo_pmi1) False False (s\<lparr>pmi_mcc := Some c2\<rparr>) = (s1, outs)" by auto
  have ok: "fst (PWC_SetPowerState demo_power demo_val 5 0 demo_target [] (pmi_power s)) = ERROR_NONE"
    by (simp add: PWC_SetPowerState_def Let_def split_beta demo_power_def demo_target_def)
  have "power_state s1 = demo_target"
    using handler_effect [OF sync c2] ok PWC_SetPowerState_state [of demo_power demo_val 5 0 demo_target "[]" "pmi_power s"]
    by (simp add: split_beta Let_def demo_pm_env_def demo_clock_def power_state_def)
  moreover have "power_state s = power_state demo_pmi1" by (simp add: s_def power_state_def)
  ultimately have d: "power_state s1 \<noteq> power_state s" using ne by simp
  have st: "pm_step demo_pm_env \<lparr>sy_pmi = s, sy_call = None\<rparr> outs \<lparr>sy_pmi = s1, sy_call = None\<rparr>"
    by (rule pm_step.AckOp [OF r])
  have "7 \<in> set (nl_list (pmi_changedL s))" by (simp add: s_def)
  with state_changes_are_announced [OF st] d st show ?thesis
    by (intro exI [of _ "\<lparr>sy_pmi = s, sy_call = None\<rparr>"] exI [of _ "\<lparr>sy_pmi = s1, sy_call = None\<rparr>"] exI [of _ outs])
       auto
qed

section \<open>Requests that change nothing\<close>

text \<open>
  A request for the current state, and any request in the first five seconds of a deep
  sleep that is in progress, returns success, changes nothing and sends nothing; so does a
  request for the target of the last transition when the device is not in deep sleep.
\<close>

lemma ineffective_requests:
  assumes "pm_reach en \<lparr>sy_pmi = s, sy_call = None\<rparr>"
    and "new = power_state s \<or>
         (power_state s = POWER_STATE_STANDBY_DEEP_SLEEP \<and> IsDeepSleepInProgress (pmi_deepSleep s) \<and>
          Elapsed (ck_now ck) (pmi_deepSleep s) < 5 * 1000000000) \<or>
         (power_state s \<noteq> POWER_STATE_STANDBY_DEEP_SLEEP \<and>
          (\<exists>c. pmi_mcc s = Some c \<and> ack_powerState c = new))"
  shows "PMI_SetPowerState en ck k new r s = Some (ERROR_NONE, s, [])"
proof -
  have lock: "pmi_selfLock s = False" using pm_reach_inv [OF assms(1)] by (simp add: pm_inv_def)
  then have same: "s\<lparr>pmi_selfLock := False\<rparr> = s" by (cases s) simp
  from assms(2) show ?thesis
    by (elim disjE conjE exE)
       (simp_all add: PMI_SetPowerState_def sps_read_def sps_prepare_def PWC_GetPowerState_def
         power_state_def kTransientDeepsleepThresholdSec_def Let_def lock same split: if_splits)
qed

lemma ineffective_requests_witness:
  "PMI_SetPowerState demo_pm_env demo_clock 3 (power_state demo_pmi1) ''again'' demo_pmi1 =
     Some (ERROR_NONE, demo_pmi1, [])"
  by (rule ineffective_requests [OF demo_reach]) simp

section \<open>Superseded transitions\<close>

text \<open>Every transaction in use is numbered from \<open>n\<close> to the last number given.\<close>

definition tid_range :: "int \<Rightarrow> ('p, 'd, 't, 'n) pmi \<Rightarrow> bool" where
  "tid_range n s \<longleftrightarrow> n \<le> pmi_nextTransactionId s \<and>
     (case pmi_mcc s of None \<Rightarrow> True | Some c \<Rightarrow> n \<le> ack_transactionId c \<and> ack_transactionId c \<le> pmi_nextTransactionId s)"

lemma tids:
  "ack_transactionId (fst (AckTimer c)) = ack_transactionId c"
  "ack_transactionId (fst (Schedule na off h c)) = ack_transactionId c"
  "ack_transactionId (fst (snd (Ack_any i c))) = ack_transactionId c"
  by (auto simp: ack_defs Let_def)

lemma read_tid: "pmi_nextTransactionId (snd (sps_read en ck new s)) = pmi_nextTransactionId s"
  by (auto simp: sps_read_def Let_def split_beta)

text \<open>A step leaves the transaction and the target in use, or starts the transaction of the next number.\<close>

definition same_transaction :: "('p, 'd, 't, 'n) pmi \<Rightarrow> ('p, 'd, 't, 'n) pmi \<Rightarrow> bool" where
  "same_transaction s r \<longleftrightarrow> pmi_nextTransactionId r = pmi_nextTransactionId s \<and>
     map_option (\<lambda>c. (ack_transactionId c, ack_powerState c)) (pmi_mcc r) =
     map_option (\<lambda>c. (ack_transactionId c, ack_powerState c)) (pmi_mcc s)"

definition next_transaction :: "('p, 'd, 't, 'n) pmi \<Rightarrow> ('p, 'd, 't, 'n) pmi \<Rightarrow> bool" where
  "next_transaction s r \<longleftrightarrow> pmi_nextTransactionId r = pmi_nextTransactionId s + 1 \<and>
     (\<exists>c. pmi_mcc r = Some c \<and> ack_transactionId c = pmi_nextTransactionId r)"

lemma targets:
  "ack_powerState (fst (AckTimer c)) = ack_powerState c"
  "ack_powerState (fst (Schedule na off h c)) = ack_powerState c"
  "ack_powerState (fst (snd (Ack_any i c))) = ack_powerState c"
  by (auto simp: ack_defs Let_def)

lemma pm_step_transaction:
  "pm_step en S outs S' \<Longrightarrow> sys_ok S \<Longrightarrow>
     same_transaction (sy_pmi S) (sy_pmi S') \<or> next_transaction (sy_pmi S) (sy_pmi S')"
proof (induction rule: pm_step.induct)
  case (Return s ck new e s1)
  with read_frame [of en ck new s] read_tid [of en ck new s] show ?case by (simp add: same_transaction_def)
next
  case (Read s ck new cur sync s1 k reason)
  with read_frame [of en ck new s] read_tid [of en ck new s] show ?case by (simp add: same_transaction_def)
next
  case (Redundant ck new s s1 outs k reason cur sync)
  then have "s1 = s\<lparr>pmi_selfLock := False\<rparr>"
    by (auto simp: sps_prepare_def Let_def split_beta split: option.splits if_splits)
  then show ?case by (simp add: same_transaction_def)
next
  case (Prepare ck new s tid s1 outs k reason cur sync)
  have "ctl_ok (pmi_mcc s)" using Prepare(2) by (simp add: sys_ok_def)
  from prepare_effect [OF this Prepare(1)] show ?case by (simp add: next_transaction_def AckController_new_def)
next
  case (Sched ck k cur new sync tid reason s s1 outs)
  have "same_transaction s s1"
    using Sched(1) by (cases "pmi_mcc s"; cases sync)
      (auto simp: same_transaction_def sps_schedule_def Let_def split_beta tids targets)
  then show ?case by simp
next
  case (Other s s1 c)
  then show ?case by (simp add: same_transaction_def same_transition_def)
qed (auto simp: same_transaction_def PMI_PowerModePreChangeComplete_def PMI_DelayPowerModeChangeBy_def PMI_AckTimer_def
      PMI_AddPowerModePreChangeClient_def PMI_RemovePowerModePreChangeClient_def Let_def split_beta ack_fields reschedule_fields
      tids targets dest!: run_firings_pair split: option.splits if_splits)

lemma tid_range_moves:
  "same_transaction s r \<or> next_transaction s r \<Longrightarrow> tid_range n s \<Longrightarrow> tid_range n r"
  by (auto simp: same_transaction_def next_transaction_def tid_range_def split: option.splits)

lemma pm_step_tid: "pm_step en S outs S' \<Longrightarrow> sys_ok S \<Longrightarrow> tid_range n (sy_pmi S) \<Longrightarrow> tid_range n (sy_pmi S')"
  by (rule tid_range_moves [OF pm_step_transaction])

lemma pm_reach_tid: "pm_reach en S \<Longrightarrow> tid_range 0 (sy_pmi S)"
proof (induction rule: pm_reach.induct)
  case (start now p d th fs)
  show ?case by (simp add: tid_range_def PMI_new_def)
next
  case (step S outs S')
  from pm_step_tid [OF step.hyps(2) _ step.IH] pm_reach_inv [OF step.hyps(1)] show ?case by (simp add: pm_inv_parts)
qed

section \<open>Transitions that complete within the call\<close>

lemma request_immediate:
  assumes inv: "pm_inv \<lparr>sy_pmi = s, sy_call = None\<rparr>"
    and new: "new \<noteq> power_state s" "case pmi_mcc s of None \<Rightarrow> True | Some c \<Rightarrow> ack_powerState c \<noteq> new"
    and deep: "power_state s = POWER_STATE_STANDBY_DEEP_SLEEP \<longrightarrow>
        \<not> (IsDeepSleepInProgress (pmi_deepSleep s)
           \<and> Elapsed (ck_now ck) (pmi_deepSleep s) < kTransientDeepsleepThresholdSec * 1000000000)"
    and now: "isSyncStateChange (power_state s) new \<or> pmi_clients s = []"
  obtains s1 post c where
    "PMI_SetPowerState en ck k new r s = Some (ERROR_NONE, s1, map SubmitPreChange (dispatchEvent
       (OnPowerModePreChange (power_state s) new (pmi_nextTransactionId s + 1)
          (if isSyncStateChange (power_state s) new then 0 else sint (en_preChangeTimeout en))) (pmi_preChangeL s)) @ post)"
    "\<not> pmi_selfLock s1" "\<not> mcc_running s1" "pmi_mcc s1 = Some c" "ack_powerState c = new"
    "pmi_clients s1 = pmi_clients s"
    "let (e, p) = PWC_SetPowerState (en_power en) (en_val en) (ck_now ck) k new r (pmi_power s)
     in pmi_power s1 = p \<and> post =
          (if e = ERROR_NONE then map Notify (dispatchPowerModeChangedEvent (power_state s) new (pmi_changedL s)) else [])"
    "pmi_changedL s1 = pmi_changedL s" "pmi_deepSleepL s1 = pmi_deepSleepL s" "pmi_preChangeL s1 = pmi_preChangeL s"
    "power_state s \<noteq> POWER_STATE_STANDBY_DEEP_SLEEP \<longrightarrow> pmi_deepSleep s1 = pmi_deepSleep s"
    "pmi_activations s1 = pmi_activations s @
       (if fst (PWC_SetPowerState (en_power en) (en_val en) (ck_now ck) k new r (pmi_power s)) = ERROR_NONE \<and>
           new = POWER_STATE_STANDBY_DEEP_SLEEP
        then [PWC_ActivateDeepSleep (ck_calendar ck)
          (snd (PWC_SetPowerState (en_power en) (en_val en) (ck_now ck) k new r (pmi_power s)))] else [])"
proof -
  let ?tid = "pmi_nextTransactionId s + 1" and ?sync = "isSyncStateChange (power_state s) new"
  let ?c = "(AckController_new new ?tid (ck_add ck 0) :: pm_handler ack)\<lparr>ack_pending := set (map fst (pmi_clients s))\<rparr>"
  obtain d where d: "power_state s \<noteq> POWER_STATE_STANDBY_DEEP_SLEEP \<longrightarrow> d = pmi_deepSleep s" and r: "PMI_SetPowerState en ck k new r s = Some (ERROR_NONE,
       sps_schedule en ck k (power_state s) new ?sync ?tid r
         (s\<lparr>pmi_selfLock := True, pmi_deepSleep := d, pmi_mcc := Some ?c,
            pmi_nextTransactionId := ?tid, pmi_refs := 1\<rparr>))"
    by (rule request_prepares [OF pm_inv_ok [OF inv] new deep, unfolded pm_inv_refs [OF inv]])
  let ?s = "s\<lparr>pmi_selfLock := True, pmi_deepSleep := d, pmi_nextTransactionId := ?tid, pmi_refs := 1, pmi_mcc := Some ?c\<rparr>"
  let ?h = "request_handler k new r s"
  obtain s2 post where h: "completionHandler en ck ?h False False ?s = (s2, post)" by (metis surj_pair)
  let ?s1 = "if ?sync then s2 else s2\<lparr>pmi_selfLock := False\<rparr>"
  have f: "pmi_selfLock s2 = (\<not> ?sync)" "pmi_mcc s2 = Some ?c" and cl: "pmi_clients s2 = pmi_clients s"
    using completionHandler_pair [OF h] by (simp_all add: request_handler_def)
  have p: "let (e, p) = PWC_SetPowerState (en_power en) (en_val en) (ck_now ck) k new r (pmi_power s)
     in pmi_power s2 = p \<and> post =
          (if e = ERROR_NONE then map Notify (dispatchPowerModeChangedEvent (power_state s) new (pmi_changedL s)) else [])"
    using h by (auto simp: completionHandler_power_state setDevicePowerState_def request_handler_def Let_def split_beta
        split: if_splits)
  have lists: "pmi_changedL s2 = pmi_changedL s" "pmi_preChangeL s2 = pmi_preChangeL s" "pmi_deepSleep s2 = d"
    using arg_cong [OF h, of fst] completionHandler_frame(5,6,7) [of en ck ?h False False ?s] by simp_all
  have acts: "pmi_deepSleepL s2 = pmi_deepSleepL s" "pmi_activations s2 = pmi_activations s @
       (if fst (PWC_SetPowerState (en_power en) (en_val en) (ck_now ck) k new r (pmi_power s)) = ERROR_NONE \<and>
           new = POWER_STATE_STANDBY_DEEP_SLEEP
        then [PWC_ActivateDeepSleep (ck_calendar ck)
          (snd (PWC_SetPowerState (en_power en) (en_val en) (ck_now ck) k new r (pmi_power s)))] else [])"
    using h by (auto simp: completionHandler_power_state setDevicePowerState_def request_handler_def Let_def split_beta
        split: if_splits)
  have sched: "Schedule (ck_add ck) (uint ((if ?sync then 0 else en_preChangeTimeout en) * 1000)) ?h ?c =
      (?c, [Fire (Some ?h) False False])"
    using now by (auto simp: Schedule_def)
  have "PMI_SetPowerState en ck k new r s = Some (ERROR_NONE, ?s1, map SubmitPreChange (dispatchEvent
       (OnPowerModePreChange (power_state s) new ?tid
          (if ?sync then 0 else sint (en_preChangeTimeout en))) (pmi_preChangeL s)) @ post)"
    using r h sched
    by (simp add: sps_schedule_def submitPowerModePreChangeEvent_def request_handler_def del: run_firings.simps)
  from that [OF this, of ?c] f cl p lists acts d show ?thesis
    by (cases ?sync) (simp_all add: mcc_running_def AckController_new_def split_beta Let_def)
qed

section \<open>Waking to light sleep\<close>

text \<open>
  C17. Waking from deep sleep to light sleep is synchronous: the change of state is made before
  the call returns, whether or not clients are registered, the semaphore is free again and no
  transition is left running, so the wake-up cannot be overtaken by a later request.
\<close>

theorem light_sleep_wake_is_synchronous:
  assumes "pm_reach en \<lparr>sy_pmi = s, sy_call = None\<rparr>"
    and "power_state s = POWER_STATE_STANDBY_DEEP_SLEEP"
    and "\<not> (IsDeepSleepInProgress (pmi_deepSleep s) \<and> Elapsed (ck_now ck) (pmi_deepSleep s) < 5 * 1000000000)"
    and "case pmi_mcc s of None \<Rightarrow> True | Some c \<Rightarrow> ack_powerState c \<noteq> POWER_STATE_STANDBY_LIGHT_SLEEP"
  shows "\<exists>s1 pre post. PMI_SetPowerState en ck k POWER_STATE_STANDBY_LIGHT_SLEEP r s = Some (ERROR_NONE, s1, pre @ post) \<and>
    \<not> pmi_selfLock s1 \<and> \<not> mcc_running s1 \<and>
    pre = map SubmitPreChange (dispatchEvent (OnPowerModePreChange POWER_STATE_STANDBY_DEEP_SLEEP
            POWER_STATE_STANDBY_LIGHT_SLEEP (pmi_nextTransactionId s + 1) 0) (pmi_preChangeL s)) \<and>
    (let (e, p) = PWC_SetPowerState (en_power en) (en_val en) (ck_now ck) k POWER_STATE_STANDBY_LIGHT_SLEEP r (pmi_power s)
     in pmi_power s1 = p \<and> post =
          (if e = ERROR_NONE then map Notify (dispatchPowerModeChangedEvent POWER_STATE_STANDBY_DEEP_SLEEP
             POWER_STATE_STANDBY_LIGHT_SLEEP (pmi_changedL s)) else []))"
proof -
  have sync: "isSyncStateChange (power_state s) POWER_STATE_STANDBY_LIGHT_SLEEP"
    using assms(2) by (simp add: isSyncStateChange_def)
  show ?thesis
    by (rule request_immediate [OF pm_reach_inv [OF assms(1)], of POWER_STATE_STANDBY_LIGHT_SLEEP ck en k r])
       (use assms(2-4) sync in \<open>auto simp: kTransientDeepsleepThresholdSec_def\<close>)
qed

text \<open>A call that is not interleaved with others is a sequence of the steps.\<close>

inductive pm_path ::
  "('p, 'd, 't) pm_env \<Rightarrow> ('p, 'd, 't, 'n) pm_sys \<Rightarrow> 'n pm_out list \<Rightarrow> ('p, 'd, 't, 'n) pm_sys \<Rightarrow> bool"
  for en S where
  stay: "pm_path en S [] S"
| further: "pm_path en S o1 S1 \<Longrightarrow> pm_step en S1 o2 S2 \<Longrightarrow> pm_path en S (o1 @ o2) S2"

lemma path_one: "pm_step en S outs S1 \<Longrightarrow> pm_path en S outs S1"
  using pm_path.further [OF pm_path.stay] by simp

lemma path_reachable: "pm_path en S outs S1 \<Longrightarrow> pm_reach en S \<Longrightarrow> pm_reach en S1"
  by (induction rule: pm_path.induct) (auto elim: pm_reach.step)

lemma call_path:
  assumes "PMI_SetPowerState en ck k new r s = Some (e, s1, outs)"
  shows "pm_path en \<lparr>sy_pmi = s, sy_call = None\<rparr> outs \<lparr>sy_pmi = s1, sy_call = None\<rparr>"
proof -
  have lock: "\<not> pmi_selfLock s" using assms by (auto simp: PMI_SetPowerState_def split: if_splits)
  obtain v s2 where a: "sps_read en ck new s = (v, s2)" by (metis surj_pair)
  show ?thesis
  proof (cases v)
    case (SpsReturn e1)
    with a assms lock have "s2 = s1" "outs = []" by (simp_all add: PMI_SetPowerState_def)
    with path_one [OF pm_step.Return [OF lock a [unfolded SpsReturn]]] show ?thesis by simp
  next
    case (SpsGo cur sync)
    note r2 = path_one [OF pm_step.Read [OF lock a [unfolded SpsGo], of k r]]
    obtain t s3 o2 where b: "sps_prepare en ck new s2 = (t, s3, o2)" by (metis prod_cases3)
    show ?thesis
    proof (cases t)
      case None
      with a b SpsGo assms lock have "s3 = s1" "outs = o2" by (simp_all add: PMI_SetPowerState_def)
      with pm_path.further [OF r2 pm_step.Redundant [OF b [unfolded None]]] show ?thesis by simp
    next
      case (Some tid)
      note r3 = pm_path.further [OF r2 pm_step.Prepare [OF b [unfolded Some]]]
      obtain s4 o3 where c: "sps_schedule en ck k cur new sync tid r s3 = (s4, o3)" by (metis surj_pair)
      with a b SpsGo Some assms lock have "s4 = s1" "outs = o2 @ o3" by (simp_all add: PMI_SetPowerState_def)
      with pm_path.further [OF r3 pm_step.Sched [OF c]] show ?thesis by simp
    qed
  qed
qed

lemma call_reachable:
  assumes "pm_reach en \<lparr>sy_pmi = s, sy_call = None\<rparr>"
    and "PMI_SetPowerState en ck k new r s = Some (e, s1, outs)"
  shows "pm_reach en \<lparr>sy_pmi = s1, sy_call = None\<rparr>"
  by (rule path_reachable [OF call_path [OF assms(2)] assms(1)])

text \<open>A platform that follows every request, and a device without clients in deep sleep.\<close>

definition demo_pm_env2 :: "(PowerState, nat, unit) pm_env" where
  "demo_pm_env2 = demo_pm_env\<lparr>en_power := demo_power\<lparr>ipp_SetPowerState := \<lambda>s p. (ERROR_NONE, s)\<rparr>\<rparr>"

definition demo_start :: "posix \<Rightarrow> (PowerState, nat, unit, nat) pmi" where
  "demo_start fs = PMI_new demo_pm_env2 1 POWER_STATE_ON 0 (thc_members False ()) fs"

lemma demo_start_fields:
  "pm_reach demo_pm_env2 \<lparr>sy_pmi = demo_start fs, sy_call = None\<rparr>" "pmi_mcc (demo_start fs) = None"
  "pmi_clients (demo_start fs) = []" "pmi_deepSleep (demo_start fs) = DeepSleepController_new 0"
  by (simp_all add: demo_start_def PMI_new_def pm_reach.start [unfolded PMI_new_def])

lemma accepted_power_state:
  assumes "\<not> (file_exists ignoreDeepSleepFile (pwc_fs (pmi_power s)) \<and> new = POWER_STATE_STANDBY_DEEP_SLEEP)"
    and "let (e, p) = PWC_SetPowerState (en_power demo_pm_env2) val now k new r (pmi_power s)
         in pmi_power s1 = p \<and> P e"
  shows "power_state s1 = new"
proof -
  have "fst (PWC_SetPowerState (en_power demo_pm_env2) val now k new r (pmi_power s)) = ERROR_NONE"
    using assms(1) by (simp add: PWC_SetPowerState_def Let_def split_beta demo_pm_env2_def)
  with assms(2) show ?thesis
    using PWC_SetPowerState_state [of "en_power demo_pm_env2" val now k new r "pmi_power s"]
    by (simp add: power_state_def split_beta Let_def)
qed

lemma demo_deep:
  "\<exists>s :: (PowerState, nat, unit, nat) pmi. pm_reach demo_pm_env2 \<lparr>sy_pmi = s, sy_call = None\<rparr> \<and>
     power_state s = POWER_STATE_STANDBY_DEEP_SLEEP \<and> pmi_deepSleep s = DeepSleepController_new 0 \<and>
     (case pmi_mcc s of None \<Rightarrow> True | Some c \<Rightarrow> ack_powerState c = POWER_STATE_STANDBY_DEEP_SLEEP)"
proof -
  let ?s = "(demo_start demo_fs)\<lparr>pmi_power := (pmi_power (demo_start demo_fs))\<lparr>pwc_fs := no_files\<rparr>\<rparr>"
  have r: "pm_reach demo_pm_env2 \<lparr>sy_pmi = ?s, sy_call = None\<rparr>"
    by (rule pm_reach.step [OF demo_start_fields(1) pm_step.Other]) (simp add: same_transition_def power_state_def)
  show ?thesis
  proof (cases "power_state ?s = POWER_STATE_STANDBY_DEEP_SLEEP")
    case True
    with r show ?thesis by (intro exI [of _ ?s]) (simp add: demo_start_fields)
  next
    case False
    obtain s1 post c where q: "PMI_SetPowerState demo_pm_env2 demo_clock 0 POWER_STATE_STANDBY_DEEP_SLEEP [] ?s =
        Some (ERROR_NONE, s1, map SubmitPreChange (dispatchEvent
       (OnPowerModePreChange (power_state ?s) POWER_STATE_STANDBY_DEEP_SLEEP (pmi_nextTransactionId ?s + 1)
          (if isSyncStateChange (power_state ?s) POWER_STATE_STANDBY_DEEP_SLEEP then 0
           else sint (en_preChangeTimeout demo_pm_env2))) (pmi_preChangeL ?s)) @ post)"
      and c: "pmi_mcc s1 = Some c" "ack_powerState c = POWER_STATE_STANDBY_DEEP_SLEEP"
      and p: "let (e, p) = PWC_SetPowerState (en_power demo_pm_env2) (en_val demo_pm_env2) (ck_now demo_clock) 0
         POWER_STATE_STANDBY_DEEP_SLEEP [] (pmi_power ?s)
       in pmi_power s1 = p \<and> post = (if e = ERROR_NONE then map Notify (dispatchPowerModeChangedEvent
            (power_state ?s) POWER_STATE_STANDBY_DEEP_SLEEP (pmi_changedL ?s)) else [])"
      by (rule request_immediate [OF pm_reach_inv [OF r], of POWER_STATE_STANDBY_DEEP_SLEEP demo_clock demo_pm_env2 0 "[]"])
        (use False in \<open>simp_all add: demo_start_fields\<close>)
    have "power_state s1 = POWER_STATE_STANDBY_DEEP_SLEEP"
      by (rule accepted_power_state [OF _ p]) (simp add: file_exists_def no_files_def)
    moreover have "pm_reach demo_pm_env2 \<lparr>sy_pmi = s1\<lparr>pmi_deepSleep := DeepSleepController_new 0\<rparr>, sy_call = None\<rparr>"
      by (rule pm_reach.step [OF call_reachable [OF r q] pm_step.Other]) (simp add: same_transition_def)
    ultimately show ?thesis using c by (intro exI [of _ "s1\<lparr>pmi_deepSleep := DeepSleepController_new 0\<rparr>"]) simp
  qed
qed

lemma light_sleep_wake_is_synchronous_witness:
  "\<exists>s s1 :: (PowerState, nat, unit, nat) pmi. \<exists>outs.
     power_state s = POWER_STATE_STANDBY_DEEP_SLEEP \<and>
     PMI_SetPowerState demo_pm_env2 demo_clock 0 POWER_STATE_STANDBY_LIGHT_SLEEP [] s = Some (ERROR_NONE, s1, outs) \<and>
     \<not> pmi_selfLock s1 \<and> \<not> mcc_running s1"
proof -
  obtain s :: "(PowerState, nat, unit, nat) pmi" where s: "pm_reach demo_pm_env2 \<lparr>sy_pmi = s, sy_call = None\<rparr>"
    "power_state s = POWER_STATE_STANDBY_DEEP_SLEEP" "pmi_deepSleep s = DeepSleepController_new 0"
    "case pmi_mcc s of None \<Rightarrow> True | Some c \<Rightarrow> ack_powerState c = POWER_STATE_STANDBY_DEEP_SLEEP"
    using demo_deep by blast
  have "\<not> (IsDeepSleepInProgress (pmi_deepSleep s) \<and> Elapsed (ck_now demo_clock) (pmi_deepSleep s) < 5 * 1000000000)"
    by (simp add: s(3) IsDeepSleepInProgress_def DeepSleepController_new_def)
  moreover have "case pmi_mcc s of None \<Rightarrow> True | Some c \<Rightarrow> ack_powerState c \<noteq> POWER_STATE_STANDBY_LIGHT_SLEEP"
    using s(4) by (auto split: option.splits)
  ultimately show ?thesis
    using light_sleep_wake_is_synchronous [OF s(1,2), of demo_clock 0 "[]"] s(2) by blast
qed

definition demo_target2 :: PowerState where
  "demo_target2 = (if power_state demo_pmi = POWER_STATE_STANDBY then POWER_STATE_OFF else POWER_STATE_STANDBY)"

lemma demo_awaiting:
  obtains s :: "(PowerState, nat, unit, nat) pmi" where
    "pm_reach demo_pm_env \<lparr>sy_pmi = s, sy_call = None\<rparr>" "awaiting (request_handler 0 demo_target [] demo_pmi1) 1 {1} s"
    "fresh_request demo_pm_env demo_clock demo_target2 s" "pmi_clients s \<noteq> []" "set (map fst (pmi_clients s)) = {1}"
proof -
  have timeout: "en_preChangeTimeout demo_pm_env * 1000 \<noteq> 0" by (simp add: demo_pm_env_def)
  have cl: "pmi_clients demo_pmi1 \<noteq> []" by (simp add: demo_fields)
  obtain s where q: "PMI_SetPowerState demo_pm_env demo_clock 0 demo_target [] demo_pmi1 = Some (ERROR_NONE, s,
       map SubmitPreChange (dispatchEvent (OnPowerModePreChange (power_state demo_pmi1) demo_target
          (pmi_nextTransactionId demo_pmi1 + 1) (sint (en_preChangeTimeout demo_pm_env))) (pmi_preChangeL demo_pmi1)))"
    and w: "awaiting (request_handler 0 demo_target [] demo_pmi1) (pmi_nextTransactionId demo_pmi1 + 1)
       (set (map fst (pmi_clients demo_pmi1))) s"
    and p: "pmi_power s = pmi_power demo_pmi1" "pmi_clients s = pmi_clients demo_pmi1"
    by (rule request_starts [OF pm_reach_ok [OF demo_reach] demo_fresh cl timeout])
  let ?s = "s\<lparr>pmi_deepSleep := DeepSleepController_new 0\<rparr>"
  have r: "pm_reach demo_pm_env \<lparr>sy_pmi = ?s, sy_call = None\<rparr>"
    by (rule pm_reach.step [OF call_reachable [OF demo_reach q] pm_step.Other]) (simp add: same_transition_def)
  have w2: "awaiting (request_handler 0 demo_target [] demo_pmi1) 1 {1} ?s"
    using w by (simp add: awaiting_def demo_fields)
  from w have "case pmi_mcc s of None \<Rightarrow> True | Some c \<Rightarrow> ack_powerState c = demo_target"
    by (auto simp: awaiting_def request_handler_def)
  then have f: "fresh_request demo_pm_env demo_clock demo_target2 ?s"
    using p by (auto simp: fresh_request_def power_state_def demo_fields demo_target2_def demo_target_def
        isSyncStateChange_def IsDeepSleepInProgress_def DeepSleepController_new_def split: option.splits)
  from that [OF r w2 f] p cl show thesis by (simp add: demo_fields)
qed

text \<open>A request on its way: it has read the state, and is prepared next.\<close>

lemma demo_prepared:
  obtains s1 s2 :: "(PowerState, nat, unit, nat) pmi" where
    "pm_reach demo_pm_env \<lparr>sy_pmi = s1, sy_call = Some (AfterRead 0 demo_target [] (power_state demo_pmi1) False)\<rparr>"
    "pm_step demo_pm_env \<lparr>sy_pmi = s1, sy_call = Some (AfterRead 0 demo_target [] (power_state demo_pmi1) False)\<rparr> []
       \<lparr>sy_pmi = s2, sy_call = Some (AfterPrepare 0 demo_target [] (power_state demo_pmi1) False 1)\<rparr>"
    "pmi_mcc s1 = None"
    "pmi_mcc s2 = Some ((AckController_new demo_target 1 (ck_add demo_clock 0))\<lparr>ack_pending := {1}\<rparr>)"
proof -
  have f: "demo_target \<noteq> power_state demo_pmi1" "\<not> isSyncStateChange (power_state demo_pmi1) demo_target"
    "power_state demo_pmi1 = POWER_STATE_STANDBY_DEEP_SLEEP \<longrightarrow>
      \<not> (IsDeepSleepInProgress (pmi_deepSleep demo_pmi1) \<and>
         Elapsed (ck_now demo_clock) (pmi_deepSleep demo_pmi1) < kTransientDeepsleepThresholdSec * 1000000000)"
    using demo_fresh by (auto simp: fresh_request_def)
  obtain d where r: "sps_read demo_pm_env demo_clock demo_target demo_pmi1 =
     (SpsGo (power_state demo_pmi1) False, demo_pmi1\<lparr>pmi_selfLock := True, pmi_deepSleep := d\<rparr>)"
    using read_go [OF f(1,3), of demo_pm_env] f(2) by auto
  let ?s = "demo_pmi1\<lparr>pmi_selfLock := True, pmi_deepSleep := d\<rparr>"
  have S: "pm_reach demo_pm_env \<lparr>sy_pmi = ?s, sy_call = Some (AfterRead 0 demo_target [] (power_state demo_pmi1) False)\<rparr>"
    by (rule pm_reach.step [OF demo_reach pm_step.Read [OF _ r]]) (simp add: demo_fields)
  obtain s2 where p: "sps_prepare demo_pm_env demo_clock demo_target ?s = (Some 1, s2, [])"
    and s2: "pmi_mcc s2 = Some ((AckController_new demo_target 1 (ck_add demo_clock 0))\<lparr>ack_pending := {1}\<rparr>)"
    by (simp add: sps_prepare_def demo_fields AckAwait_def AckController_new_def)
  from that [OF S pm_step.Prepare [OF p] _ s2] show thesis by (simp add: demo_fields)
qed

section \<open>Failed transitions\<close>

text \<open>
  C37. A transition that the platform refuses is not retried on request: the refusal is not
  reported to the caller, the object of the finished transition stays behind, and until a request
  for another state comes, every further request for the same target is taken for a repetition:
  it returns success and never reaches the power controller.
\<close>

theorem refused_transition_blocks_retries:
  assumes "pm_reach en \<lparr>sy_pmi = s, sy_call = None\<rparr>" and "fresh_request en ck new s" and "pmi_clients s = []"
    and "power_state s \<noteq> POWER_STATE_STANDBY_DEEP_SLEEP"
    and "fst (PWC_SetPowerState (en_power en) (en_val en) (ck_now ck) k new r (pmi_power s)) \<noteq> ERROR_NONE"
  shows "\<exists>s1 outs. PMI_SetPowerState en ck k new r s = Some (ERROR_NONE, s1, outs) \<and>
    power_state s1 = power_state s \<and>
    PMI_SetPowerState en2 ck2 k2 new r2 s1 = Some (ERROR_NONE, s1, [])"
proof -
  have n: "new \<noteq> power_state s" "case pmi_mcc s of None \<Rightarrow> True | Some c \<Rightarrow> ack_powerState c \<noteq> new"
    using assms(2) by (simp_all add: fresh_request_def)
  obtain s1 post c where q: "PMI_SetPowerState en ck k new r s = Some (ERROR_NONE, s1, map SubmitPreChange (dispatchEvent
       (OnPowerModePreChange (power_state s) new (pmi_nextTransactionId s + 1)
          (if isSyncStateChange (power_state s) new then 0 else sint (en_preChangeTimeout en))) (pmi_preChangeL s)) @ post)"
    and lock: "\<not> pmi_selfLock s1" and c: "pmi_mcc s1 = Some c" "ack_powerState c = new"
    and p: "let (e, p) = PWC_SetPowerState (en_power en) (en_val en) (ck_now ck) k new r (pmi_power s)
       in pmi_power s1 = p \<and> post = (if e = ERROR_NONE then map Notify (dispatchPowerModeChangedEvent
            (power_state s) new (pmi_changedL s)) else [])"
    by (rule request_immediate [OF pm_reach_inv [OF assms(1)] n, of ck en k r]) (use assms(3,4) in auto)
  have ps: "power_state s1 = power_state s"
    using p assms(5) PWC_SetPowerState_state [of "en_power en" "en_val en" "ck_now ck" k new r "pmi_power s"]
    by (simp add: power_state_def split_beta Let_def)
  have "s1\<lparr>pmi_selfLock := False\<rparr> = s1" using lock by (cases s1) simp
  with lock c ps n(1) assms(4) have "PMI_SetPowerState en2 ck2 k2 new r2 s1 = Some (ERROR_NONE, s1, [])"
    by (simp add: PMI_SetPowerState_def sps_read_def sps_prepare_def PWC_GetPowerState_def power_state_def [symmetric] Let_def)
  with q ps show ?thesis by blast
qed

definition demo_pm_env3 :: "(PowerState, nat, unit) pm_env" where
  "demo_pm_env3 = demo_pm_env\<lparr>en_power := demo_power\<lparr>ipp_SetPowerState := \<lambda>s p. (ERROR_GENERAL, p)\<rparr>\<rparr>"

lemma demo_refused:
  "fst (PWC_SetPowerState (en_power demo_pm_env3) val now k ps r s) \<noteq> ERROR_NONE"
  "st_powerState (pwc_settings (PWC_new (en_power demo_pm_env3) val False now POWER_STATE_ON fs)) = POWER_STATE_ON"
proof -
  show e: "fst (PWC_SetPowerState (en_power demo_pm_env3) val now k ps r s) \<noteq> ERROR_NONE" for now k ps r s
    by (simp add: PWC_SetPowerState_def Let_def split_beta demo_pm_env3_def)
  have g: "ipp_GetPowerState (en_power demo_pm_env3) = (\<lambda>c p. (ERROR_NONE, p, p))"
    and w: "ipp_SetWakeupSrc (en_power demo_pm_env3) = (\<lambda>src en b p. (ERROR_NONE, True, p))"
    by (simp_all add: demo_pm_env3_def demo_power_def)
  have u: "set_wakeup_srcs (en_power demo_pm_env3) cs b p = (b, p)" for cs b p
    by (induction cs arbitrary: b) (simp_all add: w)
  show "st_powerState (pwc_settings (PWC_new (en_power demo_pm_env3) val False now POWER_STATE_ON fs)) = POWER_STATE_ON"
    using e by (simp add: PWC_new_def PWC_init_def Let_def split_beta g u PWC_SetWakeupSourceConfig_def)
qed

lemma refused_transition_blocks_retries_witness:
  "\<exists>s s1 :: (PowerState, nat, unit, nat) pmi. \<exists>outs. power_state s = POWER_STATE_ON \<and>
     PMI_SetPowerState demo_pm_env3 demo_clock 0 POWER_STATE_OFF [] s = Some (ERROR_NONE, s1, outs) \<and>
     power_state s1 = POWER_STATE_ON \<and>
     PMI_SetPowerState demo_pm_env2 demo_clock 0 POWER_STATE_OFF [] s1 = Some (ERROR_NONE, s1, [])"
proof -
  let ?s = "PMI_new demo_pm_env3 1 POWER_STATE_ON 0 (thc_members False ()) demo_fs :: (PowerState, nat, unit, nat) pmi"
  have on: "power_state ?s = POWER_STATE_ON"
    using demo_refused(2) by (simp add: power_state_def PMI_new_def demo_pm_env3_def demo_pm_env_def)
  have "fresh_request demo_pm_env3 demo_clock POWER_STATE_OFF ?s"
    using on by (simp add: fresh_request_def isSyncStateChange_def) (simp add: PMI_new_def)
  moreover have "pmi_clients ?s = []" by (simp add: PMI_new_def)
  moreover have "power_state ?s \<noteq> POWER_STATE_STANDBY_DEEP_SLEEP" using on by simp
  ultimately show ?thesis
    using refused_transition_blocks_retries [OF pm_reach.start, where k = 0 and r = "[]" and ?en2.0 = demo_pm_env2
        and ?ck2.0 = demo_clock and ?k2.0 = 0 and ?r2.0 = "[]"] demo_refused(1) on by metis
qed

section \<open>Transitions that cannot be called off\<close>

text \<open>
  C18. A transition cannot be called off by asking for the state the device is in. While the
  clients of a transition are still at work, a request for the current state, by anybody, with
  any key and reason and at any time, returns success and is ignored: it neither cancels the
  transition nor tells anybody. When the last client acknowledges, the device goes to the old
  target, if the platform accepts it, although the later request was answered with success. (The comment where
  \<^verbatim>\<open>selfLock\<close> is released promises the user can turn the device on while it is on its way to
  deep sleep.)
\<close>

theorem transition_cannot_be_called_off:
  assumes reach: "pm_reach en \<lparr>sy_pmi = s, sy_call = None\<rparr>" and fresh: "fresh_request en ck new s"
    and clients: "pmi_clients s \<noteq> []" and timeout: "en_preChangeTimeout en * 1000 \<noteq> 0"
    and acks: "set (map fst (qs @ [(i, ck1)])) = set (map fst (pmi_clients s))" "distinct (map fst (qs @ [(i, ck1)]))"
  shows "\<exists>s1 outs. PMI_SetPowerState en ck k new r s = Some (ERROR_NONE, s1, outs) \<and> mcc_running s1 \<and>
    (\<forall>ck2 k2 r2. PMI_SetPowerState en ck2 k2 (power_state s) r2 s1 = Some (ERROR_NONE, s1, [])) \<and>
    (let s2 = fst (complete_all en (qs @ [(i, ck1)]) (pmi_nextTransactionId s + 1) s1)
     in \<not> mcc_running s2 \<and> power_state s2 =
          (if fst (PWC_SetPowerState (en_power en) (en_val en) (ck_now ck1) k new r (pmi_power s)) = ERROR_NONE
           then new else power_state s))"
proof -
  let ?tid = "pmi_nextTransactionId s + 1" and ?h = "request_handler k new r s"
  obtain s1 where q: "PMI_SetPowerState en ck k new r s = Some (ERROR_NONE, s1, map SubmitPreChange (dispatchEvent
      (OnPowerModePreChange (power_state s) new ?tid (sint (en_preChangeTimeout en))) (pmi_preChangeL s)))"
    and w: "awaiting ?h ?tid (set (map fst (pmi_clients s))) s1" and p: "pmi_power s1 = pmi_power s"
    by (rule request_starts [OF pm_reach_ok [OF reach] fresh clients timeout])
  have cur: "power_state s = power_state s1" using p by (simp add: power_state_def)
  have ignored: "PMI_SetPowerState en ck2 k2 (power_state s) r2 s1 = Some (ERROR_NONE, s1, [])" for ck2 k2 r2
    by (rule ineffective_requests [OF call_reachable [OF reach q]]) (simp add: cur)
  have run: "mcc_running s1" using w by (auto simp: awaiting_def mcc_running_def)
  obtain s2 outs where b: "complete_all en (qs @ [(i, ck1)]) ?tid s1 = (s2, outs)" by (metis surj_pair)
  obtain m c where m: "only_mcc s1 m" "completionHandler en ck1 ?h False False (m\<lparr>pmi_mcc := Some c\<rparr>) = (s2, outs)"
    "\<not> mcc_running s2"
    using complete_full [OF w acks(2,1) b] by metis
  have "\<not> isSyncStateChange (power_state s) new" using fresh by (simp add: fresh_request_def)
  from handler_effect [OF this m(2)] only_mcc_fields [OF m(1)] p
  have "pmi_power s2 = snd (PWC_SetPowerState (en_power en) (en_val en) (ck_now ck1) k new r (pmi_power s))"
    by (simp add: split_beta Let_def)
  then have "power_state s2 = (if fst (PWC_SetPowerState (en_power en) (en_val en) (ck_now ck1) k new r (pmi_power s))
      = ERROR_NONE then new else power_state s)"
    by (simp add: power_state_def PWC_SetPowerState_state)
  with q run ignored b m(3) show ?thesis by auto
qed

lemma transition_cannot_be_called_off_witness:
  "\<exists>s1 outs. PMI_SetPowerState demo_pm_env demo_clock 0 demo_target [] demo_pmi1 = Some (ERROR_NONE, s1, outs) \<and>
     PMI_SetPowerState demo_pm_env demo_clock 3 (power_state demo_pmi1) ''stay'' s1 = Some (ERROR_NONE, s1, []) \<and>
     power_state (fst (complete_all demo_pm_env [(1, demo_clock)] 1 s1)) = demo_target"
proof -
  have "pmi_clients demo_pmi1 \<noteq> []" "en_preChangeTimeout demo_pm_env * 1000 \<noteq> 0"
    "set (map fst ([] @ [(1, demo_clock)])) = set (map fst (pmi_clients demo_pmi1))"
    "distinct (map fst ([] @ [(1 :: u32, demo_clock)]))"
    by (simp_all add: demo_fields demo_pm_env_def)
  note t = transition_cannot_be_called_off [OF demo_reach demo_fresh this, of 0 "[]"]
  have "fst (PWC_SetPowerState demo_power demo_val 5 0 demo_target [] (pmi_power demo_pmi1)) = ERROR_NONE"
    by (simp add: PWC_SetPowerState_def Let_def split_beta demo_power_def demo_target_def)
  with t show ?thesis
    by (elim exE conjE) (simp add: Let_def demo_fields demo_clock_def demo_pm_env_def)
qed

end
