(* ===== verification/DeepSleepCycle.thy ===== *)
theory DeepSleepCycle
  imports PowerTransitions
begin

text \<open>
  A stay in deep sleep from its request to the device's waking, through the three parts that
  share it: \<^verbatim>\<open>PowerManagerImplementation\<close> negotiates and announces, \<^verbatim>\<open>PowerController\<close>
  records the state and asks for the activation, \<^verbatim>\<open>DeepSleepController\<close> sends the device to
  sleep and calls back when it is awake.
\<close>

section \<open>The jobs of the deep sleep controller\<close>

text \<open>
  The worker pool runs the job that \<^verbatim>\<open>Activate\<close> submitted, nothing else touching the
  controller meanwhile; the callback it makes of the parent, if any, is the first component.
\<close>

definition activation_job ::
  "('p, 'd, 't) pm_env \<Rightarrow> pm_clock \<Rightarrow> posix \<Rightarrow> ('p, 'd, 't, 'n) pmi \<Rightarrow> ds_call option \<times> ('p, 'd, 't, 'n) pmi" where
  "activation_job en ck fs s =
     (case pmi_activations s of
        [] \<Rightarrow> (None, s)
      | (timeOut, nwStandbyMode) # jobs \<Rightarrow>
          (let (act, d) = performActivate (ck_now ck) fs timeOut nwStandbyMode (pmi_deepSleep s);
               s1 = s\<lparr>pmi_activations := jobs, pmi_deepSleep := d\<rparr>
           in if act = ActNow
              then let (call, d1) = enterDeepSleepNow (en_deepSleep en) d in (call, s1\<lparr>pmi_deepSleep := d1\<rparr>)
              else (None, s1)))"

text \<open>The job that a configured delay queues instead.\<close>

definition delayed_job ::
  "('p, 'd, 't) pm_env \<Rightarrow> ('p, 'd, 't, 'n) pmi \<Rightarrow> ds_call option \<times> ('p, 'd, 't, 'n) pmi" where
  "delayed_job en s =
     (if dsc_delayJob (pmi_deepSleep s) = None then (None, s)
      else let (pc, d) = enterDeepSleepDelayed (pmi_deepSleep s); (call, d1) = ds_run (en_deepSleep en) pc d
           in (call, s\<lparr>pmi_deepSleep := d1\<rparr>))"

text \<open>Both, one after the other: the thread that enters deep sleep, at once or after the delay.\<close>

definition sleep_thread ::
  "('p, 'd, 't) pm_env \<Rightarrow> pm_clock \<Rightarrow> posix \<Rightarrow> ('p, 'd, 't, 'n) pmi \<Rightarrow> ds_call option \<times> ('p, 'd, 't, 'n) pmi" where
  "sleep_thread en ck fs s =
     (let (call, s1) = activation_job en ck fs s
      in if call = None then delayed_job en s1 else (call, s1))"

text \<open>The timeout in force: a number in the file replaces the one of the activation.\<close>

definition wakeup_timeout :: "posix \<Rightarrow> u32 \<Rightarrow> u32" where
  "wakeup_timeout fs t = (let (ok, w) = read_integer_conf wakeupTimerFile 0 fs in if ok \<and> w \<noteq> 0 then w else t)"

text \<open>The request for a power state that a callback makes.\<close>

fun wake_request :: "('p, 'd, 't) pm_env \<Rightarrow> ds_call \<Rightarrow> PowerState \<times> string" where
  "wake_request en (onDeepSleepTimerWakeup t) = (POWER_STATE_STANDBY_LIGHT_SLEEP, ''DeepSleep timedout'')"
| "wake_request en (onDeepSleepUserWakeup u) = (wakeup_state en, ''DeepSleep userwakeup'')"
| "wake_request en onDeepSleepFailed = (wakeup_state en, ''DeepSleep failed'')"

fun timeout_outs :: "ds_call \<Rightarrow> 'n notif_list \<Rightarrow> 'n pm_out list" where
  "timeout_outs (onDeepSleepTimerWakeup t) l = map Notify (dispatchDeepSleepTimeoutEvent (word_of_int t) l)"
| "timeout_outs c l = []"

lemma deepSleepCall_request:
  "PMI_deepSleepCall en ck c s = map_option (\<lambda>(_, s1, o2). (s1, timeout_outs c (pmi_deepSleepL s) @ o2))
     (PMI_SetPowerState en ck 0 (fst (wake_request en c)) (snd (wake_request en c)) s)"
  by (cases c) (auto simp: PMI_onDeepSleepTimerWakeup_def PMI_onDeepSleepUserWakeup_def PMI_onDeepSleepFailed_def
      Let_def split_beta option.map_comp intro!: option.map_cong)

section \<open>From the activation to the callback\<close>

text \<open>Whether or not there is a delay, the platform is asked with the timeout in force, and its last answer decides.\<close>

lemma entered_outcome:
  "\<not> dsc_abort d \<Longrightarrow> enterDeepSleepNow pl d =
     deep_sleep_outcome d (attempts pl (dsc_wakeupTimeoutSec d) (dsc_nwStandbyMode d) 5 False (dsc_dev d))"
  using ds_run_RetryLoop [of d pl 4 False]
  by (simp add: enterDeepSleepNow_def ds_run_step [of PreDelay] del: attempts.simps)

definition outcome_call :: "u32 \<Rightarrow> hresult \<times> bool \<times> 'd \<Rightarrow> ds_call" where
  "outcome_call t r =
     (case r of (e, u, d) \<Rightarrow>
        if e \<noteq> ERROR_NONE then onDeepSleepFailed
        else if u then onDeepSleepUserWakeup True else onDeepSleepTimerWakeup (sint t))"

lemma outcome_result:
  "fst (deep_sleep_outcome d r) = Some (outcome_call (dsc_wakeupTimeoutSec d) r)"
  "\<not> IsDeepSleepInProgress (snd (deep_sleep_outcome d r))"
  by (simp_all add: deep_sleep_outcome_def outcome_call_def IsDeepSleepInProgress_def split_beta)

lemma activate_result:
  assumes "\<not> IsDeepSleepInProgress s" and "dsc_delayJob s = None"
  obtains d where "performActivate now fs t nw s = (if dsc_delayJob d = None then ActNow else ActDelayed, d)"
    "\<not> dsc_abort d" "dsc_wakeupTimeoutSec d = wakeup_timeout fs t" "dsc_nwStandbyMode d = nw" "dsc_dev d = dsc_dev s"
  by (rule that [of "snd (performActivate now fs t nw s)"])
     (use assms in \<open>auto simp: performActivate_def wakeup_timeout_def Let_def split_beta\<close>)

lemma thread_outcome:
  assumes jobs: "pmi_activations s = [(t, nw)]"
    and idle: "\<not> IsDeepSleepInProgress (pmi_deepSleep s)" "dsc_delayJob (pmi_deepSleep s) = None"
  obtains d where "sleep_thread en ck fs s =
      (Some (outcome_call (wakeup_timeout fs t)
         (attempts (en_deepSleep en) (wakeup_timeout fs t) nw 5 False (dsc_dev (pmi_deepSleep s)))),
       s\<lparr>pmi_activations := [], pmi_deepSleep := d\<rparr>)" and "\<not> IsDeepSleepInProgress d"
proof -
  let ?pl = "en_deepSleep en"
  let ?r = "attempts ?pl (wakeup_timeout fs t) nw 5 False (dsc_dev (pmi_deepSleep s))"
  obtain d where p: "performActivate (ck_now ck) fs t nw (pmi_deepSleep s) =
      (if dsc_delayJob d = None then ActNow else ActDelayed, d)"
    and d: "\<not> dsc_abort d" "dsc_wakeupTimeoutSec d = wakeup_timeout fs t" "dsc_nwStandbyMode d = nw"
      "dsc_dev d = dsc_dev (pmi_deepSleep s)"
    by (rule activate_result [OF idle])
  have now: "ds_run ?pl PreDelay d1 = deep_sleep_outcome d1 ?r"
    if "d1 = d \<or> d1 = d\<lparr>dsc_delayJob := None\<rparr>" for d1
    using entered_outcome [of d1 ?pl] d that by (auto simp: enterDeepSleepNow_def simp del: attempts.simps)
  let ?d = "if dsc_delayJob d = None then d else d\<lparr>dsc_delayJob := None\<rparr>"
  have "sleep_thread en ck fs s =
      (fst (deep_sleep_outcome ?d ?r), s\<lparr>pmi_activations := [], pmi_deepSleep := snd (deep_sleep_outcome ?d ?r)\<rparr>)"
    using jobs p now [of d] now [of "d\<lparr>dsc_delayJob := None\<rparr>"] outcome_result(1) [of d ?r]
    by (auto simp: sleep_thread_def activation_job_def delayed_job_def enterDeepSleepNow_def enterDeepSleepDelayed_def
        Let_def split_beta simp del: attempts.simps)
  with that [of "snd (deep_sleep_outcome ?d ?r)"] d(2) outcome_result [of ?d ?r] show ?thesis
    by (simp del: attempts.simps)
qed

section \<open>The whole stay\<close>

text \<open>
  C3. A device without clients that is asked to go to deep sleep goes there and comes back: the
  change is recorded and announced and one activation queued; the platform is asked, with the
  timeout in force, until it answers anything but an abort, five times at most; and whatever it
  answers in the end, the device is woken, to light sleep with a timeout event to its observers
  when the timer ran out, to the wake-up state when the user woke it or sleep failed. The waking
  is recorded and announced unless the platform refuses it, and nothing is left under way.
\<close>

theorem deep_sleep_cycle:
  assumes reach: "pm_reach en \<lparr>sy_pmi = s, sy_call = None\<rparr>"
    and fresh: "fresh_request en ck POWER_STATE_STANDBY_DEEP_SLEEP s" and clients: "pmi_clients s = []"
    and idle: "pmi_activations s = []" "\<not> IsDeepSleepInProgress (pmi_deepSleep s)" "dsc_delayJob (pmi_deepSleep s) = None"
    and accepted: "PWC_SetPowerState (en_power en) (en_val en) (ck_now ck) k POWER_STATE_STANDBY_DEEP_SLEEP r (pmi_power s)
      = (ERROR_NONE, p)"
  shows "let old = power_state s; deep = POWER_STATE_STANDBY_DEEP_SLEEP;
     (t0, nw) = PWC_ActivateDeepSleep (ck_calendar ck) p; t = wakeup_timeout fs t0;
     c = outcome_call t (attempts (en_deepSleep en) t nw 5 False (dsc_dev (pmi_deepSleep s)));
     (wake, why) = wake_request en c;
     (e, p2) = PWC_SetPowerState (en_power en) (en_val en) (ck_now ck2) 0 wake why p
     in \<exists>s1 s2 s3 pre pre2 post2.
        PMI_SetPowerState en ck k deep r s =
          Some (ERROR_NONE, s1, pre @ map Notify (dispatchPowerModeChangedEvent old deep (pmi_changedL s))) \<and>
        power_state s1 = deep \<and> sleep_thread en ck1 fs s1 = (Some c, s2) \<and>
        PMI_deepSleepCall en ck2 c s2 = Some (s3, timeout_outs c (pmi_deepSleepL s) @ pre2 @ post2) \<and>
        post2 = (if e = ERROR_NONE then map Notify (dispatchPowerModeChangedEvent deep wake (pmi_changedL s)) else []) \<and>
        power_state s3 = (if e = ERROR_NONE then wake else deep) \<and> pmi_power s3 = p2 \<and>
        \<not> pmi_selfLock s3 \<and> \<not> mcc_running s3 \<and> pmi_activations s3 = []"
proof -
  let ?deep = POWER_STATE_STANDBY_DEEP_SLEEP
  obtain t0 nw where act: "PWC_ActivateDeepSleep (ck_calendar ck) p = (t0, nw)" by (metis surj_pair)
  let ?t = "wakeup_timeout fs t0"
  let ?r = "attempts (en_deepSleep en) ?t nw 5 False (dsc_dev (pmi_deepSleep s))"
  let ?c = "outcome_call ?t ?r"
  obtain wake why where w: "wake_request en ?c = (wake, why)" by (metis surj_pair)
  have awake: "wake \<noteq> ?deep" using w by (cases ?c) (auto simp: wakeup_state_def split: if_splits)
  have old: "power_state s \<noteq> ?deep" using fresh by (auto simp: fresh_request_def)
  obtain s1 post c1 where q1: "PMI_SetPowerState en ck k ?deep r s = Some (ERROR_NONE, s1, map SubmitPreChange (dispatchEvent
       (OnPowerModePreChange (power_state s) ?deep (pmi_nextTransactionId s + 1)
          (if isSyncStateChange (power_state s) ?deep then 0 else sint (en_preChangeTimeout en))) (pmi_preChangeL s)) @ post)"
    and s1: "pmi_mcc s1 = Some c1" "ack_powerState c1 = ?deep" "pmi_clients s1 = []" "pmi_changedL s1 = pmi_changedL s"
      "pmi_deepSleepL s1 = pmi_deepSleepL s" "pmi_deepSleep s1 = pmi_deepSleep s" "pmi_activations s1 = [(t0, nw)]"
      "pmi_power s1 = p" "post = map Notify (dispatchPowerModeChangedEvent (power_state s) ?deep (pmi_changedL s))"
    by (rule request_immediate [OF pm_reach_inv [OF reach], of ?deep ck en k r])
      (use fresh clients idle accepted act old in \<open>auto simp: fresh_request_def\<close>)
  have deep: "power_state s1 = ?deep"
    using PWC_SetPowerState_state [of "en_power en" "en_val en" "ck_now ck" k ?deep r "pmi_power s"] s1(8)
    by (simp add: accepted power_state_def)
  obtain d where th: "sleep_thread en ck1 fs s1 = (Some ?c, s1\<lparr>pmi_activations := [], pmi_deepSleep := d\<rparr>)"
    and d: "\<not> IsDeepSleepInProgress d"
    by (rule thread_outcome [of s1 t0 nw en ck1 fs]) (use s1 idle in simp_all)
  let ?s2 = "s1\<lparr>pmi_activations := [], pmi_deepSleep := d\<rparr>"
  have reach2: "pm_reach en \<lparr>sy_pmi = ?s2, sy_call = None\<rparr>"
    by (rule pm_reach.step [OF call_reachable [OF reach q1] pm_step.Other])
       (simp add: same_transition_def power_state_def)
  have ps2: "power_state ?s2 = ?deep" using deep by (simp add: power_state_def)
  obtain s3 post2 pre2 where q2: "PMI_SetPowerState en ck2 0 wake why ?s2 = Some (ERROR_NONE, s3, pre2 @ post2)"
    and s3: "\<not> pmi_selfLock s3" "\<not> mcc_running s3" "pmi_activations s3 = []"
      "pmi_power s3 = snd (PWC_SetPowerState (en_power en) (en_val en) (ck_now ck2) 0 wake why p)"
      "post2 = (if fst (PWC_SetPowerState (en_power en) (en_val en) (ck_now ck2) 0 wake why p) = ERROR_NONE
        then map Notify (dispatchPowerModeChangedEvent ?deep wake (pmi_changedL s)) else [])"
    by (rule request_immediate [OF pm_reach_inv [OF reach2], of wake ck2 en 0 why])
      (use awake s1 ps2 d in \<open>auto simp: split_beta Let_def\<close>)
  have ps3: "power_state s3 = (if fst (PWC_SetPowerState (en_power en) (en_val en) (ck_now ck2) 0 wake why p) = ERROR_NONE
      then wake else ?deep)"
    using deep s1(8) s3(4) by (simp add: power_state_def PWC_SetPowerState_state)
  have call: "PMI_deepSleepCall en ck2 ?c ?s2 = Some (s3, timeout_outs ?c (pmi_deepSleepL s) @ pre2 @ post2)"
    using q2 s1(5) w by (simp add: deepSleepCall_request)
  show ?thesis
    using q1 s1(9) deep th call s3 ps3 by (simp add: act w split_beta Let_def del: attempts.simps)
qed


text \<open>An awake device without clients, whose platform follows every request and sleeps at the fourth attempt.\<close>

definition demo_cycle_env :: "(PowerState, nat, unit) pm_env" where
  "demo_cycle_env = demo_pm_env2\<lparr>en_deepSleep := demo_ds\<rparr>"

lemma file_exists_no_files [simp]: "file_exists f no_files = False"
  by (simp add: file_exists_def no_files_def)

lemma cycle_accepts:
  "file_exists ignoreDeepSleepFile (pwc_fs p) = False \<Longrightarrow>
     fst (PWC_SetPowerState (en_power demo_cycle_env) val now k new r p) = ERROR_NONE"
  "new \<noteq> POWER_STATE_STANDBY_DEEP_SLEEP \<Longrightarrow>
     fst (PWC_SetPowerState (en_power demo_cycle_env) val now k new r p) = ERROR_NONE"
  by (simp_all add: PWC_SetPowerState_def Let_def split_beta demo_cycle_env_def demo_pm_env2_def)

text \<open>What other operations may do to a device: put these files and this deep sleep controller in place.\<close>

definition settled :: "(PowerState, nat, unit, nat) pmi \<Rightarrow> (PowerState, nat, unit, nat) pmi" where
  "settled s = s\<lparr>pmi_power := (pmi_power s)\<lparr>pwc_fs := no_files\<rparr>, pmi_deepSleep := DeepSleepController_new 0\<rparr>"

lemma settled_reach:
  "pm_reach en \<lparr>sy_pmi = s, sy_call = None\<rparr> \<Longrightarrow> pm_reach en \<lparr>sy_pmi = settled s, sy_call = None\<rparr>"
  by (erule pm_reach.step [OF _ pm_step.Other]) (simp add: settled_def same_transition_def power_state_def)

lemma settled_fields [simp]:
  "power_state (settled s) = power_state s" "pmi_clients (settled s) = pmi_clients s" "pmi_mcc (settled s) = pmi_mcc s"
  "pmi_activations (settled s) = pmi_activations s" "pmi_deepSleep (settled s) = DeepSleepController_new 0"
  "pwc_fs (pmi_power (settled s)) = no_files"
  by (simp_all add: settled_def power_state_def)

lemma demo_awake:
  "\<exists>s. pm_reach demo_cycle_env \<lparr>sy_pmi = settled s, sy_call = None\<rparr> \<and> pmi_clients s = [] \<and> pmi_activations s = [] \<and>
     power_state s \<noteq> POWER_STATE_STANDBY_DEEP_SLEEP \<and>
     (case pmi_mcc s of None \<Rightarrow> True | Some c \<Rightarrow> ack_powerState c \<noteq> POWER_STATE_STANDBY_DEEP_SLEEP)"
proof -
  let ?s = "settled (PMI_new demo_cycle_env 1 POWER_STATE_ON 0 (thc_members False ()) demo_fs)"
  let ?light = POWER_STATE_STANDBY_LIGHT_SLEEP
  have r: "pm_reach demo_cycle_env \<lparr>sy_pmi = ?s, sy_call = None\<rparr>" by (rule settled_reach [OF pm_reach.start])
  have f: "pmi_clients ?s = []" "pmi_activations ?s = []" "pmi_mcc ?s = None" by (simp_all add: PMI_new_def)
  show ?thesis
  proof (cases "power_state ?s = POWER_STATE_STANDBY_DEEP_SLEEP")
    case False
    with settled_reach [OF r] f show ?thesis by (intro exI [of _ ?s]) simp
  next
    case True
    obtain s1 outs c where q: "PMI_SetPowerState demo_cycle_env demo_clock 0 ?light [] ?s = Some (ERROR_NONE, s1, outs)"
      and s1: "pmi_mcc s1 = Some c" "ack_powerState c = ?light" "pmi_clients s1 = []" "pmi_activations s1 = []"
        "pmi_power s1 = snd (PWC_SetPowerState (en_power demo_cycle_env) (en_val demo_cycle_env) (ck_now demo_clock) 0
          ?light [] (pmi_power ?s))"
      by (rule request_immediate [OF pm_reach_inv [OF r], of ?light demo_clock demo_cycle_env 0 "[]"])
        (use True f in \<open>auto simp: IsDeepSleepInProgress_def DeepSleepController_new_def split_beta Let_def\<close>)
    have "power_state s1 = ?light" by (simp add: power_state_def s1(5) PWC_SetPowerState_state cycle_accepts(2))
    with settled_reach [OF call_reachable [OF r q]] s1 show ?thesis by (intro exI [of _ s1]) simp
  qed
qed

lemma deep_sleep_cycle_witness:
  "\<exists>s s1 s2 s3 :: (PowerState, nat, unit, nat) pmi. \<exists>outs1 outs3. power_state s \<noteq> POWER_STATE_STANDBY_DEEP_SLEEP \<and>
     PMI_SetPowerState demo_cycle_env demo_clock 0 POWER_STATE_STANDBY_DEEP_SLEEP [] s = Some (ERROR_NONE, s1, outs1) \<and>
     power_state s1 = POWER_STATE_STANDBY_DEEP_SLEEP \<and>
     sleep_thread demo_cycle_env demo_clock no_files s1 = (Some (onDeepSleepUserWakeup True), s2) \<and>
     PMI_deepSleepCall demo_cycle_env demo_clock (onDeepSleepUserWakeup True) s2 = Some (s3, outs3) \<and>
     power_state s3 = wakeup_state demo_cycle_env"
proof -
  let ?deep = POWER_STATE_STANDBY_DEEP_SLEEP and ?env = demo_cycle_env
  obtain s where s: "pm_reach ?env \<lparr>sy_pmi = settled s, sy_call = None\<rparr>" "pmi_clients s = []" "pmi_activations s = []"
    "power_state s \<noteq> ?deep" "case pmi_mcc s of None \<Rightarrow> True | Some c \<Rightarrow> ack_powerState c \<noteq> ?deep"
    using demo_awake by blast
  have fresh: "fresh_request ?env demo_clock ?deep (settled s)"
    using s(4,5) by (simp add: fresh_request_def isSyncStateChange_def)
  obtain p where p: "PWC_SetPowerState (en_power ?env) (en_val ?env) (ck_now demo_clock) 0 ?deep [] (pmi_power (settled s)) =
      (ERROR_NONE, p)"
    using cycle_accepts(1) [of "pmi_power (settled s)"]
    by (metis settled_fields(6) file_exists_no_files surjective_pairing)
  have att: "outcome_call t (attempts (en_deepSleep ?env) t nw 5 False 0) = onDeepSleepUserWakeup True" for t nw
    by (simp add: numeral_eq_Suc demo_cycle_env_def demo_ds_def outcome_call_def)
  have dev: "dsc_dev (DeepSleepController_new (0 :: nat)) = 0" "\<not> IsDeepSleepInProgress (pmi_deepSleep (settled s))"
    "dsc_delayJob (pmi_deepSleep (settled s)) = None"
    by (simp_all add: DeepSleepController_new_def IsDeepSleepInProgress_def)
  have wake: "fst (PWC_SetPowerState (en_power ?env) (en_val ?env) (ck_now demo_clock) 0 (wakeup_state ?env) r p) = ERROR_NONE" for r
    by (rule cycle_accepts(2)) (simp add: wakeup_state_def)
  have "\<exists>s1 s2 s3 outs1 outs3.
     PMI_SetPowerState ?env demo_clock 0 ?deep [] (settled s) = Some (ERROR_NONE, s1, outs1) \<and> power_state s1 = ?deep \<and>
     sleep_thread ?env demo_clock no_files s1 = (Some (onDeepSleepUserWakeup True), s2) \<and>
     PMI_deepSleepCall ?env demo_clock (onDeepSleepUserWakeup True) s2 = Some (s3, outs3) \<and>
     power_state s3 = wakeup_state ?env"
    using deep_sleep_cycle [OF s(1) fresh _ _ dev(2,3) p, of no_files demo_clock demo_clock] s(2,3) wake
    by (simp add: dev(1) att split_beta Let_def del: attempts.simps PMI_deepSleepCall.simps) blast
  with s(4) show ?thesis using settled_fields(1) [of s] by metis
qed


section \<open>A stay that clients are asked about\<close>

lemma complete_all_reach:
  "pm_reach en \<lparr>sy_pmi = s, sy_call = c\<rparr> \<Longrightarrow> complete_all en qs tid s = (s1, outs) \<Longrightarrow>
     pm_reach en \<lparr>sy_pmi = s1, sy_call = c\<rparr>"
proof (induction qs arbitrary: s s1 outs)
  case (Cons q qs)
  obtain i ck where q: "q = (i, ck)" by (cases q)
  obtain e r o1 where a: "PMI_PowerModePreChangeComplete en ck i tid s = (e, r, o1)" by (metis prod_cases3)
  obtain s2 o2 where b: "complete_all en qs tid r = (s2, o2)" by (metis surj_pair)
  from Cons.IH [OF pm_reach.step [OF Cons.prems(1) pm_step.AckOp [OF a]] b] Cons.prems(2) a b q show ?case by simp
qed simp

lemma only_mcc_sleep:
  "only_mcc s r \<Longrightarrow> pmi_activations r = pmi_activations s \<and> pmi_deepSleep r = pmi_deepSleep s \<and>
     pmi_clients r = pmi_clients s \<and> pmi_nextTransactionId r = pmi_nextTransactionId s"
  unfolding only_mcc_def by (metis pmi.select_convs(2,3,6,8) pmi.surjective pmi.update_convs(5))

text \<open>The last acknowledgement carries out the change to deep sleep and queues the activation.\<close>

lemma acknowledged_deep_sleep:
  assumes w: "awaiting h tid P s" and deep: "hd_newState h = POWER_STATE_STANDBY_DEEP_SLEEP"
    and acks: "distinct (map fst (qs @ [(i, ck)]))" "set (map fst (qs @ [(i, ck)])) = P"
    and accepted: "PWC_SetPowerState (en_power en) (en_val en) (ck_now ck) (hd_keyCode h) POWER_STATE_STANDBY_DEEP_SLEEP
      (hd_reason h) (pmi_power s) = (ERROR_NONE, p)"
  obtains s1 c where "complete_all en (qs @ [(i, ck)]) tid s =
      (s1, map Notify (dispatchPowerModeChangedEvent (hd_currState h) POWER_STATE_STANDBY_DEEP_SLEEP (pmi_changedL s)))"
    "pmi_mcc s1 = Some c" "ack_powerState c = POWER_STATE_STANDBY_DEEP_SLEEP" "pmi_power s1 = p"
    "pmi_activations s1 = pmi_activations s @ [PWC_ActivateDeepSleep (ck_calendar ck) p]"
    "pmi_deepSleep s1 = pmi_deepSleep s" "pmi_clients s1 = pmi_clients s" "pmi_nextTransactionId s1 = pmi_nextTransactionId s"
proof -
  obtain s1 outs where r: "complete_all en (qs @ [(i, ck)]) tid s = (s1, outs)" by (metis surj_pair)
  obtain m c where m: "only_mcc s m" "(s1, outs) = completionHandler en ck h False False (m\<lparr>pmi_mcc := Some c\<rparr>)"
    "ack_powerState c = hd_newState h" using complete_full [OF w acks r] by metis
  note f = only_mcc_fields [OF m(1)] only_mcc_sleep [OF m(1)]
  have s1: "s1 = fst (completionHandler en ck h False False (m\<lparr>pmi_mcc := Some c\<rparr>))"
    "outs = snd (completionHandler en ck h False False (m\<lparr>pmi_mcc := Some c\<rparr>))" using m(2) by (metis fst_conv, metis snd_conv)
  show ?thesis
    by (rule that [of s1 c]) (use r s1 m(3) deep accepted f in
      \<open>simp_all add: completionHandler_power_state setDevicePowerState_def Let_def split_beta\<close>)
qed

text \<open>
  C12. A transition to deep sleep that registered clients are asked about: the acknowledgement that
  is the last, whatever the order, carries it out, announces it, and queues the activation; the
  platform is asked as without clients. When the timer ends the sleep, or the build wakes to light
  sleep, the device is awake again when the callback returns, although the clients are still
  registered: they are not waited for. Otherwise the waking is negotiated with them anew.
\<close>

theorem negotiated_deep_sleep:
  assumes reach: "pm_reach en \<lparr>sy_pmi = s, sy_call = None\<rparr>" and w: "awaiting h tid P s"
    and deep: "hd_newState h = POWER_STATE_STANDBY_DEEP_SLEEP"
    and acks: "distinct (map fst (qs @ [(i, ck)]))" "set (map fst (qs @ [(i, ck)])) = P"
    and clients: "pmi_clients s \<noteq> []" and timeout: "en_preChangeTimeout en * 1000 \<noteq> 0"
    and idle: "pmi_activations s = []" "\<not> IsDeepSleepInProgress (pmi_deepSleep s)" "dsc_delayJob (pmi_deepSleep s) = None"
    and accepted: "PWC_SetPowerState (en_power en) (en_val en) (ck_now ck) (hd_keyCode h) POWER_STATE_STANDBY_DEEP_SLEEP
      (hd_reason h) (pmi_power s) = (ERROR_NONE, p)"
  shows "let asleep = POWER_STATE_STANDBY_DEEP_SLEEP;
     (t0, nw) = PWC_ActivateDeepSleep (ck_calendar ck) p; t = wakeup_timeout fs t0;
     c = outcome_call t (attempts (en_deepSleep en) t nw 5 False (dsc_dev (pmi_deepSleep s)));
     (wake, why) = wake_request en c;
     (e, p2) = PWC_SetPowerState (en_power en) (en_val en) (ck_now ck2) 0 wake why p
     in \<exists>s1 s2 s3 outs3.
        complete_all en (qs @ [(i, ck)]) tid s =
          (s1, map Notify (dispatchPowerModeChangedEvent (hd_currState h) asleep (pmi_changedL s))) \<and>
        power_state s1 = asleep \<and> sleep_thread en ck1 fs s1 = (Some c, s2) \<and>
        PMI_deepSleepCall en ck2 c s2 = Some (s3, outs3) \<and> \<not> pmi_selfLock s3 \<and> pmi_clients s3 = pmi_clients s \<and>
        (if wake = POWER_STATE_STANDBY_LIGHT_SLEEP
         then pmi_power s3 = p2 \<and> \<not> mcc_running s3 \<and> power_state s3 = (if e = ERROR_NONE then wake else asleep)
         else pmi_power s3 = p \<and> power_state s3 = asleep \<and>
           awaiting (request_handler 0 wake why s2) (pmi_nextTransactionId s + 1) (set (map fst (pmi_clients s))) s3)"
proof -
  let ?deep = POWER_STATE_STANDBY_DEEP_SLEEP
  obtain t0 nw where act: "PWC_ActivateDeepSleep (ck_calendar ck) p = (t0, nw)" by (metis surj_pair)
  let ?t = "wakeup_timeout fs t0"
  let ?r = "attempts (en_deepSleep en) ?t nw 5 False (dsc_dev (pmi_deepSleep s))"
  let ?c = "outcome_call ?t ?r"
  obtain wake why where w2: "wake_request en ?c = (wake, why)" by (metis surj_pair)
  have awake: "wake \<noteq> ?deep" using w2 by (cases ?c) (auto simp: wakeup_state_def split: if_splits)
  obtain s1 c1 where a: "complete_all en (qs @ [(i, ck)]) tid s =
      (s1, map Notify (dispatchPowerModeChangedEvent (hd_currState h) ?deep (pmi_changedL s)))"
    and s1: "pmi_mcc s1 = Some c1" "ack_powerState c1 = ?deep" "pmi_power s1 = p" "pmi_activations s1 = [(t0, nw)]"
      "pmi_deepSleep s1 = pmi_deepSleep s" "pmi_clients s1 = pmi_clients s" "pmi_nextTransactionId s1 = pmi_nextTransactionId s"
    by (rule acknowledged_deep_sleep [OF w deep acks accepted]) (simp add: idle(1) act)
  have ps: "power_state s1 = ?deep"
    using PWC_SetPowerState_state [of "en_power en" "en_val en" "ck_now ck" "hd_keyCode h" ?deep "hd_reason h" "pmi_power s"] s1(3)
    by (simp add: accepted power_state_def)
  obtain d where th: "sleep_thread en ck1 fs s1 = (Some ?c, s1\<lparr>pmi_activations := [], pmi_deepSleep := d\<rparr>)"
    and d: "\<not> IsDeepSleepInProgress d"
    by (rule thread_outcome [of s1 t0 nw en ck1 fs]) (use s1 idle in simp_all)
  let ?s2 = "s1\<lparr>pmi_activations := [], pmi_deepSleep := d\<rparr>"
  have reach2: "pm_reach en \<lparr>sy_pmi = ?s2, sy_call = None\<rparr>"
    by (rule pm_reach.step [OF complete_all_reach [OF reach a] pm_step.Other])
       (simp add: same_transition_def power_state_def)
  have ps2: "power_state ?s2 = ?deep" using ps by (simp add: power_state_def)
  have sync: "isSyncStateChange (power_state ?s2) wake \<longleftrightarrow> wake = POWER_STATE_STANDBY_LIGHT_SLEEP"
    using ps2 by (simp add: isSyncStateChange_def)
  have "\<exists>s3 outs3. PMI_deepSleepCall en ck2 ?c ?s2 = Some (s3, outs3) \<and> \<not> pmi_selfLock s3 \<and> pmi_clients s3 = pmi_clients s \<and>
      (if wake = POWER_STATE_STANDBY_LIGHT_SLEEP
       then pmi_power s3 = snd (PWC_SetPowerState (en_power en) (en_val en) (ck_now ck2) 0 wake why p) \<and> \<not> mcc_running s3
       else pmi_power s3 = p \<and> awaiting (request_handler 0 wake why ?s2) (pmi_nextTransactionId s + 1) (set (map fst (pmi_clients s))) s3)"
  proof (cases "wake = POWER_STATE_STANDBY_LIGHT_SLEEP")
    case True
    obtain s3 o3 where q: "PMI_SetPowerState en ck2 0 wake why ?s2 = Some (ERROR_NONE, s3, o3)"
      and s3: "\<not> pmi_selfLock s3" "\<not> mcc_running s3" "pmi_clients s3 = pmi_clients s"
        "pmi_power s3 = snd (PWC_SetPowerState (en_power en) (en_val en) (ck_now ck2) 0 wake why p)"
      by (rule request_immediate [OF pm_reach_inv [OF reach2], of wake ck2 en 0 why])
        (use awake s1 ps2 d sync True in \<open>auto simp: split_beta Let_def\<close>)
    then show ?thesis using True w2 by (simp add: deepSleepCall_request)
  next
    case False
    have fresh: "fresh_request en ck2 wake ?s2"
      using awake s1 ps2 d sync False by (simp add: fresh_request_def)
    obtain s3 where q: "PMI_SetPowerState en ck2 0 wake why ?s2 = Some (ERROR_NONE, s3, map SubmitPreChange (dispatchEvent
        (OnPowerModePreChange (power_state ?s2) wake (pmi_nextTransactionId ?s2 + 1) (sint (en_preChangeTimeout en))) (pmi_preChangeL ?s2)))"
      and s3: "awaiting (request_handler 0 wake why ?s2) (pmi_nextTransactionId ?s2 + 1) (set (map fst (pmi_clients ?s2))) s3"
        "pmi_power s3 = pmi_power ?s2" "\<not> pmi_selfLock s3" "pmi_clients s3 = pmi_clients ?s2"
      by (rule request_starts [OF pm_reach_ok [OF reach2] fresh _ timeout]) (use clients s1 in simp_all)
    then show ?thesis using False w2 s1 by (simp add: deepSleepCall_request)
  qed
  then obtain s3 outs3 where c: "PMI_deepSleepCall en ck2 ?c ?s2 = Some (s3, outs3)" "\<not> pmi_selfLock s3" "pmi_clients s3 = pmi_clients s"
    "if wake = POWER_STATE_STANDBY_LIGHT_SLEEP
       then pmi_power s3 = snd (PWC_SetPowerState (en_power en) (en_val en) (ck_now ck2) 0 wake why p) \<and> \<not> mcc_running s3
       else pmi_power s3 = p \<and> awaiting (request_handler 0 wake why ?s2) (pmi_nextTransactionId s + 1) (set (map fst (pmi_clients s))) s3"
    by blast
  have "st_powerState (pwc_settings p) = ?deep" using ps s1(3) by (simp add: power_state_def)
  then have "power_state s3 = (if wake = POWER_STATE_STANDBY_LIGHT_SLEEP
      then (if fst (PWC_SetPowerState (en_power en) (en_val en) (ck_now ck2) 0 wake why p) = ERROR_NONE then wake else ?deep) else ?deep)"
    using c(4) by (auto simp: power_state_def PWC_SetPowerState_state)
  with a ps th c show ?thesis
    unfolding Let_def act w2 split_beta prod.case fst_conv snd_conv
    by (intro exI [of _ s1] exI [of _ ?s2] exI [of _ s3] exI [of _ outs3]) auto
qed


lemma demo_asked:
  obtains s j tid h where "pm_reach demo_cycle_env \<lparr>sy_pmi = settled s, sy_call = None\<rparr>" "awaiting h tid {j} (settled s)"
    "hd_newState h = POWER_STATE_STANDBY_DEEP_SLEEP" "pmi_clients (settled s) \<noteq> []" "pmi_activations (settled s) = []"
proof -
  let ?deep = POWER_STATE_STANDBY_DEEP_SLEEP and ?env = demo_cycle_env
  obtain s where s: "pm_reach ?env \<lparr>sy_pmi = settled s, sy_call = None\<rparr>" "pmi_clients s = []" "power_state s \<noteq> ?deep"
    "case pmi_mcc s of None \<Rightarrow> True | Some c \<Rightarrow> ack_powerState c \<noteq> ?deep"
    using demo_awake by blast
  obtain e j s1 where a: "PMI_AddPowerModePreChangeClient ''app'' 0 (settled s) = (e, j, s1)" by (metis prod_cases3)
  then have s1: "pmi_clients s1 = [(j, ''app'')]" "pmi_mcc s1 = pmi_mcc s" "power_state s1 = power_state s"
    using s(2) by (auto simp: PMI_AddPowerModePreChangeClient_def power_state_def settled_def Let_def)
  note r1 = pm_reach.step [OF s(1) pm_step.AddClient [OF a]]
  have fresh: "fresh_request ?env demo_clock ?deep s1"
    using s(3,4) s1 by (simp add: fresh_request_def isSyncStateChange_def)
  have timeout: "en_preChangeTimeout ?env * 1000 \<noteq> 0" by (simp add: demo_cycle_env_def demo_pm_env2_def demo_pm_env_def)
  obtain s2 where q: "PMI_SetPowerState ?env demo_clock 0 ?deep [] s1 = Some (ERROR_NONE, s2, map SubmitPreChange (dispatchEvent
      (OnPowerModePreChange (power_state s1) ?deep (pmi_nextTransactionId s1 + 1) (sint (en_preChangeTimeout ?env))) (pmi_preChangeL s1)))"
    and w: "awaiting (request_handler 0 ?deep [] s1) (pmi_nextTransactionId s1 + 1) (set (map fst (pmi_clients s1))) s2"
      "pmi_clients s2 = pmi_clients s1"
    by (rule request_starts [OF pm_reach_ok [OF r1] fresh _ timeout]) (simp add: s1)
  let ?s = "s2\<lparr>pmi_activations := []\<rparr>"
  have "pm_reach ?env \<lparr>sy_pmi = ?s, sy_call = None\<rparr>"
    by (rule pm_reach.step [OF call_reachable [OF r1 q] pm_step.Other]) (simp add: same_transition_def power_state_def)
  from that [OF settled_reach [OF this], of "request_handler 0 ?deep [] s1" "pmi_nextTransactionId s1 + 1" j] w s1
  show thesis by (simp add: awaiting_def request_handler_def)
qed

lemma negotiated_deep_sleep_witness:
  "\<exists>s s1 s2 s3 :: (PowerState, nat, unit, nat) pmi. \<exists>j tid h outs1 outs3. awaiting h tid {j} s \<and> pmi_clients s \<noteq> [] \<and>
     complete_all demo_cycle_env ([] @ [(j, demo_clock)]) tid s = (s1, outs1) \<and>
     power_state s1 = POWER_STATE_STANDBY_DEEP_SLEEP \<and>
     sleep_thread demo_cycle_env demo_clock no_files s1 = (Some (onDeepSleepUserWakeup True), s2) \<and>
     PMI_deepSleepCall demo_cycle_env demo_clock (onDeepSleepUserWakeup True) s2 = Some (s3, outs3) \<and>
     mcc_running s3"
proof -
  let ?env = demo_cycle_env
  obtain s j tid h where s: "pm_reach ?env \<lparr>sy_pmi = settled s, sy_call = None\<rparr>" "awaiting h tid {j} (settled s)"
    "hd_newState h = POWER_STATE_STANDBY_DEEP_SLEEP" "pmi_clients (settled s) \<noteq> []" "pmi_activations (settled s) = []"
    by (rule demo_asked)
  have acks: "distinct (map fst ([] @ [(j, demo_clock)]))" "set (map fst ([] @ [(j, demo_clock)])) = {j}" by simp_all
  have timeout: "en_preChangeTimeout ?env * 1000 \<noteq> 0" by (simp add: demo_cycle_env_def demo_pm_env2_def demo_pm_env_def)
  obtain p where p: "PWC_SetPowerState (en_power ?env) (en_val ?env) (ck_now demo_clock) (hd_keyCode h) POWER_STATE_STANDBY_DEEP_SLEEP
      (hd_reason h) (pmi_power (settled s)) = (ERROR_NONE, p)"
    using cycle_accepts(1) [of "pmi_power (settled s)"] by (metis settled_fields(6) file_exists_no_files surjective_pairing)
  have att: "outcome_call t (attempts (en_deepSleep ?env) t nw 5 False 0) = onDeepSleepUserWakeup True" for t nw
    by (simp add: numeral_eq_Suc demo_cycle_env_def demo_ds_def outcome_call_def)
  have dev: "dsc_dev (DeepSleepController_new (0 :: nat)) = 0" "\<not> IsDeepSleepInProgress (pmi_deepSleep (settled s))"
    "dsc_delayJob (pmi_deepSleep (settled s)) = None"
    by (simp_all add: DeepSleepController_new_def IsDeepSleepInProgress_def)
  have on: "wakeup_state ?env = POWER_STATE_ON" by (simp add: wakeup_state_def demo_cycle_env_def demo_pm_env2_def demo_pm_env_def)
  have "\<exists>s1 s2 s3 outs1 outs3. complete_all ?env ([] @ [(j, demo_clock)]) tid (settled s) = (s1, outs1) \<and>
     power_state s1 = POWER_STATE_STANDBY_DEEP_SLEEP \<and>
     sleep_thread ?env demo_clock no_files s1 = (Some (onDeepSleepUserWakeup True), s2) \<and>
     PMI_deepSleepCall ?env demo_clock (onDeepSleepUserWakeup True) s2 = Some (s3, outs3) \<and> mcc_running s3"
    using negotiated_deep_sleep [OF s(1-3) acks s(4) timeout s(5) dev(2,3) p, of no_files demo_clock demo_clock]
    by (simp add: dev(1) att on split_beta Let_def awaiting_def mcc_running_def
        del: attempts.simps PMI_deepSleepCall.simps complete_all.simps) fastforce
  with s(2,4) show ?thesis by blast
qed

end
