(* ===== verification/PowerClients.thy ===== *)
theory PowerClients
  imports PowerTransitions
begin

text \<open>
  The clients of \<^verbatim>\<open>PowerManagerImplementation\<close>: the table of pre-change clients, and the
  network standby mode that the wake-up sources of the network determine.
\<close>

section \<open>The table of pre-change clients\<close>

definition clients_inv :: "(u32 \<times> string) list \<Rightarrow> bool" where
  "clients_inv cs \<longleftrightarrow> distinct (map fst cs) \<and> distinct (map snd cs)"

lemma update_names: "set (map snd (AList.update i x cs)) \<subseteq> insert x (set (map snd cs))"
  by (induction cs) auto

lemma clients_inv_update:
  "clients_inv cs \<Longrightarrow> x \<notin> set (map snd cs) \<Longrightarrow> clients_inv (AList.update i x cs)"
proof -
  have "distinct (map snd cs) \<Longrightarrow> x \<notin> set (map snd cs) \<Longrightarrow> distinct (map snd (AList.update i x cs))"
  proof (induction cs)
    case (Cons c cs)
    then show ?case using update_names [of i x cs] by (cases c) (auto simp del: AList.update_conv')
  qed simp
  then show "clients_inv cs \<Longrightarrow> x \<notin> set (map snd cs) \<Longrightarrow> clients_inv (AList.update i x cs)"
    by (simp add: clients_inv_def distinct_update)
qed

lemma clients_inv_delete: "clients_inv cs \<Longrightarrow> clients_inv (AList.delete i cs)"
  by (auto simp: clients_inv_def AList.delete_eq distinct_map_filter)

lemma find_name: "List.find (\<lambda>c. snd c = x) cs = None \<longleftrightarrow> x \<notin> set (map snd cs)"
  by (force simp: find_None_iff)

lemma find_known: "clients_inv cs \<Longrightarrow> map_of cs i = Some x \<Longrightarrow> List.find (\<lambda>c. snd c = x) cs = Some (i, x)"
proof (induction cs)
  case (Cons c cs)
  have "clients_inv cs" using Cons.prems(1) by (simp add: clients_inv_def)
  moreover have "map_of cs i = Some x \<Longrightarrow> x \<in> snd ` set cs" by (force dest: map_of_SomeD)
  ultimately show ?case using Cons by (cases c) (auto simp: clients_inv_def split: if_splits)
qed simp

lemma Add_known:
  assumes "clients_inv (pmi_clients s)" "x \<noteq> []" "PMI_AddPowerModePreChangeClient x i s = (e, j, s1)"
  shows "e = ERROR_NONE \<and> map_of (pmi_clients s1) j = Some x"
proof (cases "List.find (\<lambda>c. snd c = x) (pmi_clients s)")
  case None
  with assms(2,3) show ?thesis
    by (auto simp: PMI_AddPowerModePreChangeClient_def Let_def update_conv')
next
  case (Some c)
  then have "(fst c, x) \<in> set (pmi_clients s)" by (auto simp: find_Some_iff in_set_conv_nth)
  with Some assms show ?thesis
    by (auto simp: PMI_AddPowerModePreChangeClient_def clients_inv_def)
qed

lemma Add_clients_inv:
  "clients_inv (pmi_clients s) \<Longrightarrow> clients_inv (pmi_clients (snd (snd (PMI_AddPowerModePreChangeClient x i s))))"
  by (auto simp: PMI_AddPowerModePreChangeClient_def Let_def find_name clients_inv_update split: option.splits)

lemma prepare_clients: "pmi_clients (fst (snd (sps_prepare en ck new s))) = pmi_clients s"
  by (auto simp: sps_prepare_def Let_def split_beta split: option.splits)

lemma schedule_clients: "pmi_clients (fst (sps_schedule en ck k cur new sync tid r s)) = pmi_clients s"
  by (auto simp: sps_schedule_def Let_def split_beta split: option.splits)

lemma read_clients: "pmi_clients (snd (sps_read en ck new s)) = pmi_clients s"
  by (auto simp: sps_read_def Let_def split_beta)

lemma complete_clients: "pmi_clients (fst (snd (PMI_PowerModePreChangeComplete en ck i tid s))) = pmi_clients s"
  by (auto simp: PMI_PowerModePreChangeComplete_def Let_def split_beta split: option.splits)

lemma delay_clients: "pmi_clients (snd (PMI_DelayPowerModeChangeBy ck i tid d s)) = pmi_clients s"
  by (auto simp: PMI_DelayPowerModeChangeBy_def Let_def split_beta split: option.splits)

lemma timer_clients: "pmi_clients (fst (PMI_AckTimer en ck s)) = pmi_clients s"
  by (auto simp: PMI_AckTimer_def Let_def split_beta split: option.splits)

lemma remove_clients:
  "pmi_clients (fst (snd (PMI_RemovePowerModePreChangeClient en ck i s))) =
     (if map_of (pmi_clients s) i = None then pmi_clients s else AList.delete i (pmi_clients s))"
  by (auto simp: PMI_RemovePowerModePreChangeClient_def Let_def split_beta split: option.splits)

lemma pm_step_clients:
  "pm_step en S outs S' \<Longrightarrow> clients_inv (pmi_clients (sy_pmi S)) \<Longrightarrow> clients_inv (pmi_clients (sy_pmi S'))"
proof (induction rule: pm_step.induct)
  case (Return s ck new e s1) with read_clients [of en ck new s] show ?case by simp
next
  case (Read s ck new cur sync s1 k reason) with read_clients [of en ck new s] show ?case by simp
next
  case (Redundant ck new s s1 outs k reason cur sync) with prepare_clients [of en ck new s] show ?case by simp
next
  case (Prepare ck new s tid s1 outs k reason cur sync) with prepare_clients [of en ck new s] show ?case by simp
next
  case (Sched ck k cur new sync tid reason s s1 outs)
  with schedule_clients [of en ck k cur new sync tid reason s] show ?case by simp
next
  case (AckOp ck i tid s e s1 outs c) with complete_clients [of en ck i tid s] show ?case by simp
next
  case (DelayOp ck i tid d s e s1 c) with delay_clients [of ck i tid d s] show ?case by simp
next
  case (AddClient name i s e j s1 c) with Add_clients_inv [of s name i] show ?case by simp
next
  case (RemoveClient ck i s e s1 outs c)
  with remove_clients [of en ck i s] show ?case by (simp add: clients_inv_delete split: if_splits)
next
  case (Timer s ctl ck s1 outs c) with timer_clients [of en ck s] show ?case by simp
next
  case (Other s s1 c) then show ?case by (simp add: same_transition_def)
qed

lemma pm_reach_clients: "pm_reach en S \<Longrightarrow> clients_inv (pmi_clients (sy_pmi S))"
proof (induction rule: pm_reach.induct)
  case (start now p d th fs) show ?case by (simp add: PMI_new_def clients_inv_def)
next
  case (step S outs S') from step.hyps(2) step.IH show ?case by (rule pm_step_clients)
qed

text \<open>
  C34. Whatever the interleaving, no two pre-change clients share an identifier or a name.
  Registering a name makes it known under the identifier that is returned, registering it again
  returns the same identifier and changes nothing, and after removal the identifier is unknown.
\<close>

theorem client_registration:
  assumes "pm_reach en S" and "name \<noteq> []"
  shows "distinct (map fst (pmi_clients (sy_pmi S))) \<and> distinct (map snd (pmi_clients (sy_pmi S))) \<and>
    (let (e, id, s1) = PMI_AddPowerModePreChangeClient name i (sy_pmi S);
         (e2, s2, outs) = PMI_RemovePowerModePreChangeClient en ck id s1
     in e = ERROR_NONE \<and> map_of (pmi_clients s1) id = Some name \<and>
        PMI_AddPowerModePreChangeClient name j s1 = (ERROR_NONE, id, s1) \<and>
        e2 = ERROR_NONE \<and> map_of (pmi_clients s2) id = None)"
proof -
  let ?s = "sy_pmi S"
  have inv: "clients_inv (pmi_clients ?s)" by (rule pm_reach_clients [OF assms(1)])
  obtain e id s1 where a: "PMI_AddPowerModePreChangeClient name i ?s = (e, id, s1)" by (metis prod_cases3)
  obtain e2 s2 outs where r: "PMI_RemovePowerModePreChangeClient en ck id s1 = (e2, s2, outs)" by (metis prod_cases3)
  have inv1: "clients_inv (pmi_clients s1)" using Add_clients_inv [OF inv, of name i] a by simp
  note known = Add_known [OF inv assms(2) a]
  then have "PMI_AddPowerModePreChangeClient name j s1 = (ERROR_NONE, id, s1)"
    using find_known [OF inv1, of id name] assms(2) by (simp add: PMI_AddPowerModePreChangeClient_def)
  moreover have "e2 = ERROR_NONE" using r known
    by (auto simp: PMI_RemovePowerModePreChangeClient_def Let_def split_beta split: option.splits)
  moreover have "map_of (pmi_clients s2) id = None"
    using remove_clients [of en ck id s1] r known by (simp add: delete_conv')
  ultimately show ?thesis using inv known a r by (simp add: clients_inv_def)
qed

lemma client_registration_witness:
  "let (e, id, s1) = PMI_AddPowerModePreChangeClient ''ui'' 0 demo_pmi1
   in PMI_AddPowerModePreChangeClient ''ui'' 0 s1 = (ERROR_NONE, id, s1)"
  using client_registration [OF demo_reach, of "''ui''" 0] by (simp add: split_beta Let_def)

section \<open>Network standby\<close>

lemma SetNetworkStandbyMode_ok:
  "fst (PWC_SetNetworkStandbyMode pl val b p) = ERROR_NONE \<Longrightarrow>
     st_nwStandbyMode (pwc_settings (snd (PWC_SetNetworkStandbyMode pl val b p))) = b"
  by (auto simp: PWC_SetNetworkStandbyMode_def Let_def split_beta SetNwStandbyMode_def split: if_splits)

lemma PMI_standby_mode: "PMI_GetNetworkStandbyMode s = (ERROR_NONE, st_nwStandbyMode (pwc_settings (pmi_power s)))"
  by (simp add: PMI_GetNetworkStandbyMode_def PWC_GetNetworkStandbyMode_def)

lemma PMI_SetNetworkStandbyMode_ok:
  "PMI_SetNetworkStandbyMode en b s = (ERROR_NONE, s1, outs) \<Longrightarrow>
     snd (PMI_GetNetworkStandbyMode s1) = b \<and>
     outs = map Notify (dispatchNetworkStandbyModeChangedEvent b (pmi_networkL s))"
  by (auto simp: PMI_SetNetworkStandbyMode_def Let_def split_beta PMI_standby_mode
      SetNetworkStandbyMode_ok)

text \<open>
  C35. A successful configuration of the wake-up sources keeps the network standby mode in step
  with them: when afterwards Wi-Fi and LAN are both enabled the mode is on, when both are
  disabled it is off, otherwise it stays as it was; its notification objects are told exactly
  when it changes.
\<close>

theorem network_standby_follows_sources:
  assumes "setWakeupSourceConfig en configs s = (ERROR_NONE, s1, outs)"
  shows "\<exists>cfg. getWakeupSourceConfig en []
       (s\<lparr>pmi_power := snd (PWC_SetWakeupSourceConfig (en_power en) configs (pmi_power s))\<rparr>) = (ERROR_NONE, cfg) \<and>
     snd (PMI_GetNetworkStandbyMode s1) =
       (if isWakeupSrcEnabled cfg WAKEUP_SRC_WIFI = isWakeupSrcEnabled cfg WAKEUP_SRC_LAN
        then isWakeupSrcEnabled cfg WAKEUP_SRC_WIFI else snd (PMI_GetNetworkStandbyMode s)) \<and>
     outs = (if snd (PMI_GetNetworkStandbyMode s1) = snd (PMI_GetNetworkStandbyMode s) then []
             else map Notify (dispatchNetworkStandbyModeChangedEvent (snd (PMI_GetNetworkStandbyMode s1)) (pmi_networkL s)))"
proof -
  let ?p = "snd (PWC_SetWakeupSourceConfig (en_power en) configs (pmi_power s))"
  let ?s = "s\<lparr>pmi_power := ?p\<rparr>"
  have same: "snd (PMI_GetNetworkStandbyMode ?s) = snd (PMI_GetNetworkStandbyMode s)"
    by (simp add: PMI_standby_mode SetWakeupSourceConfig_frame)
  have ok: "fst (PWC_SetWakeupSourceConfig (en_power en) configs (pmi_power s)) = ERROR_NONE"
    using assms by (auto simp: setWakeupSourceConfig_def Let_def split_beta split: if_splits)
  obtain e cfg where c: "getWakeupSourceConfig en [] ?s = (e, cfg)" by (metis surj_pair)
  have e: "e = ERROR_NONE" using assms ok c
    by (auto simp: setWakeupSourceConfig_def Let_def split_beta split: if_splits)
  let ?w = "isWakeupSrcEnabled cfg WAKEUP_SRC_WIFI" and ?l = "isWakeupSrcEnabled cfg WAKEUP_SRC_LAN"
  let ?m = "snd (PMI_GetNetworkStandbyMode s)"
  have r: "(ERROR_NONE, s1, outs) = (if ?w \<noteq> ?l \<or> ?w = ?m then (ERROR_NONE, ?s, []) else PMI_SetNetworkStandbyMode en ?w ?s)"
    using assms ok c e same
    by (auto simp: setWakeupSourceConfig_def Let_def split_beta PMI_standby_mode split: if_splits)
  show ?thesis
  proof (cases "?w \<noteq> ?l \<or> ?w = ?m")
    case True
    with r c e same show ?thesis by auto
  next
    case False
    have "PMI_SetNetworkStandbyMode en ?w ?s = (ERROR_NONE, s1, outs)"
      using r unfolding if_not_P [OF False] by simp
    from PMI_SetNetworkStandbyMode_ok [OF this] False c e show ?thesis by auto
  qed
qed

lemma network_standby_follows_sources_witness:
  "let s = demo_pmi1\<lparr>pmi_power := demo_pwc\<lparr>pwc_settings := demo_settings\<lparr>st_nwStandbyMode := False\<rparr>\<rparr>\<rparr>
   in \<exists>s1 outs. setWakeupSourceConfig demo_pm_env
          [\<lparr>wsc_wakeupSource = WAKEUP_SRC_WIFI, wsc_enabled = False\<rparr>] s = (ERROR_NONE, s1, outs) \<and>
        \<not> snd (PMI_GetNetworkStandbyMode s1)"
proof -
  let ?s = "demo_pmi1\<lparr>pmi_power := demo_pwc\<lparr>pwc_settings := demo_settings\<lparr>st_nwStandbyMode := False\<rparr>\<rparr>\<rparr>"
  let ?c = "[\<lparr>wsc_wakeupSource = WAKEUP_SRC_WIFI, wsc_enabled = False\<rparr>]"
  have g: "ipp_GetWakeupSrc (en_power demo_pm_env) = (\<lambda>src en b p. (ERROR_NONE, False, True))"
    and w: "ipp_SetWakeupSrc (en_power demo_pm_env) = (\<lambda>src en b p. (ERROR_NONE, True, p))"
    by (simp_all add: demo_pm_env_def demo_power_def)
  have off: "\<not> isWakeupSrcEnabled (snd (get_wakeup_srcs (en_power demo_pm_env) p srcs b cs)) src"
    if "\<forall>c \<in> set cs. \<not> wsc_enabled c" for p srcs b cs src
    using that
    by (induction srcs arbitrary: b cs) (auto simp: g isWakeupSrcEnabled_def find_Some_iff split: option.splits)
  have ok: "fst (get_wakeup_srcs (en_power demo_pm_env) p srcs b cs) = b" for p srcs b cs
    by (induction srcs arbitrary: b cs) (auto simp: g)
  obtain s1 outs where r: "setWakeupSourceConfig demo_pm_env ?c ?s = (ERROR_NONE, s1, outs)"
    by (simp add: setWakeupSourceConfig_def PWC_SetWakeupSourceConfig_def w getWakeupSourceConfig_def
        PWC_GetWakeupSourceConfig_def split_beta ok off PMI_standby_mode Let_def)
  from network_standby_follows_sources [OF r] have "\<not> snd (PMI_GetNetworkStandbyMode s1)"
    by (auto simp: getWakeupSourceConfig_def PWC_GetWakeupSourceConfig_def split_beta off PMI_standby_mode)
  with r show ?thesis by (simp add: Let_def)
qed

end
