(* ===== verification/PowerSpec.thy ===== *)
theory PowerSpec
  imports PowerTransitions
begin

text \<open>
  What \<^verbatim>\<open>PowerManagerImplementation\<close> promises about the power state, without locks, timers,
  transaction ids and calls in progress: a negotiation. A request names a target and the clients
  to wait for; clients get done; the target is committed, or refused by the platform, when all are
  done, at the timeout, or at once when the device is woken to light sleep; a later request
  replaces a pending one. The interleaved model is shown to refine it step by step.
\<close>

section \<open>The negotiation\<close>

record negotiation =
  ng_state :: PowerState
  ng_pending :: "(PowerState \<times> u32 set) option"    \<comment> \<open>the target, and the clients not done\<close>

datatype commit_reason = AllDone | TimedOut | WokenToLightSleep

text \<open>The last argument of a commit tells whether the platform accepts the target.\<close>

datatype ng_event =
    Requested PowerState "u32 set"
  | Done u32
  | Commit commit_reason PowerState bool

fun ng_step :: "ng_event \<Rightarrow> negotiation \<Rightarrow> negotiation option" where
  "ng_step (Requested t P) s = Some (s\<lparr>ng_pending := Some (t, P)\<rparr>)"
| "ng_step (Done i) s =
     (case ng_pending s of
        None \<Rightarrow> None
      | Some (t, P) \<Rightarrow> if i \<in> P then Some (s\<lparr>ng_pending := Some (t, P - {i})\<rparr>) else None)"
| "ng_step (Commit why t ok) s =
     (case ng_pending s of
        None \<Rightarrow> None
      | Some (u, P) \<Rightarrow>
          if t = u \<and> (why = AllDone \<longrightarrow> P = {}) \<and> (why = WokenToLightSleep \<longrightarrow> t = POWER_STATE_STANDBY_LIGHT_SLEEP)
          then Some \<lparr>ng_state = (if ok then t else ng_state s), ng_pending = None\<rparr> else None)"

fun ng_run :: "ng_event list \<Rightarrow> negotiation \<Rightarrow> negotiation option" where
  "ng_run [] s = Some s"
| "ng_run (e # es) s = Option.bind (ng_step e s) (ng_run es)"

lemma ng_run_append: "ng_run (xs @ ys) s = Option.bind (ng_run xs s) (ng_run ys)"
  by (induction xs arbitrary: s) (auto split: Option.bind_splits)

text \<open>The targets that took effect.\<close>

fun committed :: "ng_event list \<Rightarrow> PowerState list" where
  "committed [] = []"
| "committed (Commit why t ok # es) = (if ok then t # committed es else committed es)"
| "committed (_ # es) = committed es"

lemma committed_append: "committed (xs @ ys) = committed xs @ committed ys"
  by (induction xs rule: committed.induct) simp_all

section \<open>Histories of the negotiation\<close>

text \<open>
  What is pending after a history: the last request, less the clients that got done since, unless
  something was committed since.
\<close>

definition pending_after :: "ng_event list \<Rightarrow> (PowerState \<times> u32 set) option" where
  "pending_after es =
     fold (\<lambda>e p. case e of Requested t P \<Rightarrow> Some (t, P)
        | Done i \<Rightarrow> map_option (\<lambda>(t, P). (t, P - {i})) p | Commit _ _ _ \<Rightarrow> None) es None"

lemma pending_after_snoc:
  "pending_after (es @ [e]) = (case e of Requested t P \<Rightarrow> Some (t, P)
     | Done i \<Rightarrow> map_option (\<lambda>(t, P). (t, P - {i})) (pending_after es) | Commit _ _ _ \<Rightarrow> None)"
  by (cases e) (simp_all add: pending_after_def)

text \<open>
  A history keeps the rules: whatever is committed was pending, with nobody left to wait for if it
  is said to be committed for that reason.
\<close>

fun commit_lawful :: "ng_event list \<Rightarrow> ng_event \<Rightarrow> bool" where
  "commit_lawful before (Commit why t ok) \<longleftrightarrow>
     (\<exists>P. pending_after before = Some (t, P) \<and> (why = AllDone \<longrightarrow> P = {})) \<and>
     (why = WokenToLightSleep \<longrightarrow> t = POWER_STATE_STANDBY_LIGHT_SLEEP)"
| "commit_lawful before _ \<longleftrightarrow> True"

definition lawful :: "ng_event list \<Rightarrow> bool" where
  "lawful es \<longleftrightarrow> (\<forall>xs e ys. es = xs @ e # ys \<longrightarrow> commit_lawful xs e)"

lemma lawful_snoc: "lawful (es @ [e]) \<longleftrightarrow> lawful es \<and> commit_lawful es e"
proof
  assume l: "lawful (es @ [e])"
  have "commit_lawful xs x" if "es = xs @ x # ys" for xs x ys
    using l that unfolding lawful_def by (metis append.assoc append_Cons)
  with l show "lawful es \<and> commit_lawful es e" unfolding lawful_def by blast
next
  assume l: "lawful es \<and> commit_lawful es e"
  have "commit_lawful xs x" if "es @ [e] = xs @ x # ys" for xs x ys
    using l that by (cases ys rule: rev_cases) (auto simp: lawful_def simp flip: append_Cons append_assoc)
  then show "lawful (es @ [e])" unfolding lawful_def by blast
qed

lemma ng_run_history:
  "ng_run es \<lparr>ng_state = st, ng_pending = None\<rparr> = Some s \<Longrightarrow>
     ng_state s = last (st # committed es) \<and> ng_pending s = pending_after es \<and> lawful es"
proof (induction es arbitrary: s rule: rev_induct)
  case Nil
  then show ?case by (auto simp: pending_after_def lawful_def)
next
  case (snoc e es)
  then obtain r where r: "ng_run es \<lparr>ng_state = st, ng_pending = None\<rparr> = Some r" "ng_step e r = Some s"
    by (auto simp: ng_run_append split: Option.bind_splits)
  from snoc.IH [OF r(1)] r(2) show ?case
    by (cases e) (auto simp: committed_append pending_after_snoc lawful_snoc split: option.splits if_splits)
qed

section \<open>The model as a negotiation\<close>

text \<open>
  A transition is pending from the preparation of its request until its controller, which is
  scheduled meanwhile, stops.
\<close>

definition negotiation_of :: "('p, 'd, 't, 'n) pm_sys \<Rightarrow> negotiation" where
  "negotiation_of S =
     \<lparr>ng_state = power_state (sy_pmi S),
      ng_pending = (if prepared (sy_call S) \<or> mcc_running (sy_pmi S)
                    then map_option (\<lambda>c. (ack_powerState c, ack_pending c)) (pmi_mcc (sy_pmi S)) else None)\<rparr>"

text \<open>The notifications among the outputs, and those that a history calls for.\<close>

fun is_notify :: "'n pm_out \<Rightarrow> bool" where
  "is_notify (Notify c) = True"
| "is_notify _ = False"

definition tells :: "PowerState \<Rightarrow> ng_event list \<Rightarrow> 'n notif_list \<Rightarrow> 'n pm_out list" where
  "tells prev es l = concat (map (\<lambda>t. map Notify (dispatchPowerModeChangedEvent prev t l)) (committed es))"

definition simulates :: "('p, 'd, 't, 'n) pm_sys \<Rightarrow> 'n pm_out list \<Rightarrow> ('p, 'd, 't, 'n) pm_sys \<Rightarrow> ng_event list \<Rightarrow> bool" where
  "simulates S outs S2 es \<longleftrightarrow> ng_run es (negotiation_of S) = Some (negotiation_of S2) \<and>
     (\<exists>prev. filter is_notify outs = tells prev es (pmi_changedL (sy_pmi S)))"

text \<open>What one step amounts to: at most two events, and nothing is requested together with a commit.\<close>

definition few :: "ng_event list \<Rightarrow> bool" where
  "few es \<longleftrightarrow> length es \<le> 2 \<and> (committed es = [] \<or> (\<forall>t P. Requested t P \<notin> set es))"

lemma few_simps [simp]:
  "few []" "few [e]" "few [Done i, e]" 
  by (cases e; simp add: few_def)+

lemma simulates_silent:
  "negotiation_of S2 = negotiation_of S \<Longrightarrow> filter is_notify outs = [] \<Longrightarrow> simulates S outs S2 []"
  by (simp add: simulates_def tells_def)

lemma filter_Notify [simp]: "filter is_notify (map Notify xs) = map Notify xs"
  "filter is_notify (map SubmitPreChange xs) = []"
  by (induction xs) simp_all

text \<open>
  A target takes effect in a step when the power state becomes it, or the observers are told of it:
  then it has been pending before the step.
\<close>

definition takes_effect ::
  "PowerState \<Rightarrow> ('p, 'd, 't, 'n) pm_sys \<Rightarrow> 'n pm_out list \<Rightarrow> ('p, 'd, 't, 'n) pm_sys \<Rightarrow> bool" where
  "takes_effect t S outs S2 \<longleftrightarrow> (power_state (sy_pmi S2) = t \<and> power_state (sy_pmi S) \<noteq> t) \<or>
     (\<exists>n prev. Notify (NotifCall n (OnPowerModeChanged prev t)) \<in> set outs)"

lemma committed_pending:
  "ng_run es n = Some m \<Longrightarrow> (\<forall>t P. Requested t P \<notin> set es) \<Longrightarrow> t \<in> set (committed es) \<Longrightarrow> \<exists>P. ng_pending n = Some (t, P)"
proof (induction es arbitrary: n)
  case (Cons e es)
  then obtain r where r: "ng_step e n = Some r" "ng_run es r = Some m" by (auto split: Option.bind_splits)
  with Cons.prems(2) Cons.IH [OF r(2)] Cons.prems(3) show ?case
    by (cases e) (auto split: option.splits if_splits)
qed simp

lemma committed_state: "ng_run es n = Some m \<Longrightarrow> ng_state m = ng_state n \<or> ng_state m \<in> set (committed es)"
proof (induction es arbitrary: n)
  case (Cons e es)
  then obtain r where "ng_step e n = Some r" "ng_run es r = Some m" by (auto split: Option.bind_splits)
  with Cons.IH [of r] show ?case by (cases e) (fastforce split: option.splits if_splits)+
qed simp

lemma told_committed:
  assumes "filter is_notify outs = tells prev es l" and "Notify (NotifCall n (OnPowerModeChanged p t)) \<in> set outs"
  shows "t \<in> set (committed es)"
proof -
  from assms(2) have "Notify (NotifCall n (OnPowerModeChanged p t)) \<in> set (filter is_notify outs)" by simp
  then show ?thesis unfolding assms(1) by (auto simp: tells_def dispatch_defs)
qed

lemma simulated_effect:
  assumes "simulates S outs S2 es" "few es" "takes_effect t S outs S2"
  obtains P where "ng_pending (negotiation_of S) = Some (t, P)"
proof -
  from assms(1) obtain prev where r: "ng_run es (negotiation_of S) = Some (negotiation_of S2)"
    "filter is_notify outs = tells prev es (pmi_changedL (sy_pmi S))" by (auto simp: simulates_def)
  have st: "\<And>X. ng_state (negotiation_of X) = power_state (sy_pmi X)" by (simp add: negotiation_of_def)
  have "t \<in> set (committed es)"
    using assms(3) committed_state [OF r(1)] told_committed [OF r(2)] by (auto simp: takes_effect_def st)
  with committed_pending [OF r(1), of t] assms(2) that show thesis by (auto simp: few_def)
qed

text \<open>A handler that runs to its end commits its target.\<close>

lemma handler_commits:
  assumes "completionHandler en ck h t False s = (s1, outs)"
  obtains ok where "power_state s1 = (if ok then hd_newState h else power_state s)" "pmi_mcc s1 = pmi_mcc s"
    "filter is_notify outs = tells (hd_currState h) [Commit why (hd_newState h) ok] (pmi_changedL s)"
proof -
  obtain e s2 o2 where d: "setDevicePowerState en ck (hd_keyCode h) (hd_currState h) (hd_newState h) (hd_reason h) s = (e, s2, o2)"
    by (metis prod_cases3)
  with assms have "s1 = s2\<lparr>pmi_refs := pmi_refs s2 - 1, pmi_selfLock := pmi_selfLock s2 \<and> \<not> hd_isSync h\<rparr>" "outs = o2"
    by (simp_all add: completionHandler_power_state)
  moreover have "pmi_mcc s1 = pmi_mcc s" using completionHandler_pair [OF assms] by simp
  ultimately show ?thesis
    using setDevicePowerState_result [OF d]
    by (intro that [of "e = ERROR_NONE"]) (auto simp: tells_def dispatch_defs comp_def)
qed

text \<open>What the caller has read decides whether the change is synchronous.\<close>

fun call_sync :: "sps_pc option \<Rightarrow> bool" where
  "call_sync (Some (AfterRead k new r cur sync)) \<longleftrightarrow> sync = isSyncStateChange cur new"
| "call_sync (Some (AfterPrepare k new r cur sync tid)) \<longleftrightarrow> sync = isSyncStateChange cur new"
| "call_sync None \<longleftrightarrow> True"

lemma step_call_sync: "pm_step en S outs S' \<Longrightarrow> call_sync (sy_call S) \<Longrightarrow> call_sync (sy_call S')"
proof (induction rule: pm_step.induct)
  case (Read s ck new cur sync s1 k reason)
  then show ?case by (auto simp: sps_read_def Let_def split_beta split: if_splits)
qed simp_all

lemma reach_call_sync: "pm_reach en S \<Longrightarrow> call_sync (sy_call S)"
  by (induction rule: pm_reach.induct) (simp_all add: step_call_sync)

section \<open>Each step refines the negotiation\<close>

lemma negotiation_frame [simp]:
  "negotiation_of \<lparr>sy_pmi = s\<lparr>pmi_selfLock := b\<rparr>, sy_call = c\<rparr> = negotiation_of \<lparr>sy_pmi = s, sy_call = c\<rparr>"
  "negotiation_of \<lparr>sy_pmi = s\<lparr>pmi_clients := cs\<rparr>, sy_call = c\<rparr> = negotiation_of \<lparr>sy_pmi = s, sy_call = c\<rparr>"
  "negotiation_of \<lparr>sy_pmi = s\<lparr>pmi_nextClientId := i\<rparr>, sy_call = c\<rparr> = negotiation_of \<lparr>sy_pmi = s, sy_call = c\<rparr>"
  by (simp_all add: negotiation_of_def mcc_running_def)

text \<open>A controller that is asked to go on and stops, by the last client or by the timer.\<close>

lemma controller_stops:
  assumes ok: "sys_ok \<lparr>sy_pmi = s, sy_call = call\<rparr>" "pmi_mcc s = Some c" "ack_running c"
    and c1: "\<not> ack_running c1" "ack_powerState c1 = ack_powerState c"
    and fire: "run_firings en ck [Fire (ack_handler c) t False] (s\<lparr>pmi_mcc := Some c1\<rparr>) = (s1, outs)"
    and why: "why = AllDone \<Longrightarrow> P = {}" "why \<noteq> WokenToLightSleep"
    and start: "ng_run es (negotiation_of \<lparr>sy_pmi = s, sy_call = call\<rparr>) =
       Some \<lparr>ng_state = power_state s, ng_pending = Some (ack_powerState c, P)\<rparr>" "committed es = []"
  shows "\<exists>ok. simulates \<lparr>sy_pmi = s, sy_call = call\<rparr> outs \<lparr>sy_pmi = s1, sy_call = call\<rparr>
     (es @ [Commit why (ack_powerState c) ok])"
proof -
  obtain h where h: "ack_handler c = Some h" "hd_newState h = ack_powerState c"
    using ok by (auto simp: sys_ok_def ctl_ok_def split: option.splits)
  have np: "\<not> prepared call"
    using ok by (cases call rule: prepared.cases) (auto simp: sys_ok_def pc_fits_def)
  have r: "completionHandler en ck h t False (s\<lparr>pmi_mcc := Some c1\<rparr>) = (s1, outs)"
    using fire h(1) by (simp del: run_firings.simps)
  obtain ok where ok: "power_state s1 = (if ok then hd_newState h else power_state s)" "pmi_mcc s1 = Some c1"
    "filter is_notify outs = tells (hd_currState h) [Commit why (hd_newState h) ok] (pmi_changedL s)"
    by (rule handler_commits [OF r, of why]) (simp cong: if_cong)
  have n: "negotiation_of \<lparr>sy_pmi = s1, sy_call = call\<rparr> = \<lparr>ng_state = power_state s1, ng_pending = None\<rparr>"
    using ok(2) c1(1) np by (simp add: negotiation_of_def mcc_running_def)
  have "ng_run (es @ [Commit why (ack_powerState c) ok]) (negotiation_of \<lparr>sy_pmi = s, sy_call = call\<rparr>) =
      Some (negotiation_of \<lparr>sy_pmi = s1, sy_call = call\<rparr>)"
    using start(1) why ok(1) h(2) by (simp add: ng_run_append n)
  then show ?thesis
    using ok(3) h(2) start(2) by (auto simp: simulates_def tells_def committed_append intro!: exI [of _ ok])
qed

text \<open>A client gets done, by its acknowledgement or by its removal.\<close>

lemma ack_simulates:
  assumes ok: "sys_ok \<lparr>sy_pmi = s, sy_call = call\<rparr>" "pmi_mcc s = Some c"
    and a: "Ack i tid c = (e, c1, fs)" and r: "run_firings en ck fs (s\<lparr>pmi_mcc := Some c1\<rparr>) = (s1, outs)"
  shows "\<exists>es. few es \<and> simulates \<lparr>sy_pmi = s, sy_call = call\<rparr> outs \<lparr>sy_pmi = s1, sy_call = call\<rparr> es"
proof (cases "tid = ack_transactionId c \<and> i \<in> ack_pending c")
  case False
  with a r have "s1 = s\<lparr>pmi_mcc := Some c\<rparr>" "outs = []" by (auto simp: Ack_def split: if_splits)
  with ok(2) have "s1 = s" "outs = []" by simp_all
  then show ?thesis by (intro exI [of _ "[]"]) (simp add: simulates_silent)
next
  case True
  let ?n = "negotiation_of \<lparr>sy_pmi = s, sy_call = call\<rparr>"
  show ?thesis
  proof (cases "ack_pending c = {i} \<and> ack_running c")
    case False
    with True a r have c1: "c1 = c\<lparr>ack_pending := ack_pending c - {i}\<rparr>" and s1: "s1 = s\<lparr>pmi_mcc := Some c1\<rparr>" "outs = []"
      by (auto simp: Ack_def Let_def split: if_splits)
    show ?thesis
    proof (cases "prepared call \<or> ack_running c")
      case True
      with c1 s1 ok(2) \<open>tid = ack_transactionId c \<and> i \<in> ack_pending c\<close> show ?thesis
        by (intro exI [of _ "[Done i]"]) (simp add: simulates_def negotiation_of_def mcc_running_def tells_def)
    next
      case False
      with c1 s1 ok(2) show ?thesis
        by (intro exI [of _ "[]"]) (simp add: simulates_def negotiation_of_def mcc_running_def tells_def)
    qed
  next
    case last: True
    with True a have c1: "\<not> ack_running c1" "ack_powerState c1 = ack_powerState c"
      and fs: "fs = [Fire (ack_handler c) False False]"
      by (auto simp: Ack_def runHandler_def Let_def)
    have "ng_run [Done i] ?n = Some \<lparr>ng_state = power_state s, ng_pending = Some (ack_powerState c, {})\<rparr>"
      using last ok(2) by (simp add: negotiation_of_def mcc_running_def)
    from controller_stops [OF ok _ c1 _ _ _ this, of en ck False s1 outs AllDone] last r fs
    obtain ok where "simulates \<lparr>sy_pmi = s, sy_call = call\<rparr> outs \<lparr>sy_pmi = s1, sy_call = call\<rparr>
        ([Done i] @ [Commit AllDone (ack_powerState c) ok])" by auto
    then show ?thesis by (intro exI [of _ "[Done i, Commit AllDone (ack_powerState c) ok]"]) simp
  qed
qed


text \<open>The scheduling of a prepared transition: it goes on, or is completed at once.\<close>

lemma schedule_simulates:
  assumes ok: "sys_ok \<lparr>sy_pmi = s, sy_call = Some (AfterPrepare k new r cur sync tid)\<rparr>"
    and sync: "sync = isSyncStateChange cur new"
    and sched: "sps_schedule en ck k cur new sync tid r s = (s1, outs)"
  shows "\<exists>es. few es \<and>
    simulates \<lparr>sy_pmi = s, sy_call = Some (AfterPrepare k new r cur sync tid)\<rparr> outs \<lparr>sy_pmi = s1, sy_call = None\<rparr> es"
proof -
  let ?S = "\<lparr>sy_pmi = s, sy_call = Some (AfterPrepare k new r cur sync tid)\<rparr>"
  let ?h = "\<lparr>hd_keyCode = k, hd_currState = cur, hd_newState = new, hd_reason = r, hd_isSync = sync\<rparr>"
  let ?off = "uint ((if sync then 0 else en_preChangeTimeout en) * 1000)"
  obtain c where c: "pmi_mcc s = Some c" "\<not> ack_running c" "ack_powerState c = new"
    using ok by (auto simp: sys_ok_def pc_fits_def split: option.splits)
  have n: "negotiation_of ?S = \<lparr>ng_state = power_state s, ng_pending = Some (new, ack_pending c)\<rparr>"
    using c by (simp add: negotiation_of_def)
  obtain c1 fs where sc: "Schedule (ck_add ck) ?off ?h c = (c1, fs)" by (metis surj_pair)
  obtain s2 o2 where rf: "run_firings en ck fs (s\<lparr>pmi_mcc := Some c1\<rparr>) = (s2, o2)" by (metis surj_pair)
  have s1: "s1 = (if \<not> sync then s2\<lparr>pmi_selfLock := False\<rparr> else s2)" and fo: "filter is_notify outs = filter is_notify o2"
    using sched c sc rf by (auto simp: sps_schedule_def submitPowerModePreChangeEvent_def Let_def split: if_splits)
  show ?thesis
  proof (cases "ack_pending c = {} \<or> ?off = 0")
    case True
    with sc rf c(1) have h: "completionHandler en ck ?h False False (s\<lparr>pmi_mcc := Some c\<rparr>) = (s2, o2)"
      by (auto simp: Schedule_def simp del: run_firings.simps)
    obtain ok where ok: "power_state s2 = (if ok then new else power_state s)" "pmi_mcc s2 = Some c"
      "\<And>why. filter is_notify o2 = tells cur [Commit why new ok] (pmi_changedL s)"
      by (rule handler_commits [OF h]) (simp add: tells_def cong: if_cong)
    define why where "why = (if ack_pending c = {} then AllDone else if sync then WokenToLightSleep else TimedOut)"
    have "negotiation_of \<lparr>sy_pmi = s1, sy_call = None\<rparr> = \<lparr>ng_state = (if ok then new else power_state s), ng_pending = None\<rparr>"
      using ok(1,2) c(2) unfolding s1 by (cases sync) (simp_all add: negotiation_of_def mcc_running_def)
    moreover have "why = WokenToLightSleep \<longrightarrow> new = POWER_STATE_STANDBY_LIGHT_SLEEP"
      using sync by (auto simp: why_def isSyncStateChange_def)
    moreover have "why = AllDone \<longrightarrow> ack_pending c = {}" by (simp add: why_def)
    ultimately have "simulates ?S outs \<lparr>sy_pmi = s1, sy_call = None\<rparr> [Commit why new ok]"
      using ok(3) [of why] fo by (auto simp: simulates_def n)
    then show ?thesis by (intro exI [of _ "[Commit why new ok]"]) simp
  next
    case False
    with sc rf have "o2 = []" "s2 = s\<lparr>pmi_mcc := Some c1\<rparr>" "ack_running c1" "ack_powerState c1 = new" "ack_pending c1 = ack_pending c"
      using c by (auto simp: Schedule_def Let_def)
    then have "negotiation_of \<lparr>sy_pmi = s1, sy_call = None\<rparr> = negotiation_of ?S"
      unfolding s1 n by (cases sync) (simp_all add: negotiation_of_def mcc_running_def)
    with fo \<open>o2 = []\<close> show ?thesis by (intro exI [of _ "[]"]) (simp add: simulates_silent)
  qed
qed

lemma read_quiet:
  "sps_read en ck new s = (v, s1) \<Longrightarrow> negotiation_of \<lparr>sy_pmi = s1, sy_call = c\<rparr> = negotiation_of \<lparr>sy_pmi = s, sy_call = c\<rparr>"
  using read_frame(1) [of en ck new s] read_power_state [of en ck new s]
  by (simp add: negotiation_of_def mcc_running_def)

lemma unprepared_call:
  "\<not> prepared c \<Longrightarrow> \<not> prepared d \<Longrightarrow>
     negotiation_of \<lparr>sy_pmi = s, sy_call = c\<rparr> = negotiation_of \<lparr>sy_pmi = s, sy_call = d\<rparr>"
  by (simp add: negotiation_of_def)

lemma step_simulates:
  assumes "sys_ok S" and "call_sync (sy_call S)" and "pm_step en S outs S2"
  shows "\<exists>es. few es \<and> simulates S outs S2 es"
proof -
  have silent: "\<exists>es. few es \<and> simulates S o1 S2 es"
    if "negotiation_of S2 = negotiation_of S" "filter is_notify o1 = []" for S S2 :: "('a, 'b, 'c, 'd) pm_sys" and o1
    using simulates_silent [OF that] by (intro exI [of _ "[]"]) simp
  from assms(3,1,2)
  show ?thesis
  proof (induction rule: pm_step.induct)
    case (Return s ck new e s1)
    show ?case by (rule silent) (simp_all add: read_quiet [OF Return(2)])
  next
    case (Read s ck new cur sync s1 k reason)
    show ?case
      by (rule silent) (simp_all add: read_quiet [OF Read(2)] unprepared_call [of "Some (AfterRead k new reason cur sync)" None])
  next
    case (Redundant ck new s s1 outs k reason cur sync)
    then have "s1 = s\<lparr>pmi_selfLock := False\<rparr>" "outs = []"
      by (auto simp: sps_prepare_def Let_def split_beta split: option.splits if_splits)
    then show ?case
      by (intro silent) (simp_all add: unprepared_call [of "Some (AfterRead k new reason cur sync)" None])
  next
    case (Prepare ck new s tid s1 outs k reason cur sync)
    have "ctl_ok (pmi_mcc s)" using Prepare(2) by (simp add: sys_ok_def)
    from prepare_effect [OF this Prepare(1)] show ?case
      by (intro exI [of _ "[Requested new (set (map fst (pmi_clients s)))]"])
         (simp add: simulates_def negotiation_of_def AckController_new_def tells_def)
  next
    case (Sched ck k cur new sync tid reason s s1 outs)
    then show ?case by (intro schedule_simulates) simp_all
  next
    case (AckOp ck i tid s e s1 outs c)
    show ?case
    proof (cases "pmi_mcc s")
      case None
      with AckOp(1) show ?thesis by (intro silent) (simp_all add: PMI_PowerModePreChangeComplete_def)
    next
      case (Some a)
      obtain e1 a1 fs where ack: "Ack i tid a = (e1, a1, fs)" by (metis prod_cases3)
      with AckOp(1) Some have "run_firings en ck fs (s\<lparr>pmi_mcc := Some a1\<rparr>) = (s1, outs)"
        by (auto simp: PMI_PowerModePreChangeComplete_def split_beta Let_def prod_eq_iff)
      from ack_simulates [OF AckOp(2) Some ack this] show ?thesis .
    qed
  next
    case (DelayOp ck i tid d s e s1 c)
    then show ?case
      by (intro silent)
         (auto simp: PMI_DelayPowerModeChangeBy_def Reschedule_def negotiation_of_def mcc_running_def Let_def
            split: option.splits if_splits)
  next
    case (AddClient name i s e j s1 c)
    then show ?case
      by (intro silent) (auto simp: PMI_AddPowerModePreChangeClient_def Let_def split: if_splits option.splits)
  next
    case (RemoveClient ck i s e s1 outs c)
    let ?s = "s\<lparr>pmi_clients := AList.delete i (pmi_clients s)\<rparr>"
    show ?case
    proof (cases "map_of (pmi_clients s) i = None \<or> pmi_mcc s = None")
      case True
      with RemoveClient(1) show ?thesis
        by (intro silent) (auto simp: PMI_RemovePowerModePreChangeClient_def split: if_splits)
    next
      case False
      then obtain a where a: "pmi_mcc ?s = Some a" by auto
      obtain e1 a1 fs where ack: "Ack i (ack_transactionId a) a = (e1, a1, fs)" by (metis prod_cases3)
      with RemoveClient(1) False a have "run_firings en ck fs (?s\<lparr>pmi_mcc := Some a1\<rparr>) = (s1, outs)"
        by (auto simp: PMI_RemovePowerModePreChangeClient_def Ack_any_def split_beta Let_def prod_eq_iff split: if_splits)
      moreover have "sys_ok \<lparr>sy_pmi = ?s, sy_call = c\<rparr>" using RemoveClient(2) by simp
      ultimately show ?thesis using ack_simulates [OF _ a ack] by (simp add: simulates_def)
    qed
  next
    case (Timer s ctl ck s1 outs c)
    show ?case
    proof (cases "ack_running ctl")
      case run: True
      have "run_firings en ck [Fire (ack_handler ctl) True False] (s\<lparr>pmi_mcc := Some (fst (AckTimer ctl))\<rparr>) = (s1, outs)"
        using Timer(1,3) run by (simp add: PMI_AckTimer_def timer_result split_beta del: run_firings.simps)
      moreover have "ng_run [] (negotiation_of \<lparr>sy_pmi = s, sy_call = c\<rparr>) =
          Some \<lparr>ng_state = power_state s, ng_pending = Some (ack_powerState ctl, ack_pending ctl)\<rparr>"
        using Timer(1) run by (simp add: negotiation_of_def mcc_running_def)
      ultimately obtain ok where "simulates \<lparr>sy_pmi = s, sy_call = c\<rparr> outs \<lparr>sy_pmi = s1, sy_call = c\<rparr>
          ([] @ [Commit TimedOut (ack_powerState ctl) ok])"
        using controller_stops [OF Timer(4,1) run, of "fst (AckTimer ctl)" en ck True s1 outs TimedOut "ack_pending ctl" "[]"]
        by (auto simp: timer_result)
      then show ?thesis by (intro exI [of _ "[Commit TimedOut (ack_powerState ctl) ok]"]) simp
    next
      case False
      with Timer(1,3) show ?thesis
        by (intro silent) (auto simp: PMI_AckTimer_def timer_result negotiation_of_def mcc_running_def)
    qed
  next
    case (Other s s1 c)
    then show ?case by (intro silent) (simp_all add: negotiation_of_def same_transition_def mcc_running_def)
  qed
qed

text \<open>
  C2. The interleaved plugin refines the negotiation: each of its steps, whatever the
  interleaving of callers, clients and the timer, is at most two steps of the negotiation between
  the abstractions of its states, and the power-mode notifications it sends are those of the
  targets that took effect in these steps.
\<close>

theorem plugin_refines_negotiation:
  assumes "pm_reach en S" and "pm_step en S outs S2"
  shows "\<exists>es. length es \<le> 2 \<and> ng_run es (negotiation_of S) = Some (negotiation_of S2) \<and>
     (\<exists>prev. filter is_notify outs = tells prev es (pmi_changedL (sy_pmi S)))"
  using step_simulates [OF pm_reach_ok [OF assms(1)] reach_call_sync [OF assms(1)] assms(2)]
  by (auto simp: simulates_def few_def)

lemma demo_request:
  obtains S S2 :: "(PowerState, nat, unit, nat) pm_sys" where "pm_reach demo_pm_env S" "pm_step demo_pm_env S [] S2"
    "ng_pending (negotiation_of S) = None" "ng_pending (negotiation_of S2) = Some (demo_target, {1})"
  by (rule demo_prepared, rule that, assumption, assumption) (simp_all add: negotiation_of_def mcc_running_def AckController_new_def)

lemma plugin_refines_negotiation_witness:
  "\<exists>S S2 :: (PowerState, nat, unit, nat) pm_sys. pm_step demo_pm_env S [] S2 \<and> negotiation_of S2 \<noteq> negotiation_of S \<and>
     (\<exists>es. length es \<le> 2 \<and> ng_run es (negotiation_of S) = Some (negotiation_of S2))"
proof -
  obtain S S2 :: "(PowerState, nat, unit, nat) pm_sys" where S: "pm_reach demo_pm_env S" "pm_step demo_pm_env S [] S2" "ng_pending (negotiation_of S) = None"
    "ng_pending (negotiation_of S2) = Some (demo_target, {1})"
    by (rule demo_request)
  from plugin_refines_negotiation [OF S(1,2)] S(2-4) show ?thesis by (metis option.distinct(1))
qed

end
