(* ===== verification/PowerRaces.thy ===== *)
theory PowerRaces
  imports PowerTransitions
begin

text \<open>
  Three places of \<^verbatim>\<open>AckController.h\<close> test the controller and then act on the test: the timer job,
  which takes no lock, \<^verbatim>\<open>Ack\<close>, which runs under \<^verbatim>\<open>_apiLock\<close>, and \<^verbatim>\<open>Schedule\<close>, which the caller of
  \<^verbatim>\<open>SetPowerState\<close> makes after it has released \<^verbatim>\<open>_apiLock\<close>. \<open>PowerTransitions\<close> has each of
  them as one step; here each may be interrupted after its test.

  A timer job past its test holds a reference to its controller, so that a request that replaces
  the controller does not destroy it: it is not revoked. An acknowledging thread waits in
  \<^verbatim>\<open>Revoke\<close> until the timer job has ended, when the worker pool is running it.
\<close>

section \<open>Threads past their test\<close>

datatype late =
    PastTimer int pm_handler               \<comment> \<open>the transaction of the controller, and its handler\<close>
  | PastAck int pm_handler
  | PastSchedule int pm_handler

fun is_PastAck :: "late \<Rightarrow> bool" where
  "is_PastAck (PastAck tid h) = True"
| "is_PastAck _ = False"

fun is_PastSchedule :: "late \<Rightarrow> bool" where
  "is_PastSchedule (PastSchedule off h) = True"
| "is_PastSchedule _ = False"

fun timer_of :: "int \<Rightarrow> late \<Rightarrow> bool" where
  "timer_of tid (PastTimer t h) = (t = tid)"
| "timer_of tid _ = False"

text \<open>The controller in use is held by a timer job.\<close>

definition held_by_job :: "late list \<Rightarrow> ('p, 'd, 't, 'n) pmi \<Rightarrow> bool" where
  "held_by_job T s \<longleftrightarrow> (case pmi_mcc s of None \<Rightarrow> False | Some c \<Rightarrow> list_ex (timer_of (ack_transactionId c)) T)"

text \<open>The job clears the flag of its own controller, which may no longer be the one in use.\<close>

definition stop_own :: "int \<Rightarrow> ('p, 'd, 't, 'n) pmi \<Rightarrow> ('p, 'd, 't, 'n) pmi" where
  "stop_own tid s =
     (case pmi_mcc s of
        None \<Rightarrow> s
      | Some c \<Rightarrow> if ack_transactionId c = tid then s\<lparr>pmi_mcc := Some (c\<lparr>ack_running := False\<rparr>)\<rparr> else s)"

text \<open>\<^verbatim>\<open>Schedule\<close> past its test of \<^verbatim>\<open>_pending\<close> and the offset.\<close>

definition schedule_sets :: "(int \<Rightarrow> int) \<Rightarrow> int \<Rightarrow> 'h \<Rightarrow> 'h ack \<Rightarrow> 'h ack" where
  "schedule_sets now_add offset h a =
     (let t = max (now_add offset) (ack_timeout a)
      in a\<lparr>ack_running := True, ack_handler := Some h, ack_timeout := t, ack_timerJob := True, ack_sched := Some t\<rparr>)"

lemma schedule_in_two:
  "Schedule na off h a =
     (if ack_pending a = {} \<or> off = 0 then (a, [Fire (Some h) False False]) else (schedule_sets na off h a, []))"
  by (simp add: Schedule_def schedule_sets_def Let_def)

section \<open>Interleavings of the threads\<close>

definition timeout_of :: "('p, 'd, 't) pm_env \<Rightarrow> bool \<Rightarrow> u32" where
  "timeout_of en sync = (if sync then 0 else en_preChangeTimeout en)"

text \<open>
  \<open>Whole\<close>: any step of the coarser model, while no acknowledging thread is between its test and
  its handler with \<^verbatim>\<open>_apiLock\<close> taken, other than a second \<^verbatim>\<open>Schedule\<close> of the same call, and other
  than one that stops a controller held by its job.
\<close>

inductive race_step ::
  "('p, 'd, 't) pm_env \<Rightarrow> ('p, 'd, 't, 'n) pm_sys \<times> late list \<Rightarrow> 'n pm_out list \<Rightarrow>
   ('p, 'd, 't, 'n) pm_sys \<times> late list \<Rightarrow> bool" for en where
  Whole: "pm_step en S outs S2 \<Longrightarrow> \<not> list_ex is_PastAck T \<Longrightarrow>
    (list_ex is_PastSchedule T \<longrightarrow> sy_call S2 = sy_call S) \<Longrightarrow>
    (held_by_job T (sy_pmi S) \<and> mcc_running (sy_pmi S) \<longrightarrow> mcc_running (sy_pmi S2)) \<Longrightarrow>
    race_step en (S, T) outs (S2, T)"
| TimerTests: "pmi_mcc s = Some ctl \<Longrightarrow> ack_sched ctl \<noteq> None \<Longrightarrow> ack_running ctl \<Longrightarrow> ack_handler ctl = Some h \<Longrightarrow>
    race_step en (\<lparr>sy_pmi = s, sy_call = c\<rparr>, T) []
      (\<lparr>sy_pmi = s\<lparr>pmi_mcc := Some (ctl\<lparr>ack_sched := None\<rparr>)\<rparr>, sy_call = c\<rparr>, PastTimer (ack_transactionId ctl) h # T)"
| TimerFires: "completionHandler en ck h True False (stop_own tid s) = (s1, outs) \<Longrightarrow>
    race_step en (\<lparr>sy_pmi = s, sy_call = c\<rparr>, T1 @ PastTimer tid h # T2) outs (\<lparr>sy_pmi = s1, sy_call = c\<rparr>, T1 @ T2)"
| AckTests: "pmi_mcc s = Some ctl \<Longrightarrow> ack_transactionId ctl = tid \<Longrightarrow> ack_pending ctl = {i} \<Longrightarrow> ack_running ctl \<Longrightarrow>
    ack_handler ctl = Some h \<Longrightarrow> \<not> list_ex is_PastAck T \<Longrightarrow>
    race_step en (\<lparr>sy_pmi = s, sy_call = c\<rparr>, T) []
      (\<lparr>sy_pmi = s\<lparr>pmi_mcc := Some (ctl\<lparr>ack_pending := {}, ack_running := False, ack_sched := None\<rparr>)\<rparr>, sy_call = c\<rparr>,
       PastAck tid h # T)"
| AckFires: "\<not> list_ex (timer_of tid) (T1 @ T2) \<Longrightarrow> completionHandler en ck h False False s = (s1, outs) \<Longrightarrow>
    race_step en (\<lparr>sy_pmi = s, sy_call = c\<rparr>, T1 @ PastAck tid h # T2) outs (\<lparr>sy_pmi = s1, sy_call = c\<rparr>, T1 @ T2)"
| Replaced: "held_by_job T s \<Longrightarrow> pmi_mcc s = Some ctl \<Longrightarrow> ack_powerState ctl \<noteq> new \<Longrightarrow> \<not> list_ex is_PastAck T \<Longrightarrow>
    sps_prepare en ck new (s\<lparr>pmi_mcc := None\<rparr>) = (Some tid, s1, outs) \<Longrightarrow>
    race_step en (\<lparr>sy_pmi = s, sy_call = Some (AfterRead k new r cur sync)\<rparr>, T) outs
      (\<lparr>sy_pmi = s1, sy_call = Some (AfterPrepare k new r cur sync tid)\<rparr>, T)"
| ScheduleTests: "pmi_mcc s = Some ctl \<Longrightarrow> ack_pending ctl \<noteq> {} \<Longrightarrow> timeout_of en sync * 1000 \<noteq> 0 \<Longrightarrow>
    \<not> list_ex is_PastSchedule T \<Longrightarrow>
    outs = submitPowerModePreChangeEvent cur new tid (sint (timeout_of en sync)) (pmi_preChangeL s) \<Longrightarrow>
    race_step en (\<lparr>sy_pmi = s, sy_call = Some (AfterPrepare k new r cur sync tid)\<rparr>, T) outs
      (\<lparr>sy_pmi = s, sy_call = Some (AfterPrepare k new r cur sync tid)\<rparr>, PastSchedule (uint (timeout_of en sync * 1000))
         \<lparr>hd_keyCode = k, hd_currState = cur, hd_newState = new, hd_reason = r, hd_isSync = sync\<rparr> # T)"
| ScheduleSets: "pmi_mcc s = Some ctl \<Longrightarrow>
    s1 = s\<lparr>pmi_mcc := Some (schedule_sets (ck_add (ck :: pm_clock)) off h ctl), pmi_selfLock := hd_isSync h\<rparr> \<Longrightarrow>
    race_step en (\<lparr>sy_pmi = s, sy_call = Some (AfterPrepare k new r cur sync tid)\<rparr>, T1 @ PastSchedule off h # T2) []
      (\<lparr>sy_pmi = s1, sy_call = None\<rparr>, T1 @ T2)"

inductive race_run ::
  "('p, 'd, 't) pm_env \<Rightarrow> ('p, 'd, 't, 'n) pm_sys \<times> late list \<Rightarrow> 'n pm_out list \<Rightarrow>
   ('p, 'd, 't, 'n) pm_sys \<times> late list \<Rightarrow> bool" for en X where
  Stay: "race_run en X [] X"
| Go: "race_run en X outs Y \<Longrightarrow> race_step en Y o2 Z \<Longrightarrow> race_run en X (outs @ o2) Z"

lemma stop_own_frame [simp]:
  "power_state (stop_own tid s) = power_state s" "pmi_changedL (stop_own tid s) = pmi_changedL s"
  "pmi_refs (stop_own tid s) = pmi_refs s" "pmi_selfLock (stop_own tid s) = pmi_selfLock s"
  "pmi_power (stop_own tid s) = pmi_power s"
  by (auto simp: stop_own_def power_state_def split: option.split)

text \<open>Without threads past a test, the steps of the coarser model are all there.\<close>

lemma coarse_run: "pm_step en S outs S2 \<Longrightarrow> race_step en (S, []) outs (S2, [])"
  by (rule race_step.Whole) (simp_all add: held_by_job_def split: option.split)

text \<open>A handler that runs to its end: what it sets and tells, as the platform decides.\<close>

definition carries_out ::
  "('p, 'd, 't) pm_env \<Rightarrow> pm_clock \<Rightarrow> pm_handler \<Rightarrow> ('p, 'd, 't, 'n) pmi \<Rightarrow> 'n pm_out list \<Rightarrow> ('p, 'd, 't, 'n) pmi \<Rightarrow> bool" where
  "carries_out en ck h s outs s1 \<longleftrightarrow>
     (let (e, p) = PWC_SetPowerState (en_power en) (en_val en) (ck_now ck) (hd_keyCode h) (hd_newState h) (hd_reason h) (pmi_power s)
      in pmi_power s1 = p \<and> outs =
          (if e = ERROR_NONE then map Notify (dispatchPowerModeChangedEvent (hd_currState h) (hd_newState h) (pmi_changedL s)) else []))"

lemma carries_out_mcc [simp]: "carries_out en ck h (s\<lparr>pmi_mcc := m\<rparr>) o1 r = carries_out en ck h s o1 r"
  by (simp add: carries_out_def cong: if_cong)

lemma handler_carries_out:
  "completionHandler en ck h t False s = (s1, outs) \<Longrightarrow>
     carries_out en ck h s outs s1 \<and> pmi_refs s1 = pmi_refs s - 1 \<and> pmi_mcc s1 = pmi_mcc s \<and> pmi_changedL s1 = pmi_changedL s"
  by (auto simp: carries_out_def completionHandler_power_state setDevicePowerState_def Let_def split_beta split: if_splits)

section \<open>What still holds\<close>

lemma handler_announces_pair:
  "completionHandler en ck h t a s = (s1, outs) \<Longrightarrow> power_state s1 \<noteq> power_state s \<Longrightarrow>
     announced outs (pmi_changedL s) (power_state s1)"
  using completionHandler_announces [of en ck h t a s] by simp

text \<open>
  C11. However the threads interleave, the recorded power state never changes silently: every step
  that changes it tells each registered \<^verbatim>\<open>IModeChanged\<close> notification object the new state.
\<close>

theorem racing_changes_are_announced:
  assumes "race_step en (S, T) outs (S2, T2)" and "power_state (sy_pmi S2) \<noteq> power_state (sy_pmi S)"
  shows "\<exists>prev. \<forall>n \<in> set (nl_list (pmi_changedL (sy_pmi S))).
           Notify (NotifCall n (OnPowerModeChanged prev (power_state (sy_pmi S2)))) \<in> set outs"
proof -
  have "announced outs (pmi_changedL (sy_pmi S)) (power_state (sy_pmi S2))"
    using assms
  proof (cases rule: race_step.cases)
    case Whole
    with assms(2) show ?thesis by (simp add: step_announces)
  next
    case (TimerFires ck h tid s s1 c T1 T2)
    with assms(2) handler_announces_pair [of en ck h True False "stop_own tid s" s1 outs] show ?thesis by simp
  next
    case (AckFires tid T1 T2 ck h s s1 c)
    with assms(2) handler_announces_pair [of en ck h False False s s1 outs] show ?thesis by simp
  next
    case (Replaced s ctl new ck tid s1 k r cur sync)
    with assms(2) prepare_power_state [of en ck new "s\<lparr>pmi_mcc := None\<rparr>"] show ?thesis by (simp add: power_state_def)
  qed (use assms(2) in \<open>simp_all add: power_state_def\<close>)
  then show ?thesis by (simp add: announced_def)
qed

lemma racing_changes_are_announced_witness:
  "\<exists>S S2 :: (PowerState, nat, unit, nat) pm_sys. \<exists>T outs. race_step demo_pm_env (S, T) outs (S2, []) \<and>
     power_state (sy_pmi S2) \<noteq> power_state (sy_pmi S) \<and> 7 \<in> set (nl_list (pmi_changedL (sy_pmi S))) \<and>
     (\<exists>prev. Notify (NotifCall 7 (OnPowerModeChanged prev (power_state (sy_pmi S2)))) \<in> set outs)"
proof -
  let ?h = "request_handler 0 demo_target [] demo_pmi1"
  define s where "s = demo_pmi1\<lparr>pmi_changedL := \<lparr>nl_list = [7], nl_refs = nl_refs (pmi_changedL demo_pmi1)\<rparr>\<rparr>"
  have sync: "\<not> isSyncStateChange (power_state demo_pmi1) demo_target"
    and ne: "demo_target \<noteq> power_state demo_pmi1" using demo_fresh by (simp_all add: fresh_request_def)
  have own: "stop_own 9 s = s" by (simp add: stop_own_def s_def demo_fields)
  obtain s1 outs where c: "completionHandler demo_pm_env demo_clock ?h True False s = (s1, outs)" by (metis surj_pair)
  have "fst (PWC_SetPowerState demo_power demo_val 5 0 demo_target [] (pmi_power s)) = ERROR_NONE"
    by (simp add: PWC_SetPowerState_def Let_def split_beta demo_power_def demo_target_def)
  then have "power_state s1 = demo_target"
    using handler_effect [OF sync c] PWC_SetPowerState_state [of demo_power demo_val 5 0 demo_target "[]" "pmi_power s"]
    by (simp add: split_beta Let_def demo_pm_env_def demo_clock_def power_state_def)
  moreover have "power_state s = power_state demo_pmi1" by (simp add: s_def power_state_def)
  ultimately have d: "power_state s1 \<noteq> power_state s" using ne by simp
  have st: "race_step demo_pm_env (\<lparr>sy_pmi = s, sy_call = None\<rparr>, [PastTimer 9 ?h]) outs (\<lparr>sy_pmi = s1, sy_call = None\<rparr>, [])"
    using race_step.TimerFires [of demo_pm_env demo_clock ?h 9 s s1 outs None "[]" "[]"] c own by simp
  have "7 \<in> set (nl_list (pmi_changedL s))" by (simp add: s_def)
  with racing_changes_are_announced [OF st] d st show ?thesis
    by (intro exI [of _ "\<lparr>sy_pmi = s, sy_call = None\<rparr>"] exI [of _ "\<lparr>sy_pmi = s1, sy_call = None\<rparr>"] exI [of _ "[PastTimer 9 ?h]"]
        exI [of _ outs]) auto
qed

section \<open>A timeout against the last acknowledgement\<close>

lemma run_append: "race_run en X outs Y \<Longrightarrow> race_step en Y o2 Z \<Longrightarrow> o3 = outs @ o2 \<Longrightarrow> race_run en X o3 Z"
  using race_run.Go by simp

lemma fires_twice:
  assumes w: "awaiting h tid {i} s" and ok: "mcc_ok (pmi_mcc s)"
  shows "\<exists>o1 r o2 s2. race_run en (\<lparr>sy_pmi = s, sy_call = c\<rparr>, []) (o1 @ o2) (\<lparr>sy_pmi = s2, sy_call = c\<rparr>, []) \<and>
     carries_out en ck h s o1 r \<and> carries_out en ck2 h r o2 s2 \<and> pmi_refs s2 = pmi_refs s - 2"
proof -
  from w obtain a where a: "pmi_mcc s = Some a" "ack_running a" "ack_handler a = Some h"
    "ack_transactionId a = tid" "ack_powerState a = hd_newState h" "ack_pending a = {i}"
    by (auto simp: awaiting_def)
  from ok a have sched: "ack_sched a \<noteq> None" by (simp add: mcc_ok_def ctl_ok_def ack_inv_def)
  let ?a = "a\<lparr>ack_sched := None\<rparr>"
  let ?b = "?a\<lparr>ack_pending := {}, ack_running := False, ack_sched := None\<rparr>"
  let ?S = "\<lambda>x. \<lparr>sy_pmi = s\<lparr>pmi_mcc := Some x\<rparr>, sy_call = c\<rparr>"
  obtain s1 o1 where f1: "completionHandler en ck h True False (s\<lparr>pmi_mcc := Some ?b\<rparr>) = (s1, o1)" by (metis surj_pair)
  obtain s2 o2 where f2: "completionHandler en ck2 h False False s1 = (s2, o2)" by (metis surj_pair)
  have 1: "race_step en (\<lparr>sy_pmi = s, sy_call = c\<rparr>, []) [] (?S ?a, [PastTimer tid h])"
    using race_step.TimerTests [OF a(1) sched a(2,3), of en c "[]"] a(4) by simp
  have 2: "race_step en (?S ?a, [PastTimer tid h]) [] (?S ?b, [PastAck tid h, PastTimer tid h])"
    using race_step.AckTests [of "s\<lparr>pmi_mcc := Some ?a\<rparr>" ?a tid i h "[PastTimer tid h]" en c] a by simp
  have own: "stop_own tid (s\<lparr>pmi_mcc := Some ?b\<rparr>) = s\<lparr>pmi_mcc := Some ?b\<rparr>" by (simp add: stop_own_def)
  have 3: "race_step en (?S ?b, [PastAck tid h, PastTimer tid h]) o1 (\<lparr>sy_pmi = s1, sy_call = c\<rparr>, [PastAck tid h])"
    using race_step.TimerFires [of en ck h tid "s\<lparr>pmi_mcc := Some ?b\<rparr>" s1 o1 c "[PastAck tid h]" "[]"] f1
    unfolding own by simp
  have 4: "race_step en (\<lparr>sy_pmi = s1, sy_call = c\<rparr>, [PastAck tid h]) o2 (\<lparr>sy_pmi = s2, sy_call = c\<rparr>, [])"
    using race_step.AckFires [of tid "[]" "[]" en ck2 h s1 s2 o2 c] f2 by simp
  have "race_run en (\<lparr>sy_pmi = s, sy_call = c\<rparr>, []) (o1 @ o2) (\<lparr>sy_pmi = s2, sy_call = c\<rparr>, [])"
    by (rule run_append [OF run_append [OF run_append [OF run_append [OF race_run.Stay 1 refl] 2 refl] 3 refl] 4]) simp
  moreover have "carries_out en ck h s o1 s1" "pmi_refs s1 = pmi_refs s - 1"
    using handler_carries_out [OF f1] by simp_all
  moreover have "carries_out en ck2 h s1 o2 s2" "pmi_refs s2 = pmi_refs s1 - 1"
    using handler_carries_out [OF f2] by simp_all
  ultimately show ?thesis by (intro exI [of _ o1] exI [of _ s1] exI [of _ o2] exI [of _ s2]) simp
qed

section \<open>A timeout against the next request\<close>

lemma late_completion:
  assumes reach: "pm_reach en \<lparr>sy_pmi = s, sy_call = None\<rparr>" and w: "awaiting h tid P s"
    and fresh: "fresh_request en ck new s" and cl: "pmi_clients s \<noteq> []" and to: "en_preChangeTimeout en * 1000 \<noteq> 0"
  shows "\<exists>o1 r o2 s2. race_run en (\<lparr>sy_pmi = s, sy_call = None\<rparr>, []) (o1 @ o2) (\<lparr>sy_pmi = s2, sy_call = None\<rparr>, []) \<and>
     (\<forall>c. Notify c \<notin> set o1) \<and> pmi_power r = pmi_power s \<and>
     awaiting (request_handler k new why s) (pmi_nextTransactionId s + 1) (set (map fst (pmi_clients s))) r \<and>
     carries_out en ck2 h r o2 s2 \<and>
     awaiting (request_handler k new why s) (pmi_nextTransactionId s + 1) (set (map fst (pmi_clients s))) s2"
proof -
  have inv: "pm_inv \<lparr>sy_pmi = s, sy_call = None\<rparr>" by (rule pm_reach_inv [OF reach])
  let ?tid = "pmi_nextTransactionId s + 1"
  from w obtain a where a: "pmi_mcc s = Some a" "ack_running a" "ack_handler a = Some h"
    "ack_transactionId a = tid" "ack_powerState a = hd_newState h"
    by (auto simp: awaiting_def)
  from inv a have sched: "ack_sched a \<noteq> None" and lock: "\<not> pmi_selfLock s"
    by (auto simp: pm_inv_def mcc_ok_def ctl_ok_def ack_inv_def)
  from pm_reach_tid [OF reach] a have tid: "tid < ?tid" by (simp add: tid_range_def)
  from fresh a have new: "new \<noteq> power_state s" "\<not> isSyncStateChange (power_state s) new" "ack_powerState a \<noteq> new"
    by (auto simp: fresh_request_def)
  let ?a = "a\<lparr>ack_sched := None\<rparr>"
  let ?s1 = "s\<lparr>pmi_mcc := Some ?a\<rparr>"
  have ps: "power_state ?s1 = power_state s" by (simp add: power_state_def)
  obtain d where r: "sps_read en ck new ?s1 = (SpsGo (power_state s) False, ?s1\<lparr>pmi_selfLock := True, pmi_deepSleep := d\<rparr>)"
    using read_go [of new ?s1 ck en] fresh new(1,2) ps by (auto simp: fresh_request_def)
  let ?s2 = "?s1\<lparr>pmi_selfLock := True, pmi_deepSleep := d\<rparr>"
  let ?new = "(AckController_new new ?tid (ck_add ck 0))\<lparr>ack_pending := set (map fst (pmi_clients s))\<rparr>"
  let ?s3 = "s\<lparr>pmi_selfLock := True, pmi_deepSleep := d, pmi_mcc := Some ?new, pmi_nextTransactionId := ?tid,
      pmi_refs := pmi_refs s + 1\<rparr>"
  have p: "sps_prepare en ck new (?s2\<lparr>pmi_mcc := None\<rparr>) = (Some ?tid, ?s3, [])"
    by (simp add: sps_prepare_def new_controller Let_def)
  let ?h = "request_handler k new why s" and ?na = "ck_add ck" and ?off = "uint (en_preChangeTimeout en * 1000)"
  have off: "?off \<noteq> 0" using to by (simp add: uint_0_iff)
  have h: "?h = \<lparr>hd_keyCode = k, hd_currState = power_state s, hd_newState = new, hd_reason = why, hd_isSync = False\<rparr>"
    using new(2) by (simp add: request_handler_def)
  let ?s4 = "?s3\<lparr>pmi_mcc := Some (schedule_sets ?na ?off ?h ?new), pmi_selfLock := False\<rparr>"
  obtain o1 where sc: "sps_schedule en ck k (power_state s) new False ?tid why ?s3 = (?s4, o1)" and o1: "\<forall>c. Notify c \<notin> set o1"
    using cl off by (auto simp: sps_schedule_def submitPowerModePreChangeEvent_def schedule_in_two Let_def h)
  have w4: "awaiting ?h ?tid (set (map fst (pmi_clients s))) ?s4"
    by (simp add: awaiting_def schedule_sets_def Let_def AckController_new_def h)
  obtain s5 o2 where f: "completionHandler en ck2 h True False ?s4 = (s5, o2)" by (metis surj_pair)
  let ?T = "[PastTimer tid h]" and ?call = "Some (AfterRead k new why (power_state s) False)"
  have 1: "race_step en (\<lparr>sy_pmi = s, sy_call = None\<rparr>, []) [] (\<lparr>sy_pmi = ?s1, sy_call = None\<rparr>, ?T)"
    using race_step.TimerTests [OF a(1) sched a(2,3), of en None "[]"] a(4) by simp
  have 2: "race_step en (\<lparr>sy_pmi = ?s1, sy_call = None\<rparr>, ?T) [] (\<lparr>sy_pmi = ?s2, sy_call = ?call\<rparr>, ?T)"
    by (rule race_step.Whole [OF pm_step.Read [OF _ r]]) (use lock in \<open>simp_all add: mcc_running_def\<close>)
  have 3: "race_step en (\<lparr>sy_pmi = ?s2, sy_call = ?call\<rparr>, ?T) []
      (\<lparr>sy_pmi = ?s3, sy_call = Some (AfterPrepare k new why (power_state s) False ?tid)\<rparr>, ?T)"
    by (rule race_step.Replaced [OF _ _ _ _ p, of _ ?a]) (use a new in \<open>simp_all add: held_by_job_def\<close>)
  have 4: "race_step en (\<lparr>sy_pmi = ?s3, sy_call = Some (AfterPrepare k new why (power_state s) False ?tid)\<rparr>, ?T) o1
      (\<lparr>sy_pmi = ?s4, sy_call = None\<rparr>, ?T)"
    by (rule race_step.Whole [OF pm_step.Sched [OF sc]]) (simp_all add: mcc_running_def AckController_new_def)
  have own: "stop_own tid ?s4 = ?s4"
    using tid by (simp add: stop_own_def schedule_sets_def Let_def AckController_new_def)
  have 5: "race_step en (\<lparr>sy_pmi = ?s4, sy_call = None\<rparr>, ?T) o2 (\<lparr>sy_pmi = s5, sy_call = None\<rparr>, [])"
    using race_step.TimerFires [of en ck2 h tid ?s4 s5 o2 None "[]" "[]"] f unfolding own by simp
  have run: "race_run en (\<lparr>sy_pmi = s, sy_call = None\<rparr>, []) (o1 @ o2) (\<lparr>sy_pmi = s5, sy_call = None\<rparr>, [])"
    by (rule run_append [OF run_append [OF run_append [OF run_append [OF run_append [OF race_run.Stay 1 refl] 2 refl] 3 refl] 4 refl] 5]) simp
  have w5: "awaiting ?h ?tid (set (map fst (pmi_clients s))) s5"
    using handler_carries_out [OF f] w4 by (simp add: awaiting_def)
  have "carries_out en ck2 h ?s4 o2 s5" using handler_carries_out [OF f] by blast
  then show ?thesis
    by (intro exI [of _ o1] exI [of _ ?s4] exI [of _ o2] exI [of _ s5] conjI run o1 w4 w5) simp_all
qed


text \<open>
  C15. The timer job tests \<^verbatim>\<open>_running\<close> and clears it without a lock, and so does \<^verbatim>\<open>Ack\<close>. So a
  timeout that meets the last acknowledgement completes a transition twice: the platform is set
  and the observers are told twice, and one reference more is released than was taken. A timeout
  that meets the next request completes a transition that the request has cancelled: although
  the new request has returned success and its clients are being waited for, the target of the
  old one is still set and told.
\<close>

theorem timeouts_race:
  assumes reach: "pm_reach en \<lparr>sy_pmi = s, sy_call = None\<rparr>" and w: "awaiting h tid P s"
  shows "(P = {i} \<longrightarrow> (\<exists>o1 r o2 s2. race_run en (\<lparr>sy_pmi = s, sy_call = None\<rparr>, []) (o1 @ o2) (\<lparr>sy_pmi = s2, sy_call = None\<rparr>, []) \<and>
       carries_out en ck h s o1 r \<and> carries_out en ck2 h r o2 s2 \<and> pmi_refs s = 1 \<and> pmi_refs s2 = - 1)) \<and>
     (fresh_request en ck new s \<and> pmi_clients s \<noteq> [] \<and> en_preChangeTimeout en * 1000 \<noteq> 0 \<longrightarrow>
       (\<exists>o1 r o2 s2. race_run en (\<lparr>sy_pmi = s, sy_call = None\<rparr>, []) (o1 @ o2) (\<lparr>sy_pmi = s2, sy_call = None\<rparr>, []) \<and>
       (\<forall>c. Notify c \<notin> set o1) \<and> pmi_power r = pmi_power s \<and>
       awaiting (request_handler k new why s) (pmi_nextTransactionId s + 1) (set (map fst (pmi_clients s))) r \<and>
       carries_out en ck2 h r o2 s2 \<and>
       awaiting (request_handler k new why s) (pmi_nextTransactionId s + 1) (set (map fst (pmi_clients s))) s2))"
proof (intro conjI impI)
  assume "P = {i}"
  moreover have "pmi_refs s = 1" "mcc_ok (pmi_mcc s)"
    using pm_reach_inv [OF reach] w by (auto simp: pm_inv_def mcc_running_def awaiting_def)
  ultimately show "\<exists>o1 r o2 s2. race_run en (\<lparr>sy_pmi = s, sy_call = None\<rparr>, []) (o1 @ o2) (\<lparr>sy_pmi = s2, sy_call = None\<rparr>, []) \<and>
       carries_out en ck h s o1 r \<and> carries_out en ck2 h r o2 s2 \<and> pmi_refs s = 1 \<and> pmi_refs s2 = - 1"
    using fires_twice [of h tid i s en None ck ck2] w by auto
next
  assume "fresh_request en ck new s \<and> pmi_clients s \<noteq> [] \<and> en_preChangeTimeout en * 1000 \<noteq> 0"
  then show "\<exists>o1 r o2 s2. race_run en (\<lparr>sy_pmi = s, sy_call = None\<rparr>, []) (o1 @ o2) (\<lparr>sy_pmi = s2, sy_call = None\<rparr>, []) \<and>
       (\<forall>c. Notify c \<notin> set o1) \<and> pmi_power r = pmi_power s \<and>
       awaiting (request_handler k new why s) (pmi_nextTransactionId s + 1) (set (map fst (pmi_clients s))) r \<and>
       carries_out en ck2 h r o2 s2 \<and>
       awaiting (request_handler k new why s) (pmi_nextTransactionId s + 1) (set (map fst (pmi_clients s))) s2"
    using late_completion [OF reach w, of ck new k why ck2] by blast
qed

lemma timeouts_race_witness:
  "\<exists>s s2 :: (PowerState, nat, unit, nat) pmi. \<exists>outs.
     race_run demo_pm_env (\<lparr>sy_pmi = s, sy_call = None\<rparr>, []) outs (\<lparr>sy_pmi = s2, sy_call = None\<rparr>, []) \<and>
     pmi_refs s = 1 \<and> pmi_refs s2 = - 1 \<and>
     (\<exists>(r :: (PowerState, nat, unit, nat) pmi) o2 s3. awaiting (request_handler 0 demo_target2 [] s) (pmi_nextTransactionId s + 1) {1} r \<and>
        carries_out demo_pm_env demo_clock (request_handler 0 demo_target [] demo_pmi1) r o2 s3)"
proof -
  have timeout: "en_preChangeTimeout demo_pm_env * 1000 \<noteq> 0" by (simp add: demo_pm_env_def)
  obtain s :: "(PowerState, nat, unit, nat) pmi" where s: "pm_reach demo_pm_env \<lparr>sy_pmi = s, sy_call = None\<rparr>"
    "awaiting (request_handler 0 demo_target [] demo_pmi1) 1 {1} s" "fresh_request demo_pm_env demo_clock demo_target2 s"
    "pmi_clients s \<noteq> []" "set (map fst (pmi_clients s)) = {1}" by (rule demo_awaiting)
  from timeouts_race [OF s(1,2), of 1 demo_clock demo_clock demo_target2 0 "[]"] s(3-5) timeout
  show ?thesis by (simp only: simp_thms) blast
qed

section \<open>An acknowledgement against the scheduling of its transition\<close>

text \<open>
  C29. \<^verbatim>\<open>Schedule\<close> looks at the clients that are still awaited and then starts to run, without
  \<^verbatim>\<open>_apiLock\<close>. When the last of them acknowledges in between, nothing is completed then, and
  nothing that clients do later completes it: each further acknowledgement is refused and changes
  nothing, so that the change of state waits for the whole timeout.
\<close>

theorem last_acknowledgement_missed:
  assumes reach: "pm_reach en \<lparr>sy_pmi = s, sy_call = Some (AfterPrepare k new r cur False tid)\<rparr>"
    and pending: "pmi_mcc s = Some a" "ack_pending a = {i}" and timeout: "en_preChangeTimeout en * 1000 \<noteq> 0"
  shows "\<exists>outs s2. race_run en (\<lparr>sy_pmi = s, sy_call = Some (AfterPrepare k new r cur False tid)\<rparr>, []) outs
       (\<lparr>sy_pmi = s2, sy_call = None\<rparr>, []) \<and>
     fst (PMI_PowerModePreChangeComplete en ck i tid s) = ERROR_NONE \<and>
     (\<forall>c. Notify c \<notin> set outs) \<and> pmi_power s2 = pmi_power s \<and>
     awaiting \<lparr>hd_keyCode = k, hd_currState = cur, hd_newState = new, hd_reason = r, hd_isSync = False\<rparr> tid {} s2 \<and>
     (\<forall>ck j t. PMI_PowerModePreChangeComplete en ck j t s2 = (ERROR_INVALID_PARAMETER, s2, []))"
proof -
  let ?h = "\<lparr>hd_keyCode = k, hd_currState = cur, hd_newState = new, hd_reason = r, hd_isSync = False\<rparr>"
  let ?c = "Some (AfterPrepare k new r cur False tid)" and ?off = "uint (en_preChangeTimeout en * 1000)"
  from pm_reach_inv [OF reach] pending have a: "\<not> ack_running a" "ack_handler a = None" "ack_transactionId a = tid" "ack_powerState a = new"
    by (auto simp: pm_inv_def pc_fits_def)
  let ?a = "a\<lparr>ack_pending := {}\<rparr>"
  let ?s1 = "s\<lparr>pmi_mcc := Some ?a\<rparr>"
  obtain o1 where o1: "o1 = submitPowerModePreChangeEvent cur new tid (sint (timeout_of en False)) (pmi_preChangeL s)"
    "\<forall>c. Notify c \<notin> set o1" by (auto simp: submitPowerModePreChangeEvent_def)
  have ack: "PMI_PowerModePreChangeComplete en ck i tid s = (ERROR_NONE, ?s1, [])"
    using a pending by (simp add: PMI_PowerModePreChangeComplete_def Ack_def Let_def)
  let ?s2 = "s\<lparr>pmi_mcc := Some (schedule_sets (ck_add ck) ?off ?h ?a), pmi_selfLock := False\<rparr>"
  have 1: "race_step en (\<lparr>sy_pmi = s, sy_call = ?c\<rparr>, []) o1 (\<lparr>sy_pmi = s, sy_call = ?c\<rparr>, [PastSchedule ?off ?h])"
    using race_step.ScheduleTests [OF pending(1), of en False "[]" o1 cur new tid k r] pending(2) timeout o1(1)
    by (simp add: timeout_of_def)
  have 2: "race_step en (\<lparr>sy_pmi = s, sy_call = ?c\<rparr>, [PastSchedule ?off ?h]) [] (\<lparr>sy_pmi = ?s1, sy_call = ?c\<rparr>, [PastSchedule ?off ?h])"
    by (rule race_step.Whole [OF pm_step.AckOp [OF ack]]) (simp_all add: held_by_job_def pending)
  have 3: "race_step en (\<lparr>sy_pmi = ?s1, sy_call = ?c\<rparr>, [PastSchedule ?off ?h]) [] (\<lparr>sy_pmi = ?s2, sy_call = None\<rparr>, [])"
    using race_step.ScheduleSets [of ?s1 ?a ?s2 ?h ck ?off en k new r cur False tid "[]" "[]"] by simp
  have run: "race_run en (\<lparr>sy_pmi = s, sy_call = ?c\<rparr>, []) o1 (\<lparr>sy_pmi = ?s2, sy_call = None\<rparr>, [])"
    by (rule run_append [OF run_append [OF run_append [OF race_run.Stay 1 refl] 2 refl] 3]) simp
  have "PMI_PowerModePreChangeComplete en ck j t ?s2 = (ERROR_INVALID_PARAMETER, ?s2, [])" for ck j t
    by (simp add: PMI_PowerModePreChangeComplete_def Ack_def schedule_sets_def Let_def)
  moreover have "awaiting ?h tid {} ?s2" using a by (simp add: awaiting_def schedule_sets_def Let_def)
  ultimately show ?thesis using run o1(2) ack by (intro exI [of _ o1] exI [of _ ?s2]) simp
qed


lemma last_acknowledgement_missed_witness:
  "\<exists>s s2 :: (PowerState, nat, unit, nat) pmi. \<exists>S T outs. race_run demo_pm_env (S, []) outs (T, []) \<and> sy_pmi S = s \<and> sy_pmi T = s2 \<and>
     fst (PMI_PowerModePreChangeComplete demo_pm_env demo_clock 1 1 s) = ERROR_NONE \<and> mcc_running s2 \<and>
     PMI_PowerModePreChangeComplete demo_pm_env demo_clock 1 1 s2 = (ERROR_INVALID_PARAMETER, s2, [])"
proof -
  have timeout: "en_preChangeTimeout demo_pm_env * 1000 \<noteq> 0" by (simp add: demo_pm_env_def)
  obtain s1 s2 :: "(PowerState, nat, unit, nat) pmi" where s:
    "pm_reach demo_pm_env \<lparr>sy_pmi = s1, sy_call = Some (AfterRead 0 demo_target [] (power_state demo_pmi1) False)\<rparr>"
    "pm_step demo_pm_env \<lparr>sy_pmi = s1, sy_call = Some (AfterRead 0 demo_target [] (power_state demo_pmi1) False)\<rparr> []
       \<lparr>sy_pmi = s2, sy_call = Some (AfterPrepare 0 demo_target [] (power_state demo_pmi1) False 1)\<rparr>"
    "pmi_mcc s2 = Some ((AckController_new demo_target 1 (ck_add demo_clock 0))\<lparr>ack_pending := {1}\<rparr>)"
    by (rule demo_prepared)
  obtain outs s3 where
    r: "race_run demo_pm_env (\<lparr>sy_pmi = s2, sy_call = Some (AfterPrepare 0 demo_target [] (power_state demo_pmi1) False 1)\<rparr>, [])
       outs (\<lparr>sy_pmi = s3, sy_call = None\<rparr>, [])"
    and a: "fst (PMI_PowerModePreChangeComplete demo_pm_env demo_clock 1 1 s2) = ERROR_NONE"
    and w: "awaiting \<lparr>hd_keyCode = 0, hd_currState = power_state demo_pmi1, hd_newState = demo_target, hd_reason = [],
        hd_isSync = False\<rparr> 1 {} s3"
    and no: "\<forall>ck j t. PMI_PowerModePreChangeComplete demo_pm_env ck j t s3 = (ERROR_INVALID_PARAMETER, s3, [])"
    using last_acknowledgement_missed [OF pm_reach.step [OF s(1,2)] s(3) _ timeout, of 1 demo_clock] by auto
  from w have "mcc_running s3" by (auto simp: awaiting_def mcc_running_def)
  with r a no show ?thesis by (metis pm_sys.select_convs(1))
qed

end
