(* ===== verification/PowerInterleavings.thy ===== *)
theory PowerInterleavings
  imports PowerSpec PowerRaces
begin

text \<open>
  What holds of a change of power state under every interleaving, also when threads are interrupted
  between a test of the controller and their action on it (\<open>PowerRaces\<close>): the bookkeeping of the
  semaphore and the references, the history that explains the power state, and the
  cancellation of a transition by a request for another target.

  A timer job that has passed its test may find that its transition has been completed or
  replaced meanwhile, and calls the handler all the same (\<open>timeouts_race\<close>). Runs in which that does not
  happen are called timely; what is lost in the others is said with each property.
\<close>

section \<open>Reachable states\<close>

inductive race_reach :: "('p, 'd, 't) pm_env \<Rightarrow> ('p, 'd, 't, 'n) pm_sys \<times> late list \<Rightarrow> bool" for en where
  start: "race_reach en (\<lparr>sy_pmi = PMI_new en now p d th fs, sy_call = None\<rparr>, [])"
| step: "race_reach en X \<Longrightarrow> race_step en X outs Y \<Longrightarrow> race_reach en Y"

fun is_PastTimer :: "late \<Rightarrow> bool" where
  "is_PastTimer (PastTimer tid h) = True"
| "is_PastTimer _ = False"

text \<open>
  At most one timer job is past its test, and its transition is still the one in use and running:
  nobody has completed or replaced it since the test.
\<close>

definition timely :: "('p, 'd, 't, 'n) pm_sys \<times> late list \<Rightarrow> bool" where
  "timely X \<longleftrightarrow> length (filter is_PastTimer (snd X)) \<le> 1 \<and>
     (\<forall>tid h. PastTimer tid h \<in> set (snd X) \<longrightarrow>
        (case pmi_mcc (sy_pmi (fst X)) of None \<Rightarrow> False | Some c \<Rightarrow> ack_transactionId c = tid \<and> ack_running c))"

inductive timely_reach :: "('p, 'd, 't) pm_env \<Rightarrow> ('p, 'd, 't, 'n) pm_sys \<times> late list \<Rightarrow> bool" for en where
  start: "timely_reach en (\<lparr>sy_pmi = PMI_new en now p d th fs, sy_call = None\<rparr>, [])"
| step: "timely_reach en X \<Longrightarrow> race_step en X outs Y \<Longrightarrow> timely Y \<Longrightarrow> timely_reach en Y"

lemma timely_race: "timely_reach en X \<Longrightarrow> race_reach en X"
  by (induction rule: timely_reach.induct) (auto intro: race_reach.intros)

lemma coarse_timely: "pm_reach en S \<Longrightarrow> timely_reach en (S, [])"
proof (induction rule: pm_reach.induct)
  case (step S outs S')
  from timely_reach.step [OF step.IH coarse_run [OF step.hyps(2)]] show ?case by (simp add: timely_def)
qed (rule timely_reach.start)

lemma timely_now: "timely_reach en X \<Longrightarrow> timely X"
  by (induction rule: timely_reach.induct) (simp_all add: timely_def)

section \<open>The invariant of the threads past their tests\<close>

text \<open>The number \<open>n\<close> bounds the transactions that timer jobs and the controller in use belong to from below.\<close>

fun late_ok :: "int \<Rightarrow> ('p, 'd, 't, 'n) pm_sys \<Rightarrow> late \<Rightarrow> bool" where
  "late_ok n S (PastTimer tid h) \<longleftrightarrow> \<not> hd_isSync h \<and> n \<le> tid \<and> tid \<le> pmi_nextTransactionId (sy_pmi S) \<and>
     (\<forall>c. pmi_mcc (sy_pmi S) = Some c \<and> ack_transactionId c = tid \<longrightarrow> hd_newState h = ack_powerState c)"
| "late_ok n S (PastAck tid h) \<longleftrightarrow> \<not> hd_isSync h \<and>
     (\<exists>c. pmi_mcc (sy_pmi S) = Some c \<and> ack_transactionId c = tid \<and> \<not> ack_running c \<and> ack_pending c = {} \<and>
        ack_handler c = Some h \<and> hd_newState h = ack_powerState c)"
| "late_ok n S (PastSchedule off h) \<longleftrightarrow> \<not> hd_isSync h \<and>
     (\<exists>k new r cur tid. sy_call S = Some (AfterPrepare k new r cur False tid) \<and> hd_newState h = new)"

definition race_ok :: "int \<Rightarrow> ('p, 'd, 't, 'n) pm_sys \<times> late list \<Rightarrow> bool" where
  "race_ok n X \<longleftrightarrow> sys_ok (fst X) \<and> tid_range n (sy_pmi (fst X)) \<and> call_sync (sy_call (fst X)) \<and>
     (\<forall>x \<in> set (snd X). late_ok n (fst X) x) \<and>
     length (filter is_PastAck (snd X)) \<le> 1 \<and> length (filter is_PastSchedule (snd X)) \<le> 1"

lemma race_okI:
  "sys_ok S \<Longrightarrow> tid_range n (sy_pmi S) \<Longrightarrow> call_sync (sy_call S) \<Longrightarrow> (\<forall>x \<in> set T. late_ok n S x) \<Longrightarrow>
     length (filter is_PastAck T) \<le> 1 \<Longrightarrow> length (filter is_PastSchedule T) \<le> 1 \<Longrightarrow> race_ok n (S, T)"
  by (simp add: race_ok_def)

text \<open>A timer job past its test stays as it should be while transactions only go forward.\<close>

lemma late_timer_moves:
  assumes "late_ok n S (PastTimer tid h)"
    and "same_transaction (sy_pmi S) (sy_pmi S2) \<or> next_transaction (sy_pmi S) (sy_pmi S2)"
  shows "late_ok n S2 (PastTimer tid h)"
  using assms by (cases "pmi_mcc (sy_pmi S)") (auto simp: same_transaction_def next_transaction_def)

lemma late_ok_moves:
  assumes "\<forall>x \<in> set T. late_ok n S x" "filter is_PastAck T = []"
    and "filter is_PastSchedule T = [] \<or> sy_call S2 = sy_call S"
    and "same_transaction (sy_pmi S) (sy_pmi S2) \<or> next_transaction (sy_pmi S) (sy_pmi S2)"
  shows "\<forall>x \<in> set T. late_ok n S2 x"
proof
  fix x assume x: "x \<in> set T"
  with assms(1) have ok: "late_ok n S x" by simp
  show "late_ok n S2 x"
  proof (cases x)
    case (PastTimer tid h)
    with ok assms(4) show ?thesis using late_timer_moves by blast
  next
    case (PastAck tid h)
    with x assms(2) show ?thesis by (force simp: filter_empty_conv)
  next
    case (PastSchedule off h)
    with x assms(3) have "sy_call S2 = sy_call S" by (force simp: filter_empty_conv)
    with ok PastSchedule show ?thesis by simp
  qed
qed

text \<open>What the steps past a test do to the controller in use.\<close>

lemma stop_own_mcc:
  "pmi_mcc (stop_own tid s) = map_option (\<lambda>c. if ack_transactionId c = tid then c\<lparr>ack_running := False\<rparr> else c) (pmi_mcc s)"
  "pmi_nextTransactionId (stop_own tid s) = pmi_nextTransactionId s"
  by (cases "pmi_mcc s"; auto simp: stop_own_def)+

lemma handler_pair:
  "completionHandler en ck h t a s = (s1, outs) \<Longrightarrow> pmi_mcc s1 = pmi_mcc s \<and> pmi_nextTransactionId s1 = pmi_nextTransactionId s \<and>
     pmi_selfLock s1 = (pmi_selfLock s \<and> \<not> hd_isSync h) \<and> pmi_refs s1 = pmi_refs s - 1"
  by (metis fst_conv completionHandler_frame(1,3,8,9))

lemma pc_fits_idle: "pc_fits c (Some a) \<Longrightarrow> ack_running a \<or> ack_handler a \<noteq> None \<Longrightarrow> \<not> prepared c"
  by (cases c rule: prepared.cases) (auto simp: pc_fits_def)

lemma past_ack_idle:
  assumes "race_ok n (S, T)" "PastAck tid h \<in> set T"
  shows "\<not> prepared (sy_call S)" "\<not> mcc_running (sy_pmi S)"
proof -
  from assms obtain c where "pmi_mcc (sy_pmi S) = Some c" "\<not> ack_running c" "ack_handler c = Some h" "pc_fits (sy_call S) (pmi_mcc (sy_pmi S))"
    by (fastforce simp: race_ok_def sys_ok_def)
  then show "\<not> prepared (sy_call S)" "\<not> mcc_running (sy_pmi S)"
    using pc_fits_idle [of "sy_call S" c] by (simp_all add: mcc_running_def)
qed

lemma filter_one: "length (filter P (xs @ x # ys)) \<le> 1 \<Longrightarrow> P x \<Longrightarrow> filter P (xs @ ys) = []"
  by auto

section \<open>Every step keeps the invariant\<close>

lemma race_step_ok: "race_step en X outs Y \<Longrightarrow> race_ok n X \<Longrightarrow> race_ok n Y"
proof (induction rule: race_step.induct)
  case (Whole S outs S2 T)
  then have ok: "sys_ok S" "tid_range n (sy_pmi S)" "call_sync (sy_call S)" "\<forall>x \<in> set T. late_ok n S x"
    by (simp_all add: race_ok_def)
  have none: "filter is_PastAck T = []" "filter is_PastSchedule T = [] \<or> sy_call S2 = sy_call S"
    using Whole(2,3) by (auto simp: list_ex_iff filter_empty_conv)
  show ?case
    using pm_step_ok [OF Whole(1) ok(1)] pm_step_tid [OF Whole(1) ok(1,2)] step_call_sync [OF Whole(1) ok(3)]
      late_ok_moves [OF ok(4) none pm_step_transaction [OF Whole(1) ok(1)]] Whole(5)
    by (simp add: race_ok_def)
next
  case (TimerTests s ctl h c T)
  let ?S = "\<lparr>sy_pmi = s, sy_call = c\<rparr>" and ?S2 = "\<lparr>sy_pmi = s\<lparr>pmi_mcc := Some (ctl\<lparr>ack_sched := None\<rparr>)\<rparr>, sy_call = c\<rparr>"
  have none: "filter is_PastAck T = []"
    using past_ack_idle(2) [OF TimerTests(5)] TimerTests(1,3)
    by (force simp: filter_empty_conv mcc_running_def elim: is_PastAck.elims)
  have same: "same_transaction s (sy_pmi ?S2)" using TimerTests(1) by (simp add: same_transaction_def)
  have "sys_ok ?S2"
    using TimerTests(1,5) by (auto simp: race_ok_def sys_ok_def ctl_ok_def pc_fits_def split: option.splits sps_pc.splits)
  moreover have "\<forall>x \<in> set T. late_ok n ?S2 x"
    by (rule late_ok_moves [of T n ?S]) (use TimerTests(5) none same in \<open>simp_all add: race_ok_def\<close>)
  moreover have "late_ok n ?S2 (PastTimer (ack_transactionId ctl) h)"
    using TimerTests(1,3-5) by (auto simp: race_ok_def sys_ok_def ctl_ok_def tid_range_def)
  ultimately show ?case
    using TimerTests(5) tid_range_moves [of s "sy_pmi ?S2" n] same by (simp add: race_ok_def)
next
  case (TimerFires ck h tid s s1 outs c T1 T2)
  let ?S = "\<lparr>sy_pmi = s, sy_call = c\<rparr>" and ?S2 = "\<lparr>sy_pmi = s1, sy_call = c\<rparr>"
  have h: "\<not> hd_isSync h" using TimerFires(2) by (simp add: race_ok_def)
  note f = handler_pair [OF TimerFires(1)]
  have same: "same_transaction s s1"
    using f stop_own_mcc [of tid s] by (cases "pmi_mcc s") (auto simp: same_transaction_def)
  have "sys_ok ?S2"
    using TimerFires(2) f h stop_own_mcc(1) [of tid s]
    by (cases "pmi_mcc s") (auto simp: race_ok_def sys_ok_def ctl_ok_def pc_fits_def split: sps_pc.splits option.splits)
  moreover have "\<forall>x \<in> set (T1 @ T2). late_ok n ?S2 x"
  proof
    fix x assume "x \<in> set (T1 @ T2)"
    with TimerFires(2) have ok: "late_ok n ?S x" by (auto simp: race_ok_def)
    show "late_ok n ?S2 x"
    proof (cases x)
      case (PastTimer t k)
      with ok late_timer_moves [of n ?S t k ?S2] same show ?thesis by simp
    next
      case (PastAck t k)
      with ok obtain a where "pmi_mcc s = Some a" "ack_transactionId a = t" "\<not> ack_running a" "ack_pending a = {}"
        "ack_handler a = Some k" "hd_newState k = ack_powerState a" "\<not> hd_isSync k" by auto
      with PastAck f stop_own_mcc(1) [of tid s] show ?thesis by simp
    qed (use ok in simp)
  qed
  ultimately show ?case using TimerFires(2) tid_range_moves [of s s1 n] same by (simp add: race_ok_def)
next
  case (AckTests s ctl tid i h T c)
  let ?S = "\<lparr>sy_pmi = s, sy_call = c\<rparr>"
  let ?S2 = "\<lparr>sy_pmi = s\<lparr>pmi_mcc := Some (ctl\<lparr>ack_pending := {}, ack_running := False, ack_sched := None\<rparr>)\<rparr>, sy_call = c\<rparr>"
  have none: "filter is_PastAck T = []" using AckTests(6) by (auto simp: list_ex_iff filter_empty_conv)
  have same: "same_transaction s (sy_pmi ?S2)" using AckTests(1) by (simp add: same_transaction_def)
  have "sys_ok ?S2"
    using AckTests(1,4,7) by (auto simp: race_ok_def sys_ok_def ctl_ok_def pc_fits_def split: option.splits sps_pc.splits)
  moreover have "\<forall>x \<in> set T. late_ok n ?S2 x"
    by (rule late_ok_moves [of T n ?S]) (use AckTests(7) none same in \<open>simp_all add: race_ok_def\<close>)
  moreover have "late_ok n ?S2 (PastAck tid h)"
    using AckTests(1-5,7) by (auto simp: race_ok_def sys_ok_def ctl_ok_def)
  ultimately show ?case
    using AckTests(7) none tid_range_moves [of s "sy_pmi ?S2" n] same by (simp add: race_ok_def)
next
  case (AckFires tid T1 T2 ck h s s1 outs c)
  let ?S = "\<lparr>sy_pmi = s, sy_call = c\<rparr>" and ?S2 = "\<lparr>sy_pmi = s1, sy_call = c\<rparr>"
  have h: "\<not> hd_isSync h" using AckFires(3) by (simp add: race_ok_def)
  note f = handler_pair [OF AckFires(2)]
  have same: "same_transaction s s1" using f by (simp add: same_transaction_def)
  have none: "filter is_PastAck (T1 @ T2) = []"
    by (rule filter_one [of is_PastAck T1 "PastAck tid h" T2]) (use AckFires(3) in \<open>simp_all add: race_ok_def\<close>)
  have "\<forall>x \<in> set (T1 @ T2). late_ok n ?S2 x"
    by (rule late_ok_moves [of "T1 @ T2" n ?S]) (use AckFires(3) none same in \<open>auto simp: race_ok_def\<close>)
  with AckFires(3) f h none tid_range_moves [of s s1 n] same show ?case
    by (simp add: race_ok_def sys_ok_def)
next
  case (Replaced T s ctl new ck tid s1 outs k r cur sync)
  let ?S = "\<lparr>sy_pmi = s, sy_call = Some (AfterRead k new r cur sync)\<rparr>"
  let ?S2 = "\<lparr>sy_pmi = s1, sy_call = Some (AfterPrepare k new r cur sync tid)\<rparr>"
  have none: "filter is_PastAck T = []" using Replaced(4) by (auto simp: list_ex_iff filter_empty_conv)
  have sched: "filter is_PastSchedule T = []"
    using Replaced(6) by (force simp: race_ok_def filter_empty_conv elim: is_PastSchedule.elims)
  have "ctl_ok (pmi_mcc (s\<lparr>pmi_mcc := None\<rparr>))" by simp
  note p = prepare_effect [OF this Replaced(5)]
  have nxt: "next_transaction s s1" using p by (simp add: next_transaction_def AckController_new_def)
  have "\<forall>x \<in> set T. late_ok n ?S2 x"
    by (rule late_ok_moves [of T n ?S]) (use Replaced(6) none sched nxt in \<open>auto simp: race_ok_def\<close>)
  moreover have "sys_ok ?S2"
    using Replaced(6) p by (simp add: race_ok_def sys_ok_def ctl_ok_def pc_fits_def AckController_new_def)
  ultimately show ?case
    using Replaced(6) none sched tid_range_moves [of s s1 n] nxt by (simp add: race_ok_def)
next
  case (ScheduleTests s ctl sync T outs cur new tid k r)
  then show ?case
    using past_ack_idle(1) [OF ScheduleTests(6)]
    by (auto simp: race_ok_def list_ex_iff filter_empty_conv timeout_of_def split: if_splits)
next
  case (ScheduleSets s ctl s1 h ck off k new r cur sync tid T1 T2)
  let ?S = "\<lparr>sy_pmi = s, sy_call = Some (AfterPrepare k new r cur sync tid)\<rparr>" and ?S2 = "\<lparr>sy_pmi = s1, sy_call = None\<rparr>"
  let ?T = "T1 @ PastSchedule off h # T2"
  have ok: "race_ok n (?S, ?T)" by (rule ScheduleSets(3))
  then have h: "hd_newState h = new" "\<not> hd_isSync h" by (auto simp: race_ok_def)
  have ctl: "\<not> ack_running ctl" "ack_powerState ctl = new" "ack_transactionId ctl = tid"
    using ok ScheduleSets(1) by (simp_all add: race_ok_def sys_ok_def pc_fits_def)
  have "filter is_PastAck ?T = []"
    using past_ack_idle(1) [OF ok] by (force simp: filter_empty_conv elim: is_PastAck.elims)
  then have none: "filter is_PastAck (T1 @ T2) = []" by simp
  have sched: "filter is_PastSchedule (T1 @ T2) = []"
    by (rule filter_one [of is_PastSchedule T1 "PastSchedule off h" T2]) (use ok in \<open>simp_all add: race_ok_def\<close>)
  have same: "same_transaction s s1"
    using ScheduleSets(1,2) by (simp add: same_transaction_def schedule_sets_def Let_def)
  have "\<forall>x \<in> set (T1 @ T2). late_ok n ?S2 x"
    by (rule late_ok_moves [of "T1 @ T2" n ?S]) (use ok none sched same in \<open>auto simp: race_ok_def\<close>)
  moreover have "sys_ok ?S2"
    using ScheduleSets(2) ctl h by (simp add: sys_ok_def ctl_ok_def pc_fits_def schedule_sets_def Let_def)
  ultimately show ?case
    using ok none sched tid_range_moves [of s s1 n] same by (simp add: race_ok_def)
qed

lemma race_reach_ok: "race_reach en X \<Longrightarrow> race_ok 0 X"
proof (induction rule: race_reach.induct)
  case (start now p d th fs)
  show ?case by (simp add: race_ok_def sys_ok_def pc_fits_def tid_range_def PMI_new_def)
qed (rule race_step_ok)

section \<open>Bookkeeping\<close>

text \<open>The references of transitions whose last acknowledgement is past its test, its handler not yet called.\<close>

definition past_acks :: "late list \<Rightarrow> int" where
  "past_acks T = int (length (filter is_PastAck T))"

lemma past_acks_simps [simp]:
  "past_acks [] = 0" "past_acks (x # T) = (if is_PastAck x then 1 else 0) + past_acks T"
  "past_acks (T1 @ T2) = past_acks T1 + past_acks T2"
  by (simp_all add: past_acks_def)

lemma timely_own:
  assumes "timely (\<lparr>sy_pmi = s, sy_call = c\<rparr>, T)" "PastTimer tid h \<in> set T"
  obtains a where "pmi_mcc s = Some a" "ack_transactionId a = tid" "ack_running a"
  using assms by (fastforce simp: timely_def split: option.splits)

text \<open>A request that replaces a controller held by its timer job makes that job late.\<close>

lemma replaced_untimely:
  assumes "held_by_job T s" "pmi_mcc s1 = Some a" "\<not> ack_running a"
  shows "\<not> timely (\<lparr>sy_pmi = s1, sy_call = c\<rparr>, T)"
proof -
  have "\<exists>x \<in> set T. \<exists>tid. timer_of tid x"
    using assms(1) by (auto simp: held_by_job_def list_ex_iff split: option.splits)
  then obtain x tid where x: "x \<in> set T" "timer_of tid x" by blast
  from x(2) obtain h where "x = PastTimer tid h" by (cases x) simp_all
  with x(1) assms(2,3) show ?thesis by (fastforce simp: timely_def)
qed

lemma timely_surplus:
  "race_step en X outs Y \<Longrightarrow> race_ok n X \<Longrightarrow> timely X \<Longrightarrow> timely Y \<Longrightarrow>
     surplus (fst X) = past_acks (snd X) \<Longrightarrow> surplus (fst Y) = past_acks (snd Y)"
proof (induction rule: race_step.induct)
  case (Whole S outs S2 T)
  with pm_step_ok [OF Whole(1)] show ?case by (simp add: race_ok_def)
next
  case (TimerTests s ctl h c T)
  then show ?case by (simp add: surplus_def mcc_running_def)
next
  case (TimerFires ck h tid s s1 outs c T1 T2)
  obtain a where a: "pmi_mcc s = Some a" "ack_transactionId a = tid" "ack_running a"
    by (rule timely_own [OF TimerFires(3), of tid h]) simp
  with handler_pair [OF TimerFires(1)] stop_own_mcc [of tid s] TimerFires(5) show ?case
    by (simp add: surplus_def mcc_running_def)
next
  case (AckTests s ctl tid i h T c)
  then show ?case by (simp add: surplus_def mcc_running_def)
next
  case (AckFires tid T1 T2 ck h s s1 outs c)
  with handler_pair [OF AckFires(2)] show ?case by (simp add: surplus_def mcc_running_def)
next
  case (Replaced T s ctl new ck tid s1 outs k r cur sync)
  have "ctl_ok (pmi_mcc (s\<lparr>pmi_mcc := None\<rparr>))" by simp
  from prepare_effect [OF this Replaced(5)] obtain a where "pmi_mcc s1 = Some a" "\<not> ack_running a"
    by (simp add: AckController_new_def)
  from replaced_untimely [OF Replaced(1) this] Replaced(8) show ?case by blast
next
  case (ScheduleTests s ctl sync T outs cur new tid k r)
  then show ?case by simp
next
  case (ScheduleSets s ctl s1 h ck off k new r cur sync tid T1 T2)
  then have "\<not> ack_running ctl" by (simp add: race_ok_def sys_ok_def pc_fits_def)
  with ScheduleSets show ?case by (simp add: surplus_def mcc_running_def schedule_sets_def Let_def)
qed

lemma timely_reach_surplus: "timely_reach en X \<Longrightarrow> surplus (fst X) = past_acks (snd X)"
proof (induction rule: timely_reach.induct)
  case (start now p d th fs)
  show ?case by (simp add: surplus_def mcc_running_def PMI_new_def)
next
  case (step X outs Y)
  show ?case
    by (rule timely_surplus [OF step.hyps(2) race_reach_ok [OF timely_race [OF step.hyps(1)]] timely_now [OF step.hyps(1)]
          step.hyps(3) step.IH])
qed

text \<open>
  C5. Under every interleaving of callers, acknowledging clients, delays and timer jobs, also
  where they are interrupted between a test and its action, the semaphore is taken exactly while a
  call of \<^verbatim>\<open>SetPowerState\<close> is under way: no request is locked out for good. If moreover every timer
  job that has passed its test finds its transition still running (the run is timely), the
  references taken are one for a prepared call, one for a running transition and one for an
  acknowledgement that is about to complete one: none leaks and none is dropped twice. A timer
  job that comes too late drops one twice (\<open>timeouts_race\<close>).
\<close>

theorem transition_bookkeeping:
  assumes "race_reach en (S, T)"
  shows "(pmi_selfLock (sy_pmi S) \<longleftrightarrow> sy_call S \<noteq> None) \<and>
    (timely_reach en (S, T) \<longrightarrow> pmi_refs (sy_pmi S) =
       (if prepared (sy_call S) then 1 else 0) + (if mcc_running (sy_pmi S) then 1 else 0) + past_acks T)"
  using race_reach_ok [OF assms] timely_reach_surplus [of en "(S, T)"]
  by (auto simp: race_ok_def sys_ok_def surplus_def)

text \<open>The small device, with a timer job past its test.\<close>

lemma demo_past_timer:
  obtains s :: "(PowerState, nat, unit, nat) pmi" where
    "timely_reach demo_pm_env (\<lparr>sy_pmi = s, sy_call = None\<rparr>, [PastTimer 1 (request_handler 0 demo_target [] demo_pmi1)])"
    "mcc_running s"
proof -
  let ?h = "request_handler 0 demo_target [] demo_pmi1"
  obtain s :: "(PowerState, nat, unit, nat) pmi" where s: "pm_reach demo_pm_env \<lparr>sy_pmi = s, sy_call = None\<rparr>" "awaiting ?h 1 {1} s"
    by (rule demo_awaiting)
  from s(2) obtain a where a: "pmi_mcc s = Some a" "ack_running a" "ack_handler a = Some ?h" "ack_transactionId a = 1"
    by (auto simp: awaiting_def)
  from pm_reach_inv [OF s(1)] a have sched: "ack_sched a \<noteq> None" by (auto simp: pm_inv_def mcc_ok_def ctl_ok_def ack_inv_def)
  let ?s = "s\<lparr>pmi_mcc := Some (a\<lparr>ack_sched := None\<rparr>)\<rparr>"
  have 1: "race_step demo_pm_env (\<lparr>sy_pmi = s, sy_call = None\<rparr>, []) [] (\<lparr>sy_pmi = ?s, sy_call = None\<rparr>, [PastTimer 1 ?h])"
    using race_step.TimerTests [OF a(1) sched a(2,3), of demo_pm_env None "[]"] a(4) by simp
  have 2: "timely (\<lparr>sy_pmi = ?s, sy_call = None\<rparr>, [PastTimer 1 ?h])" "mcc_running ?s"
    using a(2,4) by (simp_all add: timely_def mcc_running_def)
  show thesis by (rule that [OF timely_reach.step [OF coarse_timely [OF s(1)] 1 2(1)] 2(2)])
qed

lemma transition_bookkeeping_witness:
  "\<exists>(s :: (PowerState, nat, unit, nat) pmi) x. timely_reach demo_pm_env (\<lparr>sy_pmi = s, sy_call = None\<rparr>, [x]) \<and>
     mcc_running s \<and> \<not> pmi_selfLock s \<and> pmi_refs s = 1"
proof -
  let ?x = "PastTimer 1 (request_handler 0 demo_target [] demo_pmi1)"
  obtain s :: "(PowerState, nat, unit, nat) pmi" where s: "timely_reach demo_pm_env (\<lparr>sy_pmi = s, sy_call = None\<rparr>, [?x])"
    "mcc_running s" by (rule demo_past_timer)
  from transition_bookkeeping [OF timely_race [OF s(1)]] s show ?thesis
    by (intro exI [of _ s] exI [of _ ?x]) simp
qed

section \<open>What has happened to reach a state\<close>

text \<open>A transition whose last acknowledgement is past its test is pending until its handler has run.\<close>

definition negotiation_in :: "('p, 'd, 't, 'n) pm_sys \<times> late list \<Rightarrow> negotiation" where
  "negotiation_in X = (if list_ex is_PastAck (snd X)
     then \<lparr>ng_state = power_state (sy_pmi (fst X)),
           ng_pending = map_option (\<lambda>c. (ack_powerState c, ack_pending c)) (pmi_mcc (sy_pmi (fst X)))\<rparr>
     else negotiation_of (fst X))"

lemma negotiation_in_none: "\<not> list_ex is_PastAck T \<Longrightarrow> negotiation_in (S, T) = negotiation_of S"
  by (simp add: negotiation_in_def)

lemma stop_own_timed_out:
  assumes "pmi_mcc s = Some a" "ack_transactionId a = tid" "ack_powerState a = hd_newState h"
    and "completionHandler en ck h True False (stop_own tid s) = (s1, outs)" "\<not> prepared c" "ack_running a"
  shows "\<exists>ok. ng_run [Commit TimedOut (hd_newState h) ok] (negotiation_of \<lparr>sy_pmi = s, sy_call = c\<rparr>) =
     Some (negotiation_of \<lparr>sy_pmi = s1, sy_call = c\<rparr>)"
proof -
  obtain ok where "power_state s1 = (if ok then hd_newState h else power_state (stop_own tid s))" "pmi_mcc s1 = pmi_mcc (stop_own tid s)"
    by (rule handler_commits [OF assms(4), of TimedOut]) simp
  with assms stop_own_mcc(1) [of tid s] show ?thesis
    by (intro exI [of _ ok]) (simp add: negotiation_of_def mcc_running_def)
qed

lemma ack_committed:
  assumes "pmi_mcc s = Some a" "ack_powerState a = hd_newState h" "ack_pending a = {}" "\<not> ack_running a"
    and "completionHandler en ck h False False s = (s1, outs)" "\<not> prepared c"
  shows "\<exists>ok. ng_run [Commit AllDone (hd_newState h) ok] \<lparr>ng_state = power_state s, ng_pending = Some (hd_newState h, {})\<rparr> =
     Some (negotiation_of \<lparr>sy_pmi = s1, sy_call = c\<rparr>)"
proof -
  obtain ok where "power_state s1 = (if ok then hd_newState h else power_state s)" "pmi_mcc s1 = pmi_mcc s"
    by (rule handler_commits [OF assms(5), of AllDone]) simp
  with assms show ?thesis by (intro exI [of _ ok]) (simp add: negotiation_of_def mcc_running_def)
qed

lemma timely_step_negotiates:
  "race_step en X outs Y \<Longrightarrow> race_ok n X \<Longrightarrow> timely X \<Longrightarrow> timely Y \<Longrightarrow>
     \<exists>es. ng_run es (negotiation_in X) = Some (negotiation_in Y)"
proof (induction rule: race_step.induct)
  case (Whole S outs S2 T)
  then have "sys_ok S" "call_sync (sy_call S)" by (simp_all add: race_ok_def)
  from step_simulates [OF this Whole(1)] Whole(2) show ?case by (auto simp: simulates_def negotiation_in_none)
next
  case (TimerTests s ctl h c T)
  then show ?case by (intro exI [of _ "[]"]) (simp add: negotiation_in_def negotiation_of_def mcc_running_def power_state_def)
next
  case (TimerFires ck h tid s s1 outs c T1 T2)
  obtain a where a: "pmi_mcc s = Some a" "ack_transactionId a = tid" "ack_running a"
    by (rule timely_own [OF TimerFires(3), of tid h]) simp
  have h: "ack_powerState a = hd_newState h" and fits: "pc_fits c (pmi_mcc s)" using TimerFires(2) a by (simp_all add: race_ok_def sys_ok_def)
  have np: "\<not> prepared c" using pc_fits_idle [of c a] fits a by simp
  have "\<not> list_ex is_PastAck (T1 @ T2)"
  proof
    assume "list_ex is_PastAck (T1 @ T2)"
    then obtain x where x: "x \<in> set (T1 @ T2)" "is_PastAck x" by (auto simp: list_ex_iff)
    from x(2) obtain t k where "x = PastAck t k" by (cases x) simp_all
    with x(1) have "PastAck t k \<in> set (T1 @ PastTimer tid h # T2)" by auto
    from past_ack_idle(2) [OF TimerFires(2) this] a show False by (simp add: mcc_running_def)
  qed
  with stop_own_timed_out [OF a(1,2) h TimerFires(1) np a(3)] show ?case
    by (auto simp: negotiation_in_def simp del: ng_run.simps)
next
  case (AckTests s ctl tid i h T c)
  then show ?case
    by (intro exI [of _ "[Done i]"]) (simp add: negotiation_in_def negotiation_of_def mcc_running_def power_state_def)
next
  case (AckFires tid T1 T2 ck h s s1 outs c)
  have np: "\<not> prepared c" using past_ack_idle(1) [OF AckFires(3), of tid h] by simp
  have none: "filter is_PastAck (T1 @ T2) = []"
    by (rule filter_one [of is_PastAck T1 "PastAck tid h" T2]) (use AckFires(3) in \<open>simp_all add: race_ok_def\<close>)
  obtain a where a: "pmi_mcc s = Some a" "ack_powerState a = hd_newState h" "ack_pending a = {}" "\<not> ack_running a"
    using AckFires(3) by (auto simp: race_ok_def)
  from ack_committed [OF a AckFires(2) np] none a show ?case
    by (auto simp: negotiation_in_def list_ex_iff filter_empty_conv simp del: ng_run.simps)
next
  case (Replaced T s ctl new ck tid s1 outs k r cur sync)
  have "ctl_ok (pmi_mcc (s\<lparr>pmi_mcc := None\<rparr>))" by simp
  from prepare_effect [OF this Replaced(5)] obtain a where "pmi_mcc s1 = Some a" "\<not> ack_running a"
    by (simp add: AckController_new_def)
  from replaced_untimely [OF Replaced(1) this] Replaced(8) show ?case by blast
next
  case (ScheduleTests s ctl sync T outs cur new tid k r)
  then show ?case by (intro exI [of _ "[]"]) (simp add: negotiation_in_def)
next
  case (ScheduleSets s ctl s1 h ck off k new r cur sync tid T1 T2)
  have "\<not> list_ex is_PastAck (T1 @ T2)"
    using past_ack_idle(1) [OF ScheduleSets(3)] by (fastforce simp: list_ex_iff elim: is_PastAck.elims)
  with ScheduleSets show ?case
    by (intro exI [of _ "[]"])
       (simp add: negotiation_in_def negotiation_of_def mcc_running_def power_state_def schedule_sets_def Let_def)
qed

lemma timely_negotiation:
  assumes "timely_reach en (X :: ('p, 'd, 't, 'n) pm_sys \<times> late list)"
  shows "\<exists>now p d th fs es. ng_run es
      \<lparr>ng_state = power_state (PMI_new en now p d th fs :: ('p, 'd, 't, 'n) pmi), ng_pending = None\<rparr> = Some (negotiation_in X)"
  using assms
proof (induction rule: timely_reach.induct)
  case (start now p d th fs)
  show ?case
    by (intro exI [of _ now] exI [of _ p] exI [of _ d] exI [of _ th] exI [of _ fs] exI [of _ "[]"])
       (simp add: negotiation_in_def negotiation_of_def PMI_new_def mcc_running_def power_state_def)
next
  case (step X outs Y)
  then obtain now p d th fs es where es: "ng_run es
    \<lparr>ng_state = power_state (PMI_new en now p d th fs :: ('p, 'd, 't, 'n) pmi), ng_pending = None\<rparr> = Some (negotiation_in X)"
    by blast
  from timely_step_negotiates [OF step.hyps(2) race_reach_ok [OF timely_race [OF step.hyps(1)]] timely_now [OF step.hyps(1)] step.hyps(3)]
  obtain es2 where "ng_run es2 (negotiation_in X) = Some (negotiation_in Y)" by blast
  with es show ?case
    by (intro exI [of _ now] exI [of _ p] exI [of _ d] exI [of _ th] exI [of _ fs] exI [of _ "es @ es2"])
       (simp add: ng_run_append)
qed

text \<open>
  C6. As long as every timer job that has passed its test finds its transition still running (the
  run is timely), also when threads are interrupted between a test and its action, there is a
  history that explains the device: its power state
  is the target that took effect last, or that of the construction; each target that took effect
  was the last one requested, with nothing committed since, and was committed with all its clients
  done, at the timeout, or to wake to light sleep; and what is pending is the last request, for
  the clients that are not done. In a run that is not timely a target may be committed after it
  has been replaced (\<open>timeouts_race\<close>).
\<close>

theorem power_state_is_negotiated:
  assumes "timely_reach en X"
  shows "\<exists>now p d th fs es. lawful es \<and>
     power_state (sy_pmi (fst X)) = last (power_state (PMI_new en now p d th fs :: ('p, 'd, 't, 'n) pmi) # committed es) \<and>
     ng_pending (negotiation_in (X :: ('p, 'd, 't, 'n) pm_sys \<times> late list)) = pending_after es"
proof -
  obtain now p d th fs es where es: "ng_run es
      \<lparr>ng_state = power_state (PMI_new en now p d th fs :: ('p, 'd, 't, 'n) pmi), ng_pending = None\<rparr> = Some (negotiation_in X)"
    using timely_negotiation [OF assms] by blast
  have "ng_state (negotiation_in X) = power_state (sy_pmi (fst X))" by (simp add: negotiation_in_def negotiation_of_def)
  with ng_run_history [OF es] show ?thesis
    by (intro exI [of _ now] exI [of _ p] exI [of _ d] exI [of _ th] exI [of _ fs] exI [of _ es]) simp
qed

lemma power_state_is_negotiated_witness:
  "\<exists>(X :: (PowerState, nat, unit, nat) pm_sys \<times> late list) es. snd X \<noteq> [] \<and> mcc_running (sy_pmi (fst X)) \<and>
     lawful es \<and> ng_pending (negotiation_in X) = pending_after es \<and> pending_after es \<noteq> None"
proof -
  let ?x = "PastTimer 1 (request_handler 0 demo_target [] demo_pmi1)"
  obtain s :: "(PowerState, nat, unit, nat) pmi" where s: "timely_reach demo_pm_env (\<lparr>sy_pmi = s, sy_call = None\<rparr>, [?x])"
    "mcc_running s" by (rule demo_past_timer)
  from s(2) have "ng_pending (negotiation_in (\<lparr>sy_pmi = s, sy_call = None\<rparr>, [?x])) \<noteq> None"
    by (auto simp: negotiation_in_def negotiation_of_def mcc_running_def split: option.splits)
  with power_state_is_negotiated [OF s(1)] s(2) show ?thesis
    by (intro exI [of _ "(\<lparr>sy_pmi = s, sy_call = None\<rparr>, [?x])"]) fastforce
qed

section \<open>Requests for another target\<close>

text \<open>Transaction \<open>u\<close>, of the controller in use or of a timer job past its test, has the target \<open>t\<close>.\<close>

definition aims_at :: "int \<Rightarrow> PowerState \<Rightarrow> ('p, 'd, 't, 'n) pm_sys \<times> late list \<Rightarrow> bool" where
  "aims_at u t X \<longleftrightarrow>
     (\<exists>c. pmi_mcc (sy_pmi (fst X)) = Some c \<and> ack_transactionId c = u \<and> ack_powerState c = t) \<or>
     (\<exists>h. PastTimer u h \<in> set (snd X) \<and> hd_newState h = t)"

lemma handler_takes_effect:
  assumes "completionHandler en ck h t False s = (s1, outs)"
    and "takes_effect st \<lparr>sy_pmi = s, sy_call = c\<rparr> outs \<lparr>sy_pmi = s1, sy_call = c\<rparr>"
  shows "st = hd_newState h"
proof -
  obtain ok where ok: "power_state s1 = (if ok then hd_newState h else power_state s)"
    "filter is_notify outs = tells (hd_currState h) [Commit AllDone (hd_newState h) ok] (pmi_changedL s)"
    by (rule handler_commits [OF assms(1), of AllDone])
  have "st \<in> set (committed [Commit AllDone (hd_newState h) ok])" if "Notify (NotifCall n (OnPowerModeChanged p st)) \<in> set outs" for n p
    by (rule told_committed [OF ok(2) that])
  with assms(2) ok(1) show ?thesis by (auto simp: takes_effect_def split: if_splits)
qed

text \<open>Whatever takes effect is the target of a transaction that the bound covers.\<close>

lemma effect_is_aimed:
  assumes "race_step en (S, T) outs (S2, T2)" and ok: "race_ok n (S, T)" and eff: "takes_effect t S outs S2"
  shows "\<exists>u \<ge> n. aims_at u t (S, T)"
  using assms(1)
proof (cases rule: race_step.cases)
  case Whole
  from ok have sys: "sys_ok S" "call_sync (sy_call S)" "tid_range n (sy_pmi S)" by (simp_all add: race_ok_def)
  from step_simulates [OF sys(1,2) Whole(2)] simulated_effect [OF _ _ eff]
  obtain P where "ng_pending (negotiation_of S) = Some (t, P)" by metis
  with sys(3) show ?thesis by (auto simp: negotiation_of_def aims_at_def tid_range_def split: if_splits)
next
  case (TimerFires ck h tid s s1 c T1 T2)
  have "t = hd_newState h"
    by (rule handler_takes_effect [OF TimerFires(5)]) (use eff TimerFires in \<open>simp add: takes_effect_def\<close>)
  with ok TimerFires show ?thesis by (intro exI [of _ tid]) (auto simp: race_ok_def aims_at_def)
next
  case (AckFires tid T1 T2 ck h s s1 c)
  have "t = hd_newState h"
    by (rule handler_takes_effect [OF AckFires(6)]) (use eff AckFires in simp)
  with ok AckFires show ?thesis by (intro exI [of _ tid]) (auto simp: race_ok_def aims_at_def tid_range_def)
next
  case (Replaced s ctl new ck tid s1 k r cur sync)
  have "ctl_ok (pmi_mcc (s\<lparr>pmi_mcc := None\<rparr>))" by simp
  from prepare_effect [OF this Replaced(8)] eff Replaced show ?thesis by (simp add: takes_effect_def power_state_def)
qed (use eff in \<open>auto simp: takes_effect_def power_state_def submitPowerModePreChangeEvent_def\<close>)

lemma race_run_ok: "race_run en X outs Y \<Longrightarrow> race_ok n X \<Longrightarrow> race_ok n Y"
  by (induction rule: race_run.induct) (auto intro: race_step_ok)

lemma older_acknowledgement:
  assumes "tid_range n s" "tid < n"
  shows "PMI_PowerModePreChangeComplete en ck i tid s = (ERROR_INVALID_PARAMETER, s, [])"
  using assms by (auto simp: PMI_PowerModePreChangeComplete_def Ack_def tid_range_def split: option.splits)

text \<open>A started request that is awaited keeps the invariant with its own number as the bound.\<close>

lemma awaiting_ok:
  assumes "sys_ok \<lparr>sy_pmi = s, sy_call = None\<rparr>" "awaiting h tid P s" "pmi_nextTransactionId s = tid"
  shows "race_ok tid (\<lparr>sy_pmi = s, sy_call = None\<rparr>, [])"
  using assms by (auto simp: race_ok_def tid_range_def awaiting_def)

lemma path_sys_ok: "pm_path en S outs S1 \<Longrightarrow> sys_ok S \<Longrightarrow> sys_ok S1"
  by (induction rule: pm_path.induct) (auto dest: pm_step_ok)

text \<open>
  C7. A request for another target cancels a running transition for good. Let no thread be past
  its test when the request is made. The request returns success, sets and announces nothing, and
  its own clients are awaited from then on. However the threads interleave later, also when they
  are interrupted between a test and its action, an acknowledgement of the cancelled transition is
  rejected and changes nothing, and whatever takes effect or is announced is the target of a
  later transaction. If the timer job of the transition is past its test already when
  the request is made, the target of the cancelled transition is still set and told (\<open>timeouts_race\<close>).
\<close>

theorem superseded_transition_is_cancelled:
  assumes reach: "race_reach en (\<lparr>sy_pmi = s, sy_call = None\<rparr>, [])" and w: "awaiting h tid P s"
    and fresh: "fresh_request en ck new s"
    and clients: "pmi_clients s \<noteq> []" and timeout: "en_preChangeTimeout en * 1000 \<noteq> 0"
  shows "\<exists>s1 outs. PMI_SetPowerState en ck k new r s = Some (ERROR_NONE, s1, outs) \<and>
    pmi_power s1 = pmi_power s \<and> (\<forall>c. Notify c \<notin> set outs) \<and>
    awaiting (request_handler k new r s) (pmi_nextTransactionId s + 1) (set (map fst (pmi_clients s))) s1 \<and>
    (\<forall>o2 S2 T2. race_run en (\<lparr>sy_pmi = s1, sy_call = None\<rparr>, []) o2 (S2, T2) \<longrightarrow>
       (\<forall>ck2 i. PMI_PowerModePreChangeComplete en ck2 i tid (sy_pmi S2) = (ERROR_INVALID_PARAMETER, sy_pmi S2, [])) \<and>
       (\<forall>t o3 S3 T3. race_step en (S2, T2) o3 (S3, T3) \<and> takes_effect t S2 o3 S3 \<longrightarrow> (\<exists>u > tid. aims_at u t (S2, T2))))"
proof -
  let ?tid = "pmi_nextTransactionId s + 1"
  from race_reach_ok [OF reach] have ok: "sys_ok \<lparr>sy_pmi = s, sy_call = None\<rparr>" and range: "tid_range 0 s"
    by (simp_all add: race_ok_def)
  obtain s1 where q: "PMI_SetPowerState en ck k new r s = Some (ERROR_NONE, s1, map SubmitPreChange (dispatchEvent
      (OnPowerModePreChange (power_state s) new ?tid (sint (en_preChangeTimeout en))) (pmi_preChangeL s)))"
    and s1: "awaiting (request_handler k new r s) ?tid (set (map fst (pmi_clients s))) s1" "pmi_power s1 = pmi_power s"
      "pmi_nextTransactionId s1 = ?tid"
    by (rule request_starts [OF ok fresh clients timeout])
  from awaiting_ok [OF path_sys_ok [OF call_path [OF q] ok] s1(1,3)]
  have ok1: "race_ok ?tid (\<lparr>sy_pmi = s1, sy_call = None\<rparr>, [])" .
  have less: "tid < ?tid" using w range by (auto simp: awaiting_def tid_range_def)
  have "PMI_PowerModePreChangeComplete en ck2 i tid (sy_pmi S2) = (ERROR_INVALID_PARAMETER, sy_pmi S2, [])"
    if "race_run en (\<lparr>sy_pmi = s1, sy_call = None\<rparr>, []) o2 (S2, T2)" for o2 S2 T2 ck2 i
    by (rule older_acknowledgement [OF _ less]) (use race_run_ok [OF that ok1] in \<open>simp add: race_ok_def\<close>)
  moreover have "\<exists>u > tid. aims_at u t (S2, T2)"
    if "race_run en (\<lparr>sy_pmi = s1, sy_call = None\<rparr>, []) o2 (S2, T2)" "race_step en (S2, T2) o3 (S3, T3)" "takes_effect t S2 o3 S3"
    for t o2 o3 S2 T2 S3 T3
    using effect_is_aimed [OF that(2) race_run_ok [OF that(1) ok1] that(3)] less by (meson less_le_trans)
  moreover have "Notify c \<notin> set (map SubmitPreChange (dispatchEvent
      (OnPowerModePreChange (power_state s) new ?tid (sint (en_preChangeTimeout en))) (pmi_preChangeL s)))" for c by auto
  ultimately show ?thesis using q s1(1,2) by blast
qed

lemma superseded_transition_is_cancelled_witness:
  "\<exists>(s :: (PowerState, nat, unit, nat) pmi) s1 outs. mcc_running s \<and>
     PMI_SetPowerState demo_pm_env demo_clock 0 demo_target2 [] s = Some (ERROR_NONE, s1, outs) \<and>
     power_state s1 = power_state s \<and> mcc_running s1 \<and>
     PMI_PowerModePreChangeComplete demo_pm_env demo_clock 1 1 s1 = (ERROR_INVALID_PARAMETER, s1, [])"
proof -
  have timeout: "en_preChangeTimeout demo_pm_env * 1000 \<noteq> 0" by (simp add: demo_pm_env_def)
  obtain s :: "(PowerState, nat, unit, nat) pmi" where s: "pm_reach demo_pm_env \<lparr>sy_pmi = s, sy_call = None\<rparr>"
    "awaiting (request_handler 0 demo_target [] demo_pmi1) 1 {1} s" "fresh_request demo_pm_env demo_clock demo_target2 s"
    "pmi_clients s \<noteq> []" by (rule demo_awaiting)
  from superseded_transition_is_cancelled [OF timely_race [OF coarse_timely [OF s(1)]] s(2-4) timeout, of 0 "[]"]
  obtain s1 outs where r: "PMI_SetPowerState demo_pm_env demo_clock 0 demo_target2 [] s = Some (ERROR_NONE, s1, outs)"
    "pmi_power s1 = pmi_power s" "awaiting (request_handler 0 demo_target2 [] s) (pmi_nextTransactionId s + 1)
       (set (map fst (pmi_clients s))) s1"
    and later: "\<forall>o2 S2 T2. race_run demo_pm_env (\<lparr>sy_pmi = s1, sy_call = None\<rparr>, []) o2 (S2, T2) \<longrightarrow>
      (\<forall>ck2 i. PMI_PowerModePreChangeComplete demo_pm_env ck2 i 1 (sy_pmi S2) = (ERROR_INVALID_PARAMETER, sy_pmi S2, []))"
    by blast
  from later race_run.Stay [of demo_pm_env "(\<lparr>sy_pmi = s1, sy_call = None\<rparr>, [])"]
  have "PMI_PowerModePreChangeComplete demo_pm_env demo_clock 1 1 s1 = (ERROR_INVALID_PARAMETER, s1, [])" by fastforce
  with r s(2) show ?thesis
    by (intro exI [of _ s] exI [of _ s1] exI [of _ outs]) (auto simp: awaiting_def mcc_running_def power_state_def)
qed

end
