(* ===== verification/HandlerRaces.thy ===== *)
theory HandlerRaces
  imports DeepSleepCycle
begin

text \<open>
  The completion handler of \<^verbatim>\<open>SetPowerState\<close> when the timer runs it: in the timer's thread and
  without \<^verbatim>\<open>_apiLock\<close>, so that every other operation can come between its parts. They are
  those of \<^verbatim>\<open>setDevicePowerState\<close>: the platform's state is set, the observers are told, deep
  sleep is activated.
\<close>

section \<open>A handler in parts\<close>

datatype handler_pc = Setting pm_handler | Telling pm_handler | Activating pm_handler

text \<open>The end of the handler: the reference is released, and \<^verbatim>\<open>selfLock\<close> if the change is synchronous.\<close>

definition handler_done :: "pm_handler \<Rightarrow> ('p, 'd, 't, 'n) pmi \<Rightarrow> ('p, 'd, 't, 'n) pmi" where
  "handler_done h s = s\<lparr>pmi_refs := pmi_refs s - 1, pmi_selfLock := pmi_selfLock s \<and> \<not> hd_isSync h\<rparr>"

text \<open>One part of the handler; the rest of it, if any, is the first component.\<close>

fun handler_part ::
  "('p, 'd, 't) pm_env \<Rightarrow> pm_clock \<Rightarrow> handler_pc \<Rightarrow> ('p, 'd, 't, 'n) pmi \<Rightarrow>
   handler_pc option \<times> ('p, 'd, 't, 'n) pmi \<times> 'n pm_out list" where
  "handler_part en ck (Setting h) s =
     (let (errorCode, pwc) = PWC_SetPowerState (en_power en) (en_val en) (ck_now ck) (hd_keyCode h) (hd_newState h)
            (hd_reason h) (pmi_power s);
          s1 = s\<lparr>pmi_power := pwc\<rparr>
      in if errorCode \<noteq> ERROR_NONE then (None, handler_done h s1, []) else (Some (Telling h), s1, []))"
| "handler_part en ck (Telling h) s =
     (let outs = map Notify (dispatchPowerModeChangedEvent (hd_currState h) (hd_newState h) (pmi_changedL s))
      in if hd_newState h = POWER_STATE_STANDBY_DEEP_SLEEP then (Some (Activating h), s, outs)
         else (None, handler_done h s, outs))"
| "handler_part en ck (Activating h) s =
     (None, handler_done h (s\<lparr>pmi_activations := pmi_activations s @ [PWC_ActivateDeepSleep (ck_calendar ck) (pmi_power s)]\<rparr>), [])"

text \<open>Undisturbed, the parts are the handler.\<close>

fun run_parts ::
  "('p, 'd, 't) pm_env \<Rightarrow> pm_clock \<Rightarrow> nat \<Rightarrow> handler_pc option \<Rightarrow> ('p, 'd, 't, 'n) pm_step" where
  "run_parts en ck n None s = (s, [])"
| "run_parts en ck 0 (Some pc) s = (s, [])"
| "run_parts en ck (Suc n) (Some pc) s =
     (let (pc1, s1, o1) = handler_part en ck pc s; (s2, o2) = run_parts en ck n pc1 s1 in (s2, o1 @ o2))"

lemma handler_in_parts: "run_parts en ck 3 (Some (Setting h)) s = completionHandler en ck h t False s"
  by (simp add: numeral_3_eq_3 completionHandler_power_state setDevicePowerState_def handler_done_def Let_def split_beta)

section \<open>Interleaved with everything else\<close>

inductive handler_step ::
  "('p, 'd, 't) pm_env \<Rightarrow> ('p, 'd, 't, 'n) pm_sys \<times> handler_pc list \<Rightarrow> 'n pm_out list \<Rightarrow>
   ('p, 'd, 't, 'n) pm_sys \<times> handler_pc list \<Rightarrow> bool" for en where
  Whole: "pm_step en S outs S2 \<Longrightarrow> handler_step en (S, T) outs (S2, T)"
| Expires: "pmi_mcc s = Some ctl \<Longrightarrow> ack_sched ctl \<noteq> None \<Longrightarrow> AckTimer ctl = (ctl1, [Fire (Some h) True False]) \<Longrightarrow>
    handler_step en (\<lparr>sy_pmi = s, sy_call = c\<rparr>, T) [] (\<lparr>sy_pmi = s\<lparr>pmi_mcc := Some ctl1\<rparr>, sy_call = c\<rparr>, Setting h # T)"
| Part: "handler_part en ck pc s = (pc1, s1, outs) \<Longrightarrow>
    handler_step en (\<lparr>sy_pmi = s, sy_call = c\<rparr>, T1 @ pc # T2) outs
      (\<lparr>sy_pmi = s1, sy_call = c\<rparr>, T1 @ (case pc1 of None \<Rightarrow> [] | Some p \<Rightarrow> [p]) @ T2)"

inductive handler_run ::
  "('p, 'd, 't) pm_env \<Rightarrow> ('p, 'd, 't, 'n) pm_sys \<times> handler_pc list \<Rightarrow> 'n pm_out list \<Rightarrow>
   ('p, 'd, 't, 'n) pm_sys \<times> handler_pc list \<Rightarrow> bool" for en X where
  Stay: "handler_run en X [] X"
| Go: "handler_run en X outs Y \<Longrightarrow> handler_step en Y o2 Z \<Longrightarrow> handler_run en X (outs @ o2) Z"

lemma run_go: "handler_run en X outs Y \<Longrightarrow> handler_step en Y o2 Z \<Longrightarrow> o3 = outs @ o2 \<Longrightarrow> handler_run en X o3 Z"
  using handler_run.Go by simp

lemma run_path: "pm_path en S o2 S2 \<Longrightarrow> handler_run en X o1 (S, T) \<Longrightarrow> handler_run en X (o1 @ o2) (S2, T)"
  by (induction rule: pm_path.induct) (auto intro: run_go handler_step.Whole)

section \<open>References of handlers under way\<close>

text \<open>Nothing reads the counter: every step is the same with more references.\<close>

definition more_refs :: "int \<Rightarrow> ('p, 'd, 't, 'n) pmi \<Rightarrow> ('p, 'd, 't, 'n) pmi" where
  "more_refs d s = s\<lparr>pmi_refs := pmi_refs s + d\<rparr>"

lemma more_refs_simps [simp]:
  "pmi_power (more_refs d s) = pmi_power s" "pmi_mcc (more_refs d s) = pmi_mcc s"
  "pmi_clients (more_refs d s) = pmi_clients s" "pmi_changedL (more_refs d s) = pmi_changedL s"
  "pmi_refs (more_refs d s) = pmi_refs s + d" "pmi_selfLock (more_refs d s) = pmi_selfLock s"
  "pmi_preChangeL (more_refs d s) = pmi_preChangeL s" "pmi_deepSleep (more_refs d s) = pmi_deepSleep s"
  "pmi_nextTransactionId (more_refs d s) = pmi_nextTransactionId s" "pmi_nextClientId (more_refs d s) = pmi_nextClientId s"
  "pmi_activations (more_refs d s) = pmi_activations s" "power_state (more_refs d s) = power_state s"
  by (simp_all add: more_refs_def power_state_def)

lemma more_refs_update [simp]:
  "(more_refs d s)\<lparr>pmi_mcc := m\<rparr> = more_refs d (s\<lparr>pmi_mcc := m\<rparr>)"
  "(more_refs d s)\<lparr>pmi_power := p\<rparr> = more_refs d (s\<lparr>pmi_power := p\<rparr>)"
  "(more_refs d s)\<lparr>pmi_selfLock := b\<rparr> = more_refs d (s\<lparr>pmi_selfLock := b\<rparr>)"
  "(more_refs d s)\<lparr>pmi_deepSleep := ds\<rparr> = more_refs d (s\<lparr>pmi_deepSleep := ds\<rparr>)"
  "(more_refs d s)\<lparr>pmi_activations := a\<rparr> = more_refs d (s\<lparr>pmi_activations := a\<rparr>)"
  "(more_refs d s)\<lparr>pmi_clients := cs\<rparr> = more_refs d (s\<lparr>pmi_clients := cs\<rparr>)"
  "(more_refs d s)\<lparr>pmi_nextClientId := i\<rparr> = more_refs d (s\<lparr>pmi_nextClientId := i\<rparr>)"
  "(more_refs d s)\<lparr>pmi_nextTransactionId := t\<rparr> = more_refs d (s\<lparr>pmi_nextTransactionId := t\<rparr>)"
  "(more_refs d s)\<lparr>pmi_refs := pmi_refs s + d + e\<rparr> = more_refs d (s\<lparr>pmi_refs := pmi_refs s + e\<rparr>)"
  "(more_refs d s)\<lparr>pmi_refs := pmi_refs s + d - e\<rparr> = more_refs d (s\<lparr>pmi_refs := pmi_refs s - e\<rparr>)"
  by (simp_all add: more_refs_def algebra_simps)

lemma setDevicePowerState_more [simp]:
  "setDevicePowerState en ck k p n r (more_refs d s) =
     (let (e, s1, outs) = setDevicePowerState en ck k p n r s in (e, more_refs d s1, outs))"
  by (simp add: setDevicePowerState_def Let_def split_beta)

lemma completionHandler_more [simp]:
  "completionHandler en ck h t a (more_refs d s) =
     (let (s1, outs) = completionHandler en ck h t a s in (more_refs d s1, outs))"
  by (simp add: completionHandler_power_state Let_def split_beta) (simp add: more_refs_def)

lemma run_firings_more [simp]:
  "run_firings en ck fs (more_refs d s) = (let (s1, outs) = run_firings en ck fs s in (more_refs d s1, outs))"
proof (induction fs arbitrary: s)
  case (Cons f fs)
  obtain h t a where "f = Fire h t a" by (cases f)
  with Cons show ?case by (cases h) (simp_all add: Let_def split_beta)
qed simp

lemma sps_read_more: "sps_read en ck new (more_refs d s) = (let (v, s1) = sps_read en ck new s in (v, more_refs d s1))"
  by (simp add: sps_read_def Let_def split_beta)

lemma sps_prepare_more:
  "sps_prepare en ck new (more_refs d s) =
     (let (v, s1, outs) = sps_prepare en ck new s in (v, more_refs d s1, outs))"
  by (simp add: sps_prepare_def Let_def split_beta split: option.split) (simp add: more_refs_def)

lemma sps_schedule_more:
  "sps_schedule en ck k cur new sync tid r (more_refs d s) =
     (let (s1, outs) = sps_schedule en ck k cur new sync tid r s in (more_refs d s1, outs))"
  by (simp add: sps_schedule_def Let_def split_beta split: option.split)

lemma client_ops_more:
  "PMI_PowerModePreChangeComplete en ck i tid (more_refs d s) =
     (let (e, s1, outs) = PMI_PowerModePreChangeComplete en ck i tid s in (e, more_refs d s1, outs))"
  "PMI_DelayPowerModeChangeBy ck i tid n (more_refs d s) =
     (let (e, s1) = PMI_DelayPowerModeChangeBy ck i tid n s in (e, more_refs d s1))"
  "PMI_AddPowerModePreChangeClient name i (more_refs d s) =
     (let (e, j, s1) = PMI_AddPowerModePreChangeClient name i s in (e, j, more_refs d s1))"
  "PMI_RemovePowerModePreChangeClient en ck i (more_refs d s) =
     (let (e, s1, outs) = PMI_RemovePowerModePreChangeClient en ck i s in (e, more_refs d s1, outs))"
  "PMI_AckTimer en ck (more_refs d s) = (let (s1, outs) = PMI_AckTimer en ck s in (more_refs d s1, outs))"
  by (simp_all add: PMI_PowerModePreChangeComplete_def PMI_DelayPowerModeChangeBy_def PMI_AddPowerModePreChangeClient_def
      PMI_RemovePowerModePreChangeClient_def PMI_AckTimer_def Let_def split_beta split: option.split)

definition more :: "int \<Rightarrow> ('p, 'd, 't, 'n) pm_sys \<Rightarrow> ('p, 'd, 't, 'n) pm_sys" where
  "more d S = S\<lparr>sy_pmi := more_refs d (sy_pmi S)\<rparr>"

lemma pm_step_more: "pm_step en S outs S2 \<Longrightarrow> pm_step en (more d S) outs (more d S2)"
proof (induction rule: pm_step.induct)
  case (Return s ck new e s1)
  then show ?case by (simp add: more_def) (rule pm_step.Return [where ck = ck and new = new], simp_all add: sps_read_more)
next
  case (Read s ck new cur sync s1 k reason)
  then show ?case by (simp add: more_def) (rule pm_step.Read [where ck = ck and new = new], simp_all add: sps_read_more)
next
  case (Redundant ck new s s1 outs k reason cur sync)
  then show ?case by (simp add: more_def) (rule pm_step.Redundant [where ck = ck], simp_all add: sps_prepare_more)
next
  case (Prepare ck new s tid s1 outs k reason cur sync)
  then show ?case by (simp add: more_def) (rule pm_step.Prepare [where ck = ck], simp_all add: sps_prepare_more)
next
  case (Sched ck k cur new sync tid reason s s1 outs)
  then show ?case by (simp add: more_def) (rule pm_step.Sched [where ck = ck], simp_all add: sps_schedule_more)
next
  case (AckOp ck i tid s e s1 outs c)
  then show ?case by (simp add: more_def) (rule pm_step.AckOp [where ck = ck and i = i and tid = tid], simp_all add: client_ops_more)
next
  case (DelayOp ck i tid n s e s1 c)
  then show ?case by (simp add: more_def) (rule pm_step.DelayOp [where ck = ck and i = i and tid = tid and d = n], simp_all add: client_ops_more)
next
  case (AddClient name i s e j s1 c)
  then show ?case by (simp add: more_def) (rule pm_step.AddClient [where name = name and i = i], simp_all add: client_ops_more)
next
  case (RemoveClient ck i s e s1 outs c)
  then show ?case by (simp add: more_def) (rule pm_step.RemoveClient [where ck = ck and i = i], simp_all add: client_ops_more)
next
  case (Timer s ctl ck s1 outs c)
  then show ?case
    by (simp add: more_def) (rule pm_step.Timer [of _ ctl _ ck], simp_all add: client_ops_more)
next
  case (Other s s1 c)
  then show ?case by (simp add: more_def) (rule pm_step.Other, simp_all add: same_transition_def)
qed

text \<open>What holds of the object without the references of the handlers under way.\<close>

definition handlers_inv :: "('p, 'd, 't, 'n) pm_sys \<times> handler_pc list \<Rightarrow> bool" where
  "handlers_inv X \<longleftrightarrow> pm_inv (more (- int (length (snd X))) (fst X)) \<and>
     (\<forall>pc \<in> set (snd X). case pc of Setting h \<Rightarrow> \<not> hd_isSync h | Telling h \<Rightarrow> \<not> hd_isSync h | Activating h \<Rightarrow> \<not> hd_isSync h)"

lemma handler_step_inv: "handler_step en X outs Y \<Longrightarrow> handlers_inv X \<Longrightarrow> handlers_inv Y"
proof (induction rule: handler_step.induct)
  case (Whole S outs S2 T)
  then show ?case using pm_step_inv [OF pm_step_more [OF Whole(1)]] by (simp add: handlers_inv_def)
next
  case (Expires s ctl ctl1 h c T)
  let ?n = "- int (length T)"
  have ok: "ack_inv ctl" "ack_handler ctl = Some h" "\<not> hd_isSync h" "ack_running ctl"
    "ctl1 = ctl\<lparr>ack_sched := None, ack_running := False\<rparr>" and i: "pm_inv (more ?n \<lparr>sy_pmi = s, sy_call = c\<rparr>)"
    using Expires(1,3,4) by (auto simp: handlers_inv_def more_def pm_inv_def mcc_ok_def ctl_ok_def AckTimer_def Let_def split: if_splits)
  have "ack_inv ctl1" using ok(1,5) by (auto simp: ack_inv_def)
  then have "pm_inv (more (- 1 - int (length T)) \<lparr>sy_pmi = s\<lparr>pmi_mcc := Some ctl1\<rparr>, sy_call = c\<rparr>)"
    using i ok Expires(1) by (auto simp: more_def pm_inv_def mcc_running_def mcc_ok_def ctl_ok_def pc_fits_def split: option.splits sps_pc.splits)
  then show ?case using Expires(4) ok(3) by (simp add: handlers_inv_def)
next
  case (Part ck pc s pc1 s1 outs c T1 T2)
  let ?rest = "case pc1 of None \<Rightarrow> [] | Some p \<Rightarrow> [p]"
  let ?async = "\<lambda>pc. case pc of Setting h \<Rightarrow> \<not> hd_isSync h | Telling h \<Rightarrow> \<not> hd_isSync h | Activating h \<Rightarrow> \<not> hd_isSync h"
  have sync: "?async pc" using Part(2) by (auto simp: handlers_inv_def)
  have f: "pmi_mcc s1 = pmi_mcc s" "pmi_selfLock s1 = pmi_selfLock s"
    "pmi_refs s1 = pmi_refs s - (if pc1 = None then 1 else 0)" "case pc1 of None \<Rightarrow> True | Some p \<Rightarrow> ?async p"
    using Part(1) sync by (cases pc; auto simp: handler_done_def Let_def split_beta split: if_splits)+
  have "pm_inv (more (- int (length (T1 @ pc # T2))) \<lparr>sy_pmi = s, sy_call = c\<rparr>)" using Part(2) by (simp add: handlers_inv_def)
  then have "pm_inv (more (- int (length (T1 @ ?rest @ T2))) \<lparr>sy_pmi = s1, sy_call = c\<rparr>)"
    using f by (cases pc1) (auto simp: more_def pm_inv_def mcc_running_def)
  moreover have "\<forall>p \<in> set (T1 @ ?rest @ T2). ?async p"
    using f(4) Part(2) by (cases pc1) (auto simp: handlers_inv_def)
  ultimately show ?case unfolding handlers_inv_def fst_conv snd_conv by blast
qed

inductive handler_reach :: "('p, 'd, 't) pm_env \<Rightarrow> ('p, 'd, 't, 'n) pm_sys \<times> handler_pc list \<Rightarrow> bool" for en where
  start: "handler_reach en (\<lparr>sy_pmi = PMI_new en now p d th fs, sy_call = None\<rparr>, [])"
| step: "handler_reach en X \<Longrightarrow> handler_step en X outs Y \<Longrightarrow> handler_reach en Y"

lemma more_nothing [simp]: "more 0 S = S" "more_refs 0 s = s"
  by (cases S; cases s; simp add: more_def more_refs_def)+

lemma handlers_inv_nothing: "handlers_inv (S, []) = pm_inv S"
  by (simp add: handlers_inv_def)

text \<open>
  The books of \<open>PowerTransitions\<close> stay right when handlers are taken apart: the object has one
  reference for a transition prepared, one for a transition waiting and one for each handler
  under way, and \<^verbatim>\<open>selfLock\<close> is taken exactly during a request.
\<close>

lemma handler_bookkeeping:
  assumes "handler_reach en (S, T)"
  shows "pmi_refs (sy_pmi S) = (if prepared (sy_call S) then 1 else 0) + (if mcc_running (sy_pmi S) then 1 else 0) + int (length T)"
    and "pmi_selfLock (sy_pmi S) \<longleftrightarrow> sy_call S \<noteq> None"
proof -
  have "handlers_inv X" if "handler_reach en X" for X :: "('a, 'b, 'c, 'd) pm_sys \<times> handler_pc list"
    using that
  proof (induction rule: handler_reach.induct)
    case (start now p d th fs)
    then show ?case using pm_reach_inv [OF pm_reach.start] by (simp add: handlers_inv_nothing)
  qed (rule handler_step_inv)
  from this [OF assms] have i: "pm_inv (more (- int (length T)) S)" by (simp add: handlers_inv_def)
  then show "pmi_refs (sy_pmi S) = (if prepared (sy_call S) then 1 else 0) + (if mcc_running (sy_pmi S) then 1 else 0) + int (length T)"
    by (auto simp: pm_inv_def more_def mcc_running_def)
  from i show "pmi_selfLock (sy_pmi S) \<longleftrightarrow> sy_call S \<noteq> None" by (simp add: pm_inv_def more_def)
qed

section \<open>A request between setting and telling\<close>

lemma PMI_SetPowerState_more:
  "PMI_SetPowerState en ck k new r (more_refs d s) =
     map_option (\<lambda>(e, s1, outs). (e, more_refs d s1, outs)) (PMI_SetPowerState en ck k new r s)"
  by (simp add: PMI_SetPowerState_def sps_read_more sps_prepare_more sps_schedule_more Let_def split_beta
      split: sps.split option.split)

lemma more_refs_more: "more_refs a (more_refs b s) = more_refs (b + a) s"
  by (simp add: more_refs_def algebra_simps)

text \<open>
  C30. The timer runs the completion handler without \<^verbatim>\<open>_apiLock\<close>, and the handler sets the state,
  tells the observers and activates deep sleep one after the other. A wake-up to light sleep that
  comes after the first is carried out and announced at once, as it is synchronous; then the
  handler goes on: the observers are told last that the device is in deep sleep, while it is
  recorded and set to light sleep, and the job that puts it to deep sleep is queued after the
  wake-up has cancelled deep sleep.
\<close>

theorem late_announcement:
  fixes ck :: pm_clock
  assumes reach: "pm_reach en \<lparr>sy_pmi = s, sy_call = None\<rparr>" and w: "awaiting h tid P s"
    and deep: "hd_newState h = POWER_STATE_STANDBY_DEEP_SLEEP" and idle: "\<not> IsDeepSleepInProgress (pmi_deepSleep s)"
    and sleep: "PWC_SetPowerState (en_power en) (en_val en) (ck_now ck) (hd_keyCode h) POWER_STATE_STANDBY_DEEP_SLEEP
      (hd_reason h) (pmi_power s) = (ERROR_NONE, p)"
    and wake: "PWC_SetPowerState (en_power en) (en_val en) (ck_now ck) k POWER_STATE_STANDBY_LIGHT_SLEEP r p = (ERROR_NONE, p2)"
  shows "\<exists>o1 s2. handler_run en (\<lparr>sy_pmi = s, sy_call = None\<rparr>, [])
      (o1 @ map Notify (dispatchPowerModeChangedEvent POWER_STATE_STANDBY_DEEP_SLEEP POWER_STATE_STANDBY_LIGHT_SLEEP (pmi_changedL s)) @
       map Notify (dispatchPowerModeChangedEvent (hd_currState h) POWER_STATE_STANDBY_DEEP_SLEEP (pmi_changedL s)))
      (\<lparr>sy_pmi = s2, sy_call = None\<rparr>, []) \<and>
    (\<forall>c. Notify c \<notin> set o1) \<and> power_state s2 = POWER_STATE_STANDBY_LIGHT_SLEEP \<and>
    pmi_activations s2 = pmi_activations s @ [PWC_ActivateDeepSleep (ck_calendar ck) p2]"
proof -
  let ?light = POWER_STATE_STANDBY_LIGHT_SLEEP and ?deep = POWER_STATE_STANDBY_DEEP_SLEEP
  let ?X = "(\<lparr>sy_pmi = s, sy_call = None\<rparr>, [])"
  have inv: "pm_inv \<lparr>sy_pmi = s, sy_call = None\<rparr>" by (rule pm_reach_inv [OF reach])
  from w obtain a where a: "pmi_mcc s = Some a" "ack_running a" "ack_handler a = Some h" "ack_powerState a = ?deep"
    using deep by (auto simp: awaiting_def)
  from inv a have sched: "ack_sched a \<noteq> None" by (simp add: pm_inv_def mcc_ok_def ctl_ok_def ack_inv_def)
  let ?a = "a\<lparr>ack_sched := None, ack_running := False\<rparr>"
  let ?s1 = "s\<lparr>pmi_mcc := Some ?a, pmi_power := p\<rparr>"
  have 1: "handler_step en ?X [] (\<lparr>sy_pmi = s\<lparr>pmi_mcc := Some ?a\<rparr>, sy_call = None\<rparr>, [Setting h])"
    by (rule handler_step.Expires [OF a(1) sched]) (use a in \<open>simp add: AckTimer_def Let_def\<close>)
  have 2: "handler_step en (\<lparr>sy_pmi = s\<lparr>pmi_mcc := Some ?a\<rparr>, sy_call = None\<rparr>, [Setting h]) [] (\<lparr>sy_pmi = ?s1, sy_call = None\<rparr>, [Telling h])"
    using handler_step.Part [of en ck "Setting h" "s\<lparr>pmi_mcc := Some ?a\<rparr>" "Some (Telling h)" ?s1 "[]" None "[]" "[]"]
    by (simp add: deep sleep)
  have run1: "handler_run en ?X [] (\<lparr>sy_pmi = ?s1, sy_call = None\<rparr>, [Telling h])"
    by (rule run_go [OF run_go [OF handler_run.Stay 1] 2]) simp_all
  have "handlers_inv (\<lparr>sy_pmi = ?s1, sy_call = None\<rparr>, [Telling h])"
    by (rule handler_step_inv [OF 2 handler_step_inv [OF 1]]) (simp add: handlers_inv_nothing inv)
  then have inv1: "pm_inv \<lparr>sy_pmi = more_refs (- 1) ?s1, sy_call = None\<rparr>" by (simp add: handlers_inv_def more_def)
  have ps: "power_state (more_refs (- 1) ?s1) = ?deep"
    using PWC_SetPowerState_state [of "en_power en" "en_val en" "ck_now ck" "hd_keyCode h" ?deep "hd_reason h" "pmi_power s"]
    by (simp add: power_state_def sleep)
  obtain t post where q: "PMI_SetPowerState en ck k ?light r (more_refs (- 1) ?s1) = Some (ERROR_NONE, t, map SubmitPreChange
      (dispatchEvent (OnPowerModePreChange ?deep ?light (pmi_nextTransactionId s + 1) 0) (pmi_preChangeL s)) @ post)"
    and t: "pmi_power t = p2" "post = map Notify (dispatchPowerModeChangedEvent ?deep ?light (pmi_changedL s))"
      "pmi_changedL t = pmi_changedL s" "pmi_activations t = pmi_activations s"
    by (rule request_immediate [OF inv1, of ?light ck en k r])
       (use a ps wake idle in \<open>auto simp: isSyncStateChange_def\<close>)
  have undo: "more_refs 1 (more_refs (- 1) ?s1) = ?s1" by (simp only: more_refs_more more_nothing add.left_inverse)
  have "PMI_SetPowerState en ck k ?light r ?s1 = Some (ERROR_NONE, more_refs 1 t, map SubmitPreChange
      (dispatchEvent (OnPowerModePreChange ?deep ?light (pmi_nextTransactionId s + 1) 0) (pmi_preChangeL s)) @ post)"
    using PMI_SetPowerState_more [of en ck k ?light r 1 "more_refs (- 1) ?s1"] unfolding undo q by simp
  note run2 = run_path [OF call_path [OF this] run1]
  let ?t = "more_refs 1 t"
  let ?s2 = "handler_done h (?t\<lparr>pmi_activations := pmi_activations ?t @ [PWC_ActivateDeepSleep (ck_calendar ck) (pmi_power ?t)]\<rparr>)"
  have 3: "handler_step en (\<lparr>sy_pmi = ?t, sy_call = None\<rparr>, [Telling h])
      (map Notify (dispatchPowerModeChangedEvent (hd_currState h) ?deep (pmi_changedL s))) (\<lparr>sy_pmi = ?t, sy_call = None\<rparr>, [Activating h])"
    using handler_step.Part [of en ck "Telling h" ?t "Some (Activating h)" ?t _ None "[]" "[]"] by (simp add: deep t(3))
  have 4: "handler_step en (\<lparr>sy_pmi = ?t, sy_call = None\<rparr>, [Activating h]) [] (\<lparr>sy_pmi = ?s2, sy_call = None\<rparr>, [])"
    using handler_step.Part [of en ck "Activating h" ?t None ?s2 "[]" None "[]" "[]"] by simp
  have lit: "power_state t = ?light"
    using PWC_SetPowerState_state [of "en_power en" "en_val en" "ck_now ck" k ?light r p] by (simp add: power_state_def t(1) wake)
  show ?thesis
  proof (intro exI conjI)
    show "handler_run en ?X (map SubmitPreChange (dispatchEvent (OnPowerModePreChange ?deep ?light (pmi_nextTransactionId s + 1) 0)
        (pmi_preChangeL s)) @ map Notify (dispatchPowerModeChangedEvent ?deep ?light (pmi_changedL s)) @
       map Notify (dispatchPowerModeChangedEvent (hd_currState h) ?deep (pmi_changedL s))) (\<lparr>sy_pmi = ?s2, sy_call = None\<rparr>, [])"
      by (rule run_go [OF run_go [OF run2 3 refl] 4]) (simp add: t(2))
  qed (use lit t in \<open>auto simp: handler_done_def power_state_def more_refs_def\<close>)
qed

lemma late_announcement_witness:
  "\<exists>s s2 :: (PowerState, nat, unit, nat) pmi. \<exists>outs. mcc_running s \<and>
     handler_run demo_cycle_env (\<lparr>sy_pmi = s, sy_call = None\<rparr>, []) outs (\<lparr>sy_pmi = s2, sy_call = None\<rparr>, []) \<and>
     power_state s2 = POWER_STATE_STANDBY_LIGHT_SLEEP \<and> pmi_activations s2 \<noteq> []"
proof -
  let ?env = demo_cycle_env and ?light = POWER_STATE_STANDBY_LIGHT_SLEEP
  obtain s j tid h where s: "pm_reach ?env \<lparr>sy_pmi = settled s, sy_call = None\<rparr>" "awaiting h tid {j} (settled s)"
    "hd_newState h = POWER_STATE_STANDBY_DEEP_SLEEP" by (rule demo_asked)
  have idle: "\<not> IsDeepSleepInProgress (pmi_deepSleep (settled s))"
    by (simp add: DeepSleepController_new_def IsDeepSleepInProgress_def)
  obtain p where p: "PWC_SetPowerState (en_power ?env) (en_val ?env) (ck_now demo_clock) (hd_keyCode h) POWER_STATE_STANDBY_DEEP_SLEEP
      (hd_reason h) (pmi_power (settled s)) = (ERROR_NONE, p)"
    using cycle_accepts(1) [of "pmi_power (settled s)"] by (metis settled_fields(6) file_exists_no_files surjective_pairing)
  obtain p2 where "PWC_SetPowerState (en_power ?env) (en_val ?env) (ck_now demo_clock) 0 ?light [] p = (ERROR_NONE, p2)"
    using cycle_accepts(2) [of ?light "en_val ?env" "ck_now demo_clock" 0 "[]" p] that [of "snd _"] by (simp add: prod_eq_iff)
  from late_announcement [OF s idle p this]
  obtain s2 outs where "handler_run ?env (\<lparr>sy_pmi = settled s, sy_call = None\<rparr>, []) outs (\<lparr>sy_pmi = s2, sy_call = None\<rparr>, [])"
    "power_state s2 = ?light" "pmi_activations s2 \<noteq> []" by force
  moreover have "mcc_running (settled s)" using s(2) by (auto simp: awaiting_def mcc_running_def)
  ultimately show ?thesis by blast
qed

end
