(* ===== verification/PluginShell.thy ===== *)
theory PluginShell
  imports PowerClients
begin

text \<open>
  \<^verbatim>\<open>plugin/PowerManager.h\<close>, \<^verbatim>\<open>.cpp\<close>: the plugin that Thunder loads. It creates the
  implementation, registers its own notification object with it to turn events into JSON-RPC
  events, and forgets the objects of clients that are gone.

  The framework's \<^verbatim>\<open>Root\<close> is a parameter: the implementation object and connection it gives,
  or nothing. What the plugin holds of the framework is counted: references to the service, the
  service's notification registrations, the JSON-RPC registration. \<open>self\<close> is the plugin's own
  notification object.
\<close>

section \<open>State\<close>

datatype service_notification = RemoteConnectionNotification | COMLinkNotification

record ('p, 'd, 't, 'n) shell =
  sh_service :: bool
  sh_connectionId :: u32
  sh_powerManager :: "('p, 'd, 't, 'n) pmi option"
  sh_serviceRefs :: int
  sh_registered :: "service_notification list"
  sh_jsonrpc :: bool

definition shell_new :: "('p, 'd, 't, 'n) shell" where
  "shell_new = \<lparr>sh_service = False, sh_connectionId = 0, sh_powerManager = None, sh_serviceRefs = 0,
     sh_registered = [], sh_jsonrpc = False\<rparr>"

text \<open>The order in which the plugin registers and unregisters.\<close>

definition shell_kinds :: "notif_kind list" where
  "shell_kinds = [IRebootNotification, IModePreChangeNotification, IModeChangedNotification,
     IDeepSleepTimeoutNotification, INetworkStandbyModeChangedNotification, IThermalModeChangedNotification]"

definition register_all :: "'n \<Rightarrow> ('p, 'd, 't, 'n) pmi \<Rightarrow> ('p, 'd, 't, 'n) pmi" where
  "register_all self s = fold (\<lambda>k s. snd (PMI_RegisterNotification k self s)) shell_kinds s"

definition unregister_all :: "'n \<Rightarrow> ('p, 'd, 't, 'n) pmi \<Rightarrow> ('p, 'd, 't, 'n) pmi" where
  "unregister_all self s = fold (\<lambda>k s. snd (PMI_UnregisterNotification k self s)) shell_kinds s"

section \<open>Operations\<close>

text \<open>
  Stopping gives, besides the state, the implementation object as it is when the plugin drops it,
  and the connection that is terminated; \<open>remote\<close> tells whether the service has a remote
  connection of that number, that is, whether the implementation runs in its own process. An
  exception of the termination is caught and changes nothing.
\<close>

definition Shell_Deinitialize ::
  "'n \<Rightarrow> (u32 \<Rightarrow> bool) \<Rightarrow> ('p, 'd, 't, 'n) shell \<Rightarrow> ('p, 'd, 't, 'n) shell \<times> ('p, 'd, 't, 'n) pmi option \<times> u32 option" where
  "Shell_Deinitialize self remote s =
     (let s1 = s\<lparr>sh_registered := remove1 COMLinkNotification (remove1 RemoteConnectionNotification (sh_registered s))\<rparr>;
          (s2, dropped, terminated) =
            (case sh_powerManager s1 of
               None \<Rightarrow> (s1, None, None)
             | Some p \<Rightarrow> (s1\<lparr>sh_powerManager := None, sh_jsonrpc := False\<rparr>, Some (unregister_all self p),
                          if remote (sh_connectionId s1) then Some (sh_connectionId s1) else None))
      in (s2\<lparr>sh_connectionId := 0, sh_serviceRefs := sh_serviceRefs s2 - 1, sh_service := False\<rparr>, dropped, terminated))"

definition Shell_Initialize ::
  "'n \<Rightarrow> (u32 \<Rightarrow> bool) \<Rightarrow> (('p, 'd, 't, 'n) pmi \<times> u32) option \<Rightarrow> ('p, 'd, 't, 'n) shell \<Rightarrow>
   string \<times> ('p, 'd, 't, 'n) shell" where
  "Shell_Initialize self remote impl s =
     (let s1 = s\<lparr>sh_service := True, sh_serviceRefs := sh_serviceRefs s + 1,
                 sh_registered := sh_registered s @ [RemoteConnectionNotification, COMLinkNotification]\<rparr>
      in case impl of
           Some (p, connection) \<Rightarrow>
             ([], s1\<lparr>sh_connectionId := connection, sh_powerManager := Some (register_all self p), sh_jsonrpc := True\<rparr>)
         | None \<Rightarrow> (''PowerManager plugin could not be initialised'', fst (Shell_Deinitialize self remote s1)))"

definition Shell_Information :: string where
  "Shell_Information = ''This PowerManager Plugin facilitates communication between Thunder plugins and the PwrMgr IARM manager''"

text \<open>The result tells whether a deactivation of the plugin is submitted.\<close>

definition Shell_Deactivated :: "u32 \<Rightarrow> ('p, 'd, 't, 'n) shell \<Rightarrow> bool" where
  "Shell_Deactivated connection s \<longleftrightarrow> connection = sh_connectionId s"

text \<open>
  A remote object is gone: \<open>object\<close> is what it gives for the revoked interface, and \<open>interface\<close>
  is \<open>None\<close> for an interface that is none of the six. The third result counts the references
  that are taken by the query and not released.
\<close>

definition CallbackRevoked ::
  "notif_kind option \<Rightarrow> 'n option \<Rightarrow> ('p, 'd, 't, 'n) shell \<Rightarrow> ('p, 'd, 't, 'n) shell \<times> int" where
  "CallbackRevoked interface object s =
     (case (interface, object) of
        (Some k, Some n) \<Rightarrow>
          (case sh_powerManager s of
             Some p \<Rightarrow> (s\<lparr>sh_powerManager := Some (snd (PMI_UnregisterNotification k n p))\<rparr>, 0)
           | None \<Rightarrow> (s, 1))
      | _ \<Rightarrow> (s, 0))"

text \<open>
  What the framework tells the notification object: connections opened and closed, and remote
  objects that are gone. The second result tells whether a deactivation of the plugin is
  submitted, the third counts references that are lost.
\<close>

datatype 'n framework_event =
    ConnectionActivated u32
  | ConnectionDeactivated u32
  | Dangling "notif_kind option" "'n option"
  | Revoked "notif_kind option" "'n option"

fun Shell_frameworkEvent ::
  "'n framework_event \<Rightarrow> ('p, 'd, 't, 'n) shell \<Rightarrow> ('p, 'd, 't, 'n) shell \<times> bool \<times> int" where
  "Shell_frameworkEvent (ConnectionActivated connection) s = (s, False, 0)"
| "Shell_frameworkEvent (ConnectionDeactivated connection) s = (s, Shell_Deactivated connection s, 0)"
| "Shell_frameworkEvent (Dangling interface object) s =
     (let (s1, lost) = CallbackRevoked interface object s in (s1, False, lost))"
| "Shell_frameworkEvent (Revoked interface object) s =
     (let (s1, lost) = CallbackRevoked interface object s in (s1, False, lost))"

text \<open>The plugin's notification object sends each event on as the JSON-RPC event of the same name.\<close>

datatype json_event = JsonEvent pm_event

definition Shell_Notification :: "pm_event \<Rightarrow> json_event" where
  "Shell_Notification e = JsonEvent e"

section \<open>Life cycle\<close>

lemma register_get:
  "notif_get j (snd (PMI_RegisterNotification k n s)) = (if j = k then snd (PMI_Register n (notif_get k s)) else notif_get j s)"
  "notif_get j (snd (PMI_UnregisterNotification k n s)) = (if j = k then snd (PMI_Unregister n (notif_get k s)) else notif_get j s)"
  by (simp_all add: PMI_RegisterNotification_def PMI_UnregisterNotification_def Let_def split_beta notif_put_get)

lemma all_get:
  "notif_get j (register_all n s) = snd (PMI_Register n (notif_get j s))"
  "notif_get j (unregister_all n s) = snd (PMI_Unregister n (notif_get j s))"
  by (cases j; simp add: register_all_def unregister_all_def shell_kinds_def register_get)+

lemma register_unregister:
  "n \<notin> set (nl_list l) \<Longrightarrow> snd (PMI_Unregister n (snd (PMI_Register n l))) = l"
  by (cases l) (simp add: PMI_Register_def PMI_Unregister_def remove1_append fun_eq_iff)

text \<open>
  C38. Starting and stopping the plugin leaves nothing behind: if the implementation cannot be
  created the plugin is back in its initial state and says so; otherwise it serves JSON-RPC, its
  own object is registered for all six kinds of events, revoking a client's object takes exactly
  that object out of that list, and stopping restores the plugin's initial state and
  hands back the implementation with its lists as if the plugin had never been registered, and
  terminates the connection of an implementation in another process.
\<close>

theorem plugin_lifecycle:
  assumes "\<forall>k. self \<notin> set (nl_list (notif_get k p))"
  shows "Shell_Initialize self remote None shell_new = (''PowerManager plugin could not be initialised'', shell_new) \<and>
    (let (msg, s) = Shell_Initialize self remote (Some (p, conn)) shell_new;
         (r, leaked) = CallbackRevoked (Some k) (Some client) s;
         (t, dropped, terminated) = Shell_Deinitialize self remote s
     in msg = [] \<and> sh_jsonrpc s \<and>
        (\<exists>q q2. sh_powerManager s = Some q \<and> (\<forall>j. self \<in> set (nl_list (notif_get j q))) \<and>
           sh_powerManager r = Some q2 \<and> leaked = 0 \<and>
           (\<forall>j. nl_list (notif_get j q2) = (if j = k then remove1 client (nl_list (notif_get j q)) else nl_list (notif_get j q)))) \<and>
        t = shell_new \<and> terminated = (if remote conn then Some conn else None) \<and> (\<exists>q. dropped = Some q \<and> (\<forall>j. notif_get j q = notif_get j p)))"
proof -
  let ?q = "register_all self p"
  have mem: "self \<in> set (nl_list (notif_get j ?q))" for j
    by (simp add: all_get PMI_Register_def)
  have gone: "nl_list (notif_get j (snd (PMI_UnregisterNotification k client ?q))) =
      (if j = k then remove1 client (nl_list (notif_get j ?q)) else nl_list (notif_get j ?q))" for j
    by (simp add: register_get PMI_Unregister_def remove1_idem)
  have undone: "notif_get j (unregister_all self ?q) = notif_get j p" for j
    using assms by (simp add: all_get register_unregister)
  have "Shell_Initialize self remote None shell_new = (''PowerManager plugin could not be initialised'', shell_new)"
    by (simp add: Shell_Initialize_def Shell_Deinitialize_def shell_new_def Let_def)
  moreover have "Shell_Initialize self remote (Some (p, conn)) shell_new = ([], shell_new\<lparr>sh_service := True, sh_serviceRefs := 1,
      sh_registered := [RemoteConnectionNotification, COMLinkNotification], sh_connectionId := conn,
      sh_powerManager := Some ?q, sh_jsonrpc := True\<rparr>)"
    by (simp add: Shell_Initialize_def shell_new_def Let_def)
  ultimately show ?thesis
    using mem gone undone
    by (simp add: CallbackRevoked_def Shell_Deinitialize_def shell_new_def Let_def)
qed

lemma plugin_lifecycle_witness:
  "fst (Shell_Deinitialize (5 :: nat) (\<lambda>_. False) (snd (Shell_Initialize 5 (\<lambda>_. False) (Some (demo_pmi, 1)) shell_new))) = shell_new"
proof -
  have "notif_get i demo_pmi = notif_list_new" for i
    by (cases i) (simp_all add: demo_pmi_def PMI_new_def)
  then have "\<forall>k. (5 :: nat) \<notin> set (nl_list (notif_get k demo_pmi))" by (simp add: notif_list_new_def)
  from plugin_lifecycle [OF this, of "\<lambda>_. False" 1 IRebootNotification 0] show ?thesis
    unfolding split_beta Let_def by (elim conjE)
qed

text \<open>When a client's object is revoked after the implementation is gone, the reference taken is lost.\<close>

lemma revocation_leaks_reference:
  "sh_powerManager s = None \<Longrightarrow> CallbackRevoked (Some k) (Some n) s = (s, 1)"
  by (simp add: CallbackRevoked_def)

text \<open>
  A client that dies is not forgotten as a client: its notification object is taken out of the
  list, but the next transition still waits for its acknowledgement, to the end of the timeout.
\<close>

lemma dead_client_is_awaited:
  assumes "sh_powerManager s = Some p" and "Shell_frameworkEvent (Dangling (Some k) (Some n)) s = (s1, gone, lost)"
    and "pm_reach en \<lparr>sy_pmi = p, sy_call = None\<rparr>" and "fresh_request en ck new p"
    and "cid \<in> set (map fst (pmi_clients p))" and "en_preChangeTimeout en * 1000 \<noteq> 0"
  shows "\<exists>q q1 outs P. sh_powerManager s1 = Some q \<and>
    PMI_SetPowerState en ck key new r q = Some (ERROR_NONE, q1, outs) \<and>
    awaiting (request_handler key new r q) (pmi_nextTransactionId p + 1) P q1 \<and> cid \<in> P"
proof -
  let ?q = "snd (PMI_UnregisterNotification k n p)"
  have same: "pmi_clients ?q = pmi_clients p" "pmi_nextTransactionId ?q = pmi_nextTransactionId p"
    "same_transition p ?q" "pmi_deepSleep ?q = pmi_deepSleep p"
    by (cases k; simp add: PMI_UnregisterNotification_def Let_def split_beta same_transition_def power_state_def)+
  have inv: "pm_inv \<lparr>sy_pmi = ?q, sy_call = None\<rparr>"
    by (rule pm_reach_inv [OF pm_reach.step [OF assms(3) pm_step.Other [OF same(3)]]])
  have fresh: "fresh_request en ck new ?q"
    using assms(4) same by (simp add: fresh_request_def same_transition_def)
  have ne: "pmi_clients ?q \<noteq> []" using assms(5) same(1) by auto
  obtain q1 outs where "PMI_SetPowerState en ck key new r ?q = Some (ERROR_NONE, q1, outs)"
    "awaiting (request_handler key new r ?q) (pmi_nextTransactionId ?q + 1) (set (map fst (pmi_clients ?q))) q1"
    by (rule request_starts [OF pm_inv_ok [OF inv] fresh ne assms(6), of key r]) blast
  moreover have "sh_powerManager s1 = Some ?q" using assms(1,2) by (auto simp: CallbackRevoked_def)
  ultimately show ?thesis using same(1,2) assms(5) by metis
qed

end
