(* ===== verification/PluginLifetime.thy ===== *)
theory PluginLifetime
  imports DeepSleepCycle PowerInterleavings PluginShell
begin

text \<open>
  Who keeps the implementation object alive. The framework counts references and deletes the
  object when the last one is released; the code takes references for the plugin and the clients
  outside (\<open>lf_outside\<close>), for every pre-change job in the worker pool (class \<^verbatim>\<open>LambdaJob\<close> of
  \<^verbatim>\<open>PowerManagerImplementation.h\<close>) and for every transition (\<^verbatim>\<open>SetPowerState\<close>, released by
  the completion handler). \<open>lf_count\<close> is the counter itself, moved by each \<^verbatim>\<open>AddRef\<close> and
  \<^verbatim>\<open>Release\<close> of the code; the object is deleted when it is 0, and no step follows. The jobs of
  the deep sleep controller hold no reference.

  The object moves by the steps of \<open>PowerRaces\<close>, so its threads may be interrupted between a
  test of the controller and their action on it. The threads of the object itself, which poll the
  temperature and put the device to sleep, make requests too, and hold no reference while
  they do (\<open>lf_own\<close>).
\<close>

section \<open>Counting references\<close>

record ('p, 'd, 't, 'n) life =
  lf_sys :: "('p, 'd, 't, 'n) pm_sys"
  lf_late :: "late list"
  lf_own :: bool                         \<comment> \<open>the call under way is made by a thread of the object\<close>
  lf_outside :: nat
  lf_jobs :: "'n notif_call list"
  lf_count :: int

text \<open>The constructor and the destructor of a pre-change job.\<close>

definition LambdaJob_Create :: "'n notif_call \<Rightarrow> ('p, 'd, 't, 'n) life \<Rightarrow> ('p, 'd, 't, 'n) life" where
  "LambdaJob_Create j L = L\<lparr>lf_jobs := lf_jobs L @ [j], lf_count := lf_count L + 1\<rparr>"

definition LambdaJob_delete :: "'n notif_call list \<Rightarrow> ('p, 'd, 't, 'n) life \<Rightarrow> ('p, 'd, 't, 'n) life" where
  "LambdaJob_delete remaining L = L\<lparr>lf_jobs := remaining, lf_count := lf_count L - 1\<rparr>"

text \<open>What the job calls when it is dispatched.\<close>

definition LambdaJob_Dispatch :: "'n notif_call \<Rightarrow> 'n pm_out list" where
  "LambdaJob_Dispatch j = [Notify j]"

fun pre_jobs :: "'n pm_out list \<Rightarrow> 'n notif_call list" where
  "pre_jobs [] = []"
| "pre_jobs (SubmitPreChange j # outs) = j # pre_jobs outs"
| "pre_jobs (Notify j # outs) = pre_jobs outs"
| "pre_jobs (SubmitReboot a b c # outs) = pre_jobs outs"

text \<open>A step of the object: what it takes and releases itself, and the jobs it creates.\<close>

definition account ::
  "('p, 'd, 't, 'n) pm_sys \<times> late list \<Rightarrow> 'n pm_out list \<Rightarrow> ('p, 'd, 't, 'n) life \<Rightarrow> ('p, 'd, 't, 'n) life" where
  "account X outs L = fold LambdaJob_Create (pre_jobs outs)
     (L\<lparr>lf_sys := fst X, lf_late := snd X,
        lf_count := lf_count L + (pmi_refs (sy_pmi (fst X)) - pmi_refs (sy_pmi (lf_sys L)))\<rparr>)"

text \<open>
  A call of \<^verbatim>\<open>SetPowerState\<close> is begun by those outside, who keep their reference while they are in
  it, or by a thread of the object. Which of the other steps need somebody outside is left open:
  what holds in every run holds for each choice. The jobs run by themselves, in any order.
\<close>

inductive life_step ::
  "('p, 'd, 't) pm_env \<Rightarrow> ('p, 'd, 't, 'n) life \<Rightarrow> 'n pm_out list \<Rightarrow> ('p, 'd, 't, 'n) life \<Rightarrow> bool"
  for en where
  Step: "race_step en (lf_sys L, lf_late L) outs X \<Longrightarrow> 0 < lf_count L \<Longrightarrow>
    (if sy_call (lf_sys L) \<noteq> None then own = lf_own L else sy_call (fst X) \<noteq> None \<longrightarrow> own \<or> lf_outside L \<noteq> 0) \<Longrightarrow>
    life_step en L outs (account X outs (L\<lparr>lf_own := own\<rparr>))"
| Job: "lf_jobs L = js1 @ j # js2 \<Longrightarrow> 0 < lf_count L \<Longrightarrow>
    life_step en L (LambdaJob_Dispatch j) (LambdaJob_delete (js1 @ js2) L)"
| Share: "lf_outside L \<noteq> 0 \<Longrightarrow> 0 < lf_count L \<Longrightarrow>
    life_step en L [] (L\<lparr>lf_outside := lf_outside L + 1, lf_count := lf_count L + 1\<rparr>)"
| Drop: "lf_outside L = Suc n \<Longrightarrow> 0 < lf_count L \<Longrightarrow> sy_call (lf_sys L) = None \<or> lf_own L \<or> n \<noteq> 0 \<Longrightarrow>
    life_step en L [] (L\<lparr>lf_outside := n, lf_count := lf_count L - 1\<rparr>)"

inductive life_reach :: "('p, 'd, 't) pm_env \<Rightarrow> ('p, 'd, 't, 'n) life \<Rightarrow> bool" for en where
  start: "life_reach en \<lparr>lf_sys = \<lparr>sy_pmi = PMI_new en now p d th fs, sy_call = None\<rparr>, lf_late = [], lf_own = False,
     lf_outside = 1, lf_jobs = [], lf_count = 1\<rparr>"
| step: "life_reach en L \<Longrightarrow> life_step en L outs L' \<Longrightarrow> life_reach en L'"

inductive life_run ::
  "('p, 'd, 't) pm_env \<Rightarrow> ('p, 'd, 't, 'n) life \<Rightarrow> 'n pm_out list \<Rightarrow> ('p, 'd, 't, 'n) life \<Rightarrow> bool"
  for en L where
  stay: "life_run en L [] L"
| further: "life_run en L o1 L1 \<Longrightarrow> life_step en L1 o2 L2 \<Longrightarrow> life_run en L (o1 @ o2) L2"

section \<open>The account\<close>

lemma fold_create [simp]:
  "fold LambdaJob_Create js L = L\<lparr>lf_jobs := lf_jobs L @ js, lf_count := lf_count L + int (length js)\<rparr>"
  by (induction js arbitrary: L) (simp_all add: LambdaJob_Create_def)

lemma account_simps [simp]:
  "lf_sys (account X outs L) = fst X" "lf_late (account X outs L) = snd X" "lf_outside (account X outs L) = lf_outside L"
  "lf_jobs (account X outs L) = lf_jobs L @ pre_jobs outs" "lf_own (account X outs L) = lf_own L"
  "lf_count (account X outs L) =
     lf_count L + (pmi_refs (sy_pmi (fst X)) - pmi_refs (sy_pmi (lf_sys L))) + int (length (pre_jobs outs))"
  by (simp_all add: account_def)

definition life_inv :: "('p, 'd, 't) pm_env \<Rightarrow> ('p, 'd, 't, 'n) life \<Rightarrow> bool" where
  "life_inv en L \<longleftrightarrow> race_reach en (lf_sys L, lf_late L) \<and>
     lf_count L = int (lf_outside L) + int (length (lf_jobs L)) + pmi_refs (sy_pmi (lf_sys L)) \<and>
     (sy_call (lf_sys L) \<noteq> None \<and> \<not> lf_own L \<longrightarrow> lf_outside L \<noteq> 0)"

lemma life_step_inv: "life_step en L outs L' \<Longrightarrow> life_inv en L \<Longrightarrow> life_inv en L'"
proof (induction rule: life_step.induct)
  case (Step L outs X own)
  then have "race_reach en X" by (auto simp: life_inv_def intro: race_reach.step)
  with Step(3,4) show ?case by (cases "sy_call (lf_sys L) = None") (auto simp: life_inv_def)
next
  case (Job L js1 j js2)
  then show ?case by (simp add: life_inv_def LambdaJob_delete_def)
qed (auto simp: life_inv_def)

lemma life_reach_inv: "life_reach en L \<Longrightarrow> life_inv en L"
proof (induction rule: life_reach.induct)
  case (start now p d th fs)
  have "pmi_refs (PMI_new en now p d th fs) = 0" by (simp add: PMI_new_def)
  then show ?case by (simp add: life_inv_def race_reach.start)
qed (rule life_step_inv)

text \<open>In a timely run each thread past its test is covered by a reference of the object.\<close>

lemma late_is_counted:
  assumes "timely_reach en (S, T)" "T \<noteq> []"
  shows "prepared (sy_call S) \<or> mcc_running (sy_pmi S) \<or> 0 < past_acks T"
proof -
  from assms(2) obtain x where x: "x \<in> set T" by (cases T) auto
  have ok: "late_ok 0 S x" using race_reach_ok [OF timely_race [OF assms(1)]] x by (simp add: race_ok_def)
  show ?thesis
  proof (cases x)
    case (PastTimer tid h)
    with x timely_now [OF assms(1)] show ?thesis by (force simp: timely_def mcc_running_def split: option.splits)
  next
    case (PastAck tid h)
    then have "is_PastAck x" by simp
    with x have "filter is_PastAck T \<noteq> []" by (auto simp: filter_empty_conv)
    then show ?thesis by (simp add: past_acks_def)
  next
    case (PastSchedule off h)
    with ok show ?thesis by auto
  qed
qed

text \<open>The counter, and what each reference stands for.\<close>

lemma life_count:
  assumes "life_reach en L" "timely_reach en (lf_sys L, lf_late L)"
  shows "lf_count L = int (lf_outside L) + int (length (lf_jobs L)) +
      (if prepared (sy_call (lf_sys L)) then 1 else 0) + (if mcc_running (sy_pmi (lf_sys L)) then 1 else 0) +
      past_acks (lf_late L)"
  using life_reach_inv [OF assms(1)] timely_reach_surplus [OF assms(2)] by (simp add: life_inv_def surplus_def)

lemma quiet_count:
  assumes "life_reach en L" "lf_late L = []" "pm_reach en (lf_sys L)"
  shows "lf_count L = int (lf_outside L) + int (length (lf_jobs L)) +
      (if prepared (sy_call (lf_sys L)) then 1 else 0) + (if mcc_running (sy_pmi (lf_sys L)) then 1 else 0)"
  using life_count [OF assms(1)] coarse_timely [OF assms(3)] by (simp add: assms(2))

lemma quiet_alive:
  "life_reach en L \<Longrightarrow> lf_late L = [] \<Longrightarrow> pm_reach en (lf_sys L) \<Longrightarrow> lf_outside L \<noteq> 0 \<Longrightarrow> 0 < lf_count L"
  by (simp add: quiet_count)

text \<open>
  C4. The reference counter of the implementation object, under every interleaving of
  calls, clients, timer jobs, pre-change jobs, references handed on and given back, and requests of
  the object's own threads, also where threads are interrupted between a test and its action: it
  is always the number of references outside, of pre-change jobs, and of those
  that the object has taken for transitions. As long as every timer job that has passed its test
  finds its transition still running (the run is timely), these are one for a prepared call, one
  for a running transition and one for an acknowledgement that is about to complete one; so the
  object is deleted exactly when nobody outside, no job, no prepared or running transition
  and no thread past its test is left, whoever was the last, and never under a
  call of \<^verbatim>\<open>SetPowerState\<close> from outside. Not covered are three things that hold no reference or
  release too many: a request of one of the object's own threads before its transition is prepared
  or while its handler runs (\<open>own_request_can_be_last\<close>), the job of the deep
  sleep controller (\<open>deep_sleep_job_outlives_object\<close>), and a timer job that comes too late
  (\<open>timeouts_race\<close>).
\<close>

theorem object_lives_while_in_use:
  assumes "life_reach en L"
  shows "lf_count L = int (lf_outside L) + int (length (lf_jobs L)) + pmi_refs (sy_pmi (lf_sys L)) \<and>
    (timely_reach en (lf_sys L, lf_late L) \<longrightarrow>
       pmi_refs (sy_pmi (lf_sys L)) = (if prepared (sy_call (lf_sys L)) then 1 else 0) +
         (if mcc_running (sy_pmi (lf_sys L)) then 1 else 0) + past_acks (lf_late L) \<and>
       0 \<le> lf_count L \<and>
       (lf_count L = 0 \<longleftrightarrow> lf_outside L = 0 \<and> lf_jobs L = [] \<and> \<not> prepared (sy_call (lf_sys L)) \<and>
          \<not> mcc_running (sy_pmi (lf_sys L)) \<and> lf_late L = []) \<and>
       (sy_call (lf_sys L) \<noteq> None \<and> \<not> lf_own L \<longrightarrow> 0 < lf_count L))"
proof (intro conjI impI)
  note inv = life_reach_inv [OF assms, unfolded life_inv_def]
  then show "lf_count L = int (lf_outside L) + int (length (lf_jobs L)) + pmi_refs (sy_pmi (lf_sys L))" by blast
  assume t: "timely_reach en (lf_sys L, lf_late L)"
  note n = life_count [OF assms t]
  from n inv show "pmi_refs (sy_pmi (lf_sys L)) = (if prepared (sy_call (lf_sys L)) then 1 else 0) +
      (if mcc_running (sy_pmi (lf_sys L)) then 1 else 0) + past_acks (lf_late L)" by simp
  have pos: "0 \<le> past_acks (lf_late L)" by (simp add: past_acks_def)
  with n show "0 \<le> lf_count L" by simp
  from n inv pos show "0 < lf_count L" if "sy_call (lf_sys L) \<noteq> None \<and> \<not> lf_own L"
    using that by (auto split: if_splits)
  show "lf_count L = 0 \<longleftrightarrow> lf_outside L = 0 \<and> lf_jobs L = [] \<and> \<not> prepared (sy_call (lf_sys L)) \<and>
      \<not> mcc_running (sy_pmi (lf_sys L)) \<and> lf_late L = []"
  proof (cases "lf_late L = []")
    case True
    with n show ?thesis by (auto simp: add_nonneg_eq_0_iff split: if_splits)
  next
    case False
    with n pos late_is_counted [OF t] have "0 < lf_count L" by (auto split: if_splits)
    with False show ?thesis by simp
  qed
qed


lemma plain_step:
  "race_step en (lf_sys L, lf_late L) outs X \<Longrightarrow> 0 < lf_count L \<Longrightarrow> lf_outside L \<noteq> 0 \<or> lf_own L \<or> sy_call (fst X) = None \<Longrightarrow>
     life_step en L outs (account X outs L)"
  using life_step.Step [of en L outs X "lf_own L"] by auto

text \<open>Every reachable state of the object occurs while the plugin has its one reference.\<close>

lemma reach_life: "pm_reach en S \<Longrightarrow> \<exists>L. life_reach en L \<and> lf_sys L = S \<and> lf_late L = [] \<and> lf_outside L = 1"
proof (induction rule: pm_reach.induct)
  case (start now p d th fs)
  show ?case by (rule exI, rule conjI, rule life_reach.start) simp
next
  case (step S outs S')
  then obtain L where L: "life_reach en L" "lf_sys L = S" "lf_late L = []" "lf_outside L = 1" by blast
  have "life_step en L outs (account (S', []) outs L)"
    by (rule plain_step) (use quiet_count [OF L(1,3)] L step coarse_run in auto)
  with life_reach.step [OF L(1) this] L(4) show ?case by (intro exI [of _ "account (S', []) outs L"]) simp
qed

lemma demo_life:
  obtains L :: "(PowerState, nat, unit, nat) life" and s where "life_reach demo_pm_env L" "lf_outside L = 1" "lf_late L = []"
    "lf_sys L = \<lparr>sy_pmi = s, sy_call = None\<rparr>" "pm_reach demo_pm_env \<lparr>sy_pmi = s, sy_call = None\<rparr>"
    "awaiting (request_handler 0 demo_target [] demo_pmi1) 1 {1} s"
proof -
  obtain s :: "(PowerState, nat, unit, nat) pmi" where "pm_reach demo_pm_env \<lparr>sy_pmi = s, sy_call = None\<rparr>"
    "awaiting (request_handler 0 demo_target [] demo_pmi1) 1 {1} s" by (rule demo_awaiting)
  with reach_life [of demo_pm_env "\<lparr>sy_pmi = s, sy_call = None\<rparr>"] that show thesis by auto
qed

lemma object_lives_while_in_use_witness:
  "\<exists>L :: (PowerState, nat, unit, nat) life. life_reach demo_pm_env L \<and> lf_outside L = 1 \<and>
     mcc_running (sy_pmi (lf_sys L)) \<and> lf_count L = 2 + int (length (lf_jobs L))"
proof -
  obtain L :: "(PowerState, nat, unit, nat) life" and s where L: "life_reach demo_pm_env L" "lf_outside L = 1" "lf_late L = []"
    "lf_sys L = \<lparr>sy_pmi = s, sy_call = None\<rparr>" "pm_reach demo_pm_env \<lparr>sy_pmi = s, sy_call = None\<rparr>"
    "awaiting (request_handler 0 demo_target [] demo_pmi1) 1 {1} s"
    by (rule demo_life)
  from L(6) have "mcc_running s" by (auto simp: awaiting_def mcc_running_def)
  with object_lives_while_in_use [OF L(1)] L coarse_timely [OF L(5)] show ?thesis by (intro exI [of _ L]) auto
qed

section \<open>Stopping the plugin\<close>

lemma pre_jobs_append [simp]: "pre_jobs (o1 @ o2) = pre_jobs o1 @ pre_jobs o2"
  by (induction o1 rule: pre_jobs.induct) simp_all

lemma pre_jobs_map [simp]: "pre_jobs (map Notify js) = []" "pre_jobs (map SubmitPreChange js) = js"
  by (induction js) simp_all

lemma life_run_reach: "life_run en L outs L1 \<Longrightarrow> life_reach en L \<Longrightarrow> life_reach en L1"
  by (induction rule: life_run.induct) (auto intro: life_reach.step)

lemma life_run_one: "life_step en L outs L1 \<Longrightarrow> life_run en L outs L1"
  using life_run.further [OF life_run.stay] by simp

lemma life_run_trans: "life_run en L1 o2 L2 \<Longrightarrow> life_run en L o1 L1 \<Longrightarrow> life_run en L (o1 @ o2) L2"
proof (induction rule: life_run.induct)
  case (further o2 L2 o3 L3)
  from life_run.further [OF further.IH [OF further.prems] further.hyps(2)] show ?case by simp
qed simp

lemma account_account: "account X2 o2 (account X1 o1 L) = account X2 (o1 @ o2) L"
  by (simp add: account_def)

lemma path_life:
  "pm_path en S outs S1 \<Longrightarrow> pm_reach en S \<Longrightarrow> life_reach en L \<Longrightarrow> lf_sys L = S \<Longrightarrow> lf_late L = [] \<Longrightarrow> lf_outside L \<noteq> 0 \<Longrightarrow>
     life_reach en (account (S1, []) outs L)"
proof (induction rule: pm_path.induct)
  case stay
  have "account (lf_sys L, lf_late L) [] L = L" by (cases L) (simp add: account_def)
  with stay(2,3,4) show ?case by metis
next
  case (further o1 S1 o2 S2)
  let ?A = "account (S1, []) o1 L"
  have A: "life_reach en ?A" using further by blast
  have "0 < lf_count ?A"
    by (rule quiet_alive [OF A]) (use path_reachable [OF further(1)] further.prems in simp_all)
  then have "life_step en ?A o2 (account (S2, []) o2 ?A)"
    by (intro plain_step) (use further coarse_run in \<open>simp_all del: account_simps(6)\<close>)
  with A show ?case by (auto simp: account_account intro: life_reach.step)
qed

text \<open>The worker pool empties, whatever is queued, and each job makes its notification.\<close>

lemma jobs_run:
  "int (length (lf_jobs L)) \<le> lf_count L \<Longrightarrow>
     life_run en L (map Notify (lf_jobs L)) (L\<lparr>lf_jobs := [], lf_count := lf_count L - int (length (lf_jobs L))\<rparr>)"
proof (induction "lf_jobs L" arbitrary: L)
  case Nil
  then have "L\<lparr>lf_jobs := [], lf_count := lf_count L - int (length (lf_jobs L))\<rparr> = L" by (cases L) simp
  with Nil.hyps life_run.stay [of en L] show ?case by (metis list.map(1))
next
  case (Cons j js)
  let ?L = "LambdaJob_delete js L"
  have jobs: "lf_jobs L = j # js" by (simp add: Cons.hyps(2))
  have "life_step en L (LambdaJob_Dispatch j) (LambdaJob_delete ([] @ js) L)"
    by (rule life_step.Job) (use jobs Cons.prems in simp_all)
  then have 1: "life_run en L [Notify j] ?L" by (simp add: life_run_one LambdaJob_Dispatch_def)
  have "life_run en ?L (map Notify (lf_jobs ?L)) (?L\<lparr>lf_jobs := [], lf_count := lf_count ?L - int (length (lf_jobs ?L))\<rparr>)"
    by (rule Cons.hyps(1)) (use Cons.prems jobs in \<open>simp_all add: LambdaJob_delete_def\<close>)
  from life_run_trans [OF this 1] jobs show ?case by (simp add: LambdaJob_delete_def algebra_simps)
qed

lemma unregistered_plugin:
  "same_transition s (unregister_all self s)" "pmi_power (unregister_all self s) = pmi_power s"
proof -
  have one: "same_transition r (snd (PMI_UnregisterNotification k self r))"
    "pmi_power (snd (PMI_UnregisterNotification k self r)) = pmi_power r" for k and r :: "('a, 'b, 'c, 'd) pmi"
    by (cases k; simp add: PMI_UnregisterNotification_def Let_def split_beta same_transition_def power_state_def)+
  have "same_transition s (fold (\<lambda>k s. snd (PMI_UnregisterNotification k self s)) ks s) \<and>
      pmi_power (fold (\<lambda>k s. snd (PMI_UnregisterNotification k self s)) ks s) = pmi_power s" for ks
  proof (induction ks rule: rev_induct)
    case (snoc k ks)
    with one [where k = k and r = "fold (\<lambda>k s. snd (PMI_UnregisterNotification k self s)) ks s"] show ?case by (simp add: same_transition_def)
  qed (simp add: same_transition_def)
  then show "same_transition s (unregister_all self s)" "pmi_power (unregister_all self s) = pmi_power s"
    by (simp_all add: unregister_all_def)
qed

text \<open>The timer job of a transition that nobody interrupts, as a step of the object's life.\<close>

lemma timer_life:
  assumes "lf_sys L = \<lparr>sy_pmi = s, sy_call = None\<rparr>" "lf_late L = []" "0 < lf_count L"
    and "pm_reach en (lf_sys L)" "awaiting h tid P s"
  obtains s2 outs where "life_step en L outs (account (\<lparr>sy_pmi = s2, sy_call = None\<rparr>, []) outs L)"
    "carries_out en (ck :: pm_clock) h s outs s2" "\<not> mcc_running s2" "pm_reach en \<lparr>sy_pmi = s2, sy_call = None\<rparr>"
proof -
  from assms(5) obtain c where c: "pmi_mcc s = Some c" "ack_running c" by (auto simp: awaiting_def)
  have sched: "ack_sched c \<noteq> None"
    using pm_reach_inv [OF assms(4)] assms(1) c by (simp add: pm_inv_def mcc_ok_def ctl_ok_def ack_inv_def)
  obtain s2 outs where t: "PMI_AckTimer en ck s = (s2, outs)" by (metis surj_pair)
  obtain d where d: "(s2, outs) = completionHandler en ck h True False (s\<lparr>pmi_mcc := Some d\<rparr>)" "\<not> mcc_running s2"
    by (rule timer_full [OF assms(5) t])
  have st: "pm_step en (lf_sys L) outs \<lparr>sy_pmi = s2, sy_call = None\<rparr>"
    unfolding assms(1) by (rule pm_step.Timer [OF c(1) sched t])
  show thesis
    by (rule that [of outs s2])
       (use plain_step [of en L outs] coarse_run [OF st] handler_carries_out [OF d(1) [symmetric]] d(2) assms(2,3)
          pm_reach.step [OF assms(4) st] in auto)
qed

text \<open>
  C19. The plugin, the only one outside, is stopped while a transition waits for its clients, the
  implementation being in the same process: \<^verbatim>\<open>Deinitialize\<close> takes its notification object out of
  all lists and releases the implementation. Against the assertion there, that is not the last reference: the
  transition keeps the object. When its timer fires, whenever that is, the power state of the device is
  changed all the same and those still registered are told; and when the queued pre-change jobs
  have made their notifications the counter is 0, and the object is deleted.
\<close>

theorem stopping_during_transition:
  assumes reach: "life_reach en L" "lf_late L = []" "pm_reach en (lf_sys L)"
    and only: "lf_outside L = 1" and s: "lf_sys L = \<lparr>sy_pmi = s, sy_call = None\<rparr>" and w: "awaiting h tid P s"
    and plugin: "sh_powerManager sh = Some s" "\<not> remote (sh_connectionId sh)"
  shows "\<exists>L1 q. Shell_Deinitialize self remote sh =
       (sh\<lparr>sh_registered := remove1 COMLinkNotification (remove1 RemoteConnectionNotification (sh_registered sh)),
           sh_powerManager := None, sh_jsonrpc := False, sh_connectionId := 0, sh_serviceRefs := sh_serviceRefs sh - 1,
           sh_service := False\<rparr>, Some q, None) \<and>
    (\<forall>j. notif_get j q = snd (PMI_Unregister self (notif_get j s))) \<and> pmi_power q = pmi_power s \<and>
    life_run en L [] L1 \<and> lf_sys L1 = \<lparr>sy_pmi = q, sy_call = None\<rparr> \<and> lf_outside L1 = 0 \<and> 0 < lf_count L1 \<and>
    (\<forall>ck. \<exists>L2 outs L3. life_step en L1 outs L2 \<and> carries_out en ck h q outs (sy_pmi (lf_sys L2)) \<and>
       life_run en L2 (map Notify (lf_jobs L)) L3 \<and> lf_outside L3 = 0 \<and> lf_jobs L3 = [] \<and> lf_count L3 = 0)"
proof -
  let ?q = "unregister_all self s"
  let ?Q = "\<lparr>sy_pmi = ?q, sy_call = None\<rparr>"
  let ?L0 = "account (?Q, []) [] L"
  let ?L1 = "?L0\<lparr>lf_outside := 0, lf_count := lf_count ?L0 - 1\<rparr>"
  have shell: "Shell_Deinitialize self remote sh =
       (sh\<lparr>sh_registered := remove1 COMLinkNotification (remove1 RemoteConnectionNotification (sh_registered sh)),
           sh_powerManager := None, sh_jsonrpc := False, sh_connectionId := 0, sh_serviceRefs := sh_serviceRefs sh - 1,
           sh_service := False\<rparr>, Some ?q, None)"
    using plugin by (simp add: Shell_Deinitialize_def Let_def)
  have st: "pm_step en (lf_sys L) [] ?Q" unfolding s by (rule pm_step.Other [OF unregistered_plugin(1)])
  have q: "pm_reach en ?Q" by (rule pm_reach.step [OF reach(3) st])
  have wq: "awaiting h tid P ?q" using w unregistered_plugin(1) [of s self] by (simp add: awaiting_def same_transition_def)
  then have run: "mcc_running ?q" by (auto simp: awaiting_def mcc_running_def)
  have 1: "life_step en L [] ?L0"
    by (rule plain_step) (use coarse_run [OF st] reach only quiet_alive [OF reach] in simp_all)
  have L0: "life_reach en ?L0" by (rule life_reach.step [OF reach(1) 1])
  have n0: "lf_count ?L0 = 2 + int (length (lf_jobs L))"
    using quiet_count [OF L0] q run only by simp
  have 2: "life_step en ?L0 [] ?L1" by (rule life_step.Drop) (use n0 only in simp_all)
  have L1: "life_run en L [] ?L1" "life_reach en ?L1"
    using life_run.further [OF life_run_one [OF 1] 2] life_reach.step [OF L0 2] by simp_all
  have later: "\<exists>L2 outs L3. life_step en ?L1 outs L2 \<and> carries_out en ck h ?q outs (sy_pmi (lf_sys L2)) \<and>
       life_run en L2 (map Notify (lf_jobs L)) L3 \<and> lf_outside L3 = 0 \<and> lf_jobs L3 = [] \<and> lf_count L3 = 0" for ck
  proof -
    obtain s2 outs where t: "life_step en ?L1 outs (account (\<lparr>sy_pmi = s2, sy_call = None\<rparr>, []) outs ?L1)"
      "carries_out en ck h ?q outs s2" "\<not> mcc_running s2" "pm_reach en \<lparr>sy_pmi = s2, sy_call = None\<rparr>"
      by (rule timer_life [of ?L1 ?q en h tid P ck]) (use n0 q wq in simp_all)
    let ?L2 = "account (\<lparr>sy_pmi = s2, sy_call = None\<rparr>, []) outs ?L1"
    have "pre_jobs outs = []" using t(2) by (auto simp: carries_out_def split_beta Let_def split: if_splits)
    then have jobs: "lf_jobs ?L2 = lf_jobs L" by simp
    have n2: "lf_count ?L2 = int (length (lf_jobs L))"
      using quiet_count [OF life_reach.step [OF L1(2) t(1)]] t(3,4) jobs by simp
    have "life_run en ?L2 (map Notify (lf_jobs ?L2)) (?L2\<lparr>lf_jobs := [], lf_count := lf_count ?L2 - int (length (lf_jobs ?L2))\<rparr>)"
      by (rule jobs_run) (simp only: n2 jobs)
    then show ?thesis
      using t(1,2) unfolding jobs n2 by (intro exI conjI) (assumption | simp)+
  qed
  have "lf_sys ?L1 = ?Q" "lf_outside ?L1 = 0" "0 < lf_count ?L1" using n0 by simp_all
  then show ?thesis
    by (intro exI [of _ ?L1] exI [of _ ?q] conjI allI shell all_get(2) unregistered_plugin(2) L1(1) later)
qed

lemma stopping_during_transition_witness:
  "\<exists>L1 L2 L3 :: (PowerState, nat, unit, nat) life. \<exists>outs o3. lf_outside L1 = 0 \<and> 0 < lf_count L1 \<and>
     life_step demo_pm_env L1 outs L2 \<and> power_state (sy_pmi (lf_sys L2)) = demo_target \<and>
     life_run demo_pm_env L2 o3 L3 \<and> lf_count L3 = 0"
proof -
  let ?h = "request_handler 0 demo_target [] demo_pmi1"
  obtain L :: "(PowerState, nat, unit, nat) life" and s where L: "life_reach demo_pm_env L" "lf_outside L = 1" "lf_late L = []"
    "lf_sys L = \<lparr>sy_pmi = s, sy_call = None\<rparr>" "pm_reach demo_pm_env \<lparr>sy_pmi = s, sy_call = None\<rparr>"
    "awaiting ?h 1 {1} s"
    by (rule demo_life)
  let ?sh = "shell_new\<lparr>sh_powerManager := Some s\<rparr>"
  from L(4,5) have reach: "pm_reach demo_pm_env (lf_sys L)" by simp
  have sh: "sh_powerManager ?sh = Some s" "\<not> (\<lambda>_. False) (sh_connectionId ?sh)" by simp_all
  obtain L1 q where L1: "lf_outside L1 = 0" "0 < lf_count L1" "pmi_power q = pmi_power s"
    "\<forall>ck. \<exists>L2 outs L3. life_step demo_pm_env L1 outs L2 \<and> carries_out demo_pm_env ck ?h q outs (sy_pmi (lf_sys L2)) \<and>
       life_run demo_pm_env L2 (map Notify (lf_jobs L)) L3 \<and> lf_count L3 = 0"
    using stopping_during_transition [OF L(1,3) reach L(2,4,6) sh, of 9] by blast
  from L1(4) obtain L2 outs L3 where L2: "life_step demo_pm_env L1 outs L2"
    "carries_out demo_pm_env demo_clock ?h q outs (sy_pmi (lf_sys L2))"
    "life_run demo_pm_env L2 (map Notify (lf_jobs L)) L3" "lf_count L3 = 0" by blast
  let ?set = "PWC_SetPowerState demo_power demo_val 5 0 demo_target [] (pmi_power q)"
  have "fst ?set = ERROR_NONE"
    by (simp add: PWC_SetPowerState_def Let_def split_beta demo_power_def demo_target_def)
  then have "power_state (sy_pmi (lf_sys L2)) = demo_target"
    using L2(2) PWC_SetPowerState_state [of demo_power demo_val 5 0 demo_target "[]" "pmi_power q"]
    by (simp add: carries_out_def split_beta Let_def power_state_def request_handler_def demo_pm_env_def demo_clock_def)
  with L1(1,2) L2(1,3,4) show ?thesis by blast
qed

section \<open>Jobs without a reference\<close>

text \<open>
  C27. The job that puts the device to sleep can outlive the object it works on: \<^verbatim>\<open>Activate\<close>
  submits a job that has the controller's address and no reference, and the destructor revokes
  only the delayed job. When a request for deep sleep is carried out and the plugin is stopped
  before the worker pool comes to the job, the implementation is deleted, with the controller in
  it, and the job is still queued.
\<close>

theorem deep_sleep_job_outlives_object:
  assumes reach: "life_reach en L" "lf_late L = []" "pm_reach en (lf_sys L)"
    and only: "lf_outside L = 1" and s: "lf_sys L = \<lparr>sy_pmi = s, sy_call = None\<rparr>"
    and fresh: "fresh_request en ck POWER_STATE_STANDBY_DEEP_SLEEP s" and clients: "pmi_clients s = []"
    and accepted: "PWC_SetPowerState (en_power en) (en_val en) (ck_now ck) k POWER_STATE_STANDBY_DEEP_SLEEP r (pmi_power s) = (ERROR_NONE, p)"
  shows "\<exists>s1 outs L1. PMI_SetPowerState en ck k POWER_STATE_STANDBY_DEEP_SLEEP r s = Some (ERROR_NONE, s1, outs) \<and>
    life_reach en L1 \<and> lf_sys L1 = \<lparr>sy_pmi = s1, sy_call = None\<rparr> \<and> lf_count L1 = 0 \<and>
    pmi_activations s1 = pmi_activations s @ [PWC_ActivateDeepSleep (ck_calendar ck) p]"
proof -
  have inv: "pm_inv \<lparr>sy_pmi = s, sy_call = None\<rparr>" using pm_reach_inv [OF reach(3)] s by simp
  obtain s1 outs where q: "PMI_SetPowerState en ck k POWER_STATE_STANDBY_DEEP_SLEEP r s = Some (ERROR_NONE, s1, outs)"
    and idle: "\<not> mcc_running s1"
    and act: "pmi_activations s1 = pmi_activations s @ [PWC_ActivateDeepSleep (ck_calendar ck) p]"
    by (rule request_immediate [OF inv, of POWER_STATE_STANDBY_DEEP_SLEEP ck en k r])
       (use fresh clients accepted in \<open>auto simp: fresh_request_def\<close>)
  let ?A = "account (\<lparr>sy_pmi = s1, sy_call = None\<rparr>, []) outs L"
  let ?B = "?A\<lparr>lf_jobs := [], lf_count := lf_count ?A - int (length (lf_jobs ?A))\<rparr>"
  let ?C = "?B\<lparr>lf_outside := 0, lf_count := lf_count ?B - 1\<rparr>"
  have A: "life_reach en ?A"
    by (rule path_life [OF call_path [OF q]]) (use reach only s in simp_all)
  have q1: "pm_reach en \<lparr>sy_pmi = s1, sy_call = None\<rparr>" using call_reachable [OF _ q] reach(3) s by simp
  have n: "lf_count ?A = 1 + int (length (lf_jobs ?A))" using quiet_count [OF A] q1 idle only by simp
  have B: "life_reach en ?B" by (rule life_run_reach [OF jobs_run A]) (use n in simp)
  have "life_step en ?B [] ?C" by (rule life_step.Drop) (use n only in simp_all)
  from life_reach.step [OF B this] have "life_reach en ?C" .
  with q act n show ?thesis by (intro exI [of _ s1] exI [of _ outs] exI [of _ ?C]) simp
qed

lemma deep_sleep_job_outlives_object_witness:
  "\<exists>L :: (PowerState, nat, unit, nat) life. life_reach demo_cycle_env L \<and> lf_count L = 0 \<and>
     pmi_activations (sy_pmi (lf_sys L)) \<noteq> []"
proof -
  let ?deep = POWER_STATE_STANDBY_DEEP_SLEEP and ?env = demo_cycle_env
  obtain s where s: "pm_reach ?env \<lparr>sy_pmi = settled s, sy_call = None\<rparr>" "pmi_clients s = []"
    "power_state s \<noteq> ?deep" "case pmi_mcc s of None \<Rightarrow> True | Some c \<Rightarrow> ack_powerState c \<noteq> ?deep"
    using demo_awake by blast
  obtain L where L: "life_reach ?env L" "lf_late L = []" "pm_reach ?env (lf_sys L)" "lf_outside L = 1"
    "lf_sys L = \<lparr>sy_pmi = settled s, sy_call = None\<rparr>"
    using reach_life [OF s(1)] s(1) by metis
  have fresh: "fresh_request ?env demo_clock ?deep (settled s)" and cl: "pmi_clients (settled s) = []"
    using s(2-4) by (simp_all add: fresh_request_def isSyncStateChange_def)
  obtain p where "PWC_SetPowerState (en_power ?env) (en_val ?env) (ck_now demo_clock) 0 ?deep [] (pmi_power (settled s)) =
      (ERROR_NONE, p)"
    using cycle_accepts(1) [of "pmi_power (settled s)"]
    by (metis settled_fields(6) file_exists_no_files surjective_pairing)
  from deep_sleep_job_outlives_object [OF L fresh cl this]
  show ?thesis
    by (elim exE conjE) (metis pm_sys.select_convs(1) append_is_Nil_conv list.distinct(1))
qed

text \<open>
  A request of one of the object's own threads is not covered by a reference outside. When the plugin
  drops its reference while such a thread is between preparing and carrying out a transition, the
  thread's own completion handler releases the last one: the destructor runs in that thread, and if it is
  the poll thread, the destructor of \<^verbatim>\<open>ThermalController\<close> joins the thread with itself.
\<close>

lemma own_request_can_be_last:
  assumes reach: "life_reach en L" "lf_late L = []" "pm_reach en (lf_sys L)"
    and only: "lf_outside L = 1" "lf_jobs L = []" "lf_own L"
    and s: "lf_sys L = \<lparr>sy_pmi = s, sy_call = Some (AfterPrepare k new r cur sync tid)\<rparr>"
    and c: "pmi_mcc s = Some c" "ack_pending c = {}" and quiet: "nl_list (pmi_preChangeL s) = []"
    and sched: "sps_schedule en ck k cur new sync tid r s = (s1, outs)"
  shows "\<exists>L1 L2. life_step en L [] L1 \<and> lf_count L1 = 1 \<and>
    life_step en L1 outs L2 \<and> lf_sys L2 = \<lparr>sy_pmi = s1, sy_call = None\<rparr> \<and> lf_count L2 = 0"
proof -
  have inv: "pm_inv \<lparr>sy_pmi = s, sy_call = Some (AfterPrepare k new r cur sync tid)\<rparr>"
    using pm_reach_inv [OF reach(3)] s by simp
  then have idle: "\<not> mcc_running s" "pmi_refs s = 1"
    using c by (auto simp: pm_inv_def pc_fits_def mcc_running_def)
  have n: "lf_count L = 2" using quiet_count [OF reach] only s idle(1) by simp
  let ?h = "\<lparr>hd_keyCode = k, hd_currState = cur, hd_newState = new, hd_reason = r, hd_isSync = sync\<rparr>"
  obtain s2 o2 where h: "completionHandler en ck ?h False False s = (s2, o2)" by (metis surj_pair)
  have same: "s\<lparr>pmi_mcc := Some c\<rparr> = s" using c(1) by (cases s) simp
  have "pmi_refs s1 = pmi_refs s2 \<and> outs = o2"
    using sched c quiet h
    by (auto simp: sps_schedule_def submitPowerModePreChangeEvent_def dispatchEvent_def Schedule_def same Let_def split: if_splits)
  moreover have "pmi_refs s2 = 0" using completionHandler_frame(8) [of en ck ?h False False s] h idle(2) by simp
  moreover have "pre_jobs o2 = []"
    using h by (auto simp: completionHandler_power_state setDevicePowerState_def Let_def split_beta split: if_splits)
  ultimately have r: "pmi_refs s1 = 0" "pre_jobs outs = []" by simp_all
  let ?L1 = "L\<lparr>lf_outside := 0, lf_count := lf_count L - 1\<rparr>" and ?X = "(\<lparr>sy_pmi = s1, sy_call = None\<rparr>, [] :: late list)"
  have 1: "life_step en L [] ?L1" by (rule life_step.Drop) (use only n in simp_all)
  have "pm_step en (lf_sys L) outs \<lparr>sy_pmi = s1, sy_call = None\<rparr>" unfolding s by (rule pm_step.Sched [OF sched])
  then have 2: "life_step en ?L1 outs (account ?X outs ?L1)"
    by (intro plain_step) (use coarse_run reach(2) only(3) n in simp_all)
  show ?thesis
    by (intro exI [of _ ?L1] exI [of _ "account ?X outs ?L1"] conjI 1 2) (use n r s idle(2) in simp_all)
qed

end
