(* ===== verification/ThermalSystem.thy ===== *)
theory ThermalSystem
  imports DeepSleepCycle
begin

text \<open>
  The poll thread of \<^verbatim>\<open>ThermalController\<close> together with its parent: an iteration of
  \<^verbatim>\<open>pollThermalLevels\<close> asks \<^verbatim>\<open>PowerManagerImplementation\<close> for the power state, measures, and
  calls the parent back; the parent tells the observers of the temperature, or requests deep sleep
  by its own \<^verbatim>\<open>SetPowerState\<close>, in the thread of the poll. The plugin lives on (the flag that
  stops the thread is not set), and an iteration is not interleaved with other calls.
\<close>

section \<open>An iteration with its callbacks\<close>

text \<open>What leaves the device: the outputs of the parent, and shell commands.\<close>

datatype 'n dev_out = Sent "'n pm_out" | Ran string

text \<open>The calls of an iteration in their order; \<open>None\<close> while \<^verbatim>\<open>selfLock\<close> is taken.\<close>

fun PMI_thermalCalls ::
  "('p, 'd, 't) pm_env \<Rightarrow> pm_clock \<Rightarrow> th_call list \<Rightarrow> ('p, 'd, 't, 'n) pmi \<Rightarrow>
   (('p, 'd, 't, 'n) pmi \<times> 'n dev_out list) option" where
  "PMI_thermalCalls en ck [] s = Some (s, [])"
| "PMI_thermalCalls en ck (ThShell x # cs) s = map_option (apsnd (\<lambda>o2. Ran x # o2)) (PMI_thermalCalls en ck cs s)"
| "PMI_thermalCalls en ck (ThChanged cur new temp # cs) s =
     map_option (apsnd (\<lambda>o2. map Sent (PMI_onThermalTemperatureChanged cur new temp s) @ o2)) (PMI_thermalCalls en ck cs s)"
| "PMI_thermalCalls en ck (ThDeepSleep # cs) s =
     Option.bind (PMI_onDeepSleepForThermalChange en ck s)
       (\<lambda>(s1, o1). map_option (apsnd (\<lambda>o2. map Sent o1 @ o2)) (PMI_thermalCalls en ck cs s1))"

text \<open>One iteration, at a time of the clocks; \<open>None\<close> also for a division by zero.\<close>

definition thermal_poll ::
  "('p, 'd, 't) pm_env \<Rightarrow> bool \<Rightarrow> pm_clock \<Rightarrow> int \<Rightarrow> u32 \<Rightarrow> ('p, 'd, 't, 'n) pmi \<Rightarrow>
   (u32 \<times> ('p, 'd, 't, 'n) pmi \<times> 'n dev_out list) option" where
  "thermal_poll en disable_declock ck now pollCount s =
     (let (result, currentPowerState, _) = PMI_getPowerState s;
          env = \<lparr>pe_result = result, pe_state = currentPowerState, pe_now = now, pe_stop = False\<rparr>
      in case poll_iteration (en_thermal en) disable_declock env pollCount (pmi_thermal s) of
           PollNext th c calls \<Rightarrow> map_option (Pair c) (PMI_thermalCalls en ck calls (s\<lparr>pmi_thermal := th\<rparr>))
         | _ \<Rightarrow> None)"

fun thermal_polls ::
  "('p, 'd, 't) pm_env \<Rightarrow> bool \<Rightarrow> (pm_clock \<times> int) list \<Rightarrow> u32 \<Rightarrow> ('p, 'd, 't, 'n) pmi \<Rightarrow>
   (u32 \<times> ('p, 'd, 't, 'n) pmi \<times> 'n dev_out list) option" where
  "thermal_polls en dd [] c s = Some (c, s, [])"
| "thermal_polls en dd ((ck, now) # xs) c s =
     Option.bind (thermal_poll en dd ck now c s)
       (\<lambda>(c1, s1, o1). map_option (apsnd (apsnd (\<lambda>o2. o1 @ o2))) (thermal_polls en dd xs c1 s1))"

section \<open>What an iteration asks for\<close>

definition polls_safely :: "'t thc \<Rightarrow> bool" where
  "polls_safely th \<longleftrightarrow> thc_poll_interval th \<noteq> 0 \<and> \<bar>thc_poll_interval th\<bar> \<le> 300"

lemma checks_frame [simp]:
  "thc_poll_interval (fst (deepSleepIfNeeded now th)) = thc_poll_interval th"
  "thc_poll_interval (fst (rebootIfNeeded now th)) = thc_poll_interval th"
  "thc_poll_interval (declockIfNeeded pl dd now th) = thc_poll_interval th"
  by (auto simp: deepSleepIfNeeded_def rebootIfNeeded_def declockIfNeeded_def set_clock_def Let_def)

text \<open>With a sensible poll interval and the thread not stopped, an iteration goes on to the next.\<close>

lemma iteration_next:
  assumes "polls_safely th" and "\<not> pe_stop env"
  obtains th1 c1 calls where "poll_iteration pl dd env c th = PollNext th1 c1 calls" "polls_safely th1"
proof -
  have "poll_iteration pl dd env c th \<noteq> PollTrap"
    using assms(1) poll_trap_iff [of pl dd env c th] by (auto simp: polls_safely_def)
  moreover have "poll_iteration pl dd env c th \<noteq> PollBreak a b" "poll_iteration pl dd env c th \<noteq> PollEnd a b" for a b
    using assms(2) by (auto simp: poll_iteration_def poll_measure_def Let_def split: option.splits prod.splits if_splits)
  ultimately obtain th1 c1 calls where n: "poll_iteration pl dd env c th = PollNext th1 c1 calls"
    by (cases "poll_iteration pl dd env c th") auto
  moreover have "thc_poll_interval th1 = thc_poll_interval th"
    using n by (auto simp: poll_iteration_def poll_measure_def Let_def split_beta split: option.splits prod.splits if_splits)
  ultimately show ?thesis using that assms(1) by (simp add: polls_safely_def)
qed

text \<open>Above the critical temperature, the calls of an iteration start with the change of the level.\<close>

lemma hot_iteration:
  assumes "polls_safely th" and "\<not> pe_stop env" and "pe_state env \<noteq> POWER_STATE_STANDBY_DEEP_SLEEP"
    and "ipt_GetTemperature pl THERMAL_TEMPERATURE_UNKNOWN 0 0 (thc_dev th) = (ERROR_NONE, level, temp, wifi)"
    and "th_graceInterval (thc_deepsleep th) \<noteq> 0" and "th_critical (thc_deepsleep th) \<le> int_of_float temp"
  obtains th1 calls where "polls_safely th1" "ThDeepSleep \<in> set calls"
    "poll_iteration pl dd env c th =
       PollNext th1 (c + 1) ((if thc_cur_Level th \<noteq> level then [ThChanged (thc_cur_Level th) level temp] else []) @ calls)"
proof -
  obtain th1 c1 cs where n: "poll_iteration pl dd env c th = PollNext th1 c1 cs" "polls_safely th1"
    by (rule iteration_next [OF assms(1,2)])
  let ?th = "(if thc_cur_Level th \<noteq> level then th\<lparr>thc_cur_Level := level\<rparr> else th)\<lparr>thc_cur_Value := int_of_float temp\<rparr>"
  have d: "ThDeepSleep \<in> set (snd (deepSleepIfNeeded (pe_now env) ?th))"
    using assms(5,6) by (auto simp: deepSleepIfNeeded_def Let_def)
  from n(1) assms(2-4) have "c1 = c + 1" "cs = (if thc_cur_Level th \<noteq> level then [ThChanged (thc_cur_Level th) level temp] else []) @
      (snd (deepSleepIfNeeded (pe_now env) ?th) @ snd (rebootIfNeeded (pe_now env) (fst (deepSleepIfNeeded (pe_now env) ?th))))"
    by (auto simp: poll_iteration_def poll_measure_def Let_def split_beta split: option.splits)
  with n d that show ?thesis by (metis Un_iff set_append)
qed

section \<open>Requests that have been made already\<close>

text \<open>The device sleeps, or the last request was for deep sleep: another one does nothing.\<close>

definition sleep_requested :: "('p, 'd, 't, 'n) pmi \<Rightarrow> bool" where
  "sleep_requested s \<longleftrightarrow> power_state s = POWER_STATE_STANDBY_DEEP_SLEEP \<or>
     (\<exists>c. pmi_mcc s = Some c \<and> ack_powerState c = POWER_STATE_STANDBY_DEEP_SLEEP)"

lemma thermal_reach:
  "pm_reach en \<lparr>sy_pmi = s, sy_call = c\<rparr> \<Longrightarrow> pm_reach en \<lparr>sy_pmi = s\<lparr>pmi_thermal := th\<rparr>, sy_call = c\<rparr>"
  by (rule pm_reach.step [OF _ pm_step.Other]) (simp_all add: same_transition_def power_state_def)

lemma calls_again:
  assumes "pm_reach en \<lparr>sy_pmi = s, sy_call = None\<rparr>" and "sleep_requested s"
  shows "\<exists>outs. PMI_thermalCalls en ck cs s = Some (s, outs)"
proof -
  have "PMI_onDeepSleepForThermalChange en ck s = Some (s, [])"
    using ineffective_requests [OF assms(1), of POWER_STATE_STANDBY_DEEP_SLEEP ck 0 "''DeepSleep on Thermal change''"] assms(2)
    by (cases "power_state s = POWER_STATE_STANDBY_DEEP_SLEEP") (auto simp: PMI_onDeepSleepForThermalChange_def sleep_requested_def)
  then have "PMI_thermalCalls en ck cs s \<noteq> None \<and> fst (the (PMI_thermalCalls en ck cs s)) = s" for cs
    by (induction cs rule: list.induct) (simp, case_tac x1, auto)
  then show ?thesis by (metis option.exhaust_sel prod.collapse)
qed

lemma polls_again:
  assumes "pm_reach en \<lparr>sy_pmi = s, sy_call = None\<rparr>" and "sleep_requested s" and "polls_safely (pmi_thermal s)"
  shows "\<exists>c1 th outs. thermal_polls en dd xs c s = Some (c1, s\<lparr>pmi_thermal := th\<rparr>, outs)"
  using assms
proof (induction xs arbitrary: s c)
  case Nil
  show ?case by (intro exI [of _ c] exI [of _ "pmi_thermal s"] exI [of _ "[]"]) simp
next
  case (Cons x xs)
  obtain ck now where x: "x = (ck, now)" by (cases x)
  let ?env = "\<lparr>pe_result = fst (PMI_getPowerState s), pe_state = fst (snd (PMI_getPowerState s)), pe_now = now, pe_stop = False\<rparr>"
  obtain th c1 calls where p: "poll_iteration (en_thermal en) dd ?env c (pmi_thermal s) = PollNext th c1 calls" "polls_safely th"
    by (rule iteration_next [OF Cons.prems(3), of ?env "en_thermal en" dd c]) simp_all
  have r: "pm_reach en \<lparr>sy_pmi = s\<lparr>pmi_thermal := th\<rparr>, sy_call = None\<rparr>" by (rule thermal_reach [OF Cons.prems(1)])
  have q: "sleep_requested (s\<lparr>pmi_thermal := th\<rparr>)" using Cons.prems(2) by (simp add: sleep_requested_def power_state_def)
  obtain o1 where "PMI_thermalCalls en ck calls (s\<lparr>pmi_thermal := th\<rparr>) = Some (s\<lparr>pmi_thermal := th\<rparr>, o1)"
    using calls_again [OF r q] by blast
  then have one: "thermal_poll en dd ck now c s = Some (c1, s\<lparr>pmi_thermal := th\<rparr>, o1)"
    using p(1) by (simp add: thermal_poll_def split_beta)
  from Cons.IH [OF r q, of c1] p(2) obtain c2 th2 o2 where
    "thermal_polls en dd xs c1 (s\<lparr>pmi_thermal := th\<rparr>) = Some (c2, s\<lparr>pmi_thermal := th2\<rparr>, o2)" by auto
  with one x show ?case by (intro exI [of _ c2] exI [of _ th2] exI [of _ "o1 @ o2"]) simp
qed


section \<open>The request of an overheated device\<close>

lemma thermal_frame_one [simp]: "pmi_thermal (fst (completionHandler en ck h t a s)) = pmi_thermal s"
  by (simp add: completionHandler_def setDevicePowerState_def Let_def split_beta)

lemma thermal_frame [simp]: "pmi_thermal (fst (run_firings en ck fs s)) = pmi_thermal s"
proof (induction fs arbitrary: s)
  case (Cons f fs)
  obtain h t a where "f = Fire h t a" by (cases f)
  with Cons.IH show ?case by (cases h) (simp_all add: split_beta)
qed simp

lemma request_thermal: "PMI_SetPowerState en ck k new r s = Some (e, s1, outs) \<Longrightarrow> pmi_thermal s1 = pmi_thermal s"
proof -
  have a: "pmi_thermal (snd (sps_read en ck new s)) = pmi_thermal s" for s :: "('a, 'b, 'c, 'd) pmi"
    by (auto simp: sps_read_def Let_def split_beta)
  have b: "pmi_thermal (fst (snd (sps_prepare en ck new s))) = pmi_thermal s" for s :: "('a, 'b, 'c, 'd) pmi"
    by (auto simp: sps_prepare_def Let_def split_beta split: option.split)
  have c: "pmi_thermal (fst (sps_schedule en ck k cur new y tid r s)) = pmi_thermal s" for s :: "('a, 'b, 'c, 'd) pmi" and y tid cur
    by (auto simp: sps_schedule_def Let_def split_beta split: option.split)
  assume "PMI_SetPowerState en ck k new r s = Some (e, s1, outs)"
  then show ?thesis
    using a [of s] b [of "snd (sps_read en ck new s)"] c
    by (auto simp: PMI_SetPowerState_def Let_def split_beta split: if_splits sps.splits option.splits)
qed

lemma calls_sleep:
  assumes "pm_reach en \<lparr>sy_pmi = s, sy_call = None\<rparr>" and "ThDeepSleep \<in> set cs"
    and "PMI_onDeepSleepForThermalChange en ck s = Some (s1, o1)"
    and "pm_reach en \<lparr>sy_pmi = s1, sy_call = None\<rparr>" and "sleep_requested s1"
  shows "\<exists>outs. PMI_thermalCalls en ck cs s = Some (s1, outs) \<and> Sent ` set o1 \<subseteq> set outs"
  using assms(2)
proof (induction cs)
  case (Cons x cs)
  show ?case
  proof (cases x)
    case ThDeepSleep
    obtain outs where "PMI_thermalCalls en ck cs s1 = Some (s1, outs)" using calls_again [OF assms(4,5)] by blast
    with ThDeepSleep assms(3) show ?thesis by auto
  next
    case (ThShell x)
    with Cons show ?thesis by (auto 0 3)
  next
    case (ThChanged a b t)
    with Cons obtain outs where "PMI_thermalCalls en ck cs s = Some (s1, outs)" "Sent ` set o1 \<subseteq> set outs" by auto
    with ThChanged show ?thesis by (simp add: le_supI2)
  qed
qed simp

text \<open>The observers of the temperature are told of a level that has changed.\<close>

definition level_told :: "('p, 'd, 't, 'n) pmi \<Rightarrow> ThermalTemperature \<Rightarrow> cfloat \<Rightarrow> 'n dev_out list \<Rightarrow> bool" where
  "level_told s level temp outs \<longleftrightarrow> (thc_cur_Level (pmi_thermal s) \<noteq> level \<longrightarrow>
     (\<forall>n \<in> set (nl_list (pmi_thermalL s)).
        Sent (Notify (NotifCall n (OnThermalModeChanged (thc_cur_Level (pmi_thermal s)) level temp))) \<in> set outs))"

lemma hot_poll:
  assumes reach: "pm_reach en \<lparr>sy_pmi = s, sy_call = None\<rparr>" and awake: "power_state s \<noteq> POWER_STATE_STANDBY_DEEP_SLEEP"
    and safe: "polls_safely (pmi_thermal s)"
    and temp: "ipt_GetTemperature (en_thermal en) THERMAL_TEMPERATURE_UNKNOWN 0 0 (thc_dev (pmi_thermal s)) = (ERROR_NONE, level, temp, wifi)"
    and hot: "th_graceInterval (thc_deepsleep (pmi_thermal s)) \<noteq> 0" "th_critical (thc_deepsleep (pmi_thermal s)) \<le> int_of_float temp"
    and req: "\<And>th. \<exists>s1 o1. PMI_SetPowerState en ck 0 POWER_STATE_STANDBY_DEEP_SLEEP ''DeepSleep on Thermal change''
        (s\<lparr>pmi_thermal := th\<rparr>) = Some (ERROR_NONE, s1, o1) \<and> sleep_requested s1 \<and> Q s1 o1"
  obtains s1 o1 outs where "thermal_poll en dd ck now c s = Some (c + 1, s1, outs)" "Q s1 o1" "Sent ` set o1 \<subseteq> set outs"
    "level_told s level temp outs" "pm_reach en \<lparr>sy_pmi = s1, sy_call = None\<rparr>" "sleep_requested s1" "polls_safely (pmi_thermal s1)"
proof -
  let ?env = "\<lparr>pe_result = fst (PMI_getPowerState s), pe_state = fst (snd (PMI_getPowerState s)), pe_now = now, pe_stop = False\<rparr>"
  have "pe_state ?env \<noteq> POWER_STATE_STANDBY_DEEP_SLEEP"
    using awake by (simp add: PMI_getPowerState_def PWC_GetPowerState_def power_state_def)
  then obtain th calls where p: "polls_safely th" "ThDeepSleep \<in> set calls"
    "poll_iteration (en_thermal en) dd ?env c (pmi_thermal s) = PollNext th (c + 1)
      ((if thc_cur_Level (pmi_thermal s) \<noteq> level then [ThChanged (thc_cur_Level (pmi_thermal s)) level temp] else []) @ calls)"
    using hot_iteration [OF safe _ _ temp hot, of ?env dd c] by auto
  let ?s = "s\<lparr>pmi_thermal := th\<rparr>"
  have r: "pm_reach en \<lparr>sy_pmi = ?s, sy_call = None\<rparr>" by (rule thermal_reach [OF reach])
  obtain s1 o1 where q: "PMI_SetPowerState en ck 0 POWER_STATE_STANDBY_DEEP_SLEEP ''DeepSleep on Thermal change'' ?s = Some (ERROR_NONE, s1, o1)"
    "sleep_requested s1" "Q s1 o1" using req by blast
  have r1: "pm_reach en \<lparr>sy_pmi = s1, sy_call = None\<rparr>" by (rule call_reachable [OF r q(1)])
  have "PMI_onDeepSleepForThermalChange en ck ?s = Some (s1, o1)" by (simp add: PMI_onDeepSleepForThermalChange_def q(1))
  from calls_sleep [OF r p(2) this r1 q(2)] obtain o2 where
    o2: "PMI_thermalCalls en ck calls ?s = Some (s1, o2)" "Sent ` set o1 \<subseteq> set o2" by blast
  show ?thesis
  proof (rule that)
    show "thermal_poll en dd ck now c s = Some (c + 1, s1, (if thc_cur_Level (pmi_thermal s) \<noteq> level then
        map Sent (PMI_onThermalTemperatureChanged (thc_cur_Level (pmi_thermal s)) level temp ?s) else []) @ o2)"
      using p(3) o2(1) by (simp add: thermal_poll_def split_beta)
    show "polls_safely (pmi_thermal s1)" using request_thermal [OF q(1)] p(1) by simp
  qed (use q o2 r1 in \<open>auto simp: level_told_def PMI_onThermalTemperatureChanged_def dispatch_defs\<close>)
qed


definition told_of_sleep :: "('p, 'd, 't, 'n) pmi \<Rightarrow> 'n pm_out list \<Rightarrow> bool" where
  "told_of_sleep s outs \<longleftrightarrow> (\<forall>n \<in> set (nl_list (pmi_changedL s)).
     Notify (NotifCall n (OnPowerModeChanged (power_state s) POWER_STATE_STANDBY_DEEP_SLEEP)) \<in> set outs)"

lemma sleep_request_immediate:
  fixes s :: "('p, 'd, 't, 'n) pmi"
  defines "result \<equiv> \<lambda>en ck why (s :: ('p, 'd, 't, 'n) pmi).
     PWC_SetPowerState (en_power en) (en_val en) (ck_now ck) 0 POWER_STATE_STANDBY_DEEP_SLEEP why (pmi_power s)"
  assumes "pm_reach en \<lparr>sy_pmi = s, sy_call = None\<rparr>" and "\<not> sleep_requested s" and "pmi_clients s = []"
  shows "\<exists>s1 o1. PMI_SetPowerState en ck 0 POWER_STATE_STANDBY_DEEP_SLEEP why s = Some (ERROR_NONE, s1, o1) \<and> sleep_requested s1 \<and>
     pmi_power s1 = snd (result en ck why s) \<and> \<not> mcc_running s1 \<and>
     (fst (result en ck why s) = ERROR_NONE \<longrightarrow>
        length (pmi_activations s1) = Suc (length (pmi_activations s)) \<and> told_of_sleep s o1)"
proof -
  let ?deep = POWER_STATE_STANDBY_DEEP_SLEEP
  have new: "?deep \<noteq> power_state s" "case pmi_mcc s of None \<Rightarrow> True | Some c \<Rightarrow> ack_powerState c \<noteq> ?deep"
    using assms(3) by (auto simp: sleep_requested_def split: option.split)
  obtain s1 pre post c where q: "PMI_SetPowerState en ck 0 ?deep why s = Some (ERROR_NONE, s1, pre @ post)"
    and c: "pmi_mcc s1 = Some c" "ack_powerState c = ?deep" "\<not> mcc_running s1"
    and p: "let (e, p) = result en ck why s
     in pmi_power s1 = p \<and> post =
          (if e = ERROR_NONE then map Notify (dispatchPowerModeChangedEvent (power_state s) ?deep (pmi_changedL s)) else [])"
    and a: "pmi_activations s1 = pmi_activations s @ (if fst (result en ck why s) = ERROR_NONE \<and> ?deep = ?deep
        then [PWC_ActivateDeepSleep (ck_calendar ck) (snd (result en ck why s))] else [])"
    unfolding result_def
    by (rule request_immediate [OF pm_reach_inv [OF assms(2)] new, of ck en 0 why]) (use new(1) assms(4) in auto)
  from p have "pmi_power s1 = snd (result en ck why s)"
    "fst (result en ck why s) = ERROR_NONE \<longrightarrow> told_of_sleep s post"
    by (auto simp: split_beta Let_def told_of_sleep_def dispatch_defs)
  with q c a show ?thesis
    by (intro exI [of _ s1] exI [of _ "pre @ post"]) (auto simp: sleep_requested_def told_of_sleep_def)
qed

lemma sleep_request_negotiated:
  assumes "pm_reach en \<lparr>sy_pmi = s, sy_call = None\<rparr>" and "\<not> sleep_requested s" and "pmi_clients s \<noteq> []"
    and "en_preChangeTimeout en * 1000 \<noteq> 0"
  shows "\<exists>s1 o1. PMI_SetPowerState en ck 0 POWER_STATE_STANDBY_DEEP_SLEEP why s = Some (ERROR_NONE, s1, o1) \<and> sleep_requested s1 \<and>
     awaiting (request_handler 0 POWER_STATE_STANDBY_DEEP_SLEEP why s) (pmi_nextTransactionId s + 1) (set (map fst (pmi_clients s))) s1 \<and>
     (\<forall>n \<in> set (nl_list (pmi_preChangeL s)). SubmitPreChange (NotifCall n (OnPowerModePreChange (power_state s)
        POWER_STATE_STANDBY_DEEP_SLEEP (pmi_nextTransactionId s + 1) (sint (en_preChangeTimeout en)))) \<in> set o1)"
proof -
  let ?deep = POWER_STATE_STANDBY_DEEP_SLEEP
  have fresh: "fresh_request en ck ?deep s"
    using assms(2) by (auto simp: fresh_request_def sleep_requested_def isSyncStateChange_def split: option.split)
  obtain s1 where q: "PMI_SetPowerState en ck 0 ?deep why s = Some (ERROR_NONE, s1,
       map SubmitPreChange (dispatchEvent (OnPowerModePreChange (power_state s) ?deep (pmi_nextTransactionId s + 1)
          (sint (en_preChangeTimeout en))) (pmi_preChangeL s)))"
    and w: "awaiting (request_handler 0 ?deep why s) (pmi_nextTransactionId s + 1) (set (map fst (pmi_clients s))) s1"
    by (rule request_starts [OF pm_reach_ok [OF assms(1)] fresh assms(3,4)])
  from w have "sleep_requested s1" by (auto simp: awaiting_def sleep_requested_def request_handler_def)
  with q w show ?thesis by (auto simp: dispatch_defs)
qed

section \<open>Overheating\<close>

text \<open>
  C13. The iteration that finds an awake device at the critical temperature sends it to deep sleep.
  The observers of the temperature are told of the new level. Without registered clients the
  power state is deep sleep when the iteration ends, its observers are told, and the sleep of the
  hardware is queued, provided that the platform accepts; with clients the transition is under
  way, and each of them is asked. Whatever the next iterations measure, until another request
  comes, they change nothing but the thermal controller's own state: neither is the device asked
  to sleep twice, nor is the transition under way restarted.
\<close>

theorem overheated_device_sleeps:
  assumes reach: "pm_reach en \<lparr>sy_pmi = s, sy_call = None\<rparr>" and fresh: "\<not> sleep_requested s"
    and safe: "polls_safely (pmi_thermal s)"
    and temp: "ipt_GetTemperature (en_thermal en) THERMAL_TEMPERATURE_UNKNOWN 0 0 (thc_dev (pmi_thermal s)) = (ERROR_NONE, level, temp, wifi)"
    and hot: "th_graceInterval (thc_deepsleep (pmi_thermal s)) \<noteq> 0" "th_critical (thc_deepsleep (pmi_thermal s)) \<le> int_of_float temp"
    and possible: "if pmi_clients s = []
      then fst (PWC_SetPowerState (en_power en) (en_val en) (ck_now ck) 0 POWER_STATE_STANDBY_DEEP_SLEEP
             ''DeepSleep on Thermal change'' (pmi_power s)) = ERROR_NONE
      else en_preChangeTimeout en * 1000 \<noteq> 0"
  shows "\<exists>s1 outs. thermal_poll en dd ck now c s = Some (c + 1, s1, outs) \<and> level_told s level temp outs \<and>
    (if pmi_clients s = []
     then power_state s1 = POWER_STATE_STANDBY_DEEP_SLEEP \<and> length (pmi_activations s1) = Suc (length (pmi_activations s)) \<and>
       (\<forall>n \<in> set (nl_list (pmi_changedL s)).
          Sent (Notify (NotifCall n (OnPowerModeChanged (power_state s) POWER_STATE_STANDBY_DEEP_SLEEP))) \<in> set outs)
     else awaiting (request_handler 0 POWER_STATE_STANDBY_DEEP_SLEEP ''DeepSleep on Thermal change'' s)
         (pmi_nextTransactionId s + 1) (set (map fst (pmi_clients s))) s1 \<and>
       (\<forall>n \<in> set (nl_list (pmi_preChangeL s)). Sent (SubmitPreChange (NotifCall n (OnPowerModePreChange (power_state s)
          POWER_STATE_STANDBY_DEEP_SLEEP (pmi_nextTransactionId s + 1) (sint (en_preChangeTimeout en))))) \<in> set outs)) \<and>
    (\<forall>xs c2. \<exists>c3 th outs2. thermal_polls en dd xs c2 s1 = Some (c3, s1\<lparr>pmi_thermal := th\<rparr>, outs2))"
proof -
  let ?why = "''DeepSleep on Thermal change''" and ?deep = POWER_STATE_STANDBY_DEEP_SLEEP
  have awake: "power_state s \<noteq> ?deep" using fresh by (simp add: sleep_requested_def)
  have th: "pm_reach en \<lparr>sy_pmi = s\<lparr>pmi_thermal := th\<rparr>, sy_call = None\<rparr>" "\<not> sleep_requested (s\<lparr>pmi_thermal := th\<rparr>)"
    "power_state (s\<lparr>pmi_thermal := th\<rparr>) = power_state s"
    "request_handler 0 ?deep ?why (s\<lparr>pmi_thermal := th\<rparr>) = request_handler 0 ?deep ?why s" for th
    using thermal_reach [OF reach] fresh by (simp_all add: sleep_requested_def power_state_def request_handler_def)
  show ?thesis
  proof (cases "pmi_clients s = []")
    case True
    have req: "\<exists>s1 o1. PMI_SetPowerState en ck 0 ?deep ?why (s\<lparr>pmi_thermal := th\<rparr>) = Some (ERROR_NONE, s1, o1) \<and>
        sleep_requested s1 \<and> power_state s1 = ?deep \<and> length (pmi_activations s1) = Suc (length (pmi_activations s)) \<and> told_of_sleep s o1" for th
      using sleep_request_immediate [OF th(1,2), of th ck ?why] True possible
        PWC_SetPowerState_state [of "en_power en" "en_val en" "ck_now ck" 0 ?deep ?why "pmi_power s"]
      by (auto simp: power_state_def told_of_sleep_def)
    obtain s1 o1 outs where r: "thermal_poll en dd ck now c s = Some (c + 1, s1, outs)"
      "power_state s1 = ?deep \<and> length (pmi_activations s1) = Suc (length (pmi_activations s)) \<and> told_of_sleep s o1"
      "Sent ` set o1 \<subseteq> set outs" "level_told s level temp outs" "pm_reach en \<lparr>sy_pmi = s1, sy_call = None\<rparr>"
      "sleep_requested s1" "polls_safely (pmi_thermal s1)"
      by (rule hot_poll [OF reach awake safe temp hot req])
    show ?thesis
      using r True polls_again [OF r(5-7)] by (intro exI [of _ s1] exI [of _ outs]) (auto simp: told_of_sleep_def)
  next
    case False
    let ?asked = "\<lambda>o1. \<forall>n \<in> set (nl_list (pmi_preChangeL s)). SubmitPreChange (NotifCall n (OnPowerModePreChange (power_state s)
          ?deep (pmi_nextTransactionId s + 1) (sint (en_preChangeTimeout en)))) \<in> set o1"
    let ?waits = "awaiting (request_handler 0 ?deep ?why s) (pmi_nextTransactionId s + 1) (set (map fst (pmi_clients s)))"
    have req: "\<exists>s1 o1. PMI_SetPowerState en ck 0 ?deep ?why (s\<lparr>pmi_thermal := th\<rparr>) = Some (ERROR_NONE, s1, o1) \<and>
        sleep_requested s1 \<and> ?waits s1 \<and> ?asked o1" for th
      using sleep_request_negotiated [OF th(1,2), of th ck ?why] False possible by (simp add: th(3,4))
    obtain s1 o1 outs where r: "thermal_poll en dd ck now c s = Some (c + 1, s1, outs)" "?waits s1 \<and> ?asked o1"
      "Sent ` set o1 \<subseteq> set outs" "level_told s level temp outs" "pm_reach en \<lparr>sy_pmi = s1, sy_call = None\<rparr>"
      "sleep_requested s1" "polls_safely (pmi_thermal s1)"
      by (rule hot_poll [OF reach awake safe temp hot req])
    show ?thesis
      using r False polls_again [OF r(5-7)] by (intro exI [of _ s1] exI [of _ outs]) auto
  qed
qed


definition demo_hot :: "posix \<Rightarrow> (PowerState, nat, unit, nat) pmi \<Rightarrow> (PowerState, nat, unit, nat) pmi" where
  "demo_hot fs s = (settled s)\<lparr>pmi_power := (pmi_power (settled s))\<lparr>pwc_fs := fs\<rparr>, pmi_thermal := thc_members True ()\<rparr>"

lemma demo_hot_fields:
  "power_state (demo_hot fs s) = power_state s" "pmi_clients (demo_hot fs s) = pmi_clients s"
  "pwc_fs (pmi_power (demo_hot fs s)) = fs" "pmi_thermal (demo_hot fs s) = thc_members True ()"
  "sleep_requested (demo_hot fs s) = sleep_requested s"
  by (simp_all add: demo_hot_def power_state_def settled_def sleep_requested_def)

lemma demo_hot_reach:
  "pm_reach demo_cycle_env \<lparr>sy_pmi = settled s, sy_call = None\<rparr> \<Longrightarrow>
     pm_reach demo_cycle_env \<lparr>sy_pmi = demo_hot fs s, sy_call = None\<rparr>"
proof (rule pm_reach.step [OF _ pm_step.Other])
  show "same_transition (settled s) (demo_hot fs s)"
    by (simp add: same_transition_def demo_hot_def power_state_def)
qed

text \<open>The temperature of \<open>demo_thermal\<close> is the critical one of this build.\<close>

lemma demo_hot_temp:
  "polls_safely (pmi_thermal (demo_hot fs s))"
  "ipt_GetTemperature (en_thermal demo_cycle_env) THERMAL_TEMPERATURE_UNKNOWN 0 0 (thc_dev (pmi_thermal (demo_hot fs s))) =
     (ERROR_NONE, THERMAL_TEMPERATURE_HIGH, 105, 40)"
  "th_graceInterval (thc_deepsleep (pmi_thermal (demo_hot fs s))) \<noteq> 0"
  "th_critical (thc_deepsleep (pmi_thermal (demo_hot fs s))) \<le> int_of_float 105"
  by (simp_all add: demo_hot_fields polls_safely_def thc_members_def deepsleepThreshold_init_def demo_cycle_env_def
      demo_pm_env2_def demo_pm_env_def demo_thermal_def int_of_float_def)

lemma demo_hot_awake:
  obtains s where "pm_reach demo_cycle_env \<lparr>sy_pmi = demo_hot fs s, sy_call = None\<rparr>" "\<not> sleep_requested (demo_hot fs s)"
    "pmi_clients (demo_hot fs s) = []"
proof -
  obtain s where s: "pm_reach demo_cycle_env \<lparr>sy_pmi = settled s, sy_call = None\<rparr>" "pmi_clients s = []"
    "power_state s \<noteq> POWER_STATE_STANDBY_DEEP_SLEEP"
    "case pmi_mcc s of None \<Rightarrow> True | Some c \<Rightarrow> ack_powerState c \<noteq> POWER_STATE_STANDBY_DEEP_SLEEP"
    using demo_awake by blast
  from s(3,4) have "\<not> sleep_requested s" by (auto simp: sleep_requested_def)
  with that [OF demo_hot_reach [OF s(1)]] s(2) show thesis by (simp add: demo_hot_fields)
qed

lemma overheated_device_sleeps_witness:
  "\<exists>s s1 :: (PowerState, nat, unit, nat) pmi. \<exists>outs. power_state s \<noteq> POWER_STATE_STANDBY_DEEP_SLEEP \<and>
     thermal_poll demo_cycle_env True demo_clock 5 0 s = Some (1, s1, outs) \<and>
     power_state s1 = POWER_STATE_STANDBY_DEEP_SLEEP"
proof -
  obtain s where s: "pm_reach demo_cycle_env \<lparr>sy_pmi = demo_hot no_files s, sy_call = None\<rparr>"
    "\<not> sleep_requested (demo_hot no_files s)" "pmi_clients (demo_hot no_files s) = []" by (rule demo_hot_awake)
  have "if pmi_clients (demo_hot no_files s) = []
      then fst (PWC_SetPowerState (en_power demo_cycle_env) (en_val demo_cycle_env) (ck_now demo_clock) 0 POWER_STATE_STANDBY_DEEP_SLEEP
             ''DeepSleep on Thermal change'' (pmi_power (demo_hot no_files s))) = ERROR_NONE
      else en_preChangeTimeout demo_cycle_env * 1000 \<noteq> 0"
    using s(3) cycle_accepts(1) [of "pmi_power (demo_hot no_files s)"] by (simp add: demo_hot_fields)
  from overheated_device_sleeps [OF s(1,2) demo_hot_temp this, of True 5 0] s(2,3)
  show ?thesis by (auto simp: sleep_requested_def)
qed

text \<open>
  C28. One refusal switches the protection off. When the platform, or the file
  \<^verbatim>\<open>/tmp/ignoredeepsleep\<close>, refuses the deep sleep that an overheated device without clients asks
  for, the device stays awake, and the iterations that follow, however hot they find it and even
  if the refusal has no reason any more, never bring the request to the power controller again:
  the refused transition is taken for one under way.
\<close>

theorem refusal_ends_thermal_sleep:
  assumes reach: "pm_reach en \<lparr>sy_pmi = s, sy_call = None\<rparr>" and fresh: "\<not> sleep_requested s" and cl: "pmi_clients s = []"
    and safe: "polls_safely (pmi_thermal s)"
    and temp: "ipt_GetTemperature (en_thermal en) THERMAL_TEMPERATURE_UNKNOWN 0 0 (thc_dev (pmi_thermal s)) = (ERROR_NONE, level, temp, wifi)"
    and hot: "th_graceInterval (thc_deepsleep (pmi_thermal s)) \<noteq> 0" "th_critical (thc_deepsleep (pmi_thermal s)) \<le> int_of_float temp"
    and refused: "PWC_SetPowerState (en_power en) (en_val en) (ck_now ck) 0 POWER_STATE_STANDBY_DEEP_SLEEP
        ''DeepSleep on Thermal change'' (pmi_power s) = (e, p)" "e \<noteq> ERROR_NONE"
  shows "\<exists>s1 outs. thermal_poll en dd ck now c s = Some (c + 1, s1, outs) \<and> \<not> mcc_running s1 \<and>
    (\<forall>d fs xs c2. \<exists>c3 s2 outs2. thermal_polls en dd xs c2 (s1\<lparr>pmi_power := p\<lparr>pwc_platform := d, pwc_fs := fs\<rparr>\<rparr>) = Some (c3, s2, outs2) \<and>
       pmi_power s2 = p\<lparr>pwc_platform := d, pwc_fs := fs\<rparr> \<and> power_state s2 = power_state s)"
proof -
  let ?why = "''DeepSleep on Thermal change''" and ?deep = POWER_STATE_STANDBY_DEEP_SLEEP
  have awake: "power_state s \<noteq> ?deep" using fresh by (simp add: sleep_requested_def)
  have th: "pm_reach en \<lparr>sy_pmi = s\<lparr>pmi_thermal := th\<rparr>, sy_call = None\<rparr>" "\<not> sleep_requested (s\<lparr>pmi_thermal := th\<rparr>)" for th
    using thermal_reach [OF reach] fresh by (simp_all add: sleep_requested_def power_state_def)
  have req: "\<exists>s1 o1. PMI_SetPowerState en ck 0 ?deep ?why (s\<lparr>pmi_thermal := th\<rparr>) = Some (ERROR_NONE, s1, o1) \<and>
      sleep_requested s1 \<and> pmi_power s1 = p \<and> \<not> mcc_running s1" for th
    using sleep_request_immediate [OF th, of th ck ?why] cl refused by auto
  obtain s1 o1 outs where r: "thermal_poll en dd ck now c s = Some (c + 1, s1, outs)" "pmi_power s1 = p \<and> \<not> mcc_running s1"
    "Sent ` set o1 \<subseteq> set outs" "level_told s level temp outs" "pm_reach en \<lparr>sy_pmi = s1, sy_call = None\<rparr>"
    "sleep_requested s1" "polls_safely (pmi_thermal s1)"
    by (rule hot_poll [OF reach awake safe temp hot req])
  have ps: "st_powerState (pwc_settings p) = power_state s"
    using PWC_SetPowerState_state [of "en_power en" "en_val en" "ck_now ck" 0 ?deep ?why "pmi_power s"] refused
    by (simp add: power_state_def)
  have "\<exists>c3 s2 outs2. thermal_polls en dd xs c2 (s1\<lparr>pmi_power := p\<lparr>pwc_platform := d, pwc_fs := fs\<rparr>\<rparr>) = Some (c3, s2, outs2) \<and>
       pmi_power s2 = p\<lparr>pwc_platform := d, pwc_fs := fs\<rparr> \<and> power_state s2 = power_state s" for d fs xs c2
  proof -
    let ?s = "s1\<lparr>pmi_power := p\<lparr>pwc_platform := d, pwc_fs := fs\<rparr>\<rparr>"
    have "pm_reach en \<lparr>sy_pmi = ?s, sy_call = None\<rparr>"
      by (rule pm_reach.step [OF r(5) pm_step.Other]) (use r(2) in \<open>simp add: same_transition_def power_state_def\<close>)
    moreover have "sleep_requested ?s" using r(2,6) by (simp add: sleep_requested_def power_state_def)
    ultimately obtain c3 th2 outs2 where "thermal_polls en dd xs c2 ?s = Some (c3, ?s\<lparr>pmi_thermal := th2\<rparr>, outs2)"
      using polls_again [of en ?s dd xs c2] r(7) by auto
    then show ?thesis using ps by (simp add: power_state_def)
  qed
  with r(1,2) show ?thesis by blast
qed

lemma refusal_ends_thermal_sleep_witness:
  "\<exists>s s1 :: (PowerState, nat, unit, nat) pmi. \<exists>outs. thermal_poll demo_cycle_env True demo_clock 5 0 s = Some (1, s1, outs) \<and>
     \<not> mcc_running s1 \<and>
     (\<exists>q c3 s2 outs2. thermal_polls demo_cycle_env True [(demo_clock, 35), (demo_clock, 65)] 1
        (s1\<lparr>pmi_power := q\<lparr>pwc_fs := no_files\<rparr>\<rparr>) = Some (c3, s2, outs2) \<and>
        power_state s2 \<noteq> POWER_STATE_STANDBY_DEEP_SLEEP)"
proof -
  let ?fs = "text_file ignoreDeepSleepFile []"
  obtain s where s: "pm_reach demo_cycle_env \<lparr>sy_pmi = demo_hot ?fs s, sy_call = None\<rparr>"
    "\<not> sleep_requested (demo_hot ?fs s)" "pmi_clients (demo_hot ?fs s) = []" by (rule demo_hot_awake)
  let ?p = "pmi_power (demo_hot ?fs s)"
  have "PWC_SetPowerState (en_power demo_cycle_env) (en_val demo_cycle_env) (ck_now demo_clock) 0 POWER_STATE_STANDBY_DEEP_SLEEP
      ''DeepSleep on Thermal change'' ?p = (ERROR_ILLEGAL_STATE, ?p)"
    by (simp add: PWC_SetPowerState_def demo_hot_fields file_exists_def text_file_def)
  from refusal_ends_thermal_sleep [OF s demo_hot_temp this, of True 5 0] obtain s1 outs where
    r: "thermal_poll demo_cycle_env True demo_clock 5 0 (demo_hot ?fs s) = Some (1, s1, outs)" "\<not> mcc_running s1"
    and n: "\<forall>d fs xs c2. \<exists>c3 s2 outs2. thermal_polls demo_cycle_env True xs c2
       (s1\<lparr>pmi_power := ?p\<lparr>pwc_platform := d, pwc_fs := fs\<rparr>\<rparr>) = Some (c3, s2, outs2) \<and>
       pmi_power s2 = ?p\<lparr>pwc_platform := d, pwc_fs := fs\<rparr> \<and> power_state s2 = power_state (demo_hot ?fs s)" by auto
  obtain c3 s2 outs2 where "thermal_polls demo_cycle_env True [(demo_clock, 35), (demo_clock, 65)] 1
       (s1\<lparr>pmi_power := ?p\<lparr>pwc_platform := pwc_platform ?p, pwc_fs := no_files\<rparr>\<rparr>) = Some (c3, s2, outs2)"
    "power_state s2 = power_state (demo_hot ?fs s)" using n by blast
  with r s(2) show ?thesis
    by (intro exI [of _ "demo_hot ?fs s"] exI [of _ s1] exI [of _ outs] conjI exI [of _ "?p\<lparr>pwc_platform := pwc_platform ?p\<rparr>"]
        exI [of _ c3] exI [of _ s2] exI [of _ outs2]) (simp_all add: sleep_requested_def del: thermal_polls.simps)
qed

end
