(* ===== verification/HalNames.thy ===== *)
theory HalNames
  imports PowerHal DeepSleepHal ThermalHal
begin

text \<open>
  The names under which the hardware abstraction logs the platform's states, wake-up sources and
  results: the overloads of \<^verbatim>\<open>str\<close> in \<^verbatim>\<open>plugin/hal/PowerImpl.h\<close> and
  \<^verbatim>\<open>plugin/hal/DeepSleepImpl.h\<close>, and that of \<^verbatim>\<open>ThermalController\<close> for temperature levels.
\<close>

primrec PowerImpl_str_src :: "PWRMGR_WakeupSrcType_t \<Rightarrow> string" where
  "PowerImpl_str_src PWRMGR_WAKEUPSRC_VOICE = ''VOICE''"
| "PowerImpl_str_src PWRMGR_WAKEUPSRC_PRESENCE_DETECTION = ''PRESENCE_DETECTION''"
| "PowerImpl_str_src PWRMGR_WAKEUPSRC_BLUETOOTH = ''BLUETOOTH''"
| "PowerImpl_str_src PWRMGR_WAKEUPSRC_WIFI = ''WIFI''"
| "PowerImpl_str_src PWRMGR_WAKEUPSRC_IR = ''IR''"
| "PowerImpl_str_src PWRMGR_WAKEUPSRC_POWER_KEY = ''POWER''"
| "PowerImpl_str_src PWRMGR_WAKEUPSRC_TIMER = ''TIMER''"
| "PowerImpl_str_src PWRMGR_WAKEUPSRC_CEC = ''CEC''"
| "PowerImpl_str_src PWRMGR_WAKEUPSRC_LAN = ''LAN''"
| "PowerImpl_str_src PWRMGR_WAKEUPSRC_MAX = ''UNKNOWN''"

text \<open>Negative results are tested by their number, before the switch.\<close>

definition PowerImpl_str_result :: "(pmStatus_t \<Rightarrow> int) \<Rightarrow> pmStatus_t \<Rightarrow> string" where
  "PowerImpl_str_result val result =
     (if val result < 0 then ''Error''
      else case result of
             PWRMGR_SUCCESS \<Rightarrow> ''Success''
           | PWRMGR_INVALID_ARGUMENT \<Rightarrow> ''Invalid Argument''
           | PWRMGR_ALREADY_INITIALIZED \<Rightarrow> ''Already Initialized''
           | PWRMGR_NOT_INITIALIZED \<Rightarrow> ''Not Initialized''
           | PWRMGR_INIT_FAILURE \<Rightarrow> ''Init Failure''
           | PWRMGR_SET_FAILURE \<Rightarrow> ''Set Failure''
           | PWRMGR_GET_FAILURE \<Rightarrow> ''Get Failure''
           | PWRMGR_OPERATION_NOT_SUPPORTED \<Rightarrow> ''Operation Not Supported''
           | PWRMGR_TERM_FAILURE \<Rightarrow> ''Term Failure''
           | _ \<Rightarrow> ''Max'')"

primrec PowerImpl_str_state :: "PWRMgr_PowerState_t \<Rightarrow> string" where
  "PowerImpl_str_state PWRMGR_POWERSTATE_OFF = ''OFF''"
| "PowerImpl_str_state PWRMGR_POWERSTATE_ON = ''ON''"
| "PowerImpl_str_state PWRMGR_POWERSTATE_STANDBY = ''STANDBY''"
| "PowerImpl_str_state PWRMGR_POWERSTATE_STANDBY_LIGHT_SLEEP = ''LIGHT_SLEEP''"
| "PowerImpl_str_state PWRMGR_POWERSTATE_STANDBY_DEEP_SLEEP = ''DEEP_SLEEP''"
| "PowerImpl_str_state PWRMGR_POWERSTATE_MAX = ''UNKNOWN''"

primrec DeepSleepImpl_str :: "DeepSleep_Return_Status_t \<Rightarrow> string" where
  "DeepSleepImpl_str DEEPSLEEPMGR_SUCCESS = ''Success''"
| "DeepSleepImpl_str DEEPSLEEPMGR_INVALID_ARGUMENT = ''Invalid argument''"
| "DeepSleepImpl_str DEEPSLEEPMGR_ALREADY_INITIALIZED = ''Already initialized''"
| "DeepSleepImpl_str DEEPSLEEPMGR_NOT_INITIALIZED = ''Not initialized''"
| "DeepSleepImpl_str DEEPSLEEPMGR_INIT_FAILURE = ''Init failure''"
| "DeepSleepImpl_str DEEPSLEEPMGR_SET_FAILURE = ''Set failure''"
| "DeepSleepImpl_str DEEPSLEEPMGR_WAKEUP_FAILURE = ''Wakeup failure''"
| "DeepSleepImpl_str DEEPSLEEPMGR_TERM_FAILURE = ''Term failure''"
| "DeepSleepImpl_str (DEEPSLEEPMGR_OTHER n) = ''Unknown status''"

primrec ThermalController_str :: "ThermalTemperature \<Rightarrow> string" where
  "ThermalController_str THERMAL_TEMPERATURE_NORMAL = ''NORMAL''"
| "ThermalController_str THERMAL_TEMPERATURE_HIGH = ''HIGH''"
| "ThermalController_str THERMAL_TEMPERATURE_CRITICAL = ''CRITICAL''"
| "ThermalController_str THERMAL_TEMPERATURE_UNKNOWN = ''UNKNOWN''"

text \<open>A state goes by the same name on both sides of the abstraction, in both directions.\<close>

lemma state_names_agree:
  "PowerImpl_str_state (PowerImpl_conv_to s) = str_PowerState s"
  "str_PowerState (PowerImpl_conv_from p) = PowerImpl_str_state p"
  by (cases s; simp) (cases p; simp)

text \<open>
  Two sources have other names than those the interface prints and parses, and the one the
  platform does not have is logged as unknown.
\<close>

lemma source_names_differ:
  "PowerImpl_str_src (PowerImpl_conv_src s) = str_WakeupSrc s \<longleftrightarrow>
     s \<notin> {WAKEUP_SRC_PRESENCEDETECTED, WAKEUP_SRC_POWERKEY, WAKEUP_SRC_RF4CE}"
  by (cases s) simp_all

text \<open>The name of a result tells whether the call succeeded, and what it failed with.\<close>

lemma result_names_tell:
  assumes "val PWRMGR_SUCCESS = 0"
  shows "PowerImpl_str_result val r = ''Success'' \<longleftrightarrow> PowerImpl_conv_result val r = ERROR_NONE"
    "PowerImpl_str_result val r = PowerImpl_str_result val q \<Longrightarrow> PowerImpl_conv_result val r = PowerImpl_conv_result val q"
  using assms
  by (auto simp: PowerImpl_str_result_def PowerImpl_conv_result_def split: pmStatus_t.splits if_splits)

lemma level_names_differ: "ThermalController_str a = ThermalController_str b \<Longrightarrow> a = b"
  by (cases a; cases b) simp_all

end
