(* ===== verification/RebootController.thy ===== *)
theory RebootController
  imports PM_Prelude "HOL-Library.Monad_Syntax"
begin

text \<open>
  \<^verbatim>\<open>plugin/RebootController.h\<close>, \<^verbatim>\<open>.cpp\<close>: the heartbeat job that forces a maintenance
  reboot when the device has been up for too long; the power controller owns it in builds with
  \<^verbatim>\<open>OFFLINE_MAINT_REBOOT\<close>. The up-time in seconds is an argument, remote configuration a
  function from keys to values. An undefined \<^verbatim>\<open>atoi\<close> is the result \<open>None\<close>.
\<close>

section \<open>\<^verbatim>\<open>Threshold\<close>\<close>

record rb_Threshold =
  rbt_threshold :: int
  rbt_graceInterval :: int

definition rbt_SetThreshold :: "int \<Rightarrow> rb_Threshold \<Rightarrow> rb_Threshold" where
  "rbt_SetThreshold threshold t = (if threshold > 0 then t\<lparr>rbt_threshold := threshold\<rparr> else t)"

definition rbt_SetGraceInterval :: "int \<Rightarrow> rb_Threshold \<Rightarrow> rb_Threshold" where
  "rbt_SetGraceInterval g t = (if g > 0 then t\<lparr>rbt_graceInterval := g\<rparr> else t)"

text \<open>The argument of the first is an \<^verbatim>\<open>int\<close>, to which the up-time is converted.\<close>

definition int32 :: "int \<Rightarrow> int" where
  "int32 i = sint (word_of_int i :: u32)"

definition IsThresholdExceeded :: "int \<Rightarrow> rb_Threshold \<Rightarrow> bool" where
  "IsThresholdExceeded uptime t \<longleftrightarrow> int32 uptime \<ge> rbt_threshold t"

definition IsGraceIntervalExceeded :: "int \<Rightarrow> rb_Threshold \<Rightarrow> bool" where
  "IsGraceIntervalExceeded uptime t \<longleftrightarrow> uptime \<ge> rbt_graceInterval t"

section \<open>The heartbeat\<close>

record rbc =
  rbc_forcedRebootThreshold :: rb_Threshold
  rbc_rfcUpdated :: bool
  rbc_scheduled :: bool         \<comment> \<open>the heartbeat job is queued, 300 s from when it was scheduled\<close>

definition scheduleHeartbeat :: "rbc \<Rightarrow> rbc" where
  "scheduleHeartbeat s = s\<lparr>rbc_scheduled := True\<rparr>"

definition RebootController_new :: rbc where
  "RebootController_new =
     scheduleHeartbeat \<lparr>rbc_forcedRebootThreshold = \<lparr>rbt_threshold = 172800 * 3, rbt_graceInterval = 0\<rparr>,
                        rbc_rfcUpdated = False, rbc_scheduled = False\<rparr>"

definition RebootController_delete :: "rbc \<Rightarrow> rbc" where
  "RebootController_delete s = s\<lparr>rbc_scheduled := False\<rparr>"

definition force_reboot_key :: string where
  "force_reboot_key = ''Device.DeviceInfo.X_RDKCENTRAL-COM_RFC.Feature.StandbyReboot.ForceAutoReboot''"

text \<open>
  \<^verbatim>\<open>param.value[len]\<close> is the terminating null unless the value is longer than 15 characters.
\<close>

definition fetchRFCValueInt :: "(string \<Rightarrow> string option) \<Rightarrow> string \<Rightarrow> int option" where
  "fetchRFCValueInt rfc key =
     (case rfc key of
        None \<Rightarrow> Some (- 1)
      | Some v \<Rightarrow>
          (let len = min (length v) 15
           in atoi (if v \<noteq> [] \<and> hd v = CHR 0x22 \<and> len < length v \<and> v ! len = CHR 0x22
                    then take (len - 1) (tl v)
                    else take len (take 14 v))))"

definition heartbeatMsg :: "(string \<Rightarrow> string option) \<Rightarrow> int \<Rightarrow> rbc \<Rightarrow> (rbc \<times> bool) option" where
  "heartbeatMsg rfc uptime s = do {
     s1 \<leftarrow> (if \<not> rbc_rfcUpdated s
            then do { val \<leftarrow> fetchRFCValueInt rfc force_reboot_key;
                      Some ((if val \<noteq> - 1
                             then s\<lparr>rbc_forcedRebootThreshold := rbt_SetThreshold val (rbc_forcedRebootThreshold s)\<rparr>
                             else s)\<lparr>rbc_rfcUpdated := True\<rparr>) }
            else Some s);
     Some (scheduleHeartbeat s1, IsThresholdExceeded uptime (rbc_forcedRebootThreshold s1)) }"

text \<open>
  Consecutive heartbeats, each with the up-time and the remote configuration at that moment; the
  results tell which of them ran the reboot script.
\<close>

fun heartbeats :: "((string \<Rightarrow> string option) \<times> int) list \<Rightarrow> rbc \<Rightarrow> (rbc \<times> bool list) option" where
  "heartbeats [] s = Some (s, [])"
| "heartbeats ((rfc, uptime) # xs) s = do {
     (s1, b) \<leftarrow> heartbeatMsg rfc uptime s;
     (s2, bs) \<leftarrow> heartbeats xs s1;
     Some (s2, b # bs) }"

section \<open>When the reboot is forced\<close>

text \<open>The limit in force: the configured number when it is positive, six days otherwise.\<close>

definition reboot_limit :: "int \<Rightarrow> int" where
  "reboot_limit val = (if val > 0 then val else 518400)"

lemma heartbeats_updated:
  "rbc_rfcUpdated s \<Longrightarrow>
     heartbeats xs s = Some (if xs = [] then s else scheduleHeartbeat s,
       map (\<lambda>(rfc, uptime). rbt_threshold (rbc_forcedRebootThreshold s) \<le> int32 uptime) xs)"
  by (induction xs arbitrary: s)
     (auto simp: heartbeatMsg_def scheduleHeartbeat_def IsThresholdExceeded_def)

text \<open>
  The remote configuration is read once, at the first heartbeat; from then on a heartbeat
  forces a reboot exactly when the up-time has reached the limit found there, whatever the
  configuration says later, and the next heartbeat is always scheduled.
\<close>

lemma forced_reboot_limit:
  assumes "fetchRFCValueInt rfc force_reboot_key = Some val"
  shows "\<exists>s. heartbeats ((rfc, uptime) # xs) RebootController_new =
     Some (s, map (\<lambda>(_, u). reboot_limit val \<le> int32 u) ((rfc, uptime) # xs)) \<and> rbc_scheduled s"
proof -
  obtain s1 where h: "heartbeatMsg rfc uptime RebootController_new = Some (s1, reboot_limit val \<le> int32 uptime)"
    and s1: "rbc_rfcUpdated s1" "rbt_threshold (rbc_forcedRebootThreshold s1) = reboot_limit val" "rbc_scheduled s1"
    using assms
    by (auto simp: heartbeatMsg_def RebootController_new_def scheduleHeartbeat_def IsThresholdExceeded_def
        rbt_SetThreshold_def reboot_limit_def)
  then show ?thesis by (simp add: heartbeats_updated) (simp add: scheduleHeartbeat_def)
qed

lemma forced_reboot_limit_witness:
  "\<exists>s. heartbeats [([force_reboot_key \<mapsto> ''86400''], 300), (Map.empty, 86399), (Map.empty, 86400)] RebootController_new =
     Some (s, [False, False, True]) \<and> rbc_scheduled s"
proof -
  have "fetchRFCValueInt [force_reboot_key \<mapsto> ''86400''] force_reboot_key = Some 86400"
    by (simp add: fetchRFCValueInt_def atoi_def strtol10_def is_space_def is_digit_def digit_val_def Let_def)
  from forced_reboot_limit [OF this, of 300 "[(Map.empty, 86399), (Map.empty, 86400)]"]
  show ?thesis by (simp add: reboot_limit_def int32_def)
qed

text \<open>
  A quoted value of at most 15 characters is not recognised as quoted, because the character after
  the last one is compared with the quote; it reads as 0 and the default limit stays.
\<close>

lemma quoted_limit_is_ignored:
  assumes "rfc key = Some (CHR 0x22 # v @ [CHR 0x22])" "length v \<le> 13"
  shows "fetchRFCValueInt rfc key = Some 0"
proof -
  have "min (length v + 2) 15 = length v + 2" using assms(2) by simp
  moreover have "atoi (CHR 0x22 # w) = Some 0" for w
    by (simp add: atoi_def strtol10_no_number is_space_def is_digit_def)
  ultimately show ?thesis using assms(1) by (simp add: fetchRFCValueInt_def Let_def)
qed

end
