(* ===== verification/DeepSleepSystem.thy ===== *)
theory DeepSleepSystem
  imports DeepSleepController
begin

text \<open>
  The deep-sleep controller under concurrency: activations queued in the worker pool, the
  delayed job, threads inside \<^verbatim>\<open>enterDeepSleepNow\<close>, and deactivations from any other thread,
  in every order. A reachable state is one that some interleaving produces from the constructed
  controller.
\<close>

record 'd ds_sys =
  sys_ctl :: "'d dsc"
  sys_jobs :: "(u32 \<times> bool) list"     \<comment> \<open>activations submitted to the worker pool\<close>
  sys_threads :: "ds_pc list"
  sys_calls :: "ds_call list"          \<comment> \<open>callbacks of the parent, in order\<close>

definition ds_sys_init :: "'d \<Rightarrow> 'd ds_sys" where
  "ds_sys_init d =
     \<lparr>sys_ctl = DeepSleepController_new d, sys_jobs = [], sys_threads = [], sys_calls = []\<rparr>"

fun call_of :: "ds_pc \<Rightarrow> ds_call list" where
  "call_of (Returned c) = opt_list c"
| "call_of _ = []"

inductive ds_step :: "'d deepsleep_platform \<Rightarrow> 'd ds_sys \<Rightarrow> 'd ds_sys \<Rightarrow> bool" for pl where
  Activate: "ds_step pl S (S\<lparr>sys_jobs := sys_jobs S @ [(timeOut, nwStandbyMode)]\<rparr>)"
| Job: "sys_jobs S = (timeOut, nwStandbyMode) # js \<Longrightarrow>
    performActivate now fs timeOut nwStandbyMode (sys_ctl S) = (act, c) \<Longrightarrow>
    ds_step pl S (S\<lparr>sys_jobs := js, sys_ctl := c,
                    sys_threads := sys_threads S @ (if act = ActNow then [PreDelay] else [])\<rparr>)"
| DelayJob: "dsc_delayJob (sys_ctl S) \<noteq> None \<Longrightarrow>
    enterDeepSleepDelayed (sys_ctl S) = (pc, c) \<Longrightarrow>
    ds_step pl S (S\<lparr>sys_ctl := c, sys_threads := sys_threads S @ [pc]\<rparr>)"
| Thread: "i < length (sys_threads S) \<Longrightarrow> \<not> returned (sys_threads S ! i) \<Longrightarrow>
    enter_step pl (sys_threads S ! i) (sys_ctl S) = (pc, c) \<Longrightarrow>
    ds_step pl S (S\<lparr>sys_ctl := c, sys_threads := (sys_threads S)[i := pc],
                    sys_calls := sys_calls S @ call_of pc\<rparr>)"
| Deactivated: "ds_step pl S (S\<lparr>sys_ctl := snd (Deactivate pl (sys_ctl S))\<rparr>)"

inductive ds_reach :: "'d deepsleep_platform \<Rightarrow> 'd ds_sys \<Rightarrow> bool" for pl where
  init: "ds_reach pl (ds_sys_init d)"
| step: "ds_reach pl S \<Longrightarrow> ds_step pl S S' \<Longrightarrow> ds_reach pl S'"

inductive_cases ds_stepE: "ds_step pl S S'"

section \<open>Attempts under interference\<close>

fun in_call :: "ds_pc \<Rightarrow> bool" where
  "in_call (InSetDeepSleep r u t n) = True"
| "in_call _ = False"

text \<open>
  The points a thread passes when \<open>st k\<close> is the state other threads have left before its
  \<open>k\<close>-th step.
\<close>

primrec pc_at :: "'d deepsleep_platform \<Rightarrow> (nat \<Rightarrow> 'd dsc) \<Rightarrow> nat \<Rightarrow> ds_pc" where
  "pc_at pl st 0 = PreDelay"
| "pc_at pl st (Suc k) = fst (enter_step pl (pc_at pl st k) (st k))"

fun budget :: "ds_pc \<Rightarrow> nat" where
  "budget PreDelay = 5"
| "budget (RetryLoop r u) = r"
| "budget (InSetDeepSleep r u t n) = r - 1"
| "budget (RetryDelay r u) = r"
| "budget (Returned c) = 0"

lemma enter_step_budget:
  "(if in_call (fst (enter_step pl pc s)) then 1 else 0) + budget (fst (enter_step pl pc s)) \<le> budget pc"
  by (cases pc) (auto simp: Let_def split: prod.split)

lemma pc_at_rank: "ds_rank (pc_at pl st k) \<le> 18 - k"
proof (induction k)
  case (Suc k)
  show ?case
  proof (cases "returned (pc_at pl st k)")
    case True
    then show ?thesis by (auto simp: returned_iff)
  next
    case False
    then have "ds_rank (pc_at pl st (Suc k)) < ds_rank (pc_at pl st k)"
      by (simp add: enter_step_rank)
    with Suc show ?thesis by linarith
  qed
qed simp

lemma pc_at_budget: "card {j. j \<le> k \<and> in_call (pc_at pl st j)} + budget (pc_at pl st k) \<le> 5"
proof (induction k)
  case 0
  have "{j. j \<le> 0 \<and> in_call (pc_at pl st j)} = {}" by auto
  then show ?case by simp
next
  case (Suc k)
  let ?A = "{j. j \<le> k \<and> in_call (pc_at pl st j)}"
  have "{j. j \<le> Suc k \<and> in_call (pc_at pl st j)} =
      (if in_call (pc_at pl st (Suc k)) then insert (Suc k) ?A else ?A)"
    by (auto simp: le_Suc_eq)
  then have "card {j. j \<le> Suc k \<and> in_call (pc_at pl st j)} =
      (if in_call (pc_at pl st (Suc k)) then 1 else 0) + card ?A"
    by (simp del: pc_at.simps)
  with Suc enter_step_budget [of pl "pc_at pl st k" "st k"] show ?case by simp
qed

text \<open>
  C21. Whatever other threads do to the controller in between, a thread that enters deep sleep
  returns after at most 18 steps and calls the platform at most five times.
\<close>

theorem deep_sleep_thread_bounded:
  "returned (pc_at pl st 18) \<and> card {k. in_call (pc_at pl st k)} \<le> 5"
proof
  show "returned (pc_at pl st 18)" using pc_at_rank [of pl st 18] by (simp add: returned_def)
  have "k \<le> 18" if "in_call (pc_at pl st k)" for k
  proof (rule ccontr)
    assume "\<not> k \<le> 18"
    then have "ds_rank (pc_at pl st k) = 0" using pc_at_rank [of pl st k] by simp
    with that show False by (cases "pc_at pl st k") simp_all
  qed
  then have "{k. in_call (pc_at pl st k)} = {k. k \<le> 18 \<and> in_call (pc_at pl st k)}" by auto
  with pc_at_budget [of 18 pl st] show "card {k. in_call (pc_at pl st k)} \<le> 5" by simp
qed

section \<open>Deactivation\<close>

fun pc_ok :: "ds_pc \<Rightarrow> bool" where
  "pc_ok (RetryLoop r u) \<longleftrightarrow> 0 < r"
| "pc_ok (RetryDelay r u) \<longleftrightarrow> 0 < r"
| "pc_ok _ \<longleftrightarrow> True"

lemma pc_ok_enter_step: "pc_ok pc \<Longrightarrow> pc_ok (fst (enter_step pl pc s))"
  by (cases pc) (auto simp: Let_def split: prod.split)

lemma set_update_ok: "\<forall>x \<in> set xs. P x \<Longrightarrow> P y \<Longrightarrow> \<forall>x \<in> set (xs[i := y]). P x"
  using set_update_subset_insert [of xs i y] by auto

lemma reach_pc_ok: "ds_reach pl S \<Longrightarrow> \<forall>pc \<in> set (sys_threads S). pc_ok pc"
proof (induction rule: ds_reach.induct)
  case (init d)
  show ?case by (simp add: ds_sys_init_def)
next
  case (step S S')
  from step.hyps(2) show ?case
  proof cases
    case (Thread i pc c)
    have "pc_ok (sys_threads S ! i)" using step.IH Thread(2) by (meson nth_mem)
    from pc_ok_enter_step [OF this, of pl "sys_ctl S"] have "pc_ok pc"
      unfolding Thread(4) by simp
    with step.IH have "\<forall>x \<in> set ((sys_threads S)[i := pc]). pc_ok x" by (intro set_update_ok)
    then show ?thesis by (simp add: Thread(1))
  qed (use step.IH in \<open>auto simp: enterDeepSleepDelayed_def\<close>)
qed

text \<open>Asked to stop, nothing queued, and no thread inside the platform.\<close>

definition stopped :: "'d ds_sys \<Rightarrow> bool" where
  "stopped S \<longleftrightarrow> dsc_abort (sys_ctl S) \<and> dsc_delayJob (sys_ctl S) = None \<and>
     dsc_state (sys_ctl S) = DS_NotStarted \<and> sys_jobs S = [] \<and>
     (\<forall>pc \<in> set (sys_threads S). pc_ok pc \<and> \<not> in_call pc)"

lemma enter_step_aborted:
  assumes "dsc_abort s" "dsc_state s = DS_NotStarted" "pc_ok pc" "\<not> in_call pc" "\<not> returned pc"
  shows "enter_step pl pc s = (Returned None, s)"
  using assms by (cases pc) auto

lemma Deactivate_fields:
  "dsc_abort (snd (Deactivate pl c))" "dsc_delayJob (snd (Deactivate pl c)) = None"
  "dsc_state (snd (Deactivate pl c)) = DS_NotStarted"
  by (simp_all add: Deactivate_def Let_def split: prod.split)

lemma stopped_step:
  assumes "stopped S" "ds_step pl S S'" "sys_jobs S' = []"
  shows "stopped S' \<and> sys_calls S' = sys_calls S"
  using assms(2)
proof cases
  case (Thread i pc c)
  then have "(pc, c) = (Returned None, sys_ctl S)"
    using assms(1) enter_step_aborted [of "sys_ctl S" "sys_threads S ! i" pl]
    by (auto simp: stopped_def)
  moreover have "\<forall>pc \<in> set ((sys_threads S)[i := Returned None]). pc_ok pc \<and> \<not> in_call pc"
    using assms(1) by (intro set_update_ok) (simp_all add: stopped_def)
  ultimately show ?thesis using assms(1) Thread(1) by (simp add: stopped_def)
next
  case Deactivated
  with assms(1) show ?thesis by (simp add: stopped_def Deactivate_fields)
qed (use assms in \<open>auto simp: stopped_def\<close>)

text \<open>
  C16. When a deactivation finds no activation queued and no thread inside the platform's call,
  the device stays awake until the next activation: no thread ever enters the platform's call,
  no callback is made, and the controller rests in \<^verbatim>\<open>NotStarted\<close>.
\<close>

theorem deactivation_is_effective:
  assumes "ds_reach pl S" and "sys_jobs S = []" and "\<forall>pc \<in> set (sys_threads S). \<not> in_call pc"
    and "(\<lambda>A B. ds_step pl A B \<and> sys_jobs B = [])\<^sup>*\<^sup>*
           (S\<lparr>sys_ctl := snd (Deactivate pl (sys_ctl S))\<rparr>) S'"
  shows "sys_calls S' = sys_calls S \<and> dsc_state (sys_ctl S') = DS_NotStarted \<and>
         (\<forall>pc \<in> set (sys_threads S'). \<not> in_call pc)"
proof -
  have "stopped S' \<and> sys_calls S' = sys_calls S" using assms(4)
  proof (induction rule: rtranclp_induct)
    case base
    show ?case using assms(1-3) reach_pc_ok [OF assms(1)] by (simp add: stopped_def Deactivate_fields)
  next
    case (step A B)
    then show ?case using stopped_step [of A pl B] by simp
  qed
  then show ?thesis by (simp add: stopped_def)
qed

definition demo_waiting :: "nat ds_sys" where
  "demo_waiting =
     \<lparr>sys_ctl = (snd (performActivate 5 no_files 600 True (DeepSleepController_new 0))),
      sys_jobs = [], sys_threads = [PreDelay], sys_calls = []\<rparr>"

lemma performActivate_no_files:
  "performActivate now no_files t n s =
     (if dsc_state s = DS_InProgress then (ActIgnored, s)
      else (ActNow, s\<lparr>dsc_abort := False, dsc_state := DS_InProgress, dsc_startTime := now,
                      dsc_nwStandbyMode := n, dsc_wakeupTimeoutSec := t, dsc_delaySec := 0\<rparr>))"
  by (simp add: performActivate_def IsDeepSleepInProgress_def read_integer_conf_def fopen_r_def no_files_def)

lemma demo_waiting_reach: "ds_reach demo_ds demo_waiting"
proof -
  let ?i = "ds_sys_init (0 :: nat)"
  let ?a = "?i\<lparr>sys_jobs := sys_jobs ?i @ [(600, True)]\<rparr>"
  have a: "ds_reach demo_ds ?a" by (rule ds_reach.step [OF ds_reach.init]) (rule ds_step.Activate)
  have j: "sys_jobs ?a = (600, True) # []" by (simp add: ds_sys_init_def)
  have p: "performActivate 5 no_files 600 True (sys_ctl ?a) =
      (ActNow, snd (performActivate 5 no_files 600 True (sys_ctl ?a)))"
    by (simp add: performActivate_no_files ds_sys_init_def DeepSleepController_new_def)
  have "demo_waiting = ?a\<lparr>sys_jobs := [], sys_ctl := snd (performActivate 5 no_files 600 True (sys_ctl ?a)),
      sys_threads := sys_threads ?a @ (if ActNow = ActNow then [PreDelay] else [])\<rparr>"
    by (simp add: demo_waiting_def ds_sys_init_def)
  then show ?thesis using ds_reach.step [OF a ds_step.Job [OF j p]] by simp
qed

lemma deactivation_is_effective_witness:
  "\<exists>S'. (\<lambda>A B. ds_step demo_ds A B \<and> sys_jobs B = [])\<^sup>*\<^sup>*
           (demo_waiting\<lparr>sys_ctl := snd (Deactivate demo_ds (sys_ctl demo_waiting))\<rparr>) S' \<and>
        sys_threads S' = [Returned None] \<and> sys_calls S' = [] \<and> dsc_state (sys_ctl S') = DS_NotStarted"
proof -
  let ?S = "demo_waiting\<lparr>sys_ctl := snd (Deactivate demo_ds (sys_ctl demo_waiting))\<rparr>"
  let ?S' = "?S\<lparr>sys_ctl := sys_ctl ?S, sys_threads := (sys_threads ?S)[0 := Returned None],
      sys_calls := sys_calls ?S @ call_of (Returned None)\<rparr>"
  have "enter_step demo_ds (sys_threads ?S ! 0) (sys_ctl ?S) = (Returned None, sys_ctl ?S)"
    by (simp add: demo_waiting_def Deactivate_fields)
  then have "ds_step demo_ds ?S ?S'"
    by (intro ds_step.Thread) (simp_all add: demo_waiting_def)
  then have r: "(\<lambda>A B. ds_step demo_ds A B \<and> sys_jobs B = [])\<^sup>*\<^sup>* ?S ?S'"
    by (intro r_into_rtranclp) (simp add: demo_waiting_def)
  have "sys_jobs demo_waiting = []" "\<forall>pc \<in> set (sys_threads demo_waiting). \<not> in_call pc"
    by (simp_all add: demo_waiting_def)
  from deactivation_is_effective [OF demo_waiting_reach this r] r show ?thesis
    by (intro exI [of _ ?S'] conjI) (simp_all add: demo_waiting_def)
qed

section \<open>Two orders of events the code does not guard against\<close>

definition thread_step :: "'d deepsleep_platform \<Rightarrow> nat \<Rightarrow> 'd ds_sys \<Rightarrow> 'd ds_sys" where
  "thread_step pl i S =
     (let (pc, c) = enter_step pl (sys_threads S ! i) (sys_ctl S)
      in S\<lparr>sys_ctl := c, sys_threads := (sys_threads S)[i := pc], sys_calls := sys_calls S @ call_of pc\<rparr>)"

lemma ds_step_thread:
  "i < length (sys_threads S) \<Longrightarrow> \<not> returned (sys_threads S ! i) \<Longrightarrow> ds_step pl S (thread_step pl i S)"
  unfolding thread_step_def Let_def
  by (cases "enter_step pl (sys_threads S ! i) (sys_ctl S)") (auto intro: ds_step.Thread)

definition job_step :: "u32 \<Rightarrow> bool \<Rightarrow> 'd ds_sys \<Rightarrow> 'd ds_sys" where
  "job_step t n S =
     (let (act, c) = performActivate 5 no_files t n (sys_ctl S)
      in S\<lparr>sys_jobs := tl (sys_jobs S), sys_ctl := c,
           sys_threads := sys_threads S @ (if act = ActNow then [PreDelay] else [])\<rparr>)"

lemma ds_step_job:
  assumes "sys_jobs S = (t, n) # js"
  shows "ds_step pl S (job_step t n S)"
proof -
  obtain act c where p: "performActivate 5 no_files t n (sys_ctl S) = (act, c)" by fastforce
  show ?thesis
    using ds_step.Job [OF assms p, of pl] by (simp add: job_step_def p assms)
qed

definition queued :: "nat ds_sys \<Rightarrow> nat ds_sys" where
  "queued S = S\<lparr>sys_jobs := sys_jobs S @ [(600, True)]\<rparr>"

lemmas sys_eval = thread_step_def job_step_def queued_def performActivate_no_files ds_sys_init_def
  DeepSleepController_new_def demo_ds_def Deactivate_def

text \<open>
  A deactivation that comes between an activation and the worker thread that performs it is
  lost: the job clears the abort flag and the device goes to deep sleep.
\<close>

lemma early_deactivation_is_lost:
  "\<exists>A B C S. ds_reach demo_ds S \<and> sys_jobs S = [(600, True)] \<and>
     ds_step demo_ds (S\<lparr>sys_ctl := snd (Deactivate demo_ds (sys_ctl S))\<rparr>) A \<and>
     ds_step demo_ds A B \<and> ds_step demo_ds B C \<and>
     sys_jobs A = [] \<and> sys_jobs C = [] \<and> sys_threads C = [InSetDeepSleep 5 False 600 True]"
proof -
  let ?S = "queued (ds_sys_init 0)"
  let ?D = "?S\<lparr>sys_ctl := snd (Deactivate demo_ds (sys_ctl ?S))\<rparr>"
  let ?A = "job_step 600 True ?D"
  let ?B = "thread_step demo_ds 0 ?A"
  let ?C = "thread_step demo_ds 0 ?B"
  have "ds_reach demo_ds ?S"
    unfolding queued_def by (rule ds_reach.step [OF ds_reach.init ds_step.Activate])
  moreover have "ds_step demo_ds ?D ?A" by (rule ds_step_job [of _ _ _ "[]"]) (simp add: sys_eval)
  moreover have "ds_step demo_ds ?A ?B" by (rule ds_step_thread) (simp_all add: sys_eval)
  moreover have "ds_step demo_ds ?B ?C" by (rule ds_step_thread) (simp_all add: sys_eval)
  moreover have "sys_jobs ?S = [(600, True)]" "sys_jobs ?A = []" "sys_jobs ?C = []"
    "sys_threads ?C = [InSetDeepSleep 5 False 600 True]"
    by (simp_all add: sys_eval)
  ultimately show ?thesis by blast
qed

text \<open>
  While a thread waits to retry, the state is \<^verbatim>\<open>Failed\<close> and no longer \<^verbatim>\<open>InProgress\<close>, so
  the next activation is not recognised as a second one: two threads end up in the platform's
  call at the same time.
\<close>

lemma activations_can_overlap:
  "\<exists>S. ds_reach demo_ds S \<and>
     sys_threads S = [InSetDeepSleep 4 False 600 True, InSetDeepSleep 5 False 600 True]"
proof -
  let ?t = "thread_step demo_ds"
  let ?S1 = "job_step 600 True (queued (ds_sys_init 0))"
  let ?S2 = "?t 0 ?S1" let ?S3 = "?t 0 ?S2" let ?S4 = "?t 0 ?S3"
  let ?S5 = "job_step 600 True (queued ?S4)"
  let ?S6 = "?t 0 ?S5" let ?S7 = "?t 0 ?S6" let ?S8 = "?t 1 ?S7" let ?S9 = "?t 1 ?S8"
  have q: "ds_reach demo_ds S \<Longrightarrow> ds_reach demo_ds (queued S)" for S
    unfolding queued_def by (rule ds_reach.step [OF _ ds_step.Activate])
  have j: "ds_reach demo_ds S \<Longrightarrow> sys_jobs S = [(600, True)] \<Longrightarrow> ds_reach demo_ds (job_step 600 True S)" for S
    by (erule ds_reach.step, rule ds_step_job)
  have t: "ds_reach demo_ds S \<Longrightarrow> i < length (sys_threads S) \<Longrightarrow> \<not> returned (sys_threads S ! i) \<Longrightarrow>
      ds_reach demo_ds (?t i S)" for i S
    by (erule ds_reach.step, rule ds_step_thread)
  have "ds_reach demo_ds ?S1" by (intro j q ds_reach.init) (simp add: sys_eval)
  then have "ds_reach demo_ds ?S2" by (rule t) (simp_all add: sys_eval)
  then have "ds_reach demo_ds ?S3" by (rule t) (simp_all add: sys_eval)
  then have "ds_reach demo_ds ?S4" by (rule t) (simp_all add: sys_eval)
  then have "ds_reach demo_ds ?S5" by (intro j q) (simp_all add: sys_eval)
  then have "ds_reach demo_ds ?S6" by (rule t) (simp_all add: sys_eval)
  then have "ds_reach demo_ds ?S7" by (rule t) (simp_all add: sys_eval)
  then have "ds_reach demo_ds ?S8" by (rule t) (simp_all add: sys_eval)
  then have "ds_reach demo_ds ?S9" by (rule t) (simp_all add: sys_eval)
  moreover have "sys_threads ?S9 = [InSetDeepSleep 4 False 600 True, InSetDeepSleep 5 False 600 True]"
    by (simp add: sys_eval)
  ultimately show ?thesis by blast
qed

end
