(* ===== verification/LockOrder.thy ===== *)
theory LockOrder
  imports PM_Prelude
begin

text \<open>
  Threads that take and release locks in sequence and wait for each other's end: the step
  relation on which the lock usage of the plugin and of the client library is modelled, and the
  proof that threads which take locks in the order of their ranks never block each other for good.

  A lock of \<^verbatim>\<open>Core::CriticalSection\<close> can be taken again by its owner, a
  \<^verbatim>\<open>std::mutex\<close> cannot: \<open>lk_again\<close> tells which.
\<close>

section \<open>Threads\<close>

record 'l lock_class =
  lk_all :: "'l list"
  lk_rank :: "'l \<Rightarrow> nat"
  lk_again :: "'l \<Rightarrow> bool"

text \<open>\<open>Join j\<close> waits for the end of thread \<open>j\<close>.\<close>

datatype 'l lock_op = Lock 'l | Unlock 'l | Join nat

type_synonym 'l lock_ops = "'l lock_op list"

text \<open>The owner of each lock with the number of times it holds it, and what each thread still has to do.\<close>

type_synonym 'l lock_state = "('l \<Rightarrow> (nat \<times> nat) option) \<times> 'l lock_ops list"

inductive lock_step :: "'l lock_class \<Rightarrow> 'l lock_state \<Rightarrow> 'l lock_state \<Rightarrow> bool" for K where
  acquire: "i < length ps \<Longrightarrow> ps ! i = Lock l # r \<Longrightarrow> held l = None \<Longrightarrow>
    lock_step K (held, ps) (held(l \<mapsto> (i, 1)), ps[i := r])"
| again: "i < length ps \<Longrightarrow> ps ! i = Lock l # r \<Longrightarrow> held l = Some (i, n) \<Longrightarrow> lk_again K l \<Longrightarrow>
    lock_step K (held, ps) (held(l \<mapsto> (i, n + 1)), ps[i := r])"
| release: "i < length ps \<Longrightarrow> ps ! i = Unlock l # r \<Longrightarrow> held l = Some (i, Suc n) \<Longrightarrow>
    lock_step K (held, ps) (held(l := (if n = 0 then None else Some (i, n))), ps[i := r])"
| join: "i < length ps \<Longrightarrow> ps ! i = Join j # r \<Longrightarrow> j < length ps \<Longrightarrow> ps ! j = [] \<Longrightarrow>
    lock_step K (held, ps) (held, ps[i := r])"

inductive_cases lock_stepE: "lock_step K (held, ps) S"

definition work_left :: "'l lock_state \<Rightarrow> nat" where
  "work_left S = sum_list (map length (snd S))"

definition start_scripts :: "'l lock_ops list \<Rightarrow> 'l lock_state" where
  "start_scripts ps = (\<lambda>l. None, ps)"

section \<open>The order of the locks\<close>

text \<open>
  Run a thread's operations against the counts of the locks it holds: a lock is taken only if it
  ranks above all that are held, or is held already and can be taken again, only a held lock is
  released, and only threads with nothing to do, \<open>idle\<close>, are joined.
\<close>

definition may_take :: "'l lock_class \<Rightarrow> ('l \<Rightarrow> nat) \<Rightarrow> 'l \<Rightarrow> bool" where
  "may_take K h l \<longleftrightarrow>
     (if h l > 0 then lk_again K l else list_all (\<lambda>k. h k > 0 \<longrightarrow> lk_rank K k < lk_rank K l) (lk_all K))"

fun discipline :: "'l lock_class \<Rightarrow> (nat \<Rightarrow> bool) \<Rightarrow> ('l \<Rightarrow> nat) \<Rightarrow> 'l lock_ops \<Rightarrow> ('l \<Rightarrow> nat) option" where
  "discipline K idle h [] = Some h"
| "discipline K idle h (Lock l # r) = (if may_take K h l then discipline K idle (h(l := h l + 1)) r else None)"
| "discipline K idle h (Unlock l # r) = (if h l > 0 then discipline K idle (h(l := h l - 1)) r else None)"
| "discipline K idle h (Join j # r) = (if idle j then discipline K idle h r else None)"

lemma discipline_append:
  "discipline K idle h (xs @ ys) = Option.bind (discipline K idle h xs) (\<lambda>h. discipline K idle h ys)"
proof (induction xs arbitrary: h)
  case (Cons x xs)
  then show ?case by (cases x) (simp_all add: fun_upd_def)
qed simp

lemma discipline_appendI:
  "discipline K idle h xs = Some h1 \<Longrightarrow> discipline K idle h1 ys = h2 \<Longrightarrow> discipline K idle h (xs @ ys) = h2"
  by (simp add: discipline_append)

lemma discipline_repeat:
  "discipline K idle h xs = Some h \<Longrightarrow> discipline K idle h (concat (replicate n xs)) = Some h"
  by (induction n) (simp_all add: discipline_append)

lemma discipline_concat:
  "\<forall>xs \<in> set xss. discipline K idle h xs = Some h \<Longrightarrow> discipline K idle h (concat xss) = Some h"
  by (induction xss) (simp_all add: discipline_append)

text \<open>The locks \<open>i\<close> holds.\<close>

definition holds :: "nat \<Rightarrow> ('l \<Rightarrow> (nat \<times> nat) option) \<Rightarrow> 'l \<Rightarrow> nat" where
  "holds i held l = (case held l of None \<Rightarrow> 0 | Some (j, n) \<Rightarrow> if j = i then n else 0)"

definition lock_inv :: "'l lock_class \<Rightarrow> (nat \<Rightarrow> bool) \<Rightarrow> 'l lock_state \<Rightarrow> bool" where
  "lock_inv K idle S \<longleftrightarrow>
     (\<forall>i < length (snd S). discipline K idle (holds i (fst S)) (snd S ! i) = Some (\<lambda>l. 0)) \<and>
     (\<forall>l j n. fst S l = Some (j, n) \<longrightarrow> j < length (snd S) \<and> 0 < n) \<and>
     (\<forall>j. idle j \<longrightarrow> j < length (snd S) \<and> snd S ! j = [])"


section \<open>Threads that keep the order never block each other for good\<close>

lemma holds_upd:
  "held l = None \<Longrightarrow> holds i (held(l \<mapsto> (i, Suc 0))) = (holds i held)(l := Suc (holds i held l))"
  "held l = Some (i, n) \<Longrightarrow> holds i (held(l \<mapsto> (i, Suc n))) = (holds i held)(l := Suc (holds i held l))"
  "held l = Some (i, Suc n) \<Longrightarrow>
     holds i (held(l := (if n = 0 then None else Some (i, n)))) = (holds i held)(l := holds i held l - Suc 0)"
  by (auto simp: holds_def fun_eq_iff)

lemma holds_other:
  "held l = None \<Longrightarrow> j \<noteq> i \<Longrightarrow> holds j (held(l \<mapsto> (i, n))) = holds j held"
  "held l = Some (i, m) \<Longrightarrow> j \<noteq> i \<Longrightarrow> holds j (held(l \<mapsto> (i, n))) = holds j held"
  "held l = Some (i, m) \<Longrightarrow> j \<noteq> i \<Longrightarrow> holds j (held(l := (if b then None else Some (i, n)))) = holds j held"
  by (auto simp: holds_def fun_eq_iff)

text \<open>One lemma for the four kinds of steps: thread \<open>i\<close> goes on to \<open>r\<close>, the others keep what they hold.\<close>

lemma lock_inv_update:
  assumes "lock_inv K idle (held, ps)" and "i < length ps" and "ps ! i \<noteq> []"
    and "discipline K idle (holds i held2) r = Some (\<lambda>l. 0)"
    and "\<And>j. j \<noteq> i \<Longrightarrow> holds j held2 = holds j held"
    and "\<And>l j n. held2 l = Some (j, n) \<Longrightarrow> (j = i \<and> 0 < n) \<or> held l = Some (j, n)"
  shows "lock_inv K idle (held2, ps[i := r])"
  using assms unfolding lock_inv_def
  by (auto simp: nth_list_update) metis+

lemma inv_head:
  "lock_inv K idle (held, ps) \<Longrightarrow> i < length ps \<Longrightarrow> ps ! i = ops \<Longrightarrow> discipline K idle (holds i held) ops = Some (\<lambda>l. 0)"
  by (auto simp: lock_inv_def)

lemma lock_step_inv: "lock_step K S S2 \<Longrightarrow> lock_inv K idle S \<Longrightarrow> lock_inv K idle S2"
proof (induction rule: lock_step.induct)
  case (acquire i ps l r held)
  note d = inv_head [OF acquire.prems acquire(1,2)]
  show ?case
    by (rule lock_inv_update [OF acquire.prems acquire(1)])
       (use acquire d in \<open>auto simp: holds_upd holds_other simp del: fun_upd_apply split: if_splits\<close>, auto split: if_splits)
next
  case (again i ps l r held n)
  note d = inv_head [OF again.prems again(1,2)]
  show ?case
    by (rule lock_inv_update [OF again.prems again(1)])
       (use again d in \<open>auto simp: holds_upd holds_other simp del: fun_upd_apply split: if_splits\<close>, auto split: if_splits)
next
  case (release i ps l r held n)
  note d = inv_head [OF release.prems release(1,2)]
  show ?case
    by (rule lock_inv_update [OF release.prems release(1)])
       (use release d in \<open>auto simp: holds_upd holds_other simp del: fun_upd_apply split: if_splits\<close>, auto split: if_splits)
next
  case (join i ps j r held)
  with inv_head [OF join.prems join(1,2)] show ?case by (intro lock_inv_update) (auto split: if_splits)
qed

lemma sum_list_update: "i < length ps \<Longrightarrow> length (ps ! i) = Suc (length r) \<Longrightarrow>
   sum_list (map length ps) = Suc (sum_list (map length (ps[i := r])))"
  by (induction ps arbitrary: i) (auto split: nat.splits)

lemma work_left_step: "lock_step K S S2 \<Longrightarrow> work_left S = Suc (work_left S2)"
  by (induction rule: lock_step.induct) (simp_all add: work_left_def sum_list_update)

lemma work_left_0: "work_left (held, ps) = 0 \<longleftrightarrow> (\<forall>i < length ps. ps ! i = [])"
  by (auto simp: work_left_def all_set_conv_all_nth)

lemma lock_run:
  "(lock_step K ^^ n) S0 S \<Longrightarrow> lock_inv K idle S0 \<Longrightarrow> lock_inv K idle S \<and> work_left S0 = n + work_left S"
proof (induction n arbitrary: S)
  case (Suc n)
  then obtain T where "(lock_step K ^^ n) S0 T" "lock_step K T S" by auto
  with Suc.IH [of T] Suc.prems(2) lock_step_inv [of K T S] work_left_step [of K T S] show ?case by simp
qed simp

lemma lock_run_length: "(lock_step K ^^ n) S0 S \<Longrightarrow> length (snd S) = length (snd S0)"
proof (induction n arbitrary: S)
  case (Suc n)
  then obtain T where T: "(lock_step K ^^ n) S0 T" "lock_step K T S" by auto
  from T(2) have "length (snd S) = length (snd T)" by (cases rule: lock_step.cases) simp_all
  with Suc.IH [OF T(1)] show ?case by simp
qed simp

lemma finished_free: "lock_inv K idle (held, ps) \<Longrightarrow> work_left (held, ps) = 0 \<Longrightarrow> held = (\<lambda>l. None)"
proof (rule ext)
  fix l
  assume inv: "lock_inv K idle (held, ps)" and w: "work_left (held, ps) = 0"
  show "held l = None"
  proof (rule ccontr)
    assume "held l \<noteq> None"
    then obtain j n where p: "held l = Some (j, n)" by auto
    then have j: "j < length ps" "0 < n" using inv by (auto simp: lock_inv_def)
    then have "discipline K idle (holds j held) [] = Some (\<lambda>l. 0)"
      using inv w by (metis lock_inv_def fst_conv snd_conv work_left_0)
    then have "holds j held l = 0" by (simp add: fun_eq_iff)
    with p j show False by (simp add: holds_def)
  qed
qed

lemma start_inv:
  fixes ps :: "'a lock_ops list"
  assumes "\<forall>p \<in> set ps. discipline K idle (\<lambda>l. 0) p = Some (\<lambda>l. 0)"
    and "\<forall>j. idle j \<longrightarrow> j < length ps \<and> ps ! j = []"
  shows "lock_inv K idle (start_scripts ps)"
proof -
  have "holds i (\<lambda>l :: 'a. None) = (\<lambda>l. 0)" for i by (simp add: holds_def fun_eq_iff)
  with assms show ?thesis by (auto simp: lock_inv_def start_scripts_def)
qed

section \<open>The contract\<close>

text \<open>A class of finitely many ranked locks is all that the proof needs.\<close>

locale lock_ranking =
  fixes K :: "'l lock_class"
  assumes all_locks: "set (lk_all K) = UNIV"
begin

definition top_rank :: nat where
  "top_rank = sum_list (map (lk_rank K) (lk_all K))"

lemma rank_le_top: "lk_rank K l \<le> top_rank"
  unfolding top_rank_def by (rule member_le_sum_list) (simp_all add: all_locks)

text \<open>A thread that waits for a lock waits for one that is busy with a lock of higher rank, or can go on.\<close>

lemma blocked_progress:
  assumes "lock_inv K idle (held, ps)"
  shows "i < length ps \<Longrightarrow> ps ! i = Lock l # r \<Longrightarrow> \<exists>S. lock_step K (held, ps) S"
proof (induction "top_rank - lk_rank K l" arbitrary: i l r rule: less_induct)
  case less
  show ?case
  proof (cases "held l")
    case None
    with less.prems show ?thesis by (blast intro: lock_step.acquire)
  next
    case (Some p)
    then obtain j n where p: "held l = Some (j, n)" by (cases p) auto
    then have j: "j < length ps" "0 < n" using assms by (auto simp: lock_inv_def)
    have hl: "0 < holds j held l" using p j by (simp add: holds_def)
    have d: "discipline K idle (holds j held) (ps ! j) = Some (\<lambda>l. 0)" using assms j(1) by (simp add: lock_inv_def)
    show ?thesis
    proof (cases "ps ! j")
      case Nil
      then show ?thesis using d hl by (auto simp: fun_eq_iff)
    next
      case (Cons op r2)
      show ?thesis
      proof (cases op)
        case (Unlock k)
        then obtain m where "held k = Some (j, Suc m)"
          using d Cons by (auto simp: holds_def gr0_conv_Suc split: if_splits option.splits prod.splits)
        with j(1) Cons Unlock show ?thesis by (blast intro: lock_step.release)
      next
        case (Join k)
        then have "idle k" using d Cons by (auto split: if_splits)
        then have "k < length ps \<and> ps ! k = []" using assms by (auto simp: lock_inv_def)
        with j(1) Cons Join show ?thesis by (blast intro: lock_step.join)
      next
        case (Lock k)
        show ?thesis
        proof (cases "holds j held k > 0")
          case True
          then obtain m where "held k = Some (j, m)" by (auto simp: holds_def split: option.splits if_splits)
          moreover have "lk_again K k" using d Cons Lock True by (auto simp: may_take_def split: if_splits)
          ultimately show ?thesis using j(1) Cons Lock by (blast intro: lock_step.again)
        next
          case False
          then have "lk_rank K l < lk_rank K k"
            using d Cons Lock hl by (auto simp: may_take_def list_all_iff all_locks split: if_splits)
          then have "top_rank - lk_rank K k < top_rank - lk_rank K l" using rank_le_top [of k] by simp
          from less.hyps [OF this j(1)] Cons Lock show ?thesis by blast
        qed
      qed
    qed
  qed
qed

text \<open>So does a thread that is not finished, whatever it is at.\<close>

lemma lock_progress:
  assumes inv: "lock_inv K idle (held, ps)" and i: "i < length ps" "ps ! i \<noteq> []"
  shows "\<exists>S. lock_step K (held, ps) S"
proof -
  obtain op r where op: "ps ! i = op # r" using i(2) by (cases "ps ! i") auto
  have d: "discipline K idle (holds i held) (op # r) = Some (\<lambda>l. 0)" by (rule inv_head [OF inv i(1) op])
  show ?thesis
  proof (cases op)
    case (Lock l)
    with blocked_progress [OF inv i(1)] op show ?thesis by blast
  next
    case (Unlock k)
    then obtain m where "held k = Some (i, Suc m)"
      using d by (auto simp: holds_def gr0_conv_Suc split: if_splits option.splits prod.splits)
    with i(1) op Unlock show ?thesis by (blast intro: lock_step.release)
  next
    case (Join k)
    then have "idle k" using d by (auto split: if_splits)
    then have "k < length ps \<and> ps ! k = []" using inv by (auto simp: lock_inv_def)
    with i(1) op Join show ?thesis by (blast intro: lock_step.join)
  qed
qed

text \<open>
  Threads whose scripts keep the order run to their end under every schedule, in as many steps
  as the scripts have operations, and leave every lock free.
\<close>

lemma scripts_finish:
  assumes "\<forall>p \<in> set ps. discipline K idle (\<lambda>l. 0) p = Some (\<lambda>l. 0)"
    and "\<forall>j. idle j \<longrightarrow> j < length ps \<and> ps ! j = []"
    and "(lock_step K ^^ n) (start_scripts ps) S"
  shows "n \<le> work_left (start_scripts ps) \<and>
    (if n = work_left (start_scripts ps) then S = (\<lambda>l. None, map (\<lambda>p. []) ps) else \<exists>S2. lock_step K S S2)"
proof -
  from lock_run [OF assms(3) start_inv [OF assms(1,2)]] have inv: "lock_inv K idle S"
    and w: "work_left (start_scripts ps) = n + work_left S" by auto
  obtain held qs where S: "S = (held, qs)" by (cases S)
  have len: "length qs = length ps"
    using lock_run_length [OF assms(3)] by (simp add: S start_scripts_def)
  show ?thesis
  proof (cases "work_left S = 0")
    case True
    then have "\<forall>i < length qs. qs ! i = []" by (simp add: S work_left_0)
    then have "qs = map (\<lambda>p. []) ps" using len by (intro nth_equalityI) simp_all
    moreover have "held = (\<lambda>l. None)"
      by (rule finished_free [OF inv [unfolded S]]) (use True S in simp)
    ultimately have "S = (\<lambda>l. None, map (\<lambda>p. []) ps)" by (simp only: S)
    with True w show ?thesis by simp
  next
    case False
    then obtain i where "i < length qs" "qs ! i \<noteq> []" by (auto simp: S work_left_0)
    from lock_progress [OF inv [unfolded S] this] have "\<exists>S2. lock_step K S S2" by (simp only: S)
    with w False show ?thesis by simp
  qed
qed

end

section \<open>Deadlocks\<close>

lemma lock_stuck:
  assumes "\<And>i. i < length ps \<Longrightarrow> ps ! i = [] \<or>
      (\<exists>l r j n. ps ! i = Lock l # r \<and> held l = Some (j, n) \<and> (j \<noteq> i \<or> \<not> lk_again K l)) \<or>
      (\<exists>j r. ps ! i = Join j # r \<and> j < length ps \<and> ps ! j \<noteq> [])"
  shows "\<not> lock_step K (held, ps) S"
proof
  assume "lock_step K (held, ps) S"
  then obtain i where i: "i < length ps"
    and s: "(\<exists>l r. ps ! i = Lock l # r \<and> (held l = None \<or> lk_again K l \<and> (\<exists>n. held l = Some (i, n)))) \<or>
      (\<exists>l r. ps ! i = Unlock l # r) \<or> (\<exists>j r. ps ! i = Join j # r \<and> ps ! j = [])"
    by (cases rule: lock_step.cases) blast+
  from assms [OF i] s show False by auto
qed

text \<open>One step of a given thread, and a schedule of such steps; \<open>None\<close> where the thread cannot go on.\<close>

fun thread_step :: "'l lock_class \<Rightarrow> nat \<Rightarrow> 'l lock_state \<Rightarrow> 'l lock_state option" where
  "thread_step K i (held, ps) =
     (if i < length ps
      then case ps ! i of
             [] \<Rightarrow> None
           | Lock l # r \<Rightarrow>
               (case held l of
                  None \<Rightarrow> Some (held(l \<mapsto> (i, 1)), ps[i := r])
                | Some (j, n) \<Rightarrow> if j = i \<and> lk_again K l then Some (held(l \<mapsto> (i, n + 1)), ps[i := r]) else None)
           | Unlock l # r \<Rightarrow>
               (case held l of
                  None \<Rightarrow> None
                | Some (j, n) \<Rightarrow>
                    if j = i \<and> n > 0 then Some (held(l := (if n = 1 then None else Some (i, n - 1))), ps[i := r]) else None)
           | Join j # r \<Rightarrow> if j < length ps \<and> ps ! j = [] then Some (held, ps[i := r]) else None
      else None)"

fun run_schedule :: "'l lock_class \<Rightarrow> nat list \<Rightarrow> 'l lock_state \<Rightarrow> 'l lock_state option" where
  "run_schedule K [] S = Some S"
| "run_schedule K (i # is) S = Option.bind (thread_step K i S) (run_schedule K is)"

lemma thread_step_sound:
  assumes "thread_step K i S = Some T" shows "lock_step K S T"
proof -
  obtain held ps where S: "S = (held, ps)" by (cases S)
  from assms have i: "i < length ps" by (simp add: S split: if_splits)
  then obtain op r where op: "ps ! i = op # r" using assms by (cases "ps ! i") (simp_all add: S)
  show ?thesis
  proof (cases op)
    case (Lock l)
    with assms i op show ?thesis unfolding S
      by (cases "held l") (auto split: if_splits intro: lock_step.acquire [where K = K, simplified] lock_step.again [where K = K, simplified])
  next
    case (Unlock l)
    with assms i op obtain m where m: "held l = Some (i, Suc m)"
      unfolding S by (cases "held l") (auto split: if_splits simp: gr0_conv_Suc)
    with assms i op Unlock show ?thesis unfolding S using lock_step.release [OF i, of l r held m K] by (auto cong: if_cong)
  next
    case (Join j)
    with assms i op show ?thesis unfolding S by (auto split: if_splits intro: lock_step.join)
  qed
qed

lemma run_schedule_sound: "run_schedule K is S = Some T \<Longrightarrow> (lock_step K)\<^sup>*\<^sup>* S T"
proof (induction "is" arbitrary: S)
  case (Cons i "is")
  then obtain U where "thread_step K i S = Some U" "run_schedule K is U = Some T"
    by (auto split: Option.bind_splits)
  with Cons.IH [of U] show ?case by (meson thread_step_sound converse_rtranclp_into_rtranclp)
qed simp

text \<open>A state in which unfinished threads wait for each other.\<close>

definition deadlocked :: "'l lock_class \<Rightarrow> 'l lock_state \<Rightarrow> bool" where
  "deadlocked K S \<longleftrightarrow> 0 < work_left S \<and> (\<forall>T. \<not> lock_step K S T)"

lemma deadlock_reached:
  assumes "run_schedule K is S0 = Some (held, ps)" and "i < length ps" "ps ! i \<noteq> []"
    and "\<And>i. i < length ps \<Longrightarrow> ps ! i = [] \<or>
      (\<exists>l r j n. ps ! i = Lock l # r \<and> held l = Some (j, n) \<and> (j \<noteq> i \<or> \<not> lk_again K l)) \<or>
      (\<exists>j r. ps ! i = Join j # r \<and> j < length ps \<and> ps ! j \<noteq> [])"
  shows "\<exists>S. (lock_step K)\<^sup>*\<^sup>* S0 S \<and> deadlocked K S"
proof -
  have "0 < work_left (held, ps)" using assms(2,3) work_left_0 [of held ps] by auto
  moreover have "\<not> lock_step K (held, ps) T" for T by (rule lock_stuck [OF assms(4)])
  ultimately show ?thesis using run_schedule_sound [OF assms(1)] by (auto simp: deadlocked_def)
qed

end
