(* ===== verification/PluginLocks.thy ===== *)
theory PluginLocks
  imports LockOrder
begin

text \<open>
  The locks of the plugin: the semaphore \<^verbatim>\<open>selfLock\<close>, \<^verbatim>\<open>_apiLock\<close> and
  \<^verbatim>\<open>_callbackLock\<close> of \<^verbatim>\<open>plugin/PowerManagerImplementation.cpp\<close>, and the two mutexes of
  \<^verbatim>\<open>plugin/ThermalController.cpp\<close>; what each entry point does with them, in order, and what
  follows for threads that run such entries at the same time.

  The mutexes that are released before anything else is taken, in the deep sleep controller and
  around the stop flag of the poll thread, are left out, as are the platform and the worker
  pool. A call that waits for \<^verbatim>\<open>selfLock\<close> looks at \<^verbatim>\<open>_apiLock\<close> once a second, holding
  nothing; this is left out too. What the clients' notification objects do while they are
  called is a parameter.
\<close>

section \<open>What the entry points do with the locks\<close>

datatype plugin_lock = SelfLock | ApiLock | ThermMutex | GraceMutex | NotifyLock

primrec plugin_rank :: "plugin_lock \<Rightarrow> nat" where
  "plugin_rank SelfLock = 0"
| "plugin_rank ApiLock = 1"
| "plugin_rank ThermMutex = 2"
| "plugin_rank GraceMutex = 2"
| "plugin_rank NotifyLock = 3"

definition plugin_locks :: "plugin_lock lock_class" where
  "plugin_locks =
     \<lparr>lk_all = [SelfLock, ApiLock, ThermMutex, GraceMutex, NotifyLock], lk_rank = plugin_rank,
      lk_again = \<lambda>l. l = ApiLock \<or> l = NotifyLock\<rparr>"

type_synonym plugin_ops = "plugin_lock lock_ops"

text \<open>\<open>cb\<close> is what the notification objects called meanwhile do together.\<close>

definition dispatch_ops :: "plugin_ops \<Rightarrow> plugin_ops" where
  "dispatch_ops cb = [Lock NotifyLock] @ cb @ [Unlock NotifyLock]"

definition api_ops :: "plugin_ops \<Rightarrow> plugin_ops" where
  "api_ops body = [Lock ApiLock] @ body @ [Unlock ApiLock]"

text \<open>
  The ways through \<^verbatim>\<open>SetPowerState\<close>: nothing to do after reading the state, a redundant
  request, or a transition, whose handler, when it runs in the call, dispatches the change.
\<close>

datatype sps_way = SpsNothing | SpsRedundant | SpsTransition bool

primrec SetPowerState_ops :: "plugin_ops \<Rightarrow> sps_way \<Rightarrow> plugin_ops" where
  "SetPowerState_ops cb SpsNothing = [Lock SelfLock] @ api_ops [] @ [Unlock SelfLock]"
| "SetPowerState_ops cb SpsRedundant = [Lock SelfLock] @ api_ops [] @ api_ops [] @ [Unlock SelfLock]"
| "SetPowerState_ops cb (SpsTransition dispatched) =
     [Lock SelfLock] @ api_ops [] @ api_ops [] @ (if dispatched then dispatch_ops cb else []) @ [Unlock SelfLock]"

text \<open>
  One iteration of \<^verbatim>\<open>pollThermalLevels\<close>, past the read of the power state when the device is
  awake: the level has changed or not, the measurement succeeded or not, and the requests for
  deep sleep that \<^verbatim>\<open>deepSleepIfNeeded\<close> makes.
\<close>

definition poll_ops :: "plugin_ops \<Rightarrow> bool \<Rightarrow> bool \<Rightarrow> bool \<Rightarrow> sps_way list \<Rightarrow> plugin_ops" where
  "poll_ops cb awake measured changed hot =
     api_ops [] @
     (if \<not> awake then []
      else [Lock ThermMutex] @ (if measured \<and> changed then dispatch_ops cb else []) @ [Unlock ThermMutex] @
           (if measured then [Lock GraceMutex] @ concat (map (SetPowerState_ops cb) hot) @ [Unlock GraceMutex] else []))"

text \<open>
  The entries: calls of clients, the timer of the acknowledgements, the deep sleep controller's
  callbacks and the poll thread. The flags tell whether an event is dispatched.
\<close>

datatype plugin_entry =
    E_SetPowerState sps_way
  | E_Call                                 \<comment> \<open>a call that only takes \<^verbatim>\<open>_apiLock\<close>\<close>
  | E_PreChangeComplete bool               \<comment> \<open>also the removal of a client\<close>
  | E_AckTimer bool
  | E_GetThermalState
  | E_SetOvertempGraceInterval bool        \<comment> \<open>whether the interval is valid\<close>
  | E_Reboot
  | E_SetNetworkStandbyMode bool
  | E_SetWakeupSourceConfig nat bool       \<comment> \<open>reads after the configuration, and whether the mode is set\<close>
  | E_Register
  | E_TimerWakeup sps_way
  | E_Wakeup sps_way                       \<comment> \<open>by the user or after a failure\<close>
  | E_Poll bool bool bool "sps_way list"

fun plugin_entry_ops :: "plugin_ops \<Rightarrow> plugin_entry \<Rightarrow> plugin_ops" where
  "plugin_entry_ops cb (E_SetPowerState w) = SetPowerState_ops cb w"
| "plugin_entry_ops cb E_Call = api_ops []"
| "plugin_entry_ops cb (E_PreChangeComplete d) = api_ops (if d then dispatch_ops cb else [])"
| "plugin_entry_ops cb (E_AckTimer d) = (if d then dispatch_ops cb else [])"
| "plugin_entry_ops cb E_GetThermalState = api_ops [Lock ThermMutex, Unlock ThermMutex]"
| "plugin_entry_ops cb (E_SetOvertempGraceInterval valid) =
     api_ops (if valid then [Lock GraceMutex, Unlock GraceMutex] else [])"
| "plugin_entry_ops cb E_Reboot = dispatch_ops cb @ api_ops []"
| "plugin_entry_ops cb (E_SetNetworkStandbyMode ok) = api_ops [] @ (if ok then dispatch_ops cb else [])"
| "plugin_entry_ops cb (E_SetWakeupSourceConfig n ok) =
     api_ops [] @ concat (replicate n (api_ops [])) @ (if ok then api_ops [] @ dispatch_ops cb else [])"
| "plugin_entry_ops cb E_Register = [Lock NotifyLock, Unlock NotifyLock]"
| "plugin_entry_ops cb (E_TimerWakeup w) = dispatch_ops cb @ SetPowerState_ops cb w"
| "plugin_entry_ops cb (E_Wakeup w) = SetPowerState_ops cb w"
| "plugin_entry_ops cb (E_Poll awake measured changed hot) = poll_ops cb awake measured changed hot"

definition plugin_threads :: "plugin_ops \<Rightarrow> plugin_entry list list \<Rightarrow> plugin_lock lock_state" where
  "plugin_threads cb threads = start_scripts (map (\<lambda>t. concat (map (plugin_entry_ops cb) t)) threads)"

interpretation plugin_order: lock_ranking plugin_locks
  by unfold_locales (auto simp: plugin_locks_def intro: plugin_lock.exhaust)

section \<open>Threads that run to their end\<close>

lemma plugin_lock_simps:
  "may_take plugin_locks h l \<longleftrightarrow>
     (if h l > 0 then l = ApiLock \<or> l = NotifyLock
      else (h SelfLock > 0 \<longrightarrow> 0 < plugin_rank l) \<and> (h ApiLock > 0 \<longrightarrow> 1 < plugin_rank l) \<and>
           (h ThermMutex > 0 \<longrightarrow> 2 < plugin_rank l) \<and> (h GraceMutex > 0 \<longrightarrow> 2 < plugin_rank l) \<and> h NotifyLock = 0)"
  by (cases l) (auto simp: plugin_locks_def may_take_def)

lemmas plugin_discipline_simps = plugin_lock_simps discipline_append fun_eq_iff
  dispatch_ops_def api_ops_def poll_ops_def

text \<open>No entry but the poll thread's request for deep sleep leaves the order.\<close>

fun cool :: "plugin_entry \<Rightarrow> bool" where
  "cool (E_Poll awake measured changed hot) \<longleftrightarrow> \<not> awake \<or> \<not> measured \<or> hot = []"
| "cool _ \<longleftrightarrow> True"

lemma discipline_api: "discipline plugin_locks idle (\<lambda>l. 0) (api_ops []) = Some (\<lambda>l. 0)"
  by (simp add: plugin_discipline_simps)

lemma discipline_SetPowerState:
  "discipline plugin_locks idle (\<lambda>l. 0) (SetPowerState_ops [] w) = Some (\<lambda>l. 0)"
  by (cases w) (simp_all add: plugin_discipline_simps)

lemma discipline_dispatch: "discipline plugin_locks idle (\<lambda>l. 0) (dispatch_ops []) = Some (\<lambda>l. 0)"
  by (simp add: plugin_discipline_simps)

lemma discipline_api_body:
  "discipline plugin_locks idle (\<lambda>l. 0) (api_ops (dispatch_ops [])) = Some (\<lambda>l. 0)"
  "discipline plugin_locks idle (\<lambda>l. 0) (api_ops [Lock ThermMutex, Unlock ThermMutex]) = Some (\<lambda>l. 0)"
  "discipline plugin_locks idle (\<lambda>l. 0) (api_ops [Lock GraceMutex, Unlock GraceMutex]) = Some (\<lambda>l. 0)"
  by (simp_all add: plugin_discipline_simps)

lemma discipline_Register: "discipline plugin_locks idle (\<lambda>l. 0) [Lock NotifyLock, Unlock NotifyLock] = Some (\<lambda>l. 0)"
  by (simp add: plugin_discipline_simps)

lemma discipline_poll:
  "\<not> awake \<or> \<not> measured \<or> hot = [] \<Longrightarrow>
   discipline plugin_locks idle (\<lambda>l. 0) (poll_ops [] awake measured changed hot) = Some (\<lambda>l. 0)"
  by (auto simp: plugin_discipline_simps)

lemma discipline_plugin_entry:
  "cool e \<Longrightarrow> discipline plugin_locks idle (\<lambda>l. 0) (plugin_entry_ops [] e) = Some (\<lambda>l. 0)"
  using discipline_repeat [OF discipline_api]
  by (cases e) (simp_all add: discipline_append discipline_SetPowerState discipline_api discipline_api_body
    discipline_dispatch discipline_poll discipline_Register discipline.simps(1) del: discipline.simps(2-4))

text \<open>
  C22. Clients' calls, timers, wake-ups and the poll thread never wait for each other for good,
  under any scheduling, as long as the notification objects do not call the plugin back and the
  poll thread does not send a hot device to deep sleep: every thread runs to its end, and all
  locks are free then.
\<close>

theorem plugin_threads_finish:
  assumes "\<forall>t \<in> set threads. \<forall>e \<in> set t. cool e"
    and "(lock_step plugin_locks ^^ n) (plugin_threads [] threads) S"
  shows "n \<le> work_left (plugin_threads [] threads) \<and>
    (if n = work_left (plugin_threads [] threads) then S = (\<lambda>l. None, map (\<lambda>t. []) threads)
     else \<exists>S2. lock_step plugin_locks S S2)"
proof -
  let ?ps = "map (\<lambda>t. concat (map (plugin_entry_ops []) t)) threads"
  have "\<forall>p \<in> set ?ps. discipline plugin_locks (\<lambda>j. False) (\<lambda>l. 0) p = Some (\<lambda>l. 0)"
    using assms(1) by (auto intro!: discipline_concat discipline_plugin_entry)
  then show ?thesis
    using plugin_order.scripts_finish [of ?ps "\<lambda>j. False" n S] assms(2) unfolding plugin_threads_def map_map comp_def by blast
qed

lemma plugin_threads_finish_witness:
  "let threads = [[E_Call, E_PreChangeComplete True], [E_Poll True True True [], E_SetPowerState (SpsTransition False)],
                  [E_SetOvertempGraceInterval True]]
   in \<exists>S. lock_step plugin_locks (plugin_threads [] threads) S"
proof -
  let ?threads = "[[E_Call, E_PreChangeComplete True], [E_Poll True True True [], E_SetPowerState (SpsTransition False)],
                  [E_SetOvertempGraceInterval True]]"
  have "work_left (plugin_threads [] ?threads) \<noteq> 0"
    by (simp add: work_left_def plugin_threads_def start_scripts_def api_ops_def)
  with plugin_threads_finish [of ?threads 0 "plugin_threads [] ?threads"] show ?thesis by simp
qed

section \<open>Two ways to hang\<close>

text \<open>
  C31. Both conditions are needed. The poll thread asks for deep sleep with the mutex of the grace
  interval in its hands, and the request takes \<^verbatim>\<open>_apiLock\<close>; a client that sets the grace
  interval takes the two in the opposite order, and both stop for good. And since the last
  acknowledgement dispatches the change under \<^verbatim>\<open>_apiLock\<close>, a client whose notification
  object asks the plugin anything, as it may by another of the plugin's threads, hangs with it.
\<close>

theorem plugin_threads_can_hang:
  "(\<exists>S. (lock_step plugin_locks)\<^sup>*\<^sup>*
      (plugin_threads [] [[E_Poll True True changed (w # ws)], [E_SetOvertempGraceInterval True]]) S \<and>
      deadlocked plugin_locks S) \<and>
   (\<exists>S. (lock_step plugin_locks)\<^sup>*\<^sup>* (plugin_threads [Join 1] [[E_PreChangeComplete True], [E_Call]]) S \<and>
      deadlocked plugin_locks S)"
proof
  let ?rest = "(case w of SpsNothing \<Rightarrow> [Unlock ApiLock, Unlock SelfLock]
      | SpsRedundant \<Rightarrow> [Unlock ApiLock] @ api_ops [] @ [Unlock SelfLock]
      | SpsTransition d \<Rightarrow> [Unlock ApiLock] @ api_ops [] @ (if d then dispatch_ops [] else []) @ [Unlock SelfLock]) @
      concat (map (SetPowerState_ops []) ws) @ [Unlock GraceMutex]"
  have w: "SetPowerState_ops [] w @ concat (map (SetPowerState_ops []) ws) @ [Unlock GraceMutex] =
      Lock SelfLock # Lock ApiLock # ?rest"
    by (cases w) (simp_all add: api_ops_def)
  let ?sched = "replicate (if changed then 8 else 6) 0 @ [1]"
  have "run_schedule plugin_locks ?sched
      (plugin_threads [] [[E_Poll True True changed (w # ws)], [E_SetOvertempGraceInterval True]]) =
      Some ([GraceMutex \<mapsto> (0, 1), SelfLock \<mapsto> (0, 1), ApiLock \<mapsto> (1, 1)],
        [Lock ApiLock # ?rest, [Lock GraceMutex, Unlock GraceMutex, Unlock ApiLock]])"
    by (cases changed)
       (simp_all add: plugin_threads_def start_scripts_def poll_ops_def api_ops_def dispatch_ops_def w
          numeral_nat fun_upd_twist fun_eq_iff)
  then show "\<exists>S. (lock_step plugin_locks)\<^sup>*\<^sup>*
      (plugin_threads [] [[E_Poll True True changed (w # ws)], [E_SetOvertempGraceInterval True]]) S \<and>
      deadlocked plugin_locks S"
    by (rule deadlock_reached [of _ _ _ _ _ 0]) (auto simp: less_Suc_eq nth_Cons split: nat.splits)
next
  have "run_schedule plugin_locks [0, 0] (plugin_threads [Join 1] [[E_PreChangeComplete True], [E_Call]]) =
      Some ([ApiLock \<mapsto> (0, 1), NotifyLock \<mapsto> (0, 1)],
        [[Join 1, Unlock NotifyLock, Unlock ApiLock], [Lock ApiLock, Unlock ApiLock]])"
    by (simp add: plugin_threads_def start_scripts_def api_ops_def dispatch_ops_def)
  then show "\<exists>S. (lock_step plugin_locks)\<^sup>*\<^sup>* (plugin_threads [Join 1] [[E_PreChangeComplete True], [E_Call]]) S \<and>
      deadlocked plugin_locks S"
    by (rule deadlock_reached [of _ _ _ _ _ 0]) (auto simp: less_Suc_eq nth_Cons split: nat.splits)
qed

end
