(* ===== verification/ClientTypes.thy ===== *)
theory ClientTypes
  imports PowerTypes
begin

text \<open>
  The conversion tables at the head of \<^verbatim>\<open>powercontroller/power_controller.cpp\<close>. A value of
  a C enumeration that crosses the library's interface is an \<open>int\<close>, since a C caller can pass any.
\<close>

section \<open>Conversions\<close>

text \<open>
  The tables are hash maps; the reverse lookup iterates over one in some order, which does not
  matter because the values are distinct.
\<close>

definition powerStateMap :: "(PowerState \<times> int) list" where
  "powerStateMap =
     [(POWER_STATE_UNKNOWN, 0), (POWER_STATE_OFF, 1), (POWER_STATE_STANDBY, 2), (POWER_STATE_ON, 3),
      (POWER_STATE_STANDBY_LIGHT_SLEEP, 4), (POWER_STATE_STANDBY_DEEP_SLEEP, 5)]"

definition find_value :: "('k \<times> int) list \<Rightarrow> int \<Rightarrow> 'k option" where
  "find_value m v = map_option fst (List.find (\<lambda>kv. snd kv = v) m)"

definition convert_state :: "PowerState \<Rightarrow> int" where
  "convert_state from = (case map_of powerStateMap from of Some v \<Rightarrow> v | None \<Rightarrow> 0)"

definition unconvert_state :: "int \<Rightarrow> PowerState" where
  "unconvert_state from = (case find_value powerStateMap from of Some k \<Rightarrow> k | None \<Rightarrow> POWER_STATE_UNKNOWN)"

definition wakeupReasonMap :: "(WakeupReason \<times> int) list" where
  "wakeupReasonMap =
     [(WAKEUP_REASON_UNKNOWN, 0), (WAKEUP_REASON_IR, 1), (WAKEUP_REASON_BLUETOOTH, 2), (WAKEUP_REASON_RF4CE, 3),
      (WAKEUP_REASON_GPIO, 4), (WAKEUP_REASON_LAN, 5), (WAKEUP_REASON_WIFI, 6), (WAKEUP_REASON_TIMER, 7),
      (WAKEUP_REASON_FRONTPANEL, 8), (WAKEUP_REASON_WATCHDOG, 9), (WAKEUP_REASON_SOFTWARERESET, 10),
      (WAKEUP_REASON_THERMALRESET, 11), (WAKEUP_REASON_WARMRESET, 12), (WAKEUP_REASON_COLDBOOT, 13),
      (WAKEUP_REASON_STRAUTHFAIL, 14), (WAKEUP_REASON_CEC, 15), (WAKEUP_REASON_PRESENCE, 16),
      (WAKEUP_REASON_VOICE, 17)]"

definition convert_reason :: "WakeupReason \<Rightarrow> int" where
  "convert_reason from = (case map_of wakeupReasonMap from of Some v \<Rightarrow> v | None \<Rightarrow> 0)"

definition unconvert_reason :: "int \<Rightarrow> WakeupReason" where
  "unconvert_reason from = (case find_value wakeupReasonMap from of Some k \<Rightarrow> k | None \<Rightarrow> WAKEUP_REASON_UNKNOWN)"

datatype SystemMode = SYSTEM_MODE_UNKNOWN | SYSTEM_MODE_NORMAL | SYSTEM_MODE_EAS | SYSTEM_MODE_WAREHOUSE

definition systemModeMap :: "(int \<times> SystemMode) list" where
  "systemModeMap =
     [(0, SYSTEM_MODE_UNKNOWN), (1, SYSTEM_MODE_NORMAL), (2, SYSTEM_MODE_EAS), (3, SYSTEM_MODE_WAREHOUSE)]"

definition unconvert_mode :: "int \<Rightarrow> SystemMode" where
  "unconvert_mode from = (case map_of systemModeMap from of Some m \<Rightarrow> m | None \<Rightarrow> SYSTEM_MODE_UNKNOWN)"

definition thermalTemperatureMap :: "(ThermalTemperature \<times> int) list" where
  "thermalTemperatureMap =
     [(THERMAL_TEMPERATURE_UNKNOWN, 0), (THERMAL_TEMPERATURE_NORMAL, 1), (THERMAL_TEMPERATURE_HIGH, 2),
      (THERMAL_TEMPERATURE_CRITICAL, 4)]"

definition convert_thermal :: "ThermalTemperature \<Rightarrow> int" where
  "convert_thermal from = (case map_of thermalTemperatureMap from of Some v \<Rightarrow> v | None \<Rightarrow> 0)"

lemma find_value_SomeD: "find_value m v = Some k \<Longrightarrow> (k, v) \<in> set m"
  by (auto simp: find_value_def find_Some_iff) (metis nth_mem snd_conv)

lemma find_value_None: "find_value m v = None \<longleftrightarrow> v \<notin> snd ` set m"
  by (force simp: find_value_def find_None_iff)

lemma state_table: "distinct (map fst powerStateMap)" "distinct (map snd powerStateMap)" "fst ` set powerStateMap = UNIV"
  by (auto simp: powerStateMap_def intro: PowerState.exhaust)

lemma reason_table: "distinct (map fst wakeupReasonMap)" "distinct (map snd wakeupReasonMap)" "fst ` set wakeupReasonMap = UNIV"
  by (auto simp: wakeupReasonMap_def intro: WakeupReason.exhaust)

text \<open>A table with distinct keys and values that lists every key converts both ways.\<close>

lemma table_roundtrip:
  assumes "distinct (map fst m)" "distinct (map snd m)" "fst ` set m = UNIV"
  shows "find_value m (case map_of m x of Some v \<Rightarrow> v | None \<Rightarrow> d) = Some x"
    and "find_value m v = Some x \<Longrightarrow> (case map_of m x of Some v \<Rightarrow> v | None \<Rightarrow> d) = v"
proof -
  obtain v where v: "map_of m x = Some v"
    using assms(3) by (metis UNIV_I map_of_eq_None_iff option.exhaust)
  then have mem: "(x, v) \<in> set m" by (rule map_of_SomeD)
  then have "v \<in> snd ` set m" by (metis image_eqI snd_conv)
  then have "find_value m v \<noteq> None" by (simp add: find_value_None)
  then obtain y where y: "find_value m v = Some y" by blast
  from find_value_SomeD [OF this] mem have "y = x" using assms(2) by (metis distinct_map inj_onD snd_conv prod.inject)
  with v y show "find_value m (case map_of m x of Some v \<Rightarrow> v | None \<Rightarrow> d) = Some x" by simp
  show "(case map_of m x of Some v \<Rightarrow> v | None \<Rightarrow> d) = w" if "find_value m w = Some x" for w
    using find_value_SomeD [OF that] assms(1) by simp
qed

text \<open>
  The conversions of power states and wake-up reasons between the plugin's interface and the
  C interface lose nothing in either direction, and a number that the C enumerations do not have
  converts to the unknown state and the unknown reason.
\<close>

lemma conversions_roundtrip:
  "unconvert_state (convert_state s) = s \<and> unconvert_reason (convert_reason r) = r \<and>
   convert_state (unconvert_state i) = (if i \<in> {0..5} then i else 0) \<and>
   convert_reason (unconvert_reason i) = (if i \<in> {0..17} then i else 0)"
proof (intro conjI)
  show "unconvert_state (convert_state s) = s"
    using table_roundtrip(1) [OF state_table, where x = s and d = 0] by (simp add: unconvert_state_def convert_state_def)
  show "unconvert_reason (convert_reason r) = r"
    using table_roundtrip(1) [OF reason_table, where x = r and d = 0] by (simp add: unconvert_reason_def convert_reason_def)
  have "snd ` set powerStateMap = {0..5}" by (simp add: powerStateMap_def simp_from_to)
  then show "convert_state (unconvert_state i) = (if i \<in> {0..5} then i else 0)"
    using table_roundtrip(2) [OF state_table, where v = i and d = 0] find_value_None [of powerStateMap i]
    by (auto simp: unconvert_state_def convert_state_def split: option.splits) (simp_all add: powerStateMap_def)
  have "snd ` set wakeupReasonMap = {0..17}" by (simp add: wakeupReasonMap_def simp_from_to)
  then show "convert_reason (unconvert_reason i) = (if i \<in> {0..17} then i else 0)"
    using table_roundtrip(2) [OF reason_table, where v = i and d = 0] find_value_None [of wakeupReasonMap i]
    by (auto simp: unconvert_reason_def convert_reason_def split: option.splits) (simp_all add: wakeupReasonMap_def)
qed

end
