(* ===== verification/PidMonitor.thy ===== *)
theory PidMonitor
  imports PowerTypes PosixFiles
begin

text \<open>
  The class \<^verbatim>\<open>PIDFileMonitor\<close> of the client library
  (\<^verbatim>\<open>powercontroller/power_controller.cpp\<close>): it reads Thunder's process id from a file, and
  a thread of its own tells the library when the file is written again.

  The file system at each access, the results of \<^verbatim>\<open>inotify_init1\<close>,
  \<^verbatim>\<open>inotify_add_watch\<close> and \<^verbatim>\<open>poll\<close>, and the value of the shutdown flag each time the
  loop tests it are arguments. Descriptors are flags that tell whether they are valid.
\<close>

section \<open>The process id file\<close>

definition INVALID_PID :: int where "INVALID_PID = -1"

text \<open>Position of the last occurrence of a character.\<close>

definition find_last_of :: "char \<Rightarrow> string \<Rightarrow> nat option" where
  "find_last_of c s =
     (if c \<in> set s then Some (length s - 1 - length (takeWhile (\<lambda>x. x \<noteq> c) (rev s))) else None)"

definition parseProcessName :: "string \<Rightarrow> string" where
  "parseProcessName pidFile =
     (case (find_last_of CHR ''/'' pidFile, find_last_of CHR ''.'' pidFile) of
        (Some slash, Some dot) \<Rightarrow> if dot > slash then take (dot - slash - 1) (drop (slash + 1) pidFile) else []
      | _ \<Rightarrow> [])"

text \<open>\<^verbatim>\<open>trim\<close>: the loop that moves \<^verbatim>\<open>end\<close> back over trailing space.\<close>

fun trim_end :: "string \<Rightarrow> nat \<Rightarrow> nat" where
  "trim_end str 0 = 0"
| "trim_end str (Suc e) = (if is_space (str ! Suc e) then trim_end str e else Suc e)"

definition trim :: "string \<Rightarrow> string" where
  "trim str =
     (let s = dropWhile is_space str
      in if s = [] then s else take (trim_end s (length s - 1) + 1) s)"

text \<open>\<^verbatim>\<open>strtol\<close> reports a value that does not fit in 64 bits; the result is cut to an \<^verbatim>\<open>int\<close>.\<close>

definition parsePID :: "string \<Rightarrow> int" where
  "parsePID buf =
     (if buf = [] then INVALID_PID
      else let pid = strtol10 (trim buf)
           in if pid < - (2 ^ 63) \<or> pid \<ge> 2 ^ 63 then INVALID_PID
              else if pid = 0 then INVALID_PID
              else sint (word_of_int pid :: u32))"

text \<open>One \<^verbatim>\<open>fgets\<close> into a buffer of 64 bytes, as the C string the buffer then holds.\<close>

definition fgets64 :: "string \<Rightarrow> string" where
  "fgets64 txt =
     (let nl = CHR 0x0A; line = takeWhile (\<lambda>c. c \<noteq> nl) txt @ (if nl \<in> set txt then [nl] else [])
      in takeWhile (\<lambda>c. c \<noteq> CHR 0x00) (take 63 line))"

text \<open>A stream whose reads fail is empty and gives no process id either.\<close>

definition readPID :: "string \<Rightarrow> posix \<Rightarrow> int" where
  "readPID pidFile fs =
     (case fopen_r pidFile fs of None \<Rightarrow> INVALID_PID | Some txt \<Rightarrow> parsePID (fgets64 txt))"

record pidmon =
  mon_pid :: int
  mon_running :: bool
  mon_shutdown :: bool
  mon_thread :: bool        \<comment> \<open>\<^verbatim>\<open>_thread && _thread->joinable()\<close>\<close>
  mon_wakeupFd :: bool      \<comment> \<open>\<^verbatim>\<open>_wakeupFd != INVALID_FD\<close>\<close>
  mon_fd :: bool            \<comment> \<open>\<^verbatim>\<open>_fd != INVALID_FD\<close>\<close>
  mon_wd :: bool            \<comment> \<open>\<^verbatim>\<open>_wd != INVALID_FD\<close>\<close>

text \<open>The constructor does not initialise \<^verbatim>\<open>_running\<close>: its value is whatever was there.\<close>

definition PIDFileMonitor_new :: "bool \<Rightarrow> bool \<Rightarrow> pidmon" where
  "PIDFileMonitor_new eventfd_ok garbage =
     \<lparr>mon_pid = INVALID_PID, mon_running = garbage, mon_shutdown = False, mon_thread = False,
      mon_wakeupFd = eventfd_ok, mon_fd = False, mon_wd = False\<rparr>"

definition PIDFileMonitor_Running :: "pidmon \<Rightarrow> bool" where
  "PIDFileMonitor_Running m \<longleftrightarrow> mon_thread m"

definition PIDFileMonitor_PID :: "string \<Rightarrow> posix \<Rightarrow> pidmon \<Rightarrow> int \<times> pidmon" where
  "PIDFileMonitor_PID pidFile fs m =
     (let m1 = (if mon_pid m = INVALID_PID then m\<lparr>mon_pid := readPID pidFile fs\<rparr> else m) in (mon_pid m1, m1))"

definition PIDFileMonitor_Run :: "string \<Rightarrow> posix \<Rightarrow> pidmon \<Rightarrow> pidmon" where
  "PIDFileMonitor_Run pidFile fs m =
     (let m1 = (if mon_pid m = INVALID_PID then m\<lparr>mon_pid := readPID pidFile fs\<rparr> else m)
      in if \<not> mon_shutdown m1 \<and> \<not> PIDFileMonitor_Running m1
         then m1\<lparr>mon_thread := True, mon_running := True\<rparr> else m1)"

definition PIDFileMonitor_Stop :: "pidmon \<Rightarrow> pidmon" where
  "PIDFileMonitor_Stop m =
     (let m1 = m\<lparr>mon_shutdown := True\<rparr>;
          m2 = (if mon_running m1 \<and> mon_thread m1 then m1\<lparr>mon_thread := False, mon_running := False\<rparr> else m1)
      in m2\<lparr>mon_wakeupFd := False\<rparr>)"

text \<open>
  The events that one call reads, each with the file system at the time it is handled; the
  results are the arguments of the callback.
\<close>

fun handle_inotify_event :: "string \<Rightarrow> (bool \<times> posix) list \<Rightarrow> pidmon \<Rightarrow> pidmon \<times> int list" where
  "handle_inotify_event pidFile [] m = (m, [])"
| "handle_inotify_event pidFile ((close_write, fs) # evs) m =
     (if close_write
      then let m1 = m\<lparr>mon_pid := readPID pidFile fs\<rparr>;
               cbs = (if mon_pid m1 \<noteq> INVALID_PID then [mon_pid m1] else []);
               (m2, rest) = handle_inotify_event pidFile evs m1
           in (m2, cbs @ rest)
      else handle_inotify_event pidFile evs m)"

section \<open>The monitor thread\<close>

text \<open>
  What one \<^verbatim>\<open>poll\<close> can give: an interruption by a signal, a failure, the timeout of two
  seconds, or readiness, where \<open>wakeup\<close> tells whether the eventfd is readable and the events
  are those that inotify has, if any.
\<close>

datatype poll_result =
    PollInterrupted
  | PollFailed
  | PollTimeout
  | PollReady bool "(bool \<times> posix) list option"

text \<open>
  The loop, along the values of \<^verbatim>\<open>_shutdown\<close> and results of \<^verbatim>\<open>poll\<close> it meets. The
  last component tells whether the loop has been left; if not, it goes on after the list.
\<close>

fun poll_loop :: "string \<Rightarrow> (bool \<times> poll_result) list \<Rightarrow> pidmon \<Rightarrow> pidmon \<times> int list \<times> bool" where
  "poll_loop pidFile [] m = (m, [], False)"
| "poll_loop pidFile ((shutdown, res) # polls) m =
     (if shutdown then (m, [], True)
      else case res of
             PollInterrupted \<Rightarrow> poll_loop pidFile polls m
           | PollFailed \<Rightarrow> (m, [], True)
           | PollTimeout \<Rightarrow> poll_loop pidFile polls m
           | PollReady wakeup events \<Rightarrow>
               if wakeup then (m, [], True)
               else let (m1, cbs) = (case events of None \<Rightarrow> (m, []) | Some evs \<Rightarrow> handle_inotify_event pidFile evs m);
                        (m2, rest, left) = poll_loop pidFile polls m1
                    in (m2, cbs @ rest, left))"

datatype fd_call = InotifyInit | InotifyAddWatch | InotifyRmWatch | CloseFd

definition monitor_cleanup :: "pidmon \<Rightarrow> pidmon \<times> fd_call list" where
  "monitor_cleanup m =
     (let (m1, t1) = (if mon_wd m then (m\<lparr>mon_wd := False\<rparr>, if mon_fd m then [InotifyRmWatch] else []) else (m, []))
      in if mon_fd m1 then (m1\<lparr>mon_fd := False\<rparr>, t1 @ [CloseFd]) else (m1, t1))"

text \<open>The thread's body: its effect, the process ids it reports, the successful calls on descriptors, and whether it ends.\<close>

definition monitorThread ::
  "string \<Rightarrow> bool \<Rightarrow> bool \<Rightarrow> (bool \<times> poll_result) list \<Rightarrow> pidmon \<Rightarrow> pidmon \<times> int list \<times> fd_call list \<times> bool" where
  "monitorThread pidFile init_ok watch_ok polls m =
     (let m1 = m\<lparr>mon_fd := init_ok\<rparr>
      in if \<not> init_ok then (let (m2, t) = monitor_cleanup m1 in (m2, [], t, True))
         else let m2 = m1\<lparr>mon_wd := watch_ok\<rparr>
              in if \<not> watch_ok then (let (m3, t) = monitor_cleanup m2 in (m3, [], [InotifyInit] @ t, True))
                 else let (m3, cbs, left) = poll_loop pidFile polls m2
                      in if \<not> left then (m3, cbs, [InotifyInit, InotifyAddWatch], False)
                         else let (m4, t) = monitor_cleanup m3 in (m4, cbs, [InotifyInit, InotifyAddWatch] @ t, True))"

section \<open>Reading the process id\<close>

lemma trim_end_rev:
  "e < length s \<Longrightarrow> \<not> is_space (s ! 0) \<Longrightarrow> take (trim_end s e + 1) s = rev (dropWhile is_space (rev (take (e + 1) s)))"
proof (induction s e rule: trim_end.induct)
  case (1 str)
  then show ?case by (cases str) auto
next
  case (2 str e)
  have "rev (take (Suc e + 1) str) = str ! Suc e # rev (take (e + 1) str)"
    using 2 by (simp add: take_Suc_conv_app_nth)
  then show ?case using 2 by auto
qed

text \<open>Both loops together cut the white space off both ends.\<close>

lemma trim_spec: "trim s = rev (dropWhile is_space (rev (dropWhile is_space s)))"
proof (cases "dropWhile is_space s")
  case Nil
  then show ?thesis by (simp only: trim_def Let_def simp_thms if_True rev.simps dropWhile.simps)
next
  case (Cons c cs)
  then have "\<not> is_space c" by (metis dropWhile_eq_Cons_conv)
  with Cons trim_end_rev [of "length cs" "c # cs"] show ?thesis by (simp add: trim_def)
qed

lemma digits_not_space: "is_digit c \<Longrightarrow> \<not> is_space c"
  by (auto simp: is_digit_def is_space_def)

lemma trim_digits:
  assumes "list_all is_space ws" "list_all is_digit ds" "ds \<noteq> []" "list_all is_space vs"
  shows "trim (ws @ ds @ vs) = ds"
proof -
  obtain d es where d: "ds = d # es" using assms(3) by (cases ds) auto
  obtain l ks where l: "rev ds = l # ks" using assms(3) by (cases "rev ds") auto
  have "l \<in> set ds" by (metis l list.set_intros(1) set_rev)
  then have "is_digit d" "is_digit l" using assms(2) d by (auto simp: list_all_iff)
  then have nd: "\<not> is_space d" "\<not> is_space l" by (auto dest: digits_not_space)
  have "dropWhile is_space (ws @ ds @ vs) = ds @ vs"
    using assms(1) nd(1) d by (simp add: dropWhile_append2 list_all_iff)
  moreover have "dropWhile is_space (rev vs @ rev ds) = dropWhile is_space (rev ds)"
    by (rule dropWhile_append2) (use assms(4) in \<open>auto simp: list_all_iff\<close>)
  then have "dropWhile is_space (rev (ds @ vs)) = rev ds" using nd(2) by (simp add: l)
  ultimately show ?thesis by (simp add: trim_spec)
qed

lemma special_chars:
  "\<not> is_space CHR 0x00" "\<not> is_digit CHR 0x00" "is_space CHR 0x0A" "\<not> is_digit CHR 0x0A" "CHR 0x0A \<noteq> CHR 0x00"
  by (simp_all add: is_space_def is_digit_def)

lemma strtol10_digits: "list_all is_digit ds \<Longrightarrow> ds \<noteq> [] \<Longrightarrow> strtol10 ds = digits_val 0 ds"
  by (cases ds) (auto simp: strtol10_def is_digit_def is_space_def)

text \<open>
  The library finds Thunder's process id: when the file's first line is a positive 32-bit
  number, with any white space around it and anything after the line, and the line fits the
  buffer, that number is read, by the first call that needs it and at every rewrite of the file.
\<close>

lemma pid_file_read:
  assumes "fopen_r pidFile fs = Some (ws @ ds @ vs @ CHR 0x0A # rest)"
    and "list_all (\<lambda>c. is_space c \<and> c \<noteq> CHR 0x0A) (ws @ vs)" and "list_all is_digit ds" and "ds \<noteq> []"
    and "length (ws @ ds @ vs) < 63" and "0 < digits_val 0 ds" and "digits_val 0 ds < 2 ^ 31"
  shows "readPID pidFile fs = digits_val 0 ds \<and>
         fst (PIDFileMonitor_PID pidFile fs (PIDFileMonitor_new ok garbage)) = digits_val 0 ds \<and>
         handle_inotify_event pidFile [(True, fs)] m = (m\<lparr>mon_pid := digits_val 0 ds\<rparr>, [digits_val 0 ds])"
proof -
  let ?n = "CHR 0x0A" and ?v = "digits_val 0 ds"
  have sp: "list_all is_space ws" "list_all is_space (vs @ [?n])"
    using assms(2) special_chars by (auto simp: list_all_iff)
  have nz: "c \<in> set (ws @ ds @ vs @ [?n]) \<Longrightarrow> c \<noteq> CHR 0x00" for c
    using assms(2,3) special_chars by (auto simp only: list_all_iff set_append list.set Un_iff insert_iff empty_iff)
  have nn: "?n \<notin> set (ws @ ds @ vs)"
    using assms(2,3) special_chars by (auto simp only: list_all_iff set_append Un_iff)
  have "takeWhile (\<lambda>c. c \<noteq> ?n) ((ws @ ds @ vs) @ ?n # rest) = ws @ ds @ vs"
    by (subst takeWhile_append2) (use nn in auto)
  then have "takeWhile (\<lambda>c. c \<noteq> ?n) (ws @ ds @ vs @ ?n # rest) = ws @ ds @ vs" by simp
  moreover have "take 63 (ws @ ds @ vs @ [?n]) = ws @ ds @ vs @ [?n]" using assms(5) by simp
  moreover have "takeWhile (\<lambda>c. c \<noteq> CHR 0x00) (ws @ ds @ vs @ [?n]) = ws @ ds @ vs @ [?n]"
    by (rule takeWhile_eq_all_conv [THEN iffD2]) (use nz in blast)
  moreover have "?n \<in> set (ws @ ds @ vs @ ?n # rest)" by simp
  ultimately have "fgets64 (ws @ ds @ vs @ ?n # rest) = ws @ ds @ vs @ [?n]"
    by (simp only: fgets64_def Let_def if_True append_assoc)
  moreover have "trim (ws @ ds @ vs @ [?n]) = ds" by (rule trim_digits [OF sp(1) assms(3,4) sp(2)])
  moreover have "sint (word_of_int ?v :: u32) = ?v" using assms(6,7) by (simp add: signed_of_int signed_take_bit_int_eq_self)
  ultimately have r: "readPID pidFile fs = ?v"
    using assms(1,6,7) strtol10_digits [OF assms(3,4)] by (simp add: readPID_def parsePID_def Let_def)
  moreover have "?v \<noteq> INVALID_PID" using assms(6) by (simp add: INVALID_PID_def)
  ultimately show ?thesis by (simp add: PIDFileMonitor_PID_def PIDFileMonitor_new_def)
qed

lemma pid_file_read_witness:
  "let fs = text_file ''p'' ('' 4711'' @ [CHR 0x0A]); m = PIDFileMonitor_new True False
   in readPID ''p'' fs = 4711 \<and> handle_inotify_event ''p'' [(True, fs)] m = (m\<lparr>mon_pid := 4711\<rparr>, [4711])"
proof -
  let ?fs = "text_file ''p'' ('' 4711'' @ [CHR 0x0A])"
  have "fopen_r ''p'' ?fs = Some ('' '' @ ''4711'' @ [] @ CHR 0x0A # [])" by (simp add: fopen_text_file)
  moreover have "list_all (\<lambda>c. is_space c \<and> c \<noteq> CHR 0x0A) ('' '' @ [])" by (simp add: is_space_def)
  moreover have "list_all is_digit ''4711''" "digits_val 0 ''4711'' = 4711"
    by (simp_all add: is_digit_def digit_val_def)
  ultimately show ?thesis
    using pid_file_read [of "''p''" ?fs "'' ''" "''4711''" "[]" "[]" True False "PIDFileMonitor_new True False"]
    by (simp add: Let_def INVALID_PID_def)
qed


section \<open>What the thread does\<close>

text \<open>A test of the flag or a result of \<^verbatim>\<open>poll\<close> that ends the loop, and what one that does not end it reports.\<close>

fun poll_ends :: "bool \<times> poll_result \<Rightarrow> bool" where
  "poll_ends (shutdown, PollFailed) = True"
| "poll_ends (shutdown, PollReady wakeup evs) = (shutdown \<or> wakeup)"
| "poll_ends (shutdown, _) = shutdown"

definition valid_pids :: "string \<Rightarrow> (bool \<times> posix) list \<Rightarrow> int list" where
  "valid_pids pidFile evs =
     filter (\<lambda>p. p \<noteq> INVALID_PID) (map (\<lambda>e. readPID pidFile (snd e)) (filter fst evs))"

fun poll_reports :: "string \<Rightarrow> bool \<times> poll_result \<Rightarrow> int list" where
  "poll_reports pidFile (_, PollReady _ (Some evs)) = valid_pids pidFile evs"
| "poll_reports pidFile _ = []"

lemma handle_events_reports: "snd (handle_inotify_event pidFile evs m) = valid_pids pidFile evs"
  by (induction pidFile evs m rule: handle_inotify_event.induct) (auto simp: valid_pids_def Let_def split_beta)

lemma handle_events_frame [simp]:
  "mon_fd (fst (handle_inotify_event pidFile evs m)) = mon_fd m"
  "mon_wd (fst (handle_inotify_event pidFile evs m)) = mon_wd m"
  by (induction pidFile evs m rule: handle_inotify_event.induct) (auto simp: Let_def split_beta)

fun poll_handled :: "string \<Rightarrow> bool \<times> poll_result \<Rightarrow> pidmon \<Rightarrow> pidmon" where
  "poll_handled pidFile (_, PollReady _ (Some evs)) m = fst (handle_inotify_event pidFile evs m)"
| "poll_handled pidFile _ m = m"

lemma poll_loop_Cons:
  "poll_loop pidFile (p # polls) m =
     (if poll_ends p then (m, [], True)
      else (let (m2, rest, left) = poll_loop pidFile polls (poll_handled pidFile p m)
            in (m2, poll_reports pidFile p @ rest, left)))"
proof (cases p)
  case (Pair shutdown res)
  then show ?thesis
    by (cases res; cases "case res of PollReady _ e \<Rightarrow> e | _ \<Rightarrow> None")
       (auto simp: Let_def split_beta handle_events_reports)
qed

declare poll_loop.simps(2) [simp del]

lemma poll_handled_frame [simp]:
  "mon_fd (poll_handled pidFile p m) = mon_fd m" "mon_wd (poll_handled pidFile p m) = mon_wd m"
  by (cases "(pidFile, p, m)" rule: poll_handled.cases; simp)+

lemma poll_loop_frame:
  "mon_fd (fst (poll_loop pidFile polls m)) = mon_fd m \<and> mon_wd (fst (poll_loop pidFile polls m)) = mon_wd m"
  by (induction polls arbitrary: m) (simp_all add: poll_loop_Cons split_beta Let_def)

lemma poll_loop_left: "snd (snd (poll_loop pidFile polls m)) = list_ex poll_ends polls"
  by (induction polls arbitrary: m) (simp_all add: poll_loop_Cons split_beta Let_def)

lemma poll_loop_reports:
  "fst (snd (poll_loop pidFile polls m)) = concat (map (poll_reports pidFile) (takeWhile (\<lambda>p. \<not> poll_ends p) polls))"
  by (induction polls arbitrary: m) (simp_all add: poll_loop_Cons split_beta Let_def)

text \<open>
  C36. The monitor thread reports every valid process id that a rewrite of the file brings, in
  order, until the first sign to stop; it ends exactly when the file cannot be watched or such a
  sign comes, be it the flag, the wake-up descriptor or a failure of the system; and when it ends
  it has closed the descriptor and removed the watch it took, each once.
\<close>

theorem monitor_thread:
  assumes "\<not> mon_wd m"
  shows "let (m2, cbs, calls, left) = monitorThread pidFile init_ok watch_ok polls m
     in cbs = (if init_ok \<and> watch_ok
               then concat (map (poll_reports pidFile) (takeWhile (\<lambda>p. \<not> poll_ends p) polls)) else []) \<and>
        left = (\<not> init_ok \<or> \<not> watch_ok \<or> list_ex poll_ends polls) \<and>
        count_list calls InotifyInit = (if init_ok then 1 else 0) \<and>
        (left \<longrightarrow> \<not> mon_fd m2 \<and> \<not> mon_wd m2 \<and>
           count_list calls CloseFd = count_list calls InotifyInit \<and>
           count_list calls InotifyRmWatch = count_list calls InotifyAddWatch)"
proof -
  obtain m3 cbs left where l: "poll_loop pidFile polls (m\<lparr>mon_fd := True, mon_wd := True\<rparr>) = (m3, cbs, left)"
    by (metis prod_cases3)
  then have "mon_fd m3" "mon_wd m3" "left = list_ex poll_ends polls"
    "cbs = concat (map (poll_reports pidFile) (takeWhile (\<lambda>p. \<not> poll_ends p) polls))"
    using poll_loop_frame [of pidFile polls "m\<lparr>mon_fd := True, mon_wd := True\<rparr>"]
      poll_loop_left [of pidFile polls "m\<lparr>mon_fd := True, mon_wd := True\<rparr>"]
      poll_loop_reports [of pidFile polls "m\<lparr>mon_fd := True, mon_wd := True\<rparr>"] by simp_all
  with l assms show ?thesis
    by (cases init_ok; cases watch_ok) (auto simp: monitorThread_def monitor_cleanup_def Let_def)
qed

lemma monitor_thread_witness:
  "let fs = text_file ''p'' ('' 4711'' @ [CHR 0x0A]);
       (m, cbs, calls, left) = monitorThread ''p'' True True
         [(False, PollTimeout), (False, PollReady False (Some [(True, fs), (False, fs)])), (False, PollReady True None)]
         (PIDFileMonitor_new True False)
   in length cbs \<le> 1 \<and> left \<and> \<not> mon_fd m \<and> count_list calls CloseFd = 1"
proof -
  let ?fs = "text_file ''p'' ('' 4711'' @ [CHR 0x0A])"
  have "\<not> mon_wd (PIDFileMonitor_new True False)" by (simp add: PIDFileMonitor_new_def)
  from monitor_thread [OF this, of "''p''" True True
      "[(False, PollTimeout), (False, PollReady False (Some [(True, ?fs), (False, ?fs)])), (False, PollReady True None)]"]
  show ?thesis by (auto simp: Let_def split_beta valid_pids_def)
qed

text \<open>
  A thread that ends because the file is not there to be watched still counts as running, so
  \<^verbatim>\<open>Run\<close> never starts another one and later rewrites of the file go unnoticed.
\<close>

lemma ended_monitor_is_not_restarted:
  assumes "mon_thread m" and "mon_pid m \<noteq> INVALID_PID"
  shows "PIDFileMonitor_Run pidFile fs (fst (monitorThread pidFile True False polls m)) =
         fst (monitorThread pidFile True False polls m)"
  using assms
  by (simp add: monitorThread_def monitor_cleanup_def PIDFileMonitor_Run_def PIDFileMonitor_Running_def Let_def)

end
