(* ===== verification/ClientLibrary.thy ===== *)
theory ClientLibrary
  imports ClientTypes PidMonitor PowerManager
begin

text \<open>
  The class \<^verbatim>\<open>PowerController\<close> of the client library
  (\<^verbatim>\<open>powercontroller/power_controller.cpp\<close>) with its lists of callbacks.

  The remote plugin is a parameter: a record \<open>ipm\<close> of the calls of \<^verbatim>\<open>IPowerManager\<close> that the
  library makes, over a remote state \<open>'r\<close>. The framework's base class
  \<^verbatim>\<open>SmartInterfaceType\<close> is a parameter too: the results of opening and closing the channel, and
  the calls of \<^verbatim>\<open>Operational\<close> it makes meanwhile. A callback is its address \<open>'c\<close>, its user data
  \<open>'u\<close>; a call of one is a value \<open>cb_call\<close>. A pointer argument that may be null is an option, and
  what the library stores through a pointer is part of the result. Locks and logging are left out.
\<close>

section \<open>The remote interface\<close>

record 'r ipm =
  rm_Register :: "notif_kind \<Rightarrow> 'r \<Rightarrow> hresult \<times> 'r"
  rm_Unregister :: "notif_kind \<Rightarrow> 'r \<Rightarrow> hresult \<times> 'r"
  rm_GetPowerState :: "'r \<Rightarrow> hresult \<times> PowerState \<times> PowerState"
  rm_SetPowerState :: "int \<Rightarrow> PowerState \<Rightarrow> string \<Rightarrow> 'r \<Rightarrow> hresult \<times> 'r"
  rm_GetThermalState :: "'r \<Rightarrow> hresult \<times> cfloat"
  rm_SetTemperatureThresholds :: "cfloat \<Rightarrow> cfloat \<Rightarrow> 'r \<Rightarrow> hresult \<times> 'r"
  rm_GetTemperatureThresholds :: "'r \<Rightarrow> hresult \<times> cfloat \<times> cfloat"
  rm_SetOvertempGraceInterval :: "int \<Rightarrow> 'r \<Rightarrow> hresult \<times> 'r"
  rm_GetOvertempGraceInterval :: "'r \<Rightarrow> hresult \<times> int"
  rm_SetDeepSleepTimer :: "int \<Rightarrow> 'r \<Rightarrow> hresult \<times> 'r"
  rm_GetLastWakeupReason :: "'r \<Rightarrow> hresult \<times> WakeupReason"
  rm_GetLastWakeupKeyCode :: "'r \<Rightarrow> hresult \<times> int"
  rm_Reboot :: "string \<Rightarrow> string \<Rightarrow> string \<Rightarrow> 'r \<Rightarrow> hresult \<times> 'r"
  rm_SetNetworkStandbyMode :: "bool \<Rightarrow> 'r \<Rightarrow> hresult \<times> 'r"
  rm_GetNetworkStandbyMode :: "'r \<Rightarrow> hresult \<times> bool"
  rm_GetPowerStateBeforeReboot :: "'r \<Rightarrow> hresult \<times> PowerState"
  rm_AddPowerModePreChangeClient :: "string \<Rightarrow> u32 \<Rightarrow> 'r \<Rightarrow> hresult \<times> u32 \<times> 'r"
  rm_RemovePowerModePreChangeClient :: "u32 \<Rightarrow> 'r \<Rightarrow> hresult \<times> 'r"
  rm_DelayPowerModeChangeBy :: "u32 \<Rightarrow> int \<Rightarrow> int \<Rightarrow> 'r \<Rightarrow> hresult \<times> 'r"
  rm_PowerModePreChangeComplete :: "u32 \<Rightarrow> int \<Rightarrow> 'r \<Rightarrow> hresult \<times> 'r"

section \<open>State\<close>

datatype cb_kind =
    OperationalStateChangeCb
  | NetworkStandbyModeChangedCb
  | PowerModePreChangedCb
  | PowerModeChangedCb
  | DeepSleepTimeoutCb
  | ThermalModeChangedCb
  | RebootBeginCb

record ('c, 'u) cb_list =
  cbl_entries :: "('c \<times> 'u) list"
  cbl_registered :: bool

text \<open>The seven lists are one field, indexed by their kind.\<close>

record ('c, 'u, 'r) client =
  pcl_iface :: bool                   \<comment> \<open>\<^verbatim>\<open>_powerManagerInterface != nullptr\<close>\<close>
  pcl_lists :: "cb_kind \<Rightarrow> ('c, 'u) cb_list"
  pcl_monitor :: pidmon
  pcl_pid :: int
  pcl_connected :: bool
  pcl_shutdown :: bool
  pcl_remote :: 'r

datatype ('c, 'u) cb_call =
    CallOperational 'c bool 'u
  | CallNetworkStandby 'c bool 'u
  | CallPreChange 'c int int int int 'u
  | CallModeChanged 'c int int 'u
  | CallDeepSleepTimeout 'c int 'u
  | CallThermal 'c int int cfloat 'u
  | CallReboot 'c string string string 'u

definition CallbackList_new :: "('c, 'u) cb_list" where
  "CallbackList_new = \<lparr>cbl_entries = [], cbl_registered = False\<rparr>"

definition upd_list :: "cb_kind \<Rightarrow> (('c, 'u) cb_list \<Rightarrow> ('c, 'u) cb_list) \<Rightarrow> ('c, 'u, 'r) client \<Rightarrow> ('c, 'u, 'r) client" where
  "upd_list k f s = s\<lparr>pcl_lists := (pcl_lists s)(k := f (pcl_lists s k))\<rparr>"

definition IsActivatedLocked :: "('c, 'u, 'r) client \<Rightarrow> bool" where
  "IsActivatedLocked s \<longleftrightarrow> pcl_iface s"

section \<open>Registration with the plugin\<close>

text \<open>The specialisations of the two templates: which interface a list needs, if any.\<close>

primrec cb_interface :: "cb_kind \<Rightarrow> notif_kind option" where
  "cb_interface OperationalStateChangeCb = None"
| "cb_interface NetworkStandbyModeChangedCb = Some INetworkStandbyModeChangedNotification"
| "cb_interface PowerModePreChangedCb = Some IModePreChangeNotification"
| "cb_interface PowerModeChangedCb = Some IModeChangedNotification"
| "cb_interface DeepSleepTimeoutCb = Some IDeepSleepTimeoutNotification"
| "cb_interface ThermalModeChangedCb = Some IThermalModeChangedNotification"
| "cb_interface RebootBeginCb = Some IRebootNotification"

definition RegisterThunderNotificationLocked :: "'r ipm \<Rightarrow> cb_kind \<Rightarrow> ('c, 'u, 'r) client \<Rightarrow> bool \<times> ('c, 'u, 'r) client" where
  "RegisterThunderNotificationLocked rm k s =
     (case cb_interface k of
        None \<Rightarrow> (True, s)
      | Some i \<Rightarrow> (let (e, r) = rm_Register rm i (pcl_remote s) in (e = ERROR_NONE, s\<lparr>pcl_remote := r\<rparr>)))"

definition UnregisterThunderNotificationLocked :: "'r ipm \<Rightarrow> cb_kind \<Rightarrow> ('c, 'u, 'r) client \<Rightarrow> bool \<times> ('c, 'u, 'r) client" where
  "UnregisterThunderNotificationLocked rm k s =
     (case cb_interface k of
        None \<Rightarrow> (True, s)
      | Some i \<Rightarrow> (let (e, r) = rm_Unregister rm i (pcl_remote s) in (e = ERROR_NONE, s\<lparr>pcl_remote := r\<rparr>)))"

definition RegisterNotificationInternalLocked :: "'r ipm \<Rightarrow> cb_kind \<Rightarrow> ('c, 'u, 'r) client \<Rightarrow> ('c, 'u, 'r) client" where
  "RegisterNotificationInternalLocked rm k s =
     (let l = pcl_lists s k
      in if \<not> cbl_registered l \<and> cbl_entries l \<noteq> [] \<and> IsActivatedLocked s
         then let (registered, s1) = RegisterThunderNotificationLocked rm k s
              in upd_list k (\<lambda>l. l\<lparr>cbl_registered := registered\<rparr>) s1
         else s)"

definition UnregisterNotificationInternalLocked :: "'r ipm \<Rightarrow> cb_kind \<Rightarrow> bool \<Rightarrow> ('c, 'u, 'r) client \<Rightarrow> ('c, 'u, 'r) client" where
  "UnregisterNotificationInternalLocked rm k forced s =
     (let l = pcl_lists s k
      in if cbl_registered l \<and> IsActivatedLocked s \<and> (forced \<or> cbl_entries l = [])
         then let (unregistered, s1) = UnregisterThunderNotificationLocked rm k s
              in upd_list k (\<lambda>l. l\<lparr>cbl_registered := \<not> forced \<and> \<not> unregistered\<rparr>) s1
         else s)"

definition AddCallbackLocked :: "'r ipm \<Rightarrow> cb_kind \<Rightarrow> 'c \<Rightarrow> 'u \<Rightarrow> ('c, 'u, 'r) client \<Rightarrow> hresult \<times> ('c, 'u, 'r) client" where
  "AddCallbackLocked rm k callback userdata s =
     (if callback \<in> fst ` set (cbl_entries (pcl_lists s k)) then (ERROR_ALREADY_CONNECTED, s)
      else (ERROR_NONE, RegisterNotificationInternalLocked rm k
              (upd_list k (\<lambda>l. l\<lparr>cbl_entries := cbl_entries l @ [(callback, userdata)]\<rparr>) s)))"

definition RemoveCallbackLocked :: "'r ipm \<Rightarrow> cb_kind \<Rightarrow> 'c \<Rightarrow> ('c, 'u, 'r) client \<Rightarrow> hresult \<times> ('c, 'u, 'r) client" where
  "RemoveCallbackLocked rm k callback s =
     (if callback \<notin> fst ` set (cbl_entries (pcl_lists s k)) then (ERROR_ALREADY_RELEASED, s)
      else (ERROR_NONE, UnregisterNotificationInternalLocked rm k False
              (upd_list k (\<lambda>l. l\<lparr>cbl_entries := remove_key callback (cbl_entries l)\<rparr>) s)))"

text \<open>The public pair, for each kind; a null callback is rejected.\<close>

definition RegisterCallbackInternal ::
  "'r ipm \<Rightarrow> cb_kind \<Rightarrow> 'c option \<Rightarrow> 'u \<Rightarrow> ('c, 'u, 'r) client \<Rightarrow> hresult \<times> ('c, 'u, 'r) client" where
  "RegisterCallbackInternal rm k callback userdata s =
     (case callback of None \<Rightarrow> (ERROR_INVALID_PARAMETER, s) | Some c \<Rightarrow> AddCallbackLocked rm k c userdata s)"

definition UnRegisterCallback :: "'r ipm \<Rightarrow> cb_kind \<Rightarrow> 'c option \<Rightarrow> ('c, 'u, 'r) client \<Rightarrow> hresult \<times> ('c, 'u, 'r) client" where
  "UnRegisterCallback rm k callback s =
     (case callback of None \<Rightarrow> (ERROR_INVALID_PARAMETER, s) | Some c \<Rightarrow> RemoveCallbackLocked rm k c s)"

text \<open>The methods of the class, one pair for each list.\<close>

definition PCL_RegisterOperationalStateChangedCallback ::
  "'r ipm \<Rightarrow> 'c option \<Rightarrow> 'u \<Rightarrow> ('c, 'u, 'r) client \<Rightarrow> hresult \<times> ('c, 'u, 'r) client" where
  "PCL_RegisterOperationalStateChangedCallback rm callback userdata = RegisterCallbackInternal rm OperationalStateChangeCb callback userdata"

definition PCL_UnRegisterOperationalStateChangedCallback ::
  "'r ipm \<Rightarrow> 'c option \<Rightarrow> ('c, 'u, 'r) client \<Rightarrow> hresult \<times> ('c, 'u, 'r) client" where
  "PCL_UnRegisterOperationalStateChangedCallback rm callback = UnRegisterCallback rm OperationalStateChangeCb callback"

definition PCL_RegisterPowerModeChangedCallback ::
  "'r ipm \<Rightarrow> 'c option \<Rightarrow> 'u \<Rightarrow> ('c, 'u, 'r) client \<Rightarrow> hresult \<times> ('c, 'u, 'r) client" where
  "PCL_RegisterPowerModeChangedCallback rm callback userdata = RegisterCallbackInternal rm PowerModeChangedCb callback userdata"

definition PCL_UnRegisterPowerModeChangedCallback ::
  "'r ipm \<Rightarrow> 'c option \<Rightarrow> ('c, 'u, 'r) client \<Rightarrow> hresult \<times> ('c, 'u, 'r) client" where
  "PCL_UnRegisterPowerModeChangedCallback rm callback = UnRegisterCallback rm PowerModeChangedCb callback"

definition PCL_RegisterPowerModePreChangeCallback ::
  "'r ipm \<Rightarrow> 'c option \<Rightarrow> 'u \<Rightarrow> ('c, 'u, 'r) client \<Rightarrow> hresult \<times> ('c, 'u, 'r) client" where
  "PCL_RegisterPowerModePreChangeCallback rm callback userdata = RegisterCallbackInternal rm PowerModePreChangedCb callback userdata"

definition PCL_UnRegisterPowerModePreChangeCallback ::
  "'r ipm \<Rightarrow> 'c option \<Rightarrow> ('c, 'u, 'r) client \<Rightarrow> hresult \<times> ('c, 'u, 'r) client" where
  "PCL_UnRegisterPowerModePreChangeCallback rm callback = UnRegisterCallback rm PowerModePreChangedCb callback"

definition PCL_RegisterDeepSleepTimeoutCallback ::
  "'r ipm \<Rightarrow> 'c option \<Rightarrow> 'u \<Rightarrow> ('c, 'u, 'r) client \<Rightarrow> hresult \<times> ('c, 'u, 'r) client" where
  "PCL_RegisterDeepSleepTimeoutCallback rm callback userdata = RegisterCallbackInternal rm DeepSleepTimeoutCb callback userdata"

definition PCL_UnRegisterDeepSleepTimeoutCallback ::
  "'r ipm \<Rightarrow> 'c option \<Rightarrow> ('c, 'u, 'r) client \<Rightarrow> hresult \<times> ('c, 'u, 'r) client" where
  "PCL_UnRegisterDeepSleepTimeoutCallback rm callback = UnRegisterCallback rm DeepSleepTimeoutCb callback"

definition PCL_RegisterNetworkStandbyModeChangedCallback ::
  "'r ipm \<Rightarrow> 'c option \<Rightarrow> 'u \<Rightarrow> ('c, 'u, 'r) client \<Rightarrow> hresult \<times> ('c, 'u, 'r) client" where
  "PCL_RegisterNetworkStandbyModeChangedCallback rm callback userdata = RegisterCallbackInternal rm NetworkStandbyModeChangedCb callback userdata"

definition PCL_UnRegisterNetworkStandbyModeChangedCallback ::
  "'r ipm \<Rightarrow> 'c option \<Rightarrow> ('c, 'u, 'r) client \<Rightarrow> hresult \<times> ('c, 'u, 'r) client" where
  "PCL_UnRegisterNetworkStandbyModeChangedCallback rm callback = UnRegisterCallback rm NetworkStandbyModeChangedCb callback"

definition PCL_RegisterThermalModeChangedCallback ::
  "'r ipm \<Rightarrow> 'c option \<Rightarrow> 'u \<Rightarrow> ('c, 'u, 'r) client \<Rightarrow> hresult \<times> ('c, 'u, 'r) client" where
  "PCL_RegisterThermalModeChangedCallback rm callback userdata = RegisterCallbackInternal rm ThermalModeChangedCb callback userdata"

definition PCL_UnRegisterThermalModeChangedCallback ::
  "'r ipm \<Rightarrow> 'c option \<Rightarrow> ('c, 'u, 'r) client \<Rightarrow> hresult \<times> ('c, 'u, 'r) client" where
  "PCL_UnRegisterThermalModeChangedCallback rm callback = UnRegisterCallback rm ThermalModeChangedCb callback"

definition PCL_RegisterRebootBeginCallback ::
  "'r ipm \<Rightarrow> 'c option \<Rightarrow> 'u \<Rightarrow> ('c, 'u, 'r) client \<Rightarrow> hresult \<times> ('c, 'u, 'r) client" where
  "PCL_RegisterRebootBeginCallback rm callback userdata = RegisterCallbackInternal rm RebootBeginCb callback userdata"

definition PCL_UnRegisterRebootBeginCallback ::
  "'r ipm \<Rightarrow> 'c option \<Rightarrow> ('c, 'u, 'r) client \<Rightarrow> hresult \<times> ('c, 'u, 'r) client" where
  "PCL_UnRegisterRebootBeginCallback rm callback = UnRegisterCallback rm RebootBeginCb callback"

section \<open>Operational state\<close>

definition plugin_kinds :: "cb_kind list" where
  "plugin_kinds =
     [PowerModeChangedCb, PowerModePreChangedCb, DeepSleepTimeoutCb, NetworkStandbyModeChangedCb,
      ThermalModeChangedCb, RebootBeginCb]"

definition SubscribeAllNotificationsLocked :: "'r ipm \<Rightarrow> ('c, 'u, 'r) client \<Rightarrow> ('c, 'u, 'r) client" where
  "SubscribeAllNotificationsLocked rm s = fold (RegisterNotificationInternalLocked rm) plugin_kinds s"

definition UnsubscribeAllNotificationsLocked :: "'r ipm \<Rightarrow> ('c, 'u, 'r) client \<Rightarrow> ('c, 'u, 'r) client" where
  "UnsubscribeAllNotificationsLocked rm s =
     fold (\<lambda>k. UnregisterNotificationInternalLocked rm k True) plugin_kinds s"

text \<open>\<open>iface\<close> tells whether \<^verbatim>\<open>BaseClass::Interface()\<close> gives an interface.\<close>

definition Operational ::
  "'r ipm \<Rightarrow> bool \<Rightarrow> bool \<Rightarrow> ('c, 'u, 'r) client \<Rightarrow> ('c, 'u, 'r) client \<times> ('c, 'u) cb_call list" where
  "Operational rm iface upAndRunning s =
     (let s1 =
        (if upAndRunning
         then if \<not> pcl_iface s
              then let s1 = s\<lparr>pcl_iface := iface\<rparr>
                   in if iface then SubscribeAllNotificationsLocked rm s1 else s1
              else s
         else if pcl_iface s
              then (UnsubscribeAllNotificationsLocked rm s)\<lparr>pcl_iface := False\<rparr>
              else s)
      in (s1, if \<not> pcl_shutdown s1
              then map (\<lambda>(c, u). CallOperational c upAndRunning u) (cbl_entries (pcl_lists s1 OperationalStateChangeCb))
              else []))"

section \<open>Connection\<close>

text \<open>
  What the system and the framework do during an operation: the file system, whether the
  eventfd is there, the value an uninitialised flag happens to have, the result of
  \<^verbatim>\<open>Open\<close> (\<open>None\<close>: it throws) and of \<^verbatim>\<open>Close\<close>, and the calls of \<^verbatim>\<open>Operational\<close> made
  during each, with the interface that the plugin then gives.
\<close>

record sys_env =
  se_fs :: posix
  se_eventfd :: bool
  se_garbage :: bool
  se_open :: "hresult option"
  se_openCalls :: "(bool \<times> bool) list"
  se_close :: hresult
  se_closeCalls :: "(bool \<times> bool) list"

definition pidFile :: string where "pidFile = ''/tmp/wpeframework.pid''"

fun operational_calls ::
  "'r ipm \<Rightarrow> (bool \<times> bool) list \<Rightarrow> ('c, 'u, 'r) client \<Rightarrow> ('c, 'u, 'r) client \<times> ('c, 'u) cb_call list" where
  "operational_calls rm [] s = (s, [])"
| "operational_calls rm ((iface, up) # ops) s =
     (let (s1, o1) = Operational rm iface up s; (s2, o2) = operational_calls rm ops s1 in (s2, o1 @ o2))"

definition PCL_Connect ::
  "'r ipm \<Rightarrow> sys_env \<Rightarrow> ('c, 'u, 'r) client \<Rightarrow> hresult \<times> ('c, 'u, 'r) client \<times> ('c, 'u) cb_call list" where
  "PCL_Connect rm en s =
     (if \<not> pcl_connected s
      then (let (s1, outs) = operational_calls rm (se_openCalls en) s
            in case se_open en of
                 None \<Rightarrow> (ERROR_GENERAL, s1, outs)
               | Some res \<Rightarrow>
                   if res = ERROR_NONE
                   then let s2 = s1\<lparr>pcl_connected := True\<rparr>;
                            s3 = (if \<not> PIDFileMonitor_Running (pcl_monitor s2)
                                  then let (pid, m) = PIDFileMonitor_PID pidFile (se_fs en) (pcl_monitor s2)
                                       in s2\<lparr>pcl_pid := pid, pcl_monitor := PIDFileMonitor_Run pidFile (se_fs en) m\<rparr>
                                  else s2)
                        in (if \<not> pcl_iface s3 then ERROR_NOT_EXIST else ERROR_NONE, s3, outs)
                   else (ERROR_UNAVAILABLE, s1, outs))
      else (if \<not> pcl_iface s then ERROR_NOT_EXIST else ERROR_NONE, s, []))"

definition PCL_Disconnect ::
  "'r ipm \<Rightarrow> sys_env \<Rightarrow> bool \<Rightarrow> ('c, 'u, 'r) client \<Rightarrow> hresult \<times> ('c, 'u, 'r) client \<times> ('c, 'u) cb_call list" where
  "PCL_Disconnect rm en shutdown s =
     (let s1 = (if shutdown \<and> PIDFileMonitor_Running (pcl_monitor s)
                then s\<lparr>pcl_monitor := PIDFileMonitor_Stop (pcl_monitor s)\<rparr> else s)
      in if pcl_connected s1
         then let (s2, outs) = operational_calls rm (se_closeCalls en) s1
              in (se_close en, s2\<lparr>pcl_connected := False\<rparr>, outs)
         else (ERROR_GENERAL, s1, []))"

definition PCL_new :: "'r ipm \<Rightarrow> sys_env \<Rightarrow> 'r \<Rightarrow> ('c, 'u, 'r) client \<times> ('c, 'u) cb_call list" where
  "PCL_new rm en r =
     (let s = \<lparr>pcl_iface = False, pcl_lists = \<lambda>k. CallbackList_new,
               pcl_monitor = PIDFileMonitor_new (se_eventfd en) (se_garbage en),
               pcl_pid = INVALID_PID, pcl_connected = False, pcl_shutdown = False, pcl_remote = r\<rparr>
      in snd (PCL_Connect rm en s))"

text \<open>The destructor; the members' destructors stop the monitor again.\<close>

definition PCL_delete :: "'r ipm \<Rightarrow> sys_env \<Rightarrow> ('c, 'u, 'r) client \<Rightarrow> ('c, 'u, 'r) client \<times> ('c, 'u) cb_call list" where
  "PCL_delete rm en s =
     (let (_, s1, outs) = PCL_Disconnect rm en True (s\<lparr>pcl_shutdown := True\<rparr>)
      in (s1\<lparr>pcl_monitor := PIDFileMonitor_Stop (pcl_monitor s1)\<rparr>, outs))"

definition pidChangedCb ::
  "'r ipm \<Rightarrow> sys_env \<Rightarrow> int \<Rightarrow> ('c, 'u, 'r) client \<Rightarrow> ('c, 'u, 'r) client \<times> ('c, 'u) cb_call list" where
  "pidChangedCb rm en pid s =
     (if pcl_pid s \<noteq> pid
      then let (_, s1, o1) = PCL_Disconnect rm en False s;
               (_, s2, o2) = PCL_Connect rm en s1
           in (s2\<lparr>pcl_pid := pid\<rparr>, o1 @ o2)
      else (s, []))"

section \<open>Calls of the plugin\<close>

type_synonym ('c, 'u, 'r) call = "('c, 'u, 'r) client \<Rightarrow> hresult \<times> ('c, 'u, 'r) client"

text \<open>A call that only sends: unavailable without an interface.\<close>

definition pcl_send :: "('r \<Rightarrow> hresult \<times> 'r) \<Rightarrow> ('c, 'u, 'r) call" where
  "pcl_send f s =
     (if pcl_iface s then let (result, r) = f (pcl_remote s) in (result, s\<lparr>pcl_remote := r\<rparr>)
      else (ERROR_UNAVAILABLE, s))"

text \<open>Both outputs are stored only on success.\<close>

definition PCL_GetPowerState :: "'r ipm \<Rightarrow> ('c, 'u, 'r) client \<Rightarrow> hresult \<times> (int \<times> int) option" where
  "PCL_GetPowerState rm s =
     (let (result, currentState, previousState) =
            (if pcl_iface s then rm_GetPowerState rm (pcl_remote s)
             else (ERROR_UNAVAILABLE, POWER_STATE_UNKNOWN, POWER_STATE_UNKNOWN))
      in (result, if result = ERROR_NONE then Some (convert_state currentState, convert_state previousState) else None))"

text \<open>A null reason is turned into a \<^verbatim>\<open>std::string\<close>, which is undefined behaviour, here \<open>None\<close>.\<close>

definition PCL_SetPowerState ::
  "'r ipm \<Rightarrow> int \<Rightarrow> int \<Rightarrow> string option \<Rightarrow> ('c, 'u, 'r) client \<Rightarrow> (hresult \<times> ('c, 'u, 'r) client) option" where
  "PCL_SetPowerState rm keyCode powerState reason s =
     (if pcl_iface s \<and> reason = None then None
      else Some (pcl_send (rm_SetPowerState rm keyCode (unconvert_state powerState) (the reason)) s))"

text \<open>A pointer to the output, with what it points to; the plugin's answer is stored in any case.\<close>

definition PCL_GetThermalState :: "'r ipm \<Rightarrow> cfloat option \<Rightarrow> ('c, 'u, 'r) client \<Rightarrow> hresult \<times> cfloat option" where
  "PCL_GetThermalState rm currentTemperature s =
     (case currentTemperature of
        None \<Rightarrow> (ERROR_BAD_REQUEST, None)
      | Some t \<Rightarrow> if pcl_iface s then (let (result, v) = rm_GetThermalState rm (pcl_remote s) in (result, Some v))
                  else (ERROR_UNAVAILABLE, Some t))"

definition PCL_SetTemperatureThresholds :: "'r ipm \<Rightarrow> cfloat \<Rightarrow> cfloat \<Rightarrow> ('c, 'u, 'r) call" where
  "PCL_SetTemperatureThresholds rm high critical = pcl_send (rm_SetTemperatureThresholds rm high critical)"

definition PCL_GetTemperatureThresholds ::
  "'r ipm \<Rightarrow> cfloat option \<Rightarrow> cfloat option \<Rightarrow> ('c, 'u, 'r) client \<Rightarrow> hresult \<times> cfloat option \<times> cfloat option" where
  "PCL_GetTemperatureThresholds rm high critical s =
     (if high = None \<or> critical = None then (ERROR_BAD_REQUEST, high, critical)
      else if pcl_iface s
      then (let (result, h, c) = rm_GetTemperatureThresholds rm (pcl_remote s) in (result, Some h, Some c))
      else (ERROR_UNAVAILABLE, high, critical))"

definition PCL_SetOvertempGraceInterval :: "'r ipm \<Rightarrow> int \<Rightarrow> ('c, 'u, 'r) call" where
  "PCL_SetOvertempGraceInterval rm graceInterval = pcl_send (rm_SetOvertempGraceInterval rm graceInterval)"

definition PCL_GetOvertempGraceInterval :: "'r ipm \<Rightarrow> int option \<Rightarrow> ('c, 'u, 'r) client \<Rightarrow> hresult \<times> int option" where
  "PCL_GetOvertempGraceInterval rm graceInterval s =
     (case graceInterval of
        None \<Rightarrow> (ERROR_BAD_REQUEST, None)
      | Some g \<Rightarrow> if pcl_iface s then (let (result, v) = rm_GetOvertempGraceInterval rm (pcl_remote s) in (result, Some v))
                  else (ERROR_UNAVAILABLE, Some g))"

definition PCL_SetDeepSleepTimer :: "'r ipm \<Rightarrow> int \<Rightarrow> ('c, 'u, 'r) call" where
  "PCL_SetDeepSleepTimer rm timeOut = pcl_send (rm_SetDeepSleepTimer rm timeOut)"

definition PCL_GetLastWakeupReason :: "'r ipm \<Rightarrow> int option \<Rightarrow> ('c, 'u, 'r) client \<Rightarrow> hresult \<times> int option" where
  "PCL_GetLastWakeupReason rm wakeupReason s =
     (case wakeupReason of
        None \<Rightarrow> (ERROR_BAD_REQUEST, None)
      | Some w \<Rightarrow>
          (let (result, v) = (if pcl_iface s then rm_GetLastWakeupReason rm (pcl_remote s)
                              else (ERROR_UNAVAILABLE, WAKEUP_REASON_UNKNOWN))
           in (result, Some (if result = ERROR_NONE then convert_reason v else w))))"

text \<open>The plugin's result is not assigned.\<close>

definition PCL_GetLastWakeupKeyCode :: "'r ipm \<Rightarrow> int option \<Rightarrow> ('c, 'u, 'r) client \<Rightarrow> hresult \<times> int option" where
  "PCL_GetLastWakeupKeyCode rm keycode s =
     (case keycode of
        None \<Rightarrow> (ERROR_BAD_REQUEST, None)
      | Some k \<Rightarrow> (ERROR_UNAVAILABLE, Some (if pcl_iface s then snd (rm_GetLastWakeupKeyCode rm (pcl_remote s)) else k)))"

definition PCL_Reboot :: "'r ipm \<Rightarrow> string option \<Rightarrow> string option \<Rightarrow> string option \<Rightarrow> ('c, 'u, 'r) call" where
  "PCL_Reboot rm rebootRequestor rebootReasonCustom rebootReasonOther s =
     (case (rebootRequestor, rebootReasonCustom, rebootReasonOther) of
        (Some q, Some c, Some t) \<Rightarrow> pcl_send (rm_Reboot rm q c t) s
      | _ \<Rightarrow> (ERROR_BAD_REQUEST, s))"

definition PCL_SetNetworkStandbyMode :: "'r ipm \<Rightarrow> bool \<Rightarrow> ('c, 'u, 'r) call" where
  "PCL_SetNetworkStandbyMode rm standbyMode = pcl_send (rm_SetNetworkStandbyMode rm standbyMode)"

definition PCL_GetNetworkStandbyMode :: "'r ipm \<Rightarrow> bool option \<Rightarrow> ('c, 'u, 'r) client \<Rightarrow> hresult \<times> bool option" where
  "PCL_GetNetworkStandbyMode rm standbyMode s =
     (case standbyMode of
        None \<Rightarrow> (ERROR_BAD_REQUEST, None)
      | Some b \<Rightarrow> if pcl_iface s then (let (result, v) = rm_GetNetworkStandbyMode rm (pcl_remote s) in (result, Some v))
                  else (ERROR_UNAVAILABLE, Some b))"

definition PCL_GetPowerStateBeforeReboot :: "'r ipm \<Rightarrow> int option \<Rightarrow> ('c, 'u, 'r) client \<Rightarrow> hresult \<times> int option" where
  "PCL_GetPowerStateBeforeReboot rm powerStateBeforeReboot s =
     (case powerStateBeforeReboot of
        None \<Rightarrow> (ERROR_BAD_REQUEST, None)
      | Some p \<Rightarrow>
          (let (result, v) = (if pcl_iface s then rm_GetPowerStateBeforeReboot rm (pcl_remote s)
                              else (ERROR_UNAVAILABLE, POWER_STATE_UNKNOWN))
           in (result, Some (if result = ERROR_NONE then convert_state v else p))))"

definition PCL_AddPowerModePreChangeClient ::
  "'r ipm \<Rightarrow> string \<Rightarrow> u32 \<Rightarrow> ('c, 'u, 'r) client \<Rightarrow> hresult \<times> u32 \<times> ('c, 'u, 'r) client" where
  "PCL_AddPowerModePreChangeClient rm clientName clientId s =
     (if pcl_iface s
      then let (result, i, r) = rm_AddPowerModePreChangeClient rm clientName clientId (pcl_remote s)
           in (result, i, s\<lparr>pcl_remote := r\<rparr>)
      else (ERROR_UNAVAILABLE, clientId, s))"

definition PCL_RemovePowerModePreChangeClient :: "'r ipm \<Rightarrow> u32 \<Rightarrow> ('c, 'u, 'r) call" where
  "PCL_RemovePowerModePreChangeClient rm clientId = pcl_send (rm_RemovePowerModePreChangeClient rm clientId)"

definition PCL_DelayPowerModeChangeBy :: "'r ipm \<Rightarrow> u32 \<Rightarrow> int \<Rightarrow> int \<Rightarrow> ('c, 'u, 'r) call" where
  "PCL_DelayPowerModeChangeBy rm clientId transactionId delay =
     pcl_send (rm_DelayPowerModeChangeBy rm clientId transactionId delay)"

definition PCL_PowerModePreChangeComplete :: "'r ipm \<Rightarrow> u32 \<Rightarrow> int \<Rightarrow> ('c, 'u, 'r) call" where
  "PCL_PowerModePreChangeComplete rm clientId transactionId =
     pcl_send (rm_PowerModePreChangeComplete rm clientId transactionId)"

section \<open>Notifications\<close>

definition cb_entries :: "cb_kind \<Rightarrow> ('c, 'u, 'r) client \<Rightarrow> ('c \<times> 'u) list" where
  "cb_entries k s = cbl_entries (pcl_lists s k)"

definition NotifyPowerModeChanged :: "PowerState \<Rightarrow> PowerState \<Rightarrow> ('c, 'u, 'r) client \<Rightarrow> ('c, 'u) cb_call list" where
  "NotifyPowerModeChanged currentState newState s =
     map (\<lambda>(c, u). CallModeChanged c (convert_state currentState) (convert_state newState) u) (cb_entries PowerModeChangedCb s)"

definition NotifyPowerModePreChange ::
  "PowerState \<Rightarrow> PowerState \<Rightarrow> int \<Rightarrow> int \<Rightarrow> ('c, 'u, 'r) client \<Rightarrow> ('c, 'u) cb_call list" where
  "NotifyPowerModePreChange currentState newState transactionId stateChangeAfter s =
     map (\<lambda>(c, u). CallPreChange c (convert_state currentState) (convert_state newState) transactionId stateChangeAfter u)
       (cb_entries PowerModePreChangedCb s)"

definition NotifyDeepSleepTimeout :: "int \<Rightarrow> ('c, 'u, 'r) client \<Rightarrow> ('c, 'u) cb_call list" where
  "NotifyDeepSleepTimeout wakeupTimeout s =
     map (\<lambda>(c, u). CallDeepSleepTimeout c wakeupTimeout u) (cb_entries DeepSleepTimeoutCb s)"

definition NotifyNetworkStandbyModeChanged :: "bool \<Rightarrow> ('c, 'u, 'r) client \<Rightarrow> ('c, 'u) cb_call list" where
  "NotifyNetworkStandbyModeChanged enabled s =
     map (\<lambda>(c, u). CallNetworkStandby c enabled u) (cb_entries NetworkStandbyModeChangedCb s)"

definition NotifyThermalModeChanged ::
  "ThermalTemperature \<Rightarrow> ThermalTemperature \<Rightarrow> cfloat \<Rightarrow> ('c, 'u, 'r) client \<Rightarrow> ('c, 'u) cb_call list" where
  "NotifyThermalModeChanged cur new temp s =
     map (\<lambda>(c, u). CallThermal c (convert_thermal cur) (convert_thermal new) temp u) (cb_entries ThermalModeChangedCb s)"

definition NotifyRebootBegin :: "string \<Rightarrow> string \<Rightarrow> string \<Rightarrow> ('c, 'u, 'r) client \<Rightarrow> ('c, 'u) cb_call list" where
  "NotifyRebootBegin rebootReasonCustom rebootReasonOther rebootRequestor s =
     map (\<lambda>(c, u). CallReboot c rebootReasonCustom rebootReasonOther rebootRequestor u) (cb_entries RebootBeginCb s)"

text \<open>The object that the library registers with the plugin passes each event on.\<close>

fun Notification :: "pm_event \<Rightarrow> ('c, 'u, 'r) client \<Rightarrow> ('c, 'u) cb_call list" where
  "Notification (OnPowerModeChanged cur new) s = NotifyPowerModeChanged cur new s"
| "Notification (OnPowerModePreChange cur new tid after) s = NotifyPowerModePreChange cur new tid after s"
| "Notification (OnDeepSleepTimeout t) s = NotifyDeepSleepTimeout (sint t) s"
| "Notification (OnNetworkStandbyModeChanged b) s = NotifyNetworkStandbyModeChanged b s"
| "Notification (OnThermalModeChanged cur new temp) s = NotifyThermalModeChanged cur new temp s"
| "Notification (OnRebootBegin c t q) s = NotifyRebootBegin c t q s"

end
