(* ===== verification/ClientSubscriptions.thy ===== *)
theory ClientSubscriptions
  imports ClientLibrary PowerTransitions
begin

text \<open>
  The client library's subscriptions: its lists of callbacks are registries, and under the
  contract of a remote plugin the library is subscribed to exactly the events that some callback
  waits for, through connections, disconnections and restarts of the plugin. The plugin's own
  model provides the contract.
\<close>

section \<open>Frames\<close>

lemma upd_list_simps [simp]:
  "pcl_lists (upd_list k f s) = (pcl_lists s)(k := f (pcl_lists s k))"
  "pcl_iface (upd_list k f s) = pcl_iface s" "pcl_remote (upd_list k f s) = pcl_remote s"
  "pcl_shutdown (upd_list k f s) = pcl_shutdown s" "pcl_connected (upd_list k f s) = pcl_connected s"
  by (simp_all add: upd_list_def)

lemma thunder_frame [simp]:
  "pcl_lists (snd (RegisterThunderNotificationLocked rm k s)) = pcl_lists s"
  "pcl_iface (snd (RegisterThunderNotificationLocked rm k s)) = pcl_iface s"
  "pcl_lists (snd (UnregisterThunderNotificationLocked rm k s)) = pcl_lists s"
  "pcl_iface (snd (UnregisterThunderNotificationLocked rm k s)) = pcl_iface s"
  by (simp_all add: RegisterThunderNotificationLocked_def UnregisterThunderNotificationLocked_def split_beta
      split: option.splits)

lemma internal_frame [simp]:
  "cb_entries j (RegisterNotificationInternalLocked rm k s) = cb_entries j s"
  "cb_entries j (UnregisterNotificationInternalLocked rm k b s) = cb_entries j s"
  "pcl_iface (RegisterNotificationInternalLocked rm k s) = pcl_iface s"
  "pcl_iface (UnregisterNotificationInternalLocked rm k b s) = pcl_iface s"
  by (simp_all add: RegisterNotificationInternalLocked_def UnregisterNotificationInternalLocked_def cb_entries_def
      Let_def split_beta)

lemma subscribe_all_frame [simp]:
  "cb_entries j (SubscribeAllNotificationsLocked rm s) = cb_entries j s"
  "cb_entries j (UnsubscribeAllNotificationsLocked rm s) = cb_entries j s"
  by (simp_all add: SubscribeAllNotificationsLocked_def UnsubscribeAllNotificationsLocked_def plugin_kinds_def)

lemma cb_entries_fields [simp]:
  "cb_entries j (s\<lparr>pcl_iface := b\<rparr>) = cb_entries j s" "cb_entries j (s\<lparr>pcl_connected := b\<rparr>) = cb_entries j s"
  "cb_entries j (s\<lparr>pcl_shutdown := b\<rparr>) = cb_entries j s" "cb_entries j (s\<lparr>pcl_monitor := m\<rparr>) = cb_entries j s"
  "cb_entries j (s\<lparr>pcl_pid := p\<rparr>) = cb_entries j s" "cb_entries j (s\<lparr>pcl_remote := r\<rparr>) = cb_entries j s"
  by (simp_all add: cb_entries_def)

lemma Operational_entries [simp]: "cb_entries j (fst (Operational rm i up s)) = cb_entries j s"
  by (simp add: Operational_def Let_def)

lemma operational_calls_entries [simp]: "cb_entries j (fst (operational_calls rm ops s)) = cb_entries j s"
  by (induction ops arbitrary: s) (auto simp: split_beta)

lemma Connect_entries [simp]: "cb_entries j (fst (snd (PCL_Connect rm en s))) = cb_entries j s"
  by (simp add: PCL_Connect_def Let_def split_beta split: option.splits)

lemma new_entries [simp]: "cb_entries j (fst (PCL_new rm en r)) = []"
  by (simp add: PCL_new_def) (simp add: cb_entries_def CallbackList_new_def)

section \<open>The lists of callbacks as registries\<close>

lemma upd_list_entries:
  "cb_entries j (upd_list k (\<lambda>l. l\<lparr>cbl_entries := f (cbl_entries l)\<rparr>) s) =
     (if j = k then f (cb_entries k s) else cb_entries j s)"
  by (simp add: cb_entries_def)

lemma Add_entries:
  "cb_entries j (snd (AddCallbackLocked rm k c u s)) =
     (if j = k \<and> c \<notin> fst ` set (cb_entries k s) then cb_entries k s @ [(c, u)] else cb_entries j s)"
  "fst (AddCallbackLocked rm k c u s) =
     (if c \<in> fst ` set (cb_entries k s) then ERROR_ALREADY_CONNECTED else ERROR_NONE)"
  using upd_list_entries [of j k "\<lambda>es. es @ [(c, u)]" s]
  by (auto simp: AddCallbackLocked_def cb_entries_def [symmetric])

lemma Remove_entries:
  "cb_entries j (snd (RemoveCallbackLocked rm k c s)) =
     (if j = k then remove_key c (cb_entries k s) else cb_entries j s)"
  "fst (RemoveCallbackLocked rm k c s) =
     (if c \<in> fst ` set (cb_entries k s) then ERROR_NONE else ERROR_ALREADY_RELEASED)"
  using upd_list_entries [of j k "remove_key c" s]
  by (auto simp: RemoveCallbackLocked_def cb_entries_def [symmetric] remove_key_absent)

interpretation client_list: registry
  "AddCallbackLocked rm k" "RemoveCallbackLocked rm k" "cb_entries k" ERROR_ALREADY_CONNECTED ERROR_ALREADY_RELEASED
  for rm k
  by unfold_locales (simp_all add: Add_entries Remove_entries)

text \<open>Registrations of callbacks of one kind, one after the other.\<close>

primrec cb_exec :: "'r ipm \<Rightarrow> cb_kind \<Rightarrow> ('c, 'u) reg_op \<Rightarrow> ('c, 'u, 'r) client \<Rightarrow> ('c, 'u, 'r) client" where
  "cb_exec rm k (RegAdd c u) s = snd (RegisterCallbackInternal rm k (Some c) u s)"
| "cb_exec rm k (RegRemove c) s = snd (UnRegisterCallback rm k (Some c) s)"

lemma cb_exec_registry: "client_list.exec rm k = cb_exec rm k"
proof
  show "client_list.exec rm k x = cb_exec rm k x" for x
    by (cases x) (simp_all add: fun_eq_iff RegisterCallbackInternal_def UnRegisterCallback_def)
qed

text \<open>Registrations of callbacks of all kinds, one after the other.\<close>

abbreviation cb_execs ::
  "'r ipm \<Rightarrow> (cb_kind \<times> ('c, 'u) reg_op) list \<Rightarrow> ('c, 'u, 'r) client \<Rightarrow> ('c, 'u, 'r) client" where
  "cb_execs rm \<equiv> fold (\<lambda>(j, x). cb_exec rm j x)"

lemma cb_exec_other: "j \<noteq> k \<Longrightarrow> cb_entries k (cb_exec rm j x s) = cb_entries k s"
  by (cases x) (simp_all add: RegisterCallbackInternal_def UnRegisterCallback_def Add_entries Remove_entries)

lemma cb_execs_entries:
  assumes "distinct (map fst (cb_entries k s))"
  shows "distinct (map fst (cb_entries k (cb_execs rm xs s))) \<and>
    map_of (cb_entries k (cb_execs rm xs s)) c =
      fold (value_in_force c) (map snd (filter (\<lambda>(j, x). j = k) xs)) (map_of (cb_entries k s) c)"
  using assms
proof (induction xs arbitrary: s)
  case (Cons y xs)
  obtain j x where y: "y = (j, x)" by (cases y)
  show ?case
  proof (cases "j = k")
    case True
    have "distinct (map fst (cb_entries k (cb_exec rm k x s)))"
      using Cons.prems client_list.exec_keys(1) [of k s rm x] by (simp add: client_list.keys_def cb_exec_registry)
    moreover have "map_of (cb_entries k (cb_exec rm k x s)) c = value_in_force c x (map_of (cb_entries k s) c)"
      using Cons.prems client_list.exec_value [of k s rm x c] by (simp add: client_list.keys_def cb_exec_registry)
    ultimately show ?thesis using Cons.IH [of "cb_exec rm k x s"] by (simp add: y True)
  next
    case False
    then show ?thesis using Cons.IH [of "cb_exec rm j x s"] Cons.prems by (simp add: y cb_exec_other)
  qed
qed simp

text \<open>The list an event goes to, the call it makes of a callback, and the callback of a call.\<close>

fun event_list :: "pm_event \<Rightarrow> cb_kind" where
  "event_list (OnPowerModeChanged cur new) = PowerModeChangedCb"
| "event_list (OnPowerModePreChange cur new tid after) = PowerModePreChangedCb"
| "event_list (OnDeepSleepTimeout t) = DeepSleepTimeoutCb"
| "event_list (OnNetworkStandbyModeChanged b) = NetworkStandbyModeChangedCb"
| "event_list (OnThermalModeChanged cur new temp) = ThermalModeChangedCb"
| "event_list (OnRebootBegin c t q) = RebootBeginCb"

fun event_call :: "pm_event \<Rightarrow> 'c \<Rightarrow> 'u \<Rightarrow> ('c, 'u) cb_call" where
  "event_call (OnPowerModeChanged cur new) f u = CallModeChanged f (convert_state cur) (convert_state new) u"
| "event_call (OnPowerModePreChange cur new tid after) f u =
     CallPreChange f (convert_state cur) (convert_state new) tid after u"
| "event_call (OnDeepSleepTimeout t) f u = CallDeepSleepTimeout f (sint t) u"
| "event_call (OnNetworkStandbyModeChanged b) f u = CallNetworkStandby f b u"
| "event_call (OnThermalModeChanged cur new temp) f u = CallThermal f (convert_thermal cur) (convert_thermal new) temp u"
| "event_call (OnRebootBegin c t q) f u = CallReboot f c t q u"

fun callback_of :: "('c, 'u) cb_call \<Rightarrow> 'c" where
  "callback_of (CallOperational f b u) = f"
| "callback_of (CallNetworkStandby f b u) = f"
| "callback_of (CallPreChange f i j tid after u) = f"
| "callback_of (CallModeChanged f i j u) = f"
| "callback_of (CallDeepSleepTimeout f t u) = f"
| "callback_of (CallThermal f i j temp u) = f"
| "callback_of (CallReboot f c t q u) = f"

lemma callback_of_call [simp]: "callback_of (event_call ev f u) = f"
  by (cases ev) simp_all

lemma callback_of_comp: "(\<lambda>x. callback_of x = f) \<circ> (\<lambda>(f, u). event_call ev f u) = (\<lambda>e. fst e = f)"
  by (auto simp: fun_eq_iff)

lemma Notification_calls: "Notification ev s = map (\<lambda>(f, u). event_call ev f u) (cb_entries (event_list ev) s)"
  by (cases ev)
     (simp_all add: NotifyPowerModeChanged_def NotifyPowerModePreChange_def NotifyDeepSleepTimeout_def
        NotifyNetworkStandbyModeChanged_def NotifyThermalModeChanged_def NotifyRebootBegin_def)

text \<open>
  C26. Whatever the plugin answers, and after any sequence of registrations and unregistrations in
  all the lists of a new library object, each event of the plugin calls a callback exactly once,
  with the arguments of the event, if it is registered for that event, and not at all otherwise;
  and it is given the user data of the registration in force, the first one since the callback was
  last unregistered: registering it again while it is registered does not change the data.
\<close>

theorem callbacks_called_once:
  "filter (\<lambda>x. callback_of x = c) (Notification ev (cb_execs rm xs (fst (PCL_new rm en r)))) =
     (case fold (value_in_force c) (map snd (filter (\<lambda>(j, x). j = event_list ev) xs)) None of
        None \<Rightarrow> [] | Some u \<Rightarrow> [event_call ev c u])"
proof -
  let ?es = "cb_entries (event_list ev) (cb_execs rm xs (fst (PCL_new rm en r)))"
  have "distinct (map fst ?es) \<and>
      map_of ?es c = fold (value_in_force c) (map snd (filter (\<lambda>(j, x). j = event_list ev) xs)) None"
    using cb_execs_entries [of "event_list ev" "fst (PCL_new rm en r)" rm xs c] by simp
  then have "filter (\<lambda>e. fst e = c) ?es = (case fold (value_in_force c) (map snd (filter (\<lambda>(j, x). j = event_list ev) xs)) None of
      None \<Rightarrow> [] | Some u \<Rightarrow> [(c, u)])" by (simp add: filter_map_of)
  then show ?thesis
    unfolding Notification_calls filter_map callback_of_comp by (simp split: option.split)
qed

section \<open>Subscriptions\<close>

lemma cb_interface_inj: "cb_interface j = Some i \<Longrightarrow> cb_interface k = Some i \<Longrightarrow> j = k"
  by (cases j; cases k) simp_all

text \<open>
  The contract of the remote plugin, seen from one library object: registering its notification
  object where it is not registered succeeds, unregistering where it is registered succeeds, and
  neither touches the other interfaces.
\<close>

locale remote_plugin =
  fixes rm :: "'r ipm" and subscribed :: "notif_kind \<Rightarrow> 'r \<Rightarrow> bool" and valid :: "'r \<Rightarrow> bool"
  assumes register: "valid r \<Longrightarrow> \<not> subscribed i r \<Longrightarrow> fst (rm_Register rm i r) = ERROR_NONE"
      "valid r \<Longrightarrow> subscribed j (snd (rm_Register rm i r)) \<longleftrightarrow> j = i \<or> subscribed j r"
      "valid r \<Longrightarrow> valid (snd (rm_Register rm i r))"
    and unregister: "valid r \<Longrightarrow> subscribed i r \<Longrightarrow> fst (rm_Unregister rm i r) = ERROR_NONE"
      "valid r \<Longrightarrow> subscribed j (snd (rm_Unregister rm i r)) \<longleftrightarrow> j \<noteq> i \<and> subscribed j r"
      "valid r \<Longrightarrow> valid (snd (rm_Unregister rm i r))"
begin

text \<open>The library is subscribed through each list exactly while it is connected and the list is not empty.\<close>

definition subs_ok :: "cb_kind \<Rightarrow> ('c, 'u, 'r) client \<Rightarrow> bool" where
  "subs_ok k s \<longleftrightarrow> valid (pcl_remote s) \<and>
     (\<forall>i. cb_interface k = Some i \<longrightarrow>
     cbl_registered (pcl_lists s k) = subscribed i (pcl_remote s) \<and>
     subscribed i (pcl_remote s) = (pcl_iface s \<and> cb_entries k s \<noteq> []))"

definition subs_inv :: "('c, 'u, 'r) client \<Rightarrow> bool" where
  "subs_inv s \<longleftrightarrow> (\<forall>k. subs_ok k s)"

text \<open>What holds of a list on the way there.\<close>

definition subs_weak :: "cb_kind \<Rightarrow> ('c, 'u, 'r) client \<Rightarrow> bool" where
  "subs_weak k s \<longleftrightarrow> valid (pcl_remote s) \<and>
     (\<forall>i. cb_interface k = Some i \<longrightarrow>
     cbl_registered (pcl_lists s k) = subscribed i (pcl_remote s) \<and>
     (subscribed i (pcl_remote s) \<longrightarrow> pcl_iface s \<and> cb_entries k s \<noteq> []))"

lemma subs_ok_weak: "subs_ok k s \<Longrightarrow> subs_weak k s"
  by (auto simp: subs_ok_def subs_weak_def)

lemma Register_subs:
  assumes "subs_weak k s"
  shows "subs_ok k (RegisterNotificationInternalLocked rm k s)"
    and "j \<noteq> k \<Longrightarrow> subs_ok j (RegisterNotificationInternalLocked rm k s) = subs_ok j s"
    and "j \<noteq> k \<Longrightarrow> subs_weak j (RegisterNotificationInternalLocked rm k s) = subs_weak j s"
  using assms cb_interface_inj [of j _ k] cb_interface_inj [of k _ j]
  by (auto simp: subs_ok_def subs_weak_def RegisterNotificationInternalLocked_def IsActivatedLocked_def
      RegisterThunderNotificationLocked_def cb_entries_def Let_def split_beta register split: option.splits if_splits)

definition subs_agree :: "cb_kind \<Rightarrow> ('c, 'u, 'r) client \<Rightarrow> bool" where
  "subs_agree k s \<longleftrightarrow> valid (pcl_remote s) \<and>
     (\<forall>i. cb_interface k = Some i \<longrightarrow> cbl_registered (pcl_lists s k) = subscribed i (pcl_remote s))"

definition subs_gone :: "cb_kind \<Rightarrow> ('c, 'u, 'r) client \<Rightarrow> bool" where
  "subs_gone k s \<longleftrightarrow> (\<forall>i. cb_interface k = Some i \<longrightarrow> \<not> subscribed i (pcl_remote s)) \<and> subs_agree k s"

lemma Unregister_forced:
  assumes "subs_agree k s" "pcl_iface s"
  shows "subs_gone k (UnregisterNotificationInternalLocked rm k True s)"
    and "j \<noteq> k \<Longrightarrow> subs_gone j (UnregisterNotificationInternalLocked rm k True s) = subs_gone j s"
    and "j \<noteq> k \<Longrightarrow> subs_agree j (UnregisterNotificationInternalLocked rm k True s) = subs_agree j s"
  using assms cb_interface_inj [of j _ k] cb_interface_inj [of k _ j]
  by (auto simp: subs_gone_def subs_agree_def UnregisterNotificationInternalLocked_def IsActivatedLocked_def
      UnregisterThunderNotificationLocked_def Let_def split_beta unregister split: option.splits if_splits)

lemma Unregister_subs:
  assumes "subs_ok k (s :: ('c, 'u, 'r) client)" "pcl_lists s1 = (pcl_lists s)(k := l)" "pcl_iface s1 = pcl_iface s"
    "pcl_remote s1 = pcl_remote s" "cbl_registered l = cbl_registered (pcl_lists s k)"
    "cb_entries k s \<noteq> [] "
  shows "subs_ok k (UnregisterNotificationInternalLocked rm k False s1)"
    and "j \<noteq> k \<Longrightarrow> subs_ok j (UnregisterNotificationInternalLocked rm k False s1) = subs_ok j s"
  using assms cb_interface_inj [of j _ k] cb_interface_inj [of k _ j]
  by (auto simp: subs_ok_def UnregisterNotificationInternalLocked_def IsActivatedLocked_def
      UnregisterThunderNotificationLocked_def cb_entries_def Let_def split_beta unregister split: option.splits if_splits)

text \<open>Going through the lists one after the other.\<close>

lemma Register_fold:
  "\<forall>j. subs_weak j s \<Longrightarrow>
     (\<forall>j. subs_weak j (fold (RegisterNotificationInternalLocked rm) ks s)) \<and>
     (\<forall>j. j \<in> set ks \<or> subs_ok j s \<longrightarrow> subs_ok j (fold (RegisterNotificationInternalLocked rm) ks s))"
proof (induction ks arbitrary: s)
  case (Cons k ks)
  let ?t = "RegisterNotificationInternalLocked rm k s"
  have w: "\<forall>j. subs_weak j ?t"
    using Cons.prems Register_subs(1) [of k s] Register_subs(3) [of k s] subs_ok_weak by metis
  have "\<forall>j. subs_ok j s \<or> j = k \<longrightarrow> subs_ok j ?t"
    using Cons.prems Register_subs(1) [of k s] Register_subs(2) [of k s] by metis
  with Cons.IH [OF w] show ?case by auto
qed simp

lemma Unregister_fold:
  "\<forall>j. subs_agree j s \<Longrightarrow> pcl_iface s \<Longrightarrow>
     (\<forall>j. subs_agree j (fold (\<lambda>k. UnregisterNotificationInternalLocked rm k True) ks s)) \<and>
     (\<forall>j. j \<in> set ks \<or> subs_gone j s \<longrightarrow> subs_gone j (fold (\<lambda>k. UnregisterNotificationInternalLocked rm k True) ks s))"
proof (induction ks arbitrary: s)
  case (Cons k ks)
  let ?t = "UnregisterNotificationInternalLocked rm k True s"
  have w: "\<forall>j. subs_agree j ?t"
    using Cons.prems Unregister_forced(1) [of k s] Unregister_forced(3) [of k s] unfolding subs_gone_def by metis
  have i: "pcl_iface ?t" using Cons.prems(2) by simp
  have "\<forall>j. subs_gone j s \<or> j = k \<longrightarrow> subs_gone j ?t"
    using Cons.prems Unregister_forced(1) [of k s] Unregister_forced(2) [of k s] by metis
  with Cons.IH [OF w i] show ?case by auto
qed simp

lemma plugin_kinds_all: "k = OperationalStateChangeCb \<or> k \<in> set plugin_kinds"
  by (cases k) (simp_all add: plugin_kinds_def)

lemma subs_inv_Operational: "subs_inv s \<Longrightarrow> subs_inv (fst (Operational rm iface up s))"
proof (cases "up = pcl_iface s \<or> (up \<and> \<not> iface)")
  case True
  assume "subs_inv s"
  moreover have "fst (Operational rm iface up s) = s"
    using True by (cases s) (auto simp: Operational_def Let_def)
  ultimately show ?thesis by simp
next
  case False
  assume inv: "subs_inv s"
  show ?thesis
  proof (cases up)
    case True
    let ?t = "s\<lparr>pcl_iface := True\<rparr>"
    have "\<forall>j. subs_weak j ?t" using inv False True by (auto simp: subs_inv_def subs_ok_def subs_weak_def)
    note f = Register_fold [OF this, of plugin_kinds, folded SubscribeAllNotificationsLocked_def]
    have "subs_ok j (SubscribeAllNotificationsLocked rm ?t)" for j
    proof (cases "j \<in> set plugin_kinds")
      case False
      then have "cb_interface j = None" using plugin_kinds_all [of j] by auto
      with f show ?thesis by (simp add: subs_weak_def subs_ok_def)
    qed (use f in blast)
    then have "subs_inv (SubscribeAllNotificationsLocked rm ?t)" by (simp add: subs_inv_def)
    then show ?thesis using False True by (simp add: Operational_def Let_def)
  next
    case down: False
    let ?u = "UnsubscribeAllNotificationsLocked rm s"
    have "\<forall>j. subs_agree j s" using inv by (auto simp: subs_inv_def subs_ok_def subs_agree_def)
    note f = Unregister_fold [OF this, of plugin_kinds, folded UnsubscribeAllNotificationsLocked_def]
    have "subs_gone j ?u" for j
    proof (cases "j \<in> set plugin_kinds")
      case False
      then have "cb_interface j = None" using plugin_kinds_all [of j] by auto
      with f \<open>\<not> (up = pcl_iface s \<or> up \<and> \<not> iface)\<close> down show ?thesis by (simp add: subs_gone_def)
    qed (use f False down in blast)
    then have "subs_inv (?u\<lparr>pcl_iface := False\<rparr>)"
      by (auto simp: subs_inv_def subs_ok_def subs_gone_def subs_agree_def)
    then show ?thesis using False down by (simp add: Operational_def Let_def)
  qed
qed

lemma subs_inv_operational_calls: "subs_inv s \<Longrightarrow> subs_inv (fst (operational_calls rm ops s))"
  by (induction ops arbitrary: s) (auto simp: split_beta subs_inv_Operational)

lemma subs_inv_fields [simp]:
  "subs_inv (s\<lparr>pcl_connected := b\<rparr>) = subs_inv s" "subs_inv (s\<lparr>pcl_shutdown := b\<rparr>) = subs_inv s"
  "subs_inv (s\<lparr>pcl_monitor := m\<rparr>) = subs_inv s" "subs_inv (s\<lparr>pcl_pid := p\<rparr>) = subs_inv s"
  by (simp_all add: subs_inv_def subs_ok_def)

lemma subs_inv_Connect: "subs_inv s \<Longrightarrow> subs_inv (fst (snd (PCL_Connect rm en s)))"
  by (auto simp: PCL_Connect_def Let_def split_beta subs_inv_operational_calls split: option.splits)

lemma subs_inv_Disconnect: "subs_inv s \<Longrightarrow> subs_inv (fst (snd (PCL_Disconnect rm en b s)))"
  by (auto simp: PCL_Disconnect_def Let_def split_beta subs_inv_operational_calls)

lemma subs_inv_pidChanged: "subs_inv s \<Longrightarrow> subs_inv (fst (pidChangedCb rm en pid s))"
  by (simp add: pidChangedCb_def Let_def split_beta subs_inv_Connect subs_inv_Disconnect)

lemma subs_inv_new: "valid r \<Longrightarrow> (\<And>i. \<not> subscribed i r) \<Longrightarrow> subs_inv (fst (PCL_new rm en r))"
  unfolding PCL_new_def Let_def
  by (rule subs_inv_Connect) (simp add: subs_inv_def subs_ok_def CallbackList_new_def)

lemma subs_inv_Add: "subs_inv s \<Longrightarrow> subs_inv (snd (AddCallbackLocked rm k c u s))"
proof (cases "c \<in> fst ` set (cbl_entries (pcl_lists s k))")
  case False
  assume inv: "subs_inv s"
  let ?t = "upd_list k (\<lambda>l. l\<lparr>cbl_entries := cbl_entries l @ [(c, u)]\<rparr>) s"
  have w: "subs_weak k ?t" using inv by (auto simp: subs_inv_def subs_ok_def subs_weak_def cb_entries_def)
  have o: "subs_ok j ?t" if "j \<noteq> k" for j using inv that by (simp add: subs_inv_def subs_ok_def cb_entries_def)
  have "subs_ok j (RegisterNotificationInternalLocked rm k ?t)" for j
    using Register_subs(1) [OF w] Register_subs(2) [OF w, of j] o [of j] by (cases "j = k") simp_all
  then have "subs_inv (RegisterNotificationInternalLocked rm k ?t)" by (simp add: subs_inv_def)
  with False show ?thesis by (simp add: AddCallbackLocked_def)
qed (simp add: AddCallbackLocked_def)

lemma subs_inv_Remove: "subs_inv s \<Longrightarrow> subs_inv (snd (RemoveCallbackLocked rm k c s))"
proof (cases "c \<in> fst ` set (cbl_entries (pcl_lists s k))")
  case True
  assume inv: "subs_inv s"
  let ?t = "upd_list k (\<lambda>l. l\<lparr>cbl_entries := remove_key c (cbl_entries l)\<rparr>) s"
  have ne: "cb_entries k s \<noteq> []" using True by (auto simp: cb_entries_def)
  let ?l = "(pcl_lists s k)\<lparr>cbl_entries := remove_key c (cbl_entries (pcl_lists s k))\<rparr>"
  have ok: "subs_ok k s" using inv by (simp add: subs_inv_def)
  have t: "pcl_lists ?t = (pcl_lists s)(k := ?l)" "pcl_iface ?t = pcl_iface s" "pcl_remote ?t = pcl_remote s"
    "cbl_registered ?l = cbl_registered (pcl_lists s k)" by simp_all
  have "subs_ok j (UnregisterNotificationInternalLocked rm k False ?t)" for j
    using Unregister_subs(1) [OF ok t ne] Unregister_subs(2) [OF ok t ne, of j] inv
    by (cases "j = k") (simp_all add: subs_inv_def)
  with True show ?thesis by (simp add: RemoveCallbackLocked_def subs_inv_def)
qed (simp add: RemoveCallbackLocked_def)

lemma subs_inv_remote:
  "subs_inv s \<Longrightarrow> valid r \<Longrightarrow> (\<And>i. subscribed i r = subscribed i (pcl_remote s)) \<Longrightarrow> subs_inv (s\<lparr>pcl_remote := r\<rparr>)"
  by (simp add: subs_inv_def subs_ok_def)

end

section \<open>The plugin provides the contract\<close>

text \<open>
  The plugin's own model behind the interface, for the notification object \<open>n\<close> of the library:
  every call is answered by the corresponding operation of \<^verbatim>\<open>PowerManagerImplementation\<close>, at
  the time \<open>ck\<close>. What the plugin sends out meanwhile is not looked at here; a request to change
  the power state that would have to wait for another one is left unanswered.
\<close>

definition drop_outs :: "hresult \<times> 'r \<times> 'o \<Rightarrow> hresult \<times> 'r" where
  "drop_outs x = (fst x, fst (snd x))"

definition plugin_ipm :: "('p, 'd, 't) pm_env \<Rightarrow> pm_clock \<Rightarrow> 'n \<Rightarrow> ('p, 'd, 't, 'n) pmi ipm" where
  "plugin_ipm en ck n =
     \<lparr>rm_Register = \<lambda>i. PMI_RegisterNotification i n,
      rm_Unregister = \<lambda>i. PMI_UnregisterNotification i n,
      rm_GetPowerState = PMI_GetPowerState,
      rm_SetPowerState = \<lambda>k new reason s.
        (case PMI_SetPowerState en ck k new reason s of None \<Rightarrow> (ERROR_GENERAL, s) | Some x \<Rightarrow> drop_outs x),
      rm_GetThermalState = PMI_GetThermalState en,
      rm_SetTemperatureThresholds = PMI_SetTemperatureThresholds en,
      rm_GetTemperatureThresholds = PMI_GetTemperatureThresholds en 0 0,
      rm_SetOvertempGraceInterval = PMI_SetOvertempGraceInterval,
      rm_GetOvertempGraceInterval = PMI_GetOvertempGraceInterval,
      rm_SetDeepSleepTimer = PMI_SetDeepSleepTimer en,
      rm_GetLastWakeupReason = PMI_GetLastWakeupReason en WAKEUP_REASON_UNKNOWN,
      rm_GetLastWakeupKeyCode = PMI_GetLastWakeupKeyCode en 0,
      rm_Reboot = \<lambda>q c t s. (fst (PMI_Reboot q c t s), s),
      rm_SetNetworkStandbyMode = \<lambda>b s. drop_outs (PMI_SetNetworkStandbyMode en b s),
      rm_GetNetworkStandbyMode = PMI_GetNetworkStandbyMode,
      rm_GetPowerStateBeforeReboot = PMI_GetPowerStateBeforeReboot,
      rm_AddPowerModePreChangeClient = PMI_AddPowerModePreChangeClient,
      rm_RemovePowerModePreChangeClient = \<lambda>i s. drop_outs (PMI_RemovePowerModePreChangeClient en ck i s),
      rm_DelayPowerModeChangeBy = PMI_DelayPowerModeChangeBy ck,
      rm_PowerModePreChangeComplete = \<lambda>i tid s. drop_outs (PMI_PowerModePreChangeComplete en ck i tid s)\<rparr>"

text \<open>Every list of the plugin holds an object at most once, so registration is a matter of membership.\<close>

definition plugin_subscribed :: "'n \<Rightarrow> notif_kind \<Rightarrow> ('p, 'd, 't, 'n) pmi \<Rightarrow> bool" where
  "plugin_subscribed n i s \<longleftrightarrow> n \<in> set (nl_list (notif_get i s))"

definition plugin_valid :: "('p, 'd, 't, 'n) pmi \<Rightarrow> bool" where
  "plugin_valid s \<longleftrightarrow> (\<forall>i. distinct (nl_list (notif_get i s)))"

interpretation plugin: remote_plugin "plugin_ipm en ck n" "plugin_subscribed n" plugin_valid for en ck n
  by unfold_locales
     (auto simp: plugin_ipm_def plugin_subscribed_def plugin_valid_def PMI_RegisterNotification_def
        PMI_UnregisterNotification_def PMI_Register_def PMI_Unregister_def notif_put_get Let_def split_beta)

section \<open>Runs of the library\<close>

text \<open>
  Everything that can happen to the library object: calls of the application, calls of the
  framework, changes of Thunder's process id, and changes on the plugin's side that leave this
  library's subscriptions alone (other clients, and a restart of the plugin while the library
  is not connected to it).
\<close>

inductive client_reach ::
  "'r ipm \<Rightarrow> (notif_kind \<Rightarrow> 'r \<Rightarrow> bool) \<Rightarrow> ('r \<Rightarrow> bool) \<Rightarrow> ('c, 'u, 'r) client \<Rightarrow> bool" for rm sub valid where
  new: "valid r \<Longrightarrow> (\<And>i. \<not> sub i r) \<Longrightarrow> client_reach rm sub valid (fst (PCL_new rm en r))"
| register: "client_reach rm sub valid s \<Longrightarrow> client_reach rm sub valid (snd (RegisterCallbackInternal rm k c u s))"
| unregister: "client_reach rm sub valid s \<Longrightarrow> client_reach rm sub valid (snd (UnRegisterCallback rm k c s))"
| operational: "client_reach rm sub valid s \<Longrightarrow> client_reach rm sub valid (fst (Operational rm iface up s))"
| connect: "client_reach rm sub valid s \<Longrightarrow> client_reach rm sub valid (fst (snd (PCL_Connect rm en s)))"
| disconnect: "client_reach rm sub valid s \<Longrightarrow> client_reach rm sub valid (fst (snd (PCL_Disconnect rm en b s)))"
| pid: "client_reach rm sub valid s \<Longrightarrow> client_reach rm sub valid (fst (pidChangedCb rm en pid s))"
| remote: "client_reach rm sub valid s \<Longrightarrow> valid r \<Longrightarrow> (\<And>i. sub i r = sub i (pcl_remote s)) \<Longrightarrow>
    client_reach rm sub valid (s\<lparr>pcl_remote := r\<rparr>)"

context remote_plugin begin

lemma reach_subs: "client_reach rm subscribed valid s \<Longrightarrow> subs_inv s"
proof (induction rule: client_reach.induct)
  case (new r en)
  then show ?case by (rule subs_inv_new)
next
  case (register s k c u)
  then show ?case by (cases c) (simp_all add: RegisterCallbackInternal_def subs_inv_Add)
next
  case (unregister s k c)
  then show ?case by (cases c) (simp_all add: UnRegisterCallback_def subs_inv_Remove)
next
  case (operational s iface up)
  then show ?case by (simp add: subs_inv_Operational)
next
  case (connect s en)
  then show ?case by (simp add: subs_inv_Connect)
next
  case (disconnect s en b)
  then show ?case by (simp add: subs_inv_Disconnect)
next
  case (pid s en p)
  then show ?case by (simp add: subs_inv_pidChanged)
next
  case (remote s r)
  then show ?case by (simp add: subs_inv_remote)
qed

end

text \<open>
  C24. Through any history of registrations, connections, losses of the connection and restarts of
  the plugin, both sides agree: the library's flag says that it is registered, and its
  notification object is in the plugin's list, and then exactly once, exactly while the
  library has the plugin's interface and some callback waits for that event. No event that a
  callback waits for is missed, and none is subscribed to in vain.
\<close>

theorem subscriptions_follow_callbacks:
  assumes "client_reach (plugin_ipm en ck n) (plugin_subscribed n) plugin_valid s" and "cb_interface k = Some i"
  shows "count_list (nl_list (notif_get i (pcl_remote s))) n = (if pcl_iface s \<and> cb_entries k s \<noteq> [] then 1 else 0) \<and>
    (cbl_registered (pcl_lists s k) \<longleftrightarrow> pcl_iface s \<and> cb_entries k s \<noteq> [])"
proof -
  have "plugin.subs_ok n k s" using plugin.reach_subs [OF assms(1)] by (simp add: plugin.subs_inv_def)
  with assms(2) have "cbl_registered (pcl_lists s k) \<longleftrightarrow> pcl_iface s \<and> cb_entries k s \<noteq> []"
    and "distinct (nl_list (notif_get i (pcl_remote s)))"
    and "n \<in> set (nl_list (notif_get i (pcl_remote s))) \<longleftrightarrow> pcl_iface s \<and> cb_entries k s \<noteq> []"
    by (auto simp: plugin.subs_ok_def plugin_valid_def plugin_subscribed_def)
  moreover have "distinct ns \<Longrightarrow> count_list ns n = (if n \<in> set ns then 1 else 0)" for ns
    by (induction ns) auto
  ultimately show ?thesis by simp
qed

definition demo_sys :: sys_env where
  "demo_sys = \<lparr>se_fs = no_files, se_eventfd = True, se_garbage = False, se_open = Some ERROR_NONE,
     se_openCalls = [(True, True)], se_close = ERROR_NONE, se_closeCalls = [(False, False)]\<rparr>"

lemma subscriptions_follow_callbacks_witness:
  "\<exists>s :: (nat, nat, (PowerState, nat, unit, nat) pmi) client. pcl_iface s \<and> cb_entries PowerModeChangedCb s \<noteq> [] \<and>
     count_list (nl_list (notif_get IModeChangedNotification (pcl_remote s))) 5 = 1"
proof -
  let ?rm = "plugin_ipm demo_pm_env demo_clock (5 :: nat)"
  define s0 :: "(nat, nat, (PowerState, nat, unit, nat) pmi) client" where "s0 = fst (PCL_new ?rm demo_sys demo_pmi)"
  define s1 where "s1 = fst (Operational ?rm True True s0)"
  define s2 where "s2 = snd (RegisterCallbackInternal ?rm PowerModeChangedCb (Some 7) 0 s1)"
  have "notif_get i demo_pmi = notif_list_new" for i
    by (cases i) (simp_all add: demo_pmi_def PMI_new_def)
  then have "plugin_valid demo_pmi" "\<And>i. \<not> plugin_subscribed 5 i demo_pmi"
    by (simp_all add: plugin_valid_def plugin_subscribed_def notif_list_new_def)
  then have "client_reach ?rm (plugin_subscribed 5) plugin_valid s2"
    unfolding s2_def s1_def s0_def by (intro client_reach.register client_reach.operational client_reach.new)
  moreover have "pcl_iface s1" by (cases "pcl_iface s0") (simp_all add: s1_def Operational_def Let_def SubscribeAllNotificationsLocked_def plugin_kinds_def)
  then have "pcl_iface s2"
    by (simp add: s2_def RegisterCallbackInternal_def AddCallbackLocked_def)
  moreover have "cb_entries PowerModeChangedCb s2 \<noteq> []"
    by (auto simp: s2_def RegisterCallbackInternal_def Add_entries)
  ultimately show ?thesis
    using subscriptions_follow_callbacks [of demo_pm_env demo_clock 5 s2 PowerModeChangedCb IModeChangedNotification]
    by (intro exI [of _ s2]) simp
qed

end
