(* ===== verification/ClientApi.thy ===== *)
theory ClientApi
  imports ClientSubscriptions
begin

text \<open>
  The C interface of the client library, the functions \<^verbatim>\<open>PowerController_*\<close> at the end of
  \<^verbatim>\<open>powercontroller/power_controller.cpp\<close> and the static part of the class behind them: the
  one instance, created on first use, and the flag that only \<^verbatim>\<open>Init\<close> and \<^verbatim>\<open>Term\<close>
  change. While there is no instance the state of the plugin is in \<open>lb_remote\<close>.
\<close>

section \<open>The instance\<close>

record ('c, 'u, 'r) lib =
  lb_instance :: "('c, 'u, 'r) client option"
  lb_initialized :: bool
  lb_remote :: 'r

text \<open>A new object has no callbacks, and one being deleted calls none, so nothing is called here.\<close>

definition PowerController_static_Init :: "'r ipm \<Rightarrow> sys_env \<Rightarrow> ('c, 'u, 'r) lib \<Rightarrow> ('c, 'u, 'r) lib" where
  "PowerController_static_Init rm en L =
     (case lb_instance L of
        None \<Rightarrow> L\<lparr>lb_instance := Some (fst (PCL_new rm en (lb_remote L)))\<rparr>
      | Some s \<Rightarrow> L)"

definition PowerController_static_Term :: "'r ipm \<Rightarrow> sys_env \<Rightarrow> ('c, 'u, 'r) lib \<Rightarrow> ('c, 'u, 'r) lib" where
  "PowerController_static_Term rm en L =
     (case lb_instance L of
        None \<Rightarrow> L
      | Some s \<Rightarrow> L\<lparr>lb_instance := None, lb_remote := pcl_remote (fst (PCL_delete rm en s))\<rparr>)"

definition PowerController_Instance :: "'r ipm \<Rightarrow> sys_env \<Rightarrow> ('c, 'u, 'r) lib \<Rightarrow> ('c, 'u, 'r) lib" where
  "PowerController_Instance rm en L =
     (if lb_instance L = None then PowerController_static_Init rm en L else L)"

text \<open>A function that works on the instance, \<open>unavailable\<close> being its result if there were none.\<close>

definition on_instance ::
  "'r ipm \<Rightarrow> sys_env \<Rightarrow> 'a \<Rightarrow> (('c, 'u, 'r) client \<Rightarrow> 'a \<times> ('c, 'u, 'r) client) \<Rightarrow> ('c, 'u, 'r) lib \<Rightarrow> 'a \<times> ('c, 'u, 'r) lib" where
  "on_instance rm en unavailable f L =
     (let L1 = PowerController_Instance rm en L
      in case lb_instance L1 of
           None \<Rightarrow> (unavailable, L1)
         | Some s \<Rightarrow> (let (result, s1) = f s in (result, L1\<lparr>lb_instance := Some s1\<rparr>)))"

section \<open>The C functions\<close>

definition PowerController_Init :: "'r ipm \<Rightarrow> sys_env \<Rightarrow> ('c, 'u, 'r) lib \<Rightarrow> ('c, 'u, 'r) lib" where
  "PowerController_Init rm en L = (PowerController_static_Init rm en L)\<lparr>lb_initialized := True\<rparr>"

definition PowerController_Term :: "'r ipm \<Rightarrow> sys_env \<Rightarrow> ('c, 'u, 'r) lib \<Rightarrow> ('c, 'u, 'r) lib" where
  "PowerController_Term rm en L = (PowerController_static_Term rm en L)\<lparr>lb_initialized := False\<rparr>"

definition PowerController_Connect ::
  "'r ipm \<Rightarrow> sys_env \<Rightarrow> ('c, 'u, 'r) lib \<Rightarrow> (hresult \<times> ('c, 'u) cb_call list) \<times> ('c, 'u, 'r) lib" where
  "PowerController_Connect rm en =
     on_instance rm en (ERROR_UNAVAILABLE, []) (\<lambda>s. let (e, s1, outs) = PCL_Connect rm en s in ((e, outs), s1))"

definition PowerController_Disconnect ::
  "'r ipm \<Rightarrow> sys_env \<Rightarrow> ('c, 'u, 'r) lib \<Rightarrow> (hresult \<times> ('c, 'u) cb_call list) \<times> ('c, 'u, 'r) lib" where
  "PowerController_Disconnect rm en L =
     (if \<not> lb_initialized L then ((ERROR_NONE, []), L)
      else on_instance rm en (ERROR_UNAVAILABLE, [])
             (\<lambda>s. let (e, s1, outs) = PCL_Disconnect rm en False s in ((e, outs), s1)) L)"

text \<open>\<open>operational\<close> is what \<^verbatim>\<open>SmartInterfaceType::IsOperational\<close> answers.\<close>

definition PowerController_IsOperational ::
  "'r ipm \<Rightarrow> sys_env \<Rightarrow> bool \<Rightarrow> ('c, 'u, 'r) lib \<Rightarrow> bool \<times> ('c, 'u, 'r) lib" where
  "PowerController_IsOperational rm en operational L =
     (if \<not> lb_initialized L then (False, L) else on_instance rm en False (\<lambda>s. (operational, s)) L)"

text \<open>Functions with outputs: the values stored through the pointers, which are valid.\<close>

definition PowerController_GetPowerState ::
  "'r ipm \<Rightarrow> sys_env \<Rightarrow> ('c, 'u, 'r) lib \<Rightarrow> (hresult \<times> (int \<times> int) option) \<times> ('c, 'u, 'r) lib" where
  "PowerController_GetPowerState rm en =
     on_instance rm en (ERROR_UNAVAILABLE, None) (\<lambda>s. (PCL_GetPowerState rm s, s))"

definition PowerController_GetThermalState ::
  "'r ipm \<Rightarrow> sys_env \<Rightarrow> cfloat option \<Rightarrow> ('c, 'u, 'r) lib \<Rightarrow> (hresult \<times> cfloat option) \<times> ('c, 'u, 'r) lib" where
  "PowerController_GetThermalState rm en p =
     on_instance rm en (ERROR_UNAVAILABLE, p) (\<lambda>s. (PCL_GetThermalState rm p s, s))"

definition PowerController_GetOvertempGraceInterval ::
  "'r ipm \<Rightarrow> sys_env \<Rightarrow> int option \<Rightarrow> ('c, 'u, 'r) lib \<Rightarrow> (hresult \<times> int option) \<times> ('c, 'u, 'r) lib" where
  "PowerController_GetOvertempGraceInterval rm en p =
     on_instance rm en (ERROR_UNAVAILABLE, p) (\<lambda>s. (PCL_GetOvertempGraceInterval rm p s, s))"

definition PowerController_GetLastWakeupReason ::
  "'r ipm \<Rightarrow> sys_env \<Rightarrow> int option \<Rightarrow> ('c, 'u, 'r) lib \<Rightarrow> (hresult \<times> int option) \<times> ('c, 'u, 'r) lib" where
  "PowerController_GetLastWakeupReason rm en p =
     on_instance rm en (ERROR_UNAVAILABLE, p) (\<lambda>s. (PCL_GetLastWakeupReason rm p s, s))"

definition PowerController_GetLastWakeupKeyCode ::
  "'r ipm \<Rightarrow> sys_env \<Rightarrow> int option \<Rightarrow> ('c, 'u, 'r) lib \<Rightarrow> (hresult \<times> int option) \<times> ('c, 'u, 'r) lib" where
  "PowerController_GetLastWakeupKeyCode rm en p =
     on_instance rm en (ERROR_UNAVAILABLE, p) (\<lambda>s. (PCL_GetLastWakeupKeyCode rm p s, s))"

definition PowerController_GetNetworkStandbyMode ::
  "'r ipm \<Rightarrow> sys_env \<Rightarrow> bool option \<Rightarrow> ('c, 'u, 'r) lib \<Rightarrow> (hresult \<times> bool option) \<times> ('c, 'u, 'r) lib" where
  "PowerController_GetNetworkStandbyMode rm en p =
     on_instance rm en (ERROR_UNAVAILABLE, p) (\<lambda>s. (PCL_GetNetworkStandbyMode rm p s, s))"

definition PowerController_GetPowerStateBeforeReboot ::
  "'r ipm \<Rightarrow> sys_env \<Rightarrow> int option \<Rightarrow> ('c, 'u, 'r) lib \<Rightarrow> (hresult \<times> int option) \<times> ('c, 'u, 'r) lib" where
  "PowerController_GetPowerStateBeforeReboot rm en p =
     on_instance rm en (ERROR_UNAVAILABLE, p) (\<lambda>s. (PCL_GetPowerStateBeforeReboot rm p s, s))"

definition PowerController_GetTemperatureThresholds ::
  "'r ipm \<Rightarrow> sys_env \<Rightarrow> cfloat option \<Rightarrow> cfloat option \<Rightarrow> ('c, 'u, 'r) lib \<Rightarrow> (hresult \<times> cfloat option \<times> cfloat option) \<times> ('c, 'u, 'r) lib" where
  "PowerController_GetTemperatureThresholds rm en high critical =
     on_instance rm en (ERROR_UNAVAILABLE, high, critical) (\<lambda>s. (PCL_GetTemperatureThresholds rm high critical s, s))"

text \<open>Functions that change the plugin; \<open>None\<close> is the undefined behaviour of a null reason.\<close>

definition PowerController_SetPowerState ::
  "'r ipm \<Rightarrow> sys_env \<Rightarrow> int \<Rightarrow> int \<Rightarrow> string option \<Rightarrow> ('c, 'u, 'r) lib \<Rightarrow> hresult option \<times> ('c, 'u, 'r) lib" where
  "PowerController_SetPowerState rm en keyCode powerstate reason =
     on_instance rm en (Some ERROR_UNAVAILABLE)
       (\<lambda>s. case PCL_SetPowerState rm keyCode powerstate reason s of
              None \<Rightarrow> (None, s) | Some (e, s1) \<Rightarrow> (Some e, s1))"

definition PowerController_SetTemperatureThresholds ::
  "'r ipm \<Rightarrow> sys_env \<Rightarrow> cfloat \<Rightarrow> cfloat \<Rightarrow> ('c, 'u, 'r) lib \<Rightarrow> hresult \<times> ('c, 'u, 'r) lib" where
  "PowerController_SetTemperatureThresholds rm en high critical = on_instance rm en ERROR_UNAVAILABLE (PCL_SetTemperatureThresholds rm high critical)"

definition PowerController_SetOvertempGraceInterval ::
  "'r ipm \<Rightarrow> sys_env \<Rightarrow> int \<Rightarrow> ('c, 'u, 'r) lib \<Rightarrow> hresult \<times> ('c, 'u, 'r) lib" where
  "PowerController_SetOvertempGraceInterval rm en graceInterval = on_instance rm en ERROR_UNAVAILABLE (PCL_SetOvertempGraceInterval rm graceInterval)"

definition PowerController_SetDeepSleepTimer ::
  "'r ipm \<Rightarrow> sys_env \<Rightarrow> int \<Rightarrow> ('c, 'u, 'r) lib \<Rightarrow> hresult \<times> ('c, 'u, 'r) lib" where
  "PowerController_SetDeepSleepTimer rm en timeOut = on_instance rm en ERROR_UNAVAILABLE (PCL_SetDeepSleepTimer rm timeOut)"

definition PowerController_Reboot ::
  "'r ipm \<Rightarrow> sys_env \<Rightarrow> string option \<Rightarrow> string option \<Rightarrow> string option \<Rightarrow> ('c, 'u, 'r) lib \<Rightarrow> hresult \<times> ('c, 'u, 'r) lib" where
  "PowerController_Reboot rm en rebootRequestor rebootReasonCustom rebootReasonOther = on_instance rm en ERROR_UNAVAILABLE (PCL_Reboot rm rebootRequestor rebootReasonCustom rebootReasonOther)"

definition PowerController_SetNetworkStandbyMode ::
  "'r ipm \<Rightarrow> sys_env \<Rightarrow> bool \<Rightarrow> ('c, 'u, 'r) lib \<Rightarrow> hresult \<times> ('c, 'u, 'r) lib" where
  "PowerController_SetNetworkStandbyMode rm en standbyMode = on_instance rm en ERROR_UNAVAILABLE (PCL_SetNetworkStandbyMode rm standbyMode)"

definition PowerController_RemovePowerModePreChangeClient ::
  "'r ipm \<Rightarrow> sys_env \<Rightarrow> u32 \<Rightarrow> ('c, 'u, 'r) lib \<Rightarrow> hresult \<times> ('c, 'u, 'r) lib" where
  "PowerController_RemovePowerModePreChangeClient rm en clientId = on_instance rm en ERROR_UNAVAILABLE (PCL_RemovePowerModePreChangeClient rm clientId)"

definition PowerController_DelayPowerModeChangeBy ::
  "'r ipm \<Rightarrow> sys_env \<Rightarrow> u32 \<Rightarrow> int \<Rightarrow> int \<Rightarrow> ('c, 'u, 'r) lib \<Rightarrow> hresult \<times> ('c, 'u, 'r) lib" where
  "PowerController_DelayPowerModeChangeBy rm en clientId transactionId delayPeriod = on_instance rm en ERROR_UNAVAILABLE (PCL_DelayPowerModeChangeBy rm clientId transactionId delayPeriod)"

definition PowerController_PowerModePreChangeComplete ::
  "'r ipm \<Rightarrow> sys_env \<Rightarrow> u32 \<Rightarrow> int \<Rightarrow> ('c, 'u, 'r) lib \<Rightarrow> hresult \<times> ('c, 'u, 'r) lib" where
  "PowerController_PowerModePreChangeComplete rm en clientId transactionId = on_instance rm en ERROR_UNAVAILABLE (PCL_PowerModePreChangeComplete rm clientId transactionId)"

definition PowerController_AddPowerModePreChangeClient ::
  "'r ipm \<Rightarrow> sys_env \<Rightarrow> string \<Rightarrow> u32 \<Rightarrow> ('c, 'u, 'r) lib \<Rightarrow> (hresult \<times> u32) \<times> ('c, 'u, 'r) lib" where
  "PowerController_AddPowerModePreChangeClient rm en clientName clientId =
     on_instance rm en (ERROR_UNAVAILABLE, clientId)
       (\<lambda>s. let (e, i, s1) = PCL_AddPowerModePreChangeClient rm clientName clientId s in ((e, i), s1))"

text \<open>What the seven pairs for callbacks share; they differ in the method they call.\<close>

definition PowerController_RegisterCallback ::
  "'r ipm \<Rightarrow> sys_env \<Rightarrow> cb_kind \<Rightarrow> 'c option \<Rightarrow> 'u \<Rightarrow> ('c, 'u, 'r) lib \<Rightarrow> hresult \<times> ('c, 'u, 'r) lib" where
  "PowerController_RegisterCallback rm en k callback userdata =
     on_instance rm en ERROR_UNAVAILABLE (RegisterCallbackInternal rm k callback userdata)"

definition PowerController_UnRegisterCallback ::
  "'r ipm \<Rightarrow> sys_env \<Rightarrow> cb_kind \<Rightarrow> 'c option \<Rightarrow> ('c, 'u, 'r) lib \<Rightarrow> hresult \<times> ('c, 'u, 'r) lib" where
  "PowerController_UnRegisterCallback rm en k callback L =
     (if \<not> lb_initialized L then (ERROR_NONE, L)
      else on_instance rm en ERROR_UNAVAILABLE (UnRegisterCallback rm k callback) L)"

text \<open>The fourteen functions, in the order of the source.\<close>

definition PowerController_RegisterOperationalStateChangeCallback ::
  "'r ipm \<Rightarrow> sys_env \<Rightarrow> 'c option \<Rightarrow> 'u \<Rightarrow> ('c, 'u, 'r) lib \<Rightarrow> hresult \<times> ('c, 'u, 'r) lib" where
  "PowerController_RegisterOperationalStateChangeCallback rm en callback userdata =
     on_instance rm en ERROR_UNAVAILABLE (PCL_RegisterOperationalStateChangedCallback rm callback userdata)"

definition PowerController_UnRegisterOperationalStateChangeCallback ::
  "'r ipm \<Rightarrow> sys_env \<Rightarrow> 'c option \<Rightarrow> ('c, 'u, 'r) lib \<Rightarrow> hresult \<times> ('c, 'u, 'r) lib" where
  "PowerController_UnRegisterOperationalStateChangeCallback rm en callback L =
     (if \<not> lb_initialized L then (ERROR_NONE, L)
      else on_instance rm en ERROR_UNAVAILABLE (PCL_UnRegisterOperationalStateChangedCallback rm callback) L)"

definition PowerController_RegisterPowerModeChangedCallback ::
  "'r ipm \<Rightarrow> sys_env \<Rightarrow> 'c option \<Rightarrow> 'u \<Rightarrow> ('c, 'u, 'r) lib \<Rightarrow> hresult \<times> ('c, 'u, 'r) lib" where
  "PowerController_RegisterPowerModeChangedCallback rm en callback userdata =
     on_instance rm en ERROR_UNAVAILABLE (PCL_RegisterPowerModeChangedCallback rm callback userdata)"

definition PowerController_UnRegisterPowerModeChangedCallback ::
  "'r ipm \<Rightarrow> sys_env \<Rightarrow> 'c option \<Rightarrow> ('c, 'u, 'r) lib \<Rightarrow> hresult \<times> ('c, 'u, 'r) lib" where
  "PowerController_UnRegisterPowerModeChangedCallback rm en callback L =
     (if \<not> lb_initialized L then (ERROR_NONE, L)
      else on_instance rm en ERROR_UNAVAILABLE (PCL_UnRegisterPowerModeChangedCallback rm callback) L)"

definition PowerController_RegisterPowerModePreChangeCallback ::
  "'r ipm \<Rightarrow> sys_env \<Rightarrow> 'c option \<Rightarrow> 'u \<Rightarrow> ('c, 'u, 'r) lib \<Rightarrow> hresult \<times> ('c, 'u, 'r) lib" where
  "PowerController_RegisterPowerModePreChangeCallback rm en callback userdata =
     on_instance rm en ERROR_UNAVAILABLE (PCL_RegisterPowerModePreChangeCallback rm callback userdata)"

definition PowerController_UnRegisterPowerModePreChangeCallback ::
  "'r ipm \<Rightarrow> sys_env \<Rightarrow> 'c option \<Rightarrow> ('c, 'u, 'r) lib \<Rightarrow> hresult \<times> ('c, 'u, 'r) lib" where
  "PowerController_UnRegisterPowerModePreChangeCallback rm en callback L =
     (if \<not> lb_initialized L then (ERROR_NONE, L)
      else on_instance rm en ERROR_UNAVAILABLE (PCL_UnRegisterPowerModePreChangeCallback rm callback) L)"

definition PowerController_RegisterDeepSleepTimeoutCallback ::
  "'r ipm \<Rightarrow> sys_env \<Rightarrow> 'c option \<Rightarrow> 'u \<Rightarrow> ('c, 'u, 'r) lib \<Rightarrow> hresult \<times> ('c, 'u, 'r) lib" where
  "PowerController_RegisterDeepSleepTimeoutCallback rm en callback userdata =
     on_instance rm en ERROR_UNAVAILABLE (PCL_RegisterDeepSleepTimeoutCallback rm callback userdata)"

definition PowerController_UnRegisterDeepSleepTimeoutCallback ::
  "'r ipm \<Rightarrow> sys_env \<Rightarrow> 'c option \<Rightarrow> ('c, 'u, 'r) lib \<Rightarrow> hresult \<times> ('c, 'u, 'r) lib" where
  "PowerController_UnRegisterDeepSleepTimeoutCallback rm en callback L =
     (if \<not> lb_initialized L then (ERROR_NONE, L)
      else on_instance rm en ERROR_UNAVAILABLE (PCL_UnRegisterDeepSleepTimeoutCallback rm callback) L)"

definition PowerController_RegisterNetworkStandbyModeChangedCallback ::
  "'r ipm \<Rightarrow> sys_env \<Rightarrow> 'c option \<Rightarrow> 'u \<Rightarrow> ('c, 'u, 'r) lib \<Rightarrow> hresult \<times> ('c, 'u, 'r) lib" where
  "PowerController_RegisterNetworkStandbyModeChangedCallback rm en callback userdata =
     on_instance rm en ERROR_UNAVAILABLE (PCL_RegisterNetworkStandbyModeChangedCallback rm callback userdata)"

definition PowerController_UnRegisterNetworkStandbyModeChangedCallback ::
  "'r ipm \<Rightarrow> sys_env \<Rightarrow> 'c option \<Rightarrow> ('c, 'u, 'r) lib \<Rightarrow> hresult \<times> ('c, 'u, 'r) lib" where
  "PowerController_UnRegisterNetworkStandbyModeChangedCallback rm en callback L =
     (if \<not> lb_initialized L then (ERROR_NONE, L)
      else on_instance rm en ERROR_UNAVAILABLE (PCL_UnRegisterNetworkStandbyModeChangedCallback rm callback) L)"

definition PowerController_RegisterThermalModeChangedCallback ::
  "'r ipm \<Rightarrow> sys_env \<Rightarrow> 'c option \<Rightarrow> 'u \<Rightarrow> ('c, 'u, 'r) lib \<Rightarrow> hresult \<times> ('c, 'u, 'r) lib" where
  "PowerController_RegisterThermalModeChangedCallback rm en callback userdata =
     on_instance rm en ERROR_UNAVAILABLE (PCL_RegisterThermalModeChangedCallback rm callback userdata)"

definition PowerController_UnRegisterThermalModeChangedCallback ::
  "'r ipm \<Rightarrow> sys_env \<Rightarrow> 'c option \<Rightarrow> ('c, 'u, 'r) lib \<Rightarrow> hresult \<times> ('c, 'u, 'r) lib" where
  "PowerController_UnRegisterThermalModeChangedCallback rm en callback L =
     (if \<not> lb_initialized L then (ERROR_NONE, L)
      else on_instance rm en ERROR_UNAVAILABLE (PCL_UnRegisterThermalModeChangedCallback rm callback) L)"

definition PowerController_RegisterRebootBeginCallback ::
  "'r ipm \<Rightarrow> sys_env \<Rightarrow> 'c option \<Rightarrow> 'u \<Rightarrow> ('c, 'u, 'r) lib \<Rightarrow> hresult \<times> ('c, 'u, 'r) lib" where
  "PowerController_RegisterRebootBeginCallback rm en callback userdata =
     on_instance rm en ERROR_UNAVAILABLE (PCL_RegisterRebootBeginCallback rm callback userdata)"

definition PowerController_UnRegisterRebootBeginCallback ::
  "'r ipm \<Rightarrow> sys_env \<Rightarrow> 'c option \<Rightarrow> ('c, 'u, 'r) lib \<Rightarrow> hresult \<times> ('c, 'u, 'r) lib" where
  "PowerController_UnRegisterRebootBeginCallback rm en callback L =
     (if \<not> lb_initialized L then (ERROR_NONE, L)
      else on_instance rm en ERROR_UNAVAILABLE (PCL_UnRegisterRebootBeginCallback rm callback) L)"

lemmas callback_api_defs =
  PowerController_RegisterOperationalStateChangeCallback_def
  PCL_RegisterOperationalStateChangedCallback_def
  PowerController_UnRegisterOperationalStateChangeCallback_def
  PCL_UnRegisterOperationalStateChangedCallback_def PowerController_RegisterPowerModeChangedCallback_def
  PCL_RegisterPowerModeChangedCallback_def PowerController_UnRegisterPowerModeChangedCallback_def
  PCL_UnRegisterPowerModeChangedCallback_def PowerController_RegisterPowerModePreChangeCallback_def
  PCL_RegisterPowerModePreChangeCallback_def PowerController_UnRegisterPowerModePreChangeCallback_def
  PCL_UnRegisterPowerModePreChangeCallback_def PowerController_RegisterDeepSleepTimeoutCallback_def
  PCL_RegisterDeepSleepTimeoutCallback_def PowerController_UnRegisterDeepSleepTimeoutCallback_def
  PCL_UnRegisterDeepSleepTimeoutCallback_def PowerController_RegisterNetworkStandbyModeChangedCallback_def
  PCL_RegisterNetworkStandbyModeChangedCallback_def
  PowerController_UnRegisterNetworkStandbyModeChangedCallback_def
  PCL_UnRegisterNetworkStandbyModeChangedCallback_def
  PowerController_RegisterThermalModeChangedCallback_def PCL_RegisterThermalModeChangedCallback_def
  PowerController_UnRegisterThermalModeChangedCallback_def PCL_UnRegisterThermalModeChangedCallback_def
  PowerController_RegisterRebootBeginCallback_def PCL_RegisterRebootBeginCallback_def
  PowerController_UnRegisterRebootBeginCallback_def PCL_UnRegisterRebootBeginCallback_def
  PowerController_RegisterCallback_def PowerController_UnRegisterCallback_def

text \<open>Each is the shared function at its list.\<close>

lemma callback_functions:
  "PowerController_RegisterOperationalStateChangeCallback rm en = PowerController_RegisterCallback rm en OperationalStateChangeCb"
  "PowerController_UnRegisterOperationalStateChangeCallback rm en = PowerController_UnRegisterCallback rm en OperationalStateChangeCb"
  "PowerController_RegisterPowerModeChangedCallback rm en = PowerController_RegisterCallback rm en PowerModeChangedCb"
  "PowerController_UnRegisterPowerModeChangedCallback rm en = PowerController_UnRegisterCallback rm en PowerModeChangedCb"
  "PowerController_RegisterPowerModePreChangeCallback rm en = PowerController_RegisterCallback rm en PowerModePreChangedCb"
  "PowerController_UnRegisterPowerModePreChangeCallback rm en = PowerController_UnRegisterCallback rm en PowerModePreChangedCb"
  "PowerController_RegisterDeepSleepTimeoutCallback rm en = PowerController_RegisterCallback rm en DeepSleepTimeoutCb"
  "PowerController_UnRegisterDeepSleepTimeoutCallback rm en = PowerController_UnRegisterCallback rm en DeepSleepTimeoutCb"
  "PowerController_RegisterNetworkStandbyModeChangedCallback rm en = PowerController_RegisterCallback rm en NetworkStandbyModeChangedCb"
  "PowerController_UnRegisterNetworkStandbyModeChangedCallback rm en = PowerController_UnRegisterCallback rm en NetworkStandbyModeChangedCb"
  "PowerController_RegisterThermalModeChangedCallback rm en = PowerController_RegisterCallback rm en ThermalModeChangedCb"
  "PowerController_UnRegisterThermalModeChangedCallback rm en = PowerController_UnRegisterCallback rm en ThermalModeChangedCb"
  "PowerController_RegisterRebootBeginCallback rm en = PowerController_RegisterCallback rm en RebootBeginCb"
  "PowerController_UnRegisterRebootBeginCallback rm en = PowerController_UnRegisterCallback rm en RebootBeginCb"
  by (simp_all add: callback_api_defs fun_eq_iff)

section \<open>Use after termination\<close>

lemma Instance_exists: "\<exists>s. lb_instance (PowerController_Instance rm en L) = Some s"
  by (cases "lb_instance L") (simp_all add: PowerController_Instance_def PowerController_static_Init_def)

lemma Instance_initialized [simp]: "lb_initialized (PowerController_Instance rm en L) = lb_initialized L"
  by (simp add: PowerController_Instance_def PowerController_static_Init_def split: option.splits)

text \<open>
  After termination the library creates its instance again on the next call but does not
  count as initialised: a callback registered then is really registered, and its
  unregistration is answered with success although the callback stays in the list and will be
  called; so is a disconnection that does not happen.
\<close>

lemma unregister_after_reinit_is_lost:
  "let (e, L1) = PowerController_RegisterCallback rm en k (Some c) u (PowerController_Term rm en2 L);
       (e2, L2) = PowerController_UnRegisterCallback rm en3 k (Some c) L1;
       (r, L3) = PowerController_Disconnect rm en3 L2
   in e2 = ERROR_NONE \<and> r = (ERROR_NONE, []) \<and> L3 = L1 \<and>
      (\<exists>s. lb_instance L3 = Some s \<and> c \<in> fst ` set (cb_entries k s))"
proof -
  let ?T = "PowerController_Term rm en2 L"
  obtain s where s: "lb_instance (PowerController_Instance rm en ?T) = Some s" using Instance_exists by blast
  have i: "\<not> lb_initialized ?T" by (simp add: PowerController_Term_def)
  have "c \<in> fst ` set (cb_entries k (snd (AddCallbackLocked rm k c u s)))"
    by (auto simp: Add_entries image_iff)
  with s i show ?thesis
    by (simp add: PowerController_RegisterCallback_def PowerController_UnRegisterCallback_def
        PowerController_Disconnect_def on_instance_def RegisterCallbackInternal_def Let_def split_beta)
qed

text \<open>The key code of the last wake-up is always reported as unavailable, also when the plugin gives it.\<close>

lemma keycode_result_is_lost:
  "fst (PCL_GetLastWakeupKeyCode rm p s) \<noteq> ERROR_NONE"
  by (simp add: PCL_GetLastWakeupKeyCode_def split: option.splits)

end
