(* ===== verification/ClientSystem.thy ===== *)
theory ClientSystem
  imports ClientApi
begin

text \<open>
  The client library in front of the plugin: what a call of a C function does to the plugin behind
  the interface, and which callbacks an event of the plugin reaches. The remote interface is
  \<open>plugin_ipm\<close>, the model of \<^verbatim>\<open>PowerManagerImplementation\<close>; \<open>n\<close> is the library's
  notification object.
\<close>

section \<open>Delivery of events\<close>

text \<open>The calls among the plugin's outputs that go to \<open>n\<close>, as the callbacks they become.\<close>

fun deliver_out :: "'n \<Rightarrow> ('c, 'u, 'r) client \<Rightarrow> 'n pm_out \<Rightarrow> ('c, 'u) cb_call list" where
  "deliver_out n s (Notify (NotifCall m ev)) = (if m = n then Notification ev s else [])"
| "deliver_out n s (SubmitPreChange (NotifCall m ev)) = (if m = n then Notification ev s else [])"
| "deliver_out n s (SubmitReboot q c t) = []"

definition deliver :: "'n \<Rightarrow> ('c, 'u, 'r) client \<Rightarrow> 'n pm_out list \<Rightarrow> ('c, 'u) cb_call list" where
  "deliver n s outs = concat (map (deliver_out n s) outs)"

lemma deliver_once:
  assumes "distinct ns"
  shows "concat (map (\<lambda>m. if m = n then x else []) ns) = (if n \<in> set ns then x else [])"
  using assms by (induction ns) auto

lemma deliver_dispatch:
  assumes "distinct (nl_list l)"
  shows "deliver n s (map Notify (dispatchEvent ev l)) = (if n \<in> set (nl_list l) then Notification ev s else [])"
    "deliver n s (map SubmitPreChange (dispatchEvent ev l)) = (if n \<in> set (nl_list l) then Notification ev s else [])"
  using deliver_once [OF assms, of n "Notification ev s"]
  by (simp_all add: deliver_def dispatchEvent_def comp_def)

text \<open>A library object that has come about with this plugin is subscribed to what its callbacks wait for.\<close>

lemma reach_subscribed:
  assumes "client_reach (plugin_ipm en ck n) (plugin_subscribed n) plugin_valid s"
    and "pcl_iface s" "cb_entries k s \<noteq> []" "cb_interface k = Some i"
  shows "n \<in> set (nl_list (notif_get i (pcl_remote s)))" "distinct (nl_list (notif_get i (pcl_remote s)))"
proof -
  have "plugin.subs_ok n k s" using plugin.reach_subs [OF assms(1)] by (simp add: plugin.subs_inv_def)
  with assms(2-4) show "n \<in> set (nl_list (notif_get i (pcl_remote s)))" "distinct (nl_list (notif_get i (pcl_remote s)))"
    by (auto simp: plugin.subs_ok_def plugin_valid_def plugin_subscribed_def)
qed

section \<open>Calls\<close>

text \<open>The library with another state of the plugin.\<close>

definition with_remote :: "'r \<Rightarrow> ('c, 'u, 'r) client \<Rightarrow> ('c, 'u, 'r) lib \<Rightarrow> ('c, 'u, 'r) lib" where
  "with_remote r s L = L\<lparr>lb_instance := Some (s\<lparr>pcl_remote := r\<rparr>)\<rparr>"

lemma on_instance_some [simp]:
  "lb_instance L = Some s \<Longrightarrow>
   on_instance rm en x f L = (let (result, s1) = f s in (result, L\<lparr>lb_instance := Some s1\<rparr>))"
  by (simp add: on_instance_def PowerController_Instance_def Let_def)

lemma pcl_send_connected:
  "pcl_iface s \<Longrightarrow> pcl_send f s = (let (e, r) = f (pcl_remote s) in (e, s\<lparr>pcl_remote := r\<rparr>))"
  by (simp add: pcl_send_def)

lemma convert_unconvert [simp]: "unconvert_state (convert_state st) = st"
  by (cases st) (simp_all add: unconvert_state_def convert_state_def powerStateMap_def find_value_def)

lemmas client_call_defs =
  PowerController_SetPowerState_def PCL_SetPowerState_def
  PowerController_GetPowerState_def PCL_GetPowerState_def
  PowerController_PowerModePreChangeComplete_def PCL_PowerModePreChangeComplete_def
  PowerController_DelayPowerModeChangeBy_def PCL_DelayPowerModeChangeBy_def
  PowerController_AddPowerModePreChangeClient_def PCL_AddPowerModePreChangeClient_def
  PowerController_RemovePowerModePreChangeClient_def PCL_RemovePowerModePreChangeClient_def
  PowerController_SetNetworkStandbyMode_def PCL_SetNetworkStandbyMode_def
  PowerController_SetDeepSleepTimer_def PCL_SetDeepSleepTimer_def
  PowerController_SetTemperatureThresholds_def PCL_SetTemperatureThresholds_def
  PowerController_SetOvertempGraceInterval_def PCL_SetOvertempGraceInterval_def
  PowerController_GetLastWakeupReason_def PCL_GetLastWakeupReason_def
  PowerController_GetNetworkStandbyMode_def PCL_GetNetworkStandbyMode_def
  PowerController_GetPowerStateBeforeReboot_def PCL_GetPowerStateBeforeReboot_def

text \<open>
  With the interface, these eight C functions are transparent: each has the result and the effect
  of the plugin's own operation, the states converted, and changes nothing else of the library.
  Without it each reports that the plugin is unavailable and changes nothing at all.
\<close>

lemma client_calls_are_plugin_calls:
  fixes L :: "('c, 'u, ('p, 'd, 't, 'n) pmi) lib"
  assumes L: "lb_instance L = Some s"
  shows "let rm = plugin_ipm en ck n; r = pcl_remote s in if pcl_iface s
    then (\<forall>e r1 outs. PMI_SetPowerState en ck k st reason r = Some (e, r1, outs) \<longrightarrow>
            PowerController_SetPowerState rm sys k (convert_state st) (Some reason) L = (Some e, with_remote r1 s L)) \<and>
         (\<forall>e cur prev. PMI_GetPowerState r = (e, cur, prev) \<longrightarrow>
            PowerController_GetPowerState rm sys L =
              ((e, if e = ERROR_NONE then Some (convert_state cur, convert_state prev) else None), L)) \<and>
         (\<forall>e r1 outs. PMI_PowerModePreChangeComplete en ck i tid r = (e, r1, outs) \<longrightarrow>
            PowerController_PowerModePreChangeComplete rm sys i tid L = (e, with_remote r1 s L)) \<and>
         (\<forall>e r1. PMI_DelayPowerModeChangeBy ck i tid d r = (e, r1) \<longrightarrow>
            PowerController_DelayPowerModeChangeBy rm sys i tid d L = (e, with_remote r1 s L)) \<and>
         (\<forall>e j r1. PMI_AddPowerModePreChangeClient name i r = (e, j, r1) \<longrightarrow>
            PowerController_AddPowerModePreChangeClient rm sys name i L = ((e, j), with_remote r1 s L)) \<and>
         (\<forall>e r1 outs. PMI_RemovePowerModePreChangeClient en ck i r = (e, r1, outs) \<longrightarrow>
            PowerController_RemovePowerModePreChangeClient rm sys i L = (e, with_remote r1 s L)) \<and>
         (\<forall>e r1 outs. PMI_SetNetworkStandbyMode en b r = (e, r1, outs) \<longrightarrow>
            PowerController_SetNetworkStandbyMode rm sys b L = (e, with_remote r1 s L)) \<and>
         (\<forall>e r1. PMI_SetDeepSleepTimer en d r = (e, r1) \<longrightarrow>
            PowerController_SetDeepSleepTimer rm sys d L = (e, with_remote r1 s L))
    else PowerController_SetPowerState rm sys k (convert_state st) (Some reason) L = (Some ERROR_UNAVAILABLE, L) \<and>
         PowerController_GetPowerState rm sys L = ((ERROR_UNAVAILABLE, None), L) \<and>
         PowerController_PowerModePreChangeComplete rm sys i tid L = (ERROR_UNAVAILABLE, L) \<and>
         PowerController_DelayPowerModeChangeBy rm sys i tid d L = (ERROR_UNAVAILABLE, L) \<and>
         PowerController_AddPowerModePreChangeClient rm sys name i L = ((ERROR_UNAVAILABLE, i), L) \<and>
         PowerController_RemovePowerModePreChangeClient rm sys i L = (ERROR_UNAVAILABLE, L) \<and>
         PowerController_SetNetworkStandbyMode rm sys b L = (ERROR_UNAVAILABLE, L) \<and>
         PowerController_SetDeepSleepTimer rm sys d L = (ERROR_UNAVAILABLE, L)"
proof -
  have id: "L\<lparr>lb_instance := Some s\<rparr> = L" using L by (cases L) simp
  show ?thesis
    using L by (simp add: client_call_defs pcl_send_def plugin_ipm_def with_remote_def drop_outs_def
        split_beta Let_def id)
qed


text \<open>A library with a callback for each of the two events, connected to the small device.\<close>

definition demo_rm :: "(PowerState, nat, unit, nat) pmi ipm" where
  "demo_rm = plugin_ipm demo_pm_env demo_clock 5"

definition demo_client :: "(nat, nat, (PowerState, nat, unit, nat) pmi) client" where
  "demo_client =
     (let s0 = fst (Operational demo_rm True True (fst (PCL_new demo_rm demo_sys demo_pmi)));
          s1 = snd (RegisterCallbackInternal demo_rm PowerModePreChangedCb (Some 7) 70 s0);
          s2 = snd (RegisterCallbackInternal demo_rm PowerModeChangedCb (Some 8) 80 s1)
      in s2)"

lemma demo_client_reach: "client_reach demo_rm (plugin_subscribed 5) plugin_valid demo_client"
proof -
  have "notif_get i demo_pmi = notif_list_new" for i
    by (cases i) (simp_all add: demo_pmi_def PMI_new_def)
  then have "plugin_valid demo_pmi" "\<And>i. \<not> plugin_subscribed 5 i demo_pmi"
    by (simp_all add: plugin_valid_def plugin_subscribed_def notif_list_new_def)
  then show ?thesis
    unfolding demo_client_def Let_def
    by (intro client_reach.register client_reach.operational client_reach.new)
qed

lemma demo_client_entries:
  "pcl_iface demo_client" "cb_entries PowerModePreChangedCb demo_client = [(7, 70)]"
  "cb_entries PowerModeChangedCb demo_client = [(8, 80)]"
proof -
  let ?s0 = "fst (Operational demo_rm True True (fst (PCL_new demo_rm demo_sys demo_pmi)))
    :: (nat, nat, (PowerState, nat, unit, nat) pmi) client"
  have e: "cb_entries k (fst (PCL_new demo_rm demo_sys demo_pmi)) = []" for k by simp
  have e0: "cb_entries k ?s0 = []" for k
    by (cases "pcl_iface (fst (PCL_new demo_rm demo_sys demo_pmi) :: (nat, nat, (PowerState, nat, unit, nat) pmi) client)")
       (simp_all add: Operational_def Let_def SubscribeAllNotificationsLocked_def plugin_kinds_def)
  have "pcl_iface ?s0"
    by (cases "pcl_iface (fst (PCL_new demo_rm demo_sys demo_pmi) :: (nat, nat, (PowerState, nat, unit, nat) pmi) client)")
       (simp_all add: Operational_def Let_def SubscribeAllNotificationsLocked_def plugin_kinds_def)
  then show "pcl_iface demo_client"
    by (simp add: demo_client_def RegisterCallbackInternal_def AddCallbackLocked_def Let_def)
  show "cb_entries PowerModePreChangedCb demo_client = [(7, 70)]" "cb_entries PowerModeChangedCb demo_client = [(8, 80)]"
    using e0 by (simp_all add: demo_client_def RegisterCallbackInternal_def Add_entries Let_def)
qed


lemma client_calls_are_plugin_calls_witness:
  "\<exists>L :: (nat, nat, (PowerState, nat, unit, nat) pmi) lib.
     PowerController_GetPowerState demo_rm demo_sys L =
       ((ERROR_NONE, Some (convert_state (power_state (pcl_remote demo_client)),
          convert_state (snd (snd (PMI_GetPowerState (pcl_remote demo_client)))))), L)"
proof -
  let ?L = "\<lparr>lb_instance = Some demo_client, lb_initialized = True, lb_remote = pcl_remote demo_client\<rparr>"
  have "lb_instance ?L = Some demo_client" by simp
  from client_calls_are_plugin_calls [OF this, of demo_pm_env demo_clock 5 0 POWER_STATE_ON "[]" demo_sys 0 0 0 "[]" False]
  have "\<forall>e cur prev. PMI_GetPowerState (pcl_remote demo_client) = (e, cur, prev) \<longrightarrow>
      PowerController_GetPowerState demo_rm demo_sys ?L =
        ((e, if e = ERROR_NONE then Some (convert_state cur, convert_state prev) else None), ?L)"
    by (simp add: demo_client_entries demo_rm_def Let_def)
  then show ?thesis
    by (intro exI [of _ ?L]) (simp add: PMI_GetPowerState_def PWC_GetPowerState_def power_state_def split_beta Let_def)
qed

section \<open>A change of the power state, from the application to the device and back\<close>

text \<open>
  C10. An application that takes part in changes of the power state through the library: its
  request for another state returns success and reaches its pre-change callbacks, each once, with
  the transaction id; when it acknowledges with that id, the device is set once; its mode-changed
  callbacks are called, each once, with the old and the new state exactly when the device
  accepted; and the state it reads afterwards is the new one in that case, else the old one.
\<close>

theorem client_negotiates_power_change:
  fixes L :: "('c, 'u, ('p, 'd, 't, 'n) pmi) lib"
  assumes lib: "lb_instance L = Some s" "pcl_iface s"
    and client: "client_reach (plugin_ipm en ck n) (plugin_subscribed n) plugin_valid s"
    and callbacks: "cb_entries PowerModePreChangedCb s \<noteq> []" "cb_entries PowerModeChangedCb s \<noteq> []"
    and reach: "pm_reach en \<lparr>sy_pmi = pcl_remote s, sy_call = None\<rparr>"
    and fresh: "fresh_request en ck new (pcl_remote s)"
    and registered: "pmi_clients (pcl_remote s) = [(i, name)]" and timeout: "en_preChangeTimeout en * 1000 \<noteq> 0"
  shows "\<exists>tid r1 outs1 r2 outs2.
    (let old = power_state (pcl_remote s); L1 = with_remote r1 s L; L2 = with_remote r2 s L;
         ok = (fst (PWC_SetPowerState (en_power en) (en_val en) (ck_now ck1) k new reason (pmi_power (pcl_remote s))) = ERROR_NONE)
     in PMI_SetPowerState en ck k new reason (pcl_remote s) = Some (ERROR_NONE, r1, outs1) \<and>
        PowerController_SetPowerState (plugin_ipm en ck n) sys k (convert_state new) (Some reason) L = (Some ERROR_NONE, L1) \<and>
        deliver n s outs1 = map (\<lambda>(c, u). CallPreChange c (convert_state old) (convert_state new) tid
          (sint (en_preChangeTimeout en)) u) (cb_entries PowerModePreChangedCb s) \<and>
        PMI_PowerModePreChangeComplete en ck1 i tid r1 = (ERROR_NONE, r2, outs2) \<and>
        PowerController_PowerModePreChangeComplete (plugin_ipm en ck1 n) sys i tid L1 = (ERROR_NONE, L2) \<and>
        deliver n s outs2 = (if ok then map (\<lambda>(c, u). CallModeChanged c (convert_state old) (convert_state new) u)
          (cb_entries PowerModeChangedCb s) else []) \<and>
        (\<exists>prev. PowerController_GetPowerState (plugin_ipm en ck1 n) sys L2 =
           ((ERROR_NONE, Some (convert_state (if ok then new else old), prev)), L2)))"
proof -
  let ?r = "pcl_remote s" and ?tid = "pmi_nextTransactionId (pcl_remote s) + 1"
  let ?h = "request_handler k new reason ?r"
  have inv: "pm_inv \<lparr>sy_pmi = ?r, sy_call = None\<rparr>" by (rule pm_reach_inv [OF reach])
  have ne: "pmi_clients ?r \<noteq> []" using registered by simp
  obtain r1 where set: "PMI_SetPowerState en ck k new reason ?r = Some (ERROR_NONE, r1, map SubmitPreChange
      (dispatchEvent (OnPowerModePreChange (power_state ?r) new ?tid (sint (en_preChangeTimeout en))) (pmi_preChangeL ?r)))"
    and await: "awaiting ?h ?tid {i} r1" and frame: "pmi_power r1 = pmi_power ?r" "pmi_changedL r1 = pmi_changedL ?r"
    using request_starts [OF pm_inv_ok [OF inv] fresh ne timeout, of k reason] registered by auto
  obtain e r2 outs2 where ack: "PMI_PowerModePreChangeComplete en ck1 i ?tid r1 = (e, r2, outs2)" by (metis prod_cases3)
  obtain c where e: "e = ERROR_NONE" and handler: "completionHandler en ck1 ?h False False (r1\<lparr>pmi_mcc := Some c\<rparr>) = (r2, outs2)"
    using complete_last [OF await ack] by auto
  have sync: "\<not> isSyncStateChange (power_state ?r) new" using fresh by (simp add: fresh_request_def)
  let ?P = "PWC_SetPowerState (en_power en) (en_val en) (ck_now ck1) k new reason (pmi_power ?r)"
  have eff: "pmi_power r2 = snd ?P"
    "outs2 = (if fst ?P = ERROR_NONE then map Notify (dispatchPowerModeChangedEvent (power_state ?r) new (pmi_changedL ?r)) else [])"
    using handler_effect [OF sync handler] frame by (simp_all add: split_beta Let_def)
  have pre: "n \<in> set (nl_list (pmi_preChangeL ?r))" "distinct (nl_list (pmi_preChangeL ?r))"
    using reach_subscribed [OF client lib(2) callbacks(1), of IModePreChangeNotification] by simp_all
  have chg: "n \<in> set (nl_list (pmi_changedL ?r))" "distinct (nl_list (pmi_changedL ?r))"
    using reach_subscribed [OF client lib(2) callbacks(2), of IModeChangedNotification] by simp_all
  have state: "power_state r2 = (if fst ?P = ERROR_NONE then new else power_state ?r)"
    by (simp add: power_state_def eff(1) PWC_SetPowerState_state)
  have get: "fst (PMI_GetPowerState r2) = ERROR_NONE" "fst (snd (PMI_GetPowerState r2)) = power_state r2"
    by (simp_all add: PMI_GetPowerState_def PWC_GetPowerState_def power_state_def)
  show ?thesis
    by (rule exI [of _ ?tid], rule exI [of _ r1], rule exI, rule exI [of _ r2], rule exI [of _ outs2], unfold Let_def)
       (intro conjI, rule set,
        use lib set ack e eff(2) pre chg state get in
          \<open>simp_all add: client_call_defs pcl_send_def plugin_ipm_def with_remote_def drop_outs_def split_beta Let_def
             deliver_dispatch dispatchPowerModeChangedEvent_def NotifyPowerModePreChange_def NotifyPowerModeChanged_def\<close>,
        simp_all add: deliver_def)
qed


text \<open>Registrations of the library change nothing in the plugin but its lists of notification objects.\<close>

definition lists_only :: "('p, 'd, 't, 'n) pmi \<Rightarrow> ('p, 'd, 't, 'n) pmi \<Rightarrow> bool" where
  "lists_only r q \<longleftrightarrow> same_transition r q \<and> pmi_power q = pmi_power r \<and> pmi_deepSleep q = pmi_deepSleep r"

lemma lists_only_refl [simp]: "lists_only r r"
  by (simp add: lists_only_def same_transition_def)

lemma lists_only_trans: "lists_only r q \<Longrightarrow> lists_only q p \<Longrightarrow> lists_only r p"
  by (simp add: lists_only_def same_transition_def)

lemma registration_lists_only:
  "lists_only r (snd (PMI_RegisterNotification i n r))"
  "lists_only r (snd (PMI_UnregisterNotification i n r))"
  by (cases i; simp add: lists_only_def same_transition_def power_state_def PMI_RegisterNotification_def PMI_UnregisterNotification_def
      Let_def split_beta)+

lemma internal_lists_only:
  fixes n :: 'n and s :: "('c, 'u, ('p, 'd, 't, 'n) pmi) client"
  shows "lists_only (pcl_remote s) (pcl_remote (RegisterNotificationInternalLocked (plugin_ipm en ck n) k s))"
    "lists_only (pcl_remote s) (pcl_remote (UnregisterNotificationInternalLocked (plugin_ipm en ck n) k forced s))"
  by (simp_all add: RegisterNotificationInternalLocked_def UnregisterNotificationInternalLocked_def
      RegisterThunderNotificationLocked_def UnregisterThunderNotificationLocked_def Let_def split_beta
      plugin_ipm_def registration_lists_only upd_list_def split: option.splits)

lemma fold_lists_only:
  assumes "\<And>k s. lists_only (pcl_remote s) (pcl_remote (f k s))"
  shows "lists_only (pcl_remote s) (pcl_remote (fold f ks s))"
proof (induction ks arbitrary: s)
  case (Cons k ks)
  from lists_only_trans [OF assms [of s k] Cons.IH [of "f k s"]] show ?case by simp
qed simp

lemma client_lists_only:
  fixes n :: 'n and s :: "('c, 'u, ('p, 'd, 't, 'n) pmi) client"
  shows "lists_only (pcl_remote s) (pcl_remote (fst (Operational (plugin_ipm en ck n) iface up s)))"
    "lists_only (pcl_remote s) (pcl_remote (snd (RegisterCallbackInternal (plugin_ipm en ck n) k c u s)))"
proof -
  have all: "lists_only (pcl_remote t) (pcl_remote (SubscribeAllNotificationsLocked (plugin_ipm en ck n) t))"
    "lists_only (pcl_remote t) (pcl_remote (UnsubscribeAllNotificationsLocked (plugin_ipm en ck n) t))"
    for t :: "('c, 'u, ('p, 'd, 't, 'n) pmi) client"
    unfolding SubscribeAllNotificationsLocked_def UnsubscribeAllNotificationsLocked_def
    by (intro fold_lists_only internal_lists_only)+
  show "lists_only (pcl_remote s) (pcl_remote (fst (Operational (plugin_ipm en ck n) iface up s)))"
    using all(1) [of "s\<lparr>pcl_iface := True\<rparr>"] all(2) [of s] by (simp add: Operational_def Let_def)
  show "lists_only (pcl_remote s) (pcl_remote (snd (RegisterCallbackInternal (plugin_ipm en ck n) k c u s)))"
  proof (cases c)
    case (Some c)
    then show ?thesis
      using internal_lists_only(1) [of "upd_list k (\<lambda>l. l\<lparr>cbl_entries := cbl_entries l @ [(c, u)]\<rparr>) s" en ck n k]
      by (simp add: RegisterCallbackInternal_def AddCallbackLocked_def upd_list_def)
  qed (simp add: RegisterCallbackInternal_def)
qed

lemma operational_calls_lists_only:
  fixes n :: 'n and s :: "('c, 'u, ('p, 'd, 't, 'n) pmi) client"
  shows "lists_only (pcl_remote s) (pcl_remote (fst (operational_calls (plugin_ipm en ck n) ops s)))"
proof (induction ops arbitrary: s)
  case (Cons o1 ops)
  obtain iface up where "o1 = (iface, up)" by (cases o1)
  then show ?case
    using lists_only_trans [OF client_lists_only(1) [of s en ck n iface up] Cons.IH]
    by (simp add: split_beta Let_def)
qed simp

lemma new_lists_only:
  "lists_only r (pcl_remote (fst (PCL_new (plugin_ipm en ck n) sys r)))"
  by (simp add: PCL_new_def PCL_Connect_def Let_def split_beta split: option.splits)
     (metis (no_types, lifting) client.select_convs(7) operational_calls_lists_only)


text \<open>The connected library of the small device, and the application engaged in changes of the state.\<close>

lemma demo_client_same: "lists_only demo_pmi (pcl_remote demo_client)"
proof -
  let ?s0 = "fst (PCL_new demo_rm demo_sys demo_pmi) :: (nat, nat, (PowerState, nat, unit, nat) pmi) client"
  let ?s1 = "fst (Operational demo_rm True True ?s0)"
  let ?s2 = "snd (RegisterCallbackInternal demo_rm PowerModePreChangedCb (Some 7) 70 ?s1)"
  have "lists_only demo_pmi (pcl_remote ?s0)" unfolding demo_rm_def by (rule new_lists_only)
  from lists_only_trans [OF this client_lists_only(1)]
  have "lists_only demo_pmi (pcl_remote ?s1)" unfolding demo_rm_def .
  from lists_only_trans [OF this client_lists_only(2)]
  have "lists_only demo_pmi (pcl_remote ?s2)" unfolding demo_rm_def .
  from lists_only_trans [OF this client_lists_only(2)]
  show ?thesis unfolding demo_client_def Let_def demo_rm_def .
qed

definition demo_engaged :: "(nat, nat, (PowerState, nat, unit, nat) pmi) client" where
  "demo_engaged = demo_client\<lparr>pcl_remote := snd (snd (PMI_AddPowerModePreChangeClient ''app'' 0 (pcl_remote demo_client)))\<rparr>"

lemma demo_engaged_reach:
  "pm_reach demo_pm_env \<lparr>sy_pmi = pcl_remote demo_engaged, sy_call = None\<rparr>"
  "client_reach demo_rm (plugin_subscribed 5) plugin_valid demo_engaged"
proof -
  have "pm_reach demo_pm_env \<lparr>sy_pmi = demo_pmi, sy_call = None\<rparr>"
    unfolding demo_pmi_def by (rule pm_reach.start)
  from pm_reach.step [OF this pm_step.Other [OF demo_client_same [unfolded lists_only_def, THEN conjunct1]]]
  have r: "pm_reach demo_pm_env \<lparr>sy_pmi = pcl_remote demo_client, sy_call = None\<rparr>" .
  obtain e j r1 where a: "PMI_AddPowerModePreChangeClient ''app'' 0 (pcl_remote demo_client) = (e, j, r1)"
    by (metis prod_cases3)
  from pm_reach.step [OF r pm_step.AddClient [OF a]]
  show "pm_reach demo_pm_env \<lparr>sy_pmi = pcl_remote demo_engaged, sy_call = None\<rparr>" by (simp add: demo_engaged_def a)
  have g: "notif_get i r1 = notif_get i (pcl_remote demo_client)" for i
    using a by (cases i) (auto simp: PMI_AddPowerModePreChangeClient_def Let_def split: if_splits option.splits)
  have "plugin_valid (pcl_remote demo_client)"
    using plugin.reach_subs [OF demo_client_reach [unfolded demo_rm_def]] by (simp add: plugin.subs_inv_def plugin.subs_ok_def)
  with g show "client_reach demo_rm (plugin_subscribed 5) plugin_valid demo_engaged"
    unfolding demo_engaged_def a fst_conv snd_conv
    by (intro client_reach.remote demo_client_reach) (simp_all add: plugin_valid_def plugin_subscribed_def)
qed

lemma demo_engaged_fields:
  "pmi_clients (pcl_remote demo_engaged) = [(1, ''app'')]" "power_state (pcl_remote demo_engaged) = power_state demo_pmi"
  "pmi_mcc (pcl_remote demo_engaged) = None"
  "pmi_deepSleep (pcl_remote demo_engaged) = DeepSleepController_new 0" "pcl_iface demo_engaged"
  "cb_entries PowerModePreChangedCb demo_engaged = [(7, 70)]" "cb_entries PowerModeChangedCb demo_engaged = [(8, 80)]"
proof -
  have s: "pmi_clients (pcl_remote demo_client) = []" "pmi_nextClientId (pcl_remote demo_client) = 0"
    "power_state (pcl_remote demo_client) = power_state demo_pmi" "pmi_mcc (pcl_remote demo_client) = None"
    "pmi_deepSleep (pcl_remote demo_client) = DeepSleepController_new 0"
    using demo_client_same by (simp_all add: lists_only_def same_transition_def demo_pmi_def PMI_new_def)
  then show "pmi_clients (pcl_remote demo_engaged) = [(1, ''app'')]"
    "power_state (pcl_remote demo_engaged) = power_state demo_pmi" "pmi_mcc (pcl_remote demo_engaged) = None"
    "pmi_deepSleep (pcl_remote demo_engaged) = DeepSleepController_new 0"
    by (simp_all add: demo_engaged_def PMI_AddPowerModePreChangeClient_def power_state_def)
  show "pcl_iface demo_engaged" "cb_entries PowerModePreChangedCb demo_engaged = [(7, 70)]"
    "cb_entries PowerModeChangedCb demo_engaged = [(8, 80)]"
    using demo_client_entries by (simp_all add: demo_engaged_def cb_entries_def)
qed

lemma client_negotiates_power_change_witness:
  "\<exists>tid outs1 r1. PMI_SetPowerState demo_pm_env demo_clock 0 demo_target [] (pcl_remote demo_engaged) = Some (ERROR_NONE, r1, outs1) \<and>
     deliver 5 demo_engaged outs1 = [CallPreChange 7 (convert_state (power_state demo_pmi)) (convert_state demo_target) tid
       (sint (en_preChangeTimeout demo_pm_env)) 70]"
proof -
  let ?L = "\<lparr>lb_instance = Some demo_engaged, lb_initialized = True, lb_remote = pcl_remote demo_engaged\<rparr>"
  have "fresh_request demo_pm_env demo_clock demo_target (pcl_remote demo_engaged)"
    by (simp add: fresh_request_def demo_engaged_fields demo_target_def isSyncStateChange_def
        IsDeepSleepInProgress_def DeepSleepController_new_def)
  moreover have "lb_instance ?L = Some demo_engaged" by simp
  moreover have "en_preChangeTimeout demo_pm_env * 1000 \<noteq> 0" by (simp add: demo_pm_env_def)
  moreover have "cb_entries PowerModePreChangedCb demo_engaged \<noteq> []" "cb_entries PowerModeChangedCb demo_engaged \<noteq> []"
    by (simp_all add: demo_engaged_fields)
  moreover note demo_engaged_reach(1) demo_engaged_reach(2) [unfolded demo_rm_def] demo_engaged_fields(1,5)
  ultimately have "\<exists>tid r1 outs1 r2 outs2.
      PMI_SetPowerState demo_pm_env demo_clock 0 demo_target [] (pcl_remote demo_engaged) = Some (ERROR_NONE, r1, outs1) \<and>
      deliver 5 demo_engaged outs1 = map (\<lambda>(c, u). CallPreChange c (convert_state (power_state (pcl_remote demo_engaged)))
        (convert_state demo_target) tid (sint (en_preChangeTimeout demo_pm_env)) u) (cb_entries PowerModePreChangedCb demo_engaged)"
    using client_negotiates_power_change [of ?L demo_engaged demo_pm_env demo_clock 5 demo_target 1 "''app''" demo_clock 0 "[]" demo_sys]
    unfolding Let_def by blast
  then show ?thesis by (simp add: demo_engaged_fields) blast
qed

end
