(* ===== verification/ClientLocks.thy ===== *)
theory ClientLocks
  imports LockOrder
begin

text \<open>
  The three critical sections of the client library (\<^verbatim>\<open>powercontroller/power_controller.cpp\<close>)
  and the monitor thread that its destructor joins: for each entry point the locks it takes and
  gives back, in order, and what follows for threads that run such entries at the same time.

  The sections are recursive. Calls of the plugin and of the framework base class return; how
  often \<^verbatim>\<open>Open\<close> and \<^verbatim>\<open>Close\<close> call \<^verbatim>\<open>Operational\<close> is a parameter, and so is what
  the application's callbacks do.
\<close>

section \<open>What the entry points do with the locks\<close>

datatype lock = CApiLock | InternalApiLock | CallbackLock

primrec lock_rank :: "lock \<Rightarrow> nat" where
  "lock_rank CApiLock = 0"
| "lock_rank InternalApiLock = 1"
| "lock_rank CallbackLock = 2"

definition client_locks :: "lock lock_class" where
  "client_locks = \<lparr>lk_all = [CApiLock, InternalApiLock, CallbackLock], lk_rank = lock_rank, lk_again = \<lambda>l. True\<rparr>"

type_synonym ops = "lock lock_ops"

text \<open>\<open>cb\<close> is what the callbacks called meanwhile do together.\<close>

definition ops_Operational :: "ops \<Rightarrow> bool \<Rightarrow> ops" where
  "ops_Operational cb shutdown =
     [Lock InternalApiLock, Unlock InternalApiLock] @
     (if \<not> shutdown then [Lock CallbackLock] @ cb @ [Unlock CallbackLock] else [])"

definition ops_Connect :: "ops \<Rightarrow> nat \<Rightarrow> ops" where
  "ops_Connect cb n =
     [Lock InternalApiLock] @ concat (replicate n (ops_Operational cb False)) @ [Unlock InternalApiLock]"

text \<open>\<open>stop\<close> is the monitor thread if it is running and to be stopped.\<close>

definition ops_Disconnect :: "ops \<Rightarrow> nat option \<Rightarrow> bool \<Rightarrow> nat \<Rightarrow> ops" where
  "ops_Disconnect cb stop shutdown n =
     [Lock InternalApiLock] @ (case stop of None \<Rightarrow> [] | Some j \<Rightarrow> [Join j]) @
     concat (replicate n (ops_Operational cb shutdown)) @ [Unlock InternalApiLock]"

definition ops_pidChangedCb :: "ops \<Rightarrow> nat \<Rightarrow> nat \<Rightarrow> ops" where
  "ops_pidChangedCb cb n m = ops_Disconnect cb None False n @ ops_Connect cb m"

text \<open>Creating and deleting the instance; the object being deleted calls no callbacks.\<close>

definition ops_Init :: "ops \<Rightarrow> bool \<Rightarrow> nat \<Rightarrow> ops" where
  "ops_Init cb exists n = [Lock InternalApiLock] @ (if exists then [] else ops_Connect cb n) @ [Unlock InternalApiLock]"

definition ops_Term :: "bool \<Rightarrow> nat option \<Rightarrow> nat \<Rightarrow> ops" where
  "ops_Term exists stop n =
     [Lock InternalApiLock] @ (if exists then ops_Disconnect [] stop True n else []) @ [Unlock InternalApiLock]"

definition ops_Instance :: "ops \<Rightarrow> bool \<Rightarrow> nat \<Rightarrow> ops" where
  "ops_Instance cb exists n = (if exists then [] else ops_Init cb exists n)"

definition ops_call :: ops where
  "ops_call = [Lock InternalApiLock, Unlock InternalApiLock]"

definition ops_callbackList :: ops where
  "ops_callbackList = [Lock CallbackLock, Unlock CallbackLock]"

definition ops_Notify :: "ops \<Rightarrow> ops" where
  "ops_Notify cb = [Lock CallbackLock] @ cb @ [Unlock CallbackLock]"

text \<open>
  The entry points of the library: the C functions, the calls of the framework (a change of
  the operational state, an event) and of the monitor thread. \<open>le_exists\<close>: there is an instance;
  \<open>le_inited\<close>: the flag; \<open>le_stop\<close>: the monitor thread if it is running; \<open>le_opens\<close>, \<open>le_closes\<close>:
  the calls of \<^verbatim>\<open>Operational\<close> during \<^verbatim>\<open>Open\<close> and \<^verbatim>\<open>Close\<close>.
\<close>

record entry_env =
  le_exists :: bool
  le_inited :: bool
  le_stop :: "nat option"
  le_opens :: nat
  le_closes :: nat

datatype entry =
    Api_Init | Api_Term | Api_Connect | Api_Disconnect | Api_IsOperational | Api_Call
  | Api_Register | Api_UnRegister | Ev_Operational | Ev_Notify | Ev_PidChanged

definition c_api :: "ops \<Rightarrow> ops" where
  "c_api body = [Lock CApiLock] @ body @ [Unlock CApiLock]"

fun entry_ops :: "ops \<Rightarrow> entry_env \<Rightarrow> entry \<Rightarrow> ops" where
  "entry_ops cb v Api_Init = c_api (ops_Init cb (le_exists v) (le_opens v))"
| "entry_ops cb v Api_Term = c_api (ops_Term (le_exists v) (le_stop v) (le_closes v))"
| "entry_ops cb v Api_Connect =
     c_api (ops_Instance cb (le_exists v) (le_opens v) @ ops_Connect cb (le_opens v))"
| "entry_ops cb v Api_Disconnect =
     c_api (if \<not> le_inited v then []
            else ops_Instance cb (le_exists v) (le_opens v) @ ops_Disconnect cb None False (le_closes v))"
| "entry_ops cb v Api_IsOperational =
     c_api (if \<not> le_inited v then [] else ops_Instance cb (le_exists v) (le_opens v))"
| "entry_ops cb v Api_Call = c_api (ops_Instance cb (le_exists v) (le_opens v) @ ops_call)"
| "entry_ops cb v Api_Register = c_api (ops_Instance cb (le_exists v) (le_opens v) @ ops_callbackList)"
| "entry_ops cb v Api_UnRegister =
     c_api (if \<not> le_inited v then [] else ops_Instance cb (le_exists v) (le_opens v) @ ops_callbackList)"
| "entry_ops cb v Ev_Operational = ops_Operational cb False"
| "entry_ops cb v Ev_Notify = ops_Notify cb"
| "entry_ops cb v Ev_PidChanged = ops_pidChangedCb cb (le_closes v) (le_opens v)"

text \<open>Threads that run one entry after another.\<close>

definition start_threads :: "ops \<Rightarrow> (entry_env \<times> entry) list list \<Rightarrow> lock lock_state" where
  "start_threads cb threads = start_scripts (map (\<lambda>t. concat (map (\<lambda>(v, e). entry_ops cb v e) t)) threads)"

interpretation client_order: lock_ranking client_locks
  by unfold_locales (auto simp: client_locks_def intro: lock.exhaust)

section \<open>Every entry point keeps the order\<close>

lemma client_lock_simps:
  "may_take client_locks h l \<longleftrightarrow>
     h l > 0 \<or> (h CApiLock > 0 \<longrightarrow> 0 < lock_rank l) \<and> (h InternalApiLock > 0 \<longrightarrow> 1 < lock_rank l) \<and> h CallbackLock = 0"
  by (cases l) (auto simp: client_locks_def may_take_def)

lemma discipline_Operational:
  "h CallbackLock = 0 \<Longrightarrow> discipline client_locks idle h (ops_Operational [] sd) = Some h"
  by (auto simp: ops_Operational_def client_lock_simps fun_eq_iff)

lemmas discipline_Operationals = discipline_repeat [OF discipline_Operational]

lemma discipline_internal:
  fixes h :: "lock \<Rightarrow> nat"
  assumes "h CallbackLock = 0"
    and "discipline client_locks idle (h(InternalApiLock := h InternalApiLock + 1)) xs = Some (h(InternalApiLock := h InternalApiLock + 1))"
  shows "discipline client_locks idle h ([Lock InternalApiLock] @ xs @ [Unlock InternalApiLock]) = Some h"
  using assms by (auto simp: discipline_append client_lock_simps)

lemma discipline_Connect:
  assumes "h CallbackLock = 0" shows "discipline client_locks idle h (ops_Connect [] n) = Some h"
proof -
  have "discipline client_locks idle (h(InternalApiLock := h InternalApiLock + 1)) (concat (replicate n (ops_Operational [] False)))
      = Some (h(InternalApiLock := h InternalApiLock + 1))"
    using assms by (intro discipline_Operationals) simp
  from discipline_internal [of h, OF assms this] show ?thesis by (simp only: ops_Connect_def)
qed

lemma discipline_Disconnect:
  assumes "h CallbackLock = 0" and "\<And>j. stop = Some j \<Longrightarrow> idle j"
  shows "discipline client_locks idle h (ops_Disconnect [] stop sd n) = Some h"
proof -
  let ?body = "(case stop of None \<Rightarrow> [] | Some j \<Rightarrow> [Join j]) @ concat (replicate n (ops_Operational [] sd))"
  let ?h = "h(InternalApiLock := h InternalApiLock + 1)"
  have "discipline client_locks idle ?h (concat (replicate n (ops_Operational [] sd))) = Some ?h"
    using assms(1) by (intro discipline_Operationals) simp
  then have "discipline client_locks idle ?h ?body = Some ?h"
    using assms(2) by (cases stop) simp_all
  from discipline_internal [of h, OF assms(1) this] show ?thesis
    by (simp only: ops_Disconnect_def append_assoc)
qed

lemma discipline_Init:
  assumes "h CallbackLock = 0" shows "discipline client_locks idle h (ops_Init [] b n) = Some h"
proof -
  have "discipline client_locks idle (h(InternalApiLock := h InternalApiLock + 1)) (if b then [] else ops_Connect [] n)
      = Some (h(InternalApiLock := h InternalApiLock + 1))"
    using assms by (simp add: discipline_Connect)
  from discipline_internal [of h, OF assms this] show ?thesis by (simp only: ops_Init_def)
qed

lemma discipline_Term:
  assumes "h CallbackLock = 0" and "\<And>j. stop = Some j \<Longrightarrow> idle j"
  shows "discipline client_locks idle h (ops_Term b stop n) = Some h"
proof -
  have "discipline client_locks idle (h(InternalApiLock := h InternalApiLock + 1)) (if b then ops_Disconnect [] stop True n else [])
      = Some (h(InternalApiLock := h InternalApiLock + 1))"
    using assms by (simp add: discipline_Disconnect)
  from discipline_internal [of h, OF assms(1) this] show ?thesis by (simp only: ops_Term_def)
qed

lemma discipline_Instance: "h CallbackLock = 0 \<Longrightarrow> discipline client_locks idle h (ops_Instance [] b n) = Some h"
  by (simp add: ops_Instance_def discipline_Init)

lemma discipline_c_api:
  "discipline client_locks idle ((\<lambda>l. 0)(CApiLock := 1)) body = Some ((\<lambda>l. 0)(CApiLock := 1)) \<Longrightarrow>
   discipline client_locks idle (\<lambda>l. 0) (c_api body) = Some (\<lambda>l. 0)"
  by (simp add: c_api_def discipline_append client_lock_simps fun_eq_iff)

lemma discipline_call: "h CallbackLock = 0 \<Longrightarrow> discipline client_locks idle h ops_call = Some h"
  using discipline_internal [of h idle "[]"] by (simp add: ops_call_def)

lemma discipline_callbackList:
  "h CallbackLock = 0 \<Longrightarrow> discipline client_locks idle h ops_callbackList = Some h"
  by (simp add: ops_callbackList_def client_lock_simps fun_eq_iff)

lemma discipline_Disconnect_only:
  "h CallbackLock = 0 \<Longrightarrow> discipline client_locks idle h (ops_Disconnect [] None sd n) = Some h"
  by (rule discipline_Disconnect) simp_all

lemma discipline_entry:
  assumes "\<And>j. le_stop v = Some j \<Longrightarrow> idle j"
  shows "discipline client_locks idle (\<lambda>l. 0) (entry_ops [] v e) = Some (\<lambda>l. 0)"
  using assms
  by (cases e)
     (auto intro!: discipline_c_api simp: discipline_append discipline_Instance discipline_Init discipline_Term
        discipline_Connect discipline_Disconnect_only discipline_call discipline_callbackList discipline_Operational
        ops_Notify_def ops_pidChangedCb_def client_lock_simps fun_eq_iff)


text \<open>
  C23. Threads that use the library at the same time, through its C functions, the framework's
  calls and the monitor thread, never wait for each other for good, as long as the callbacks do
  not call the library and the monitor thread has nothing to report while it is being stopped:
  whatever the scheduling, some thread can go on until all are finished, after a fixed
  number of steps, and then every lock is free.
\<close>

theorem client_threads_finish:
  assumes "\<forall>t \<in> set threads. \<forall>(v, e) \<in> set t. \<forall>j. le_stop v = Some j \<longrightarrow> j < length threads \<and> threads ! j = []"
    and "(lock_step client_locks ^^ n) (start_threads [] threads) S"
  shows "n \<le> work_left (start_threads [] threads) \<and>
    (if n = work_left (start_threads [] threads) then S = (\<lambda>l. None, map (\<lambda>t. []) threads)
     else \<exists>S2. lock_step client_locks S S2)"
proof -
  let ?ps = "map (\<lambda>t. concat (map (\<lambda>(v, e). entry_ops [] v e) t)) threads"
  let ?idle = "\<lambda>j. j < length threads \<and> threads ! j = []"
  have "discipline client_locks ?idle (\<lambda>l. 0) (concat (map (\<lambda>(v, e). entry_ops [] v e) t)) = Some (\<lambda>l. 0)"
    if "t \<in> set threads" for t
    using assms(1) that by (intro discipline_concat) (fastforce intro: discipline_entry)
  then have "\<forall>p \<in> set ?ps. discipline client_locks ?idle (\<lambda>l. 0) p = Some (\<lambda>l. 0)" by simp
  moreover have "\<forall>j. ?idle j \<longrightarrow> j < length ?ps \<and> ?ps ! j = []" by simp
  ultimately show ?thesis
    using client_order.scripts_finish [of ?ps ?idle n S] assms(2) unfolding start_threads_def map_map comp_def by blast
qed

definition demo_entry :: entry_env where
  "demo_entry = \<lparr>le_exists = True, le_inited = True, le_stop = Some 2, le_opens = 1, le_closes = 1\<rparr>"

lemma client_threads_finish_witness:
  "let threads = [[(demo_entry, Api_Register), (demo_entry, Api_Term)], [(demo_entry, Ev_Notify)], []]
   in \<exists>S. lock_step client_locks (start_threads [] threads) S"
proof -
  let ?threads = "[[(demo_entry, Api_Register), (demo_entry, Api_Term)], [(demo_entry, Ev_Notify)], []]"
  have "work_left (start_threads [] ?threads) \<noteq> 0"
    by (simp add: work_left_def start_threads_def start_scripts_def c_api_def)
  with client_threads_finish [of ?threads 0 "start_threads [] ?threads"] show ?thesis
    by (simp add: demo_entry_def)
qed

section \<open>Two ways to hang\<close>

text \<open>
  C32. Both conditions are needed. If the process id file is rewritten while the library is being
  terminated, the destructor waits, with the lock, for a monitor thread that waits for this
  lock. And if a callback calls a function of the library, as a pre-change callback does to
  acknowledge, while another thread registers a callback, each waits for the other's lock.
\<close>

theorem client_threads_can_hang:
  assumes "le_exists v" and "le_stop v = Some 1"
  shows "(\<exists>S. (lock_step client_locks)\<^sup>*\<^sup>* (start_threads [] [[(v, Api_Term)], [(w, Ev_PidChanged)]]) S \<and>
            deadlocked client_locks S) \<and>
         (\<exists>S. (lock_step client_locks)\<^sup>*\<^sup>* (start_threads (c_api body) [[(v, Api_Register)], [(w, Ev_Notify)]]) S \<and>
            deadlocked client_locks S)"
proof
  let ?pid = "ops_pidChangedCb [] (le_closes w) (le_opens w)"
  let ?r = "Join 1 # concat (replicate (le_closes v) (ops_Operational [] True)) @
     [Unlock InternalApiLock, Unlock InternalApiLock, Unlock CApiLock]"
  obtain pr where pr: "?pid = Lock InternalApiLock # pr"
    by (simp add: ops_pidChangedCb_def ops_Disconnect_def)
  have "run_schedule client_locks [0, 0, 0] (start_threads [] [[(v, Api_Term)], [(w, Ev_PidChanged)]]) =
      Some ([CApiLock \<mapsto> (0, 1), InternalApiLock \<mapsto> (0, Suc 1)], [?r, ?pid])"
    using assms by (simp add: start_threads_def start_scripts_def c_api_def ops_Term_def ops_Disconnect_def client_locks_def)
  then show "\<exists>S. (lock_step client_locks)\<^sup>*\<^sup>* (start_threads [] [[(v, Api_Term)], [(w, Ev_PidChanged)]]) S \<and>
            deadlocked client_locks S"
    by (rule deadlock_reached [of _ _ _ _ _ 0]) (auto simp: pr less_Suc_eq nth_Cons split: nat.splits)
next
  let ?a = "[Lock CallbackLock, Unlock CallbackLock, Unlock CApiLock]"
  let ?b = "Lock CApiLock # body @ [Unlock CApiLock, Unlock CallbackLock]"
  have "run_schedule client_locks [0, 1] (start_threads (c_api body) [[(v, Api_Register)], [(w, Ev_Notify)]]) =
      Some ([CApiLock \<mapsto> (0, 1), CallbackLock \<mapsto> (1, 1)], [?a, ?b])"
    using assms by (simp add: start_threads_def start_scripts_def c_api_def ops_Instance_def ops_callbackList_def ops_Notify_def)
  then show "\<exists>S. (lock_step client_locks)\<^sup>*\<^sup>* (start_threads (c_api body) [[(v, Api_Register)], [(w, Ev_Notify)]]) S \<and>
            deadlocked client_locks S"
    by (rule deadlock_reached [of _ _ _ _ _ 0]) (auto simp: less_Suc_eq nth_Cons split: nat.splits)
qed

lemma client_threads_can_hang_witness:
  "\<exists>S. (lock_step client_locks)\<^sup>*\<^sup>*
        (start_threads [] [[(demo_entry\<lparr>le_stop := Some 1\<rparr>, Api_Term)], [(demo_entry, Ev_PidChanged)]]) S \<and>
       deadlocked client_locks S"
  using client_threads_can_hang [of "demo_entry\<lparr>le_stop := Some 1\<rparr>" demo_entry "[]"] by (simp add: demo_entry_def)

end
