(* ===== verification/Spec2Isabelle.thy ===== *)
theory Spec2Isabelle
  imports DeepSleepCycle PowerClients PowerSpec PowerRaces PowerInterleavings HandlerRaces PluginLifetime ThermalSystem HalNames RebootController DeepSleepSystem
    PluginLocks ClientSystem ClientLocks PluginShell
begin

text \<open>
  A verification library for the power manager of RDK: the Thunder plugin under
  \<^verbatim>\<open>src/plugin\<close> and the client library under \<^verbatim>\<open>src/powercontroller\<close>.

  \<^bold>\<open>The program.\<close> \<^verbatim>\<open>PowerManager\<close> is the plugin shell that Thunder loads; it starts
  \<^verbatim>\<open>PowerManagerImplementation\<close>, which serves the interface \<^verbatim>\<open>IPowerManager\<close>. A request
  for a power state is negotiated: the registered clients are told, an \<^verbatim>\<open>AckController\<close> waits for
  their acknowledgements or a timeout, and only then \<^verbatim>\<open>PowerController\<close> sets the platform's
  state and saves it with \<^verbatim>\<open>Settings\<close>; every observer is told the new state. For deep sleep
  \<^verbatim>\<open>PowerController\<close> computes the wake-up time (\<^verbatim>\<open>DeepSleepWakeupSettings\<close>) and activates
  \<^verbatim>\<open>DeepSleepController\<close>, which sends the device to sleep in a thread of its own and calls the
  implementation back when it is awake. \<^verbatim>\<open>ThermalController\<close> polls the temperature in another
  thread and asks for deep sleep, a reboot or another clock; \<^verbatim>\<open>RebootController\<close> forces a
  maintenance reboot. The platform is reached through the interfaces under
  \<^verbatim>\<open>src/plugin/hal\<close>. Applications use the C functions of the client library, which keeps lists
  of callbacks, subscribes to the plugin for them, follows the plugin's restarts and watches the
  process id of Thunder.

  \<^bold>\<open>Theories and sources.\<close> Names of definitions are those of the functions they translate, with a
  prefix where one name occurs in several classes (\<open>PWC_\<close> \<^verbatim>\<open>PowerController\<close> of the plugin,
  \<open>DSC_\<close> \<^verbatim>\<open>DeepSleepController\<close>, \<open>THC_\<close> \<^verbatim>\<open>ThermalController\<close>, \<open>PMI_\<close>
  \<^verbatim>\<open>PowerManagerImplementation\<close>, \<open>Shell_\<close> \<^verbatim>\<open>PowerManager\<close>, \<open>PCL_\<close> the class
  \<^verbatim>\<open>PowerController\<close> of the client library). An object is a record of its members, an
  operation returns its result and the updated record, what leaves the object is a list.

  \<^item> \<open>PM_Prelude\<close>: integers of C, results of Thunder, floats as the multiples that occur, and the
    lemma collections. \<open>PowerTypes\<close>: the enumerations and \<^verbatim>\<open>PowerUtils.cpp\<close>. \<open>PosixFiles\<close>: the
    file calls that the sources make, over a map from paths to contents and switches for failures.
  \<^item> \<open>Settings\<close>: \<^verbatim>\<open>Settings.h/.cpp\<close>, down to the bytes of the file.
  \<^item> \<open>PowerHal\<close>, \<open>DeepSleepHal\<close>, \<open>ThermalHal\<close>: \<^verbatim>\<open>hal/*Impl.h\<close> over a record of the platform's
    functions, which is a parameter; \<open>HalNames\<close>: the names they log.
  \<^item> \<open>AckController\<close>: \<^verbatim>\<open>AckController.h\<close>; the worker pool is the deadline of the queued job.
  \<^item> \<open>DeepSleepWakeup\<close>, \<open>DeepSleepController\<close>: \<^verbatim>\<open>DeepSleepController.h/.cpp\<close>; \<open>DeepSleepSystem\<close>:
    its operations and threads interleaved.
  \<^item> \<open>PowerController\<close>, \<open>ThermalController\<close>, \<open>RebootController\<close>: the files of these names.
  \<^item> \<open>Notifications\<close>, \<open>PowerManager\<close>: \<^verbatim>\<open>PowerManagerImplementation.h/.cpp\<close>; \<open>PowerTransitions\<close>:
    \<^verbatim>\<open>SetPowerState\<close> cut at its lock boundaries and interleaved with every other operation,
    where a timer job, an acknowledgement and \<^verbatim>\<open>Schedule\<close> are one step each; \<open>PowerRaces\<close>:
    these three cut after their tests; \<open>PowerInterleavings\<close>: what holds in every run of these
    finer steps; \<open>HandlerRaces\<close>: the handler that the timer calls cut into
    its parts; \<open>PluginLifetime\<close>: who holds references to the implementation, and when it is deleted,
    with the finer steps as well;
    \<open>PowerSpec\<close>: the abstract negotiation that \<open>PowerTransitions\<close>
    refines;
    \<open>PowerClients\<close>: the table of clients and the network standby mode; \<open>DeepSleepCycle\<close>: a whole
    stay in deep sleep, through all the parts it touches.
  \<^item> \<open>ThermalSystem\<close>: the poll thread with the requests and notifications it causes.
  \<^item> \<open>PluginShell\<close>: \<^verbatim>\<open>PowerManager.h/.cpp\<close>.
  \<^item> \<open>ClientTypes\<close>, \<open>PidMonitor\<close>, \<open>ClientLibrary\<close>, \<open>ClientApi\<close>: \<^verbatim>\<open>power_controller.cpp\<close>, from the
    conversions to the C functions; \<open>ClientSubscriptions\<close>: its subscriptions at the plugin;
    \<open>ClientSystem\<close>: library and plugin together.
  \<^item> \<open>LockOrder\<close>, \<open>PluginLocks\<close>, \<open>ClientLocks\<close>: the locks of both, as what each entry point takes
    and gives back.

  \<^bold>\<open>Contracts.\<close> Where one part relies on another the contract is a locale, interpreted on the
  model that provides it: \<open>completion_gate\<close> (every completion handler is called exactly once;
  \<open>AckController\<close>), \<open>persistent_store\<close> (what is saved is loaded; \<open>Settings\<close>), \<open>zone_monitor\<close> (a
  temperature check with hysteresis and grace interval; both checks of \<open>ThermalController\<close>),
  \<open>registry\<close> (a list of callbacks; the lists of plugin and library), \<open>remote_plugin\<close> (what the
  library needs of the plugin; \<open>PowerManager\<close>), \<open>lock_ranking\<close> (threads that keep an order of
  locks finish; both sets of locks).

  \<^bold>\<open>What the lemmas show.\<close>
  \<^item> Transitions: a request announces itself, completes exactly once, at the last acknowledgement
    or the timeout, and is cancelled by a later request for another state. A whole stay in deep
    sleep, with clients or without, ends with the device awake or with the negotiation of its waking.
    What is said of single operations and calls, and of each step (\<open>plugin_refines_negotiation\<close>), is
    said with the steps of \<open>PowerTransitions\<close>.
  \<^item> Interleavings: what is said of every run is said with the finer steps of \<open>PowerRaces\<close>. The
    semaphore is always held exactly by the call under way; every change is announced; a cancelled
    transition has no effect later, if no thread was past a test when it was cancelled. In
    the runs called \<open>timely\<close>, where each timer job that has passed its test finds its transition
    still running, the references are balanced and a lawful history of requests and acknowledgements
    explains every power state. In the other runs a timeout can complete a transition twice or
    after its cancellation (\<open>timeouts_race\<close>). Further, the last acknowledgement can be missed, and a
    wake-up that comes while a handler is at work is overtaken by the announcement of deep sleep.
  \<^item> Life time: in timely runs the implementation lives exactly as long as the plugin, a client,
    a job, a transition or a thread past its test needs it, so it can outlive the plugin until the timer and the
    jobs have run; the job that enters deep sleep, and a request of the object's own threads, are
    not counted, and it can be deleted under them.
  \<^item> State: settings and platform agree, settings survive restarts, any damaged file heals. The
    build flag \<^verbatim>\<open>PLATCO_BOOTTO_STANDBY\<close> is the argument \<open>platco\<close>: with it the power state is
    standby after a boot, whatever was saved, and this is not always saved in turn.
  \<^item> Deep sleep: a thread calls the platform five times at most and returns in 18 steps whatever
    the other threads do; a deactivation is effective once nothing is queued.
  \<^item> Thermal: the decisions follow temperature and grace interval; a stopped thread asks for
    nothing; an overheated device is sent to deep sleep once, unless a deep sleep was refused
    before.
    A new controller in the same process inherits the deep-sleep zone of the old one.
  \<^item> Client library: its subscriptions follow its callbacks, on both sides; each of the six events
    calls each callback once, with its user data; and an application takes part in a transition.
    Library and plugin are connected by \<open>plugin_ipm\<close>, which stands for the framework's remote
    procedure calls and calls the plugin's operations directly; it models no source file.
  \<^item> Threads: with the locks as they are taken, plugin and library run to their end under every
    scheduling, except in the ways that are shown to hang.

  \<^bold>\<open>Bounds.\<close> No definition runs on fuel. The loops of the code are recursions over data (lists of
  sources, speeds, events, bytes) or have a measure: the retry loop \<open>ds_rank\<close>, 18 at the start, as
  five attempts take three steps each and entering and leaving three more; the loop that
  initialises the platform counts its 35 retries. The threads that never end by themselves, the poll
  thread and the monitor thread, run along the list of what they meet, of any length.
  Transaction ids are integers without a bound, where the source has an \<^verbatim>\<open>int\<close> that would
  wrap after two thousand million transitions; client ids wrap at 32 bits.

  \<^bold>\<open>Not modelled.\<close> Logging and telemetry. The Thunder
  framework (worker pool, remote procedure calls, \<^verbatim>\<open>SmartInterfaceType\<close>), the platform, the
  remote configuration and the shell commands are parameters or recorded calls. Reference counts
  are modelled where the code keeps them, for notification objects, transitions and pre-change
  jobs; memory otherwise is not, and neither are data races beyond the locks, the tests of
  \<open>PowerRaces\<close> and the parts of \<open>HandlerRaces\<close>. A handler that is called under \<^verbatim>\<open>_apiLock\<close>, by an
  acknowledgement, runs to its end in one step. \<open>PMI_new\<close> is the first implementation object of
  its process: the semaphore and the counter of transactions are static in the source and are not
  reset for a second one. In \<open>ClientLocks\<close> a remote call that the library makes while it holds a
  lock, such as the registration of its notification object under \<^verbatim>\<open>_callbackLock\<close>, is assumed to
  return and takes no lock of the library.
  What remains of the sources are declarations, deleted constructors, interface maps, the
  \<^verbatim>\<open>Create\<close> functions that only call constructors, macros and comments. The destructor of
  \<^verbatim>\<open>PowerManagerImplementation\<close> only logs, \<^verbatim>\<open>MaintenanceReboot\<close> of
  \<^verbatim>\<open>DeepSleepController\<close> is declared and not defined, \<^verbatim>\<open>Module.*\<close> only expands macros, and
  \<^verbatim>\<open>LambdaJob.h\<close> wraps a function for the worker pool. Tests and build files carry no logic of
  the program.
\<close>

end
